(* ===== verification/Errors.thy ===== *)
theory Errors
  imports Main
begin

text \<open>
  The exceptions of the program as values.  \<open>shared/contracts/errors.py\<close> and
  \<open>modules/documents/domain/errors.py\<close> give the public error classes: the class hierarchy is
  \<open>superclass\<close>, \<open>isinstance\<close> is \<open>subclass_of\<close>, and the class attribute
  \<open>code\<close> is \<open>class_code\<close>.  \<open>exn\<close> is the sum of every exception a modelled operation
  raises: the public errors, the Python built-in ones and the database driver's.  An
  operation that may raise returns \<open>exn + 'a\<close>.
\<close>

section \<open>Stable error codes\<close>

datatype error_code =
    BAD_REQUEST | AUTHENTICATION_REQUIRED | PERMISSION_DENIED | NOT_FOUND
  | METHOD_NOT_ALLOWED | CONFLICT | REQUEST_BODY_TOO_LARGE | FILE_TOO_LARGE
  | UNSUPPORTED_DOCUMENT_TYPE | ENCRYPTED_DOCUMENT | MALWARE_DETECTED | INVALID_DOCUMENT
  | PAGE_LIMIT_EXCEEDED | DUPLICATE_DOCUMENT_CONTENT | VALIDATION_ERROR | RATE_LIMITED
  | HTTP_ERROR | APPLICATION_ERROR | DOMAIN_ERROR | INVALID_STATE_TRANSITION
  | EXTERNAL_SERVICE_UNAVAILABLE | DATABASE_UNAVAILABLE | INTERNAL_SERVER_ERROR
  | SERVICE_UNAVAILABLE

section \<open>The public exception classes\<close>

datatype error_class =
    BidSystemError | DomainError | ApplicationError
  | ResourceNotFoundError | BusinessConflictError | StateTransitionError
  | AuthenticationError | PermissionDeniedError | ExternalServiceError
  | FileSizeLimitExceededError | InvalidDocumentUploadRequestError | PageLimitExceededError
  | DuplicateDocumentContentError | UnsupportedDocumentTypeError | EncryptedDocumentError
  | MalwareDetectedError | InvalidDocumentError

fun superclass :: "error_class \<Rightarrow> error_class option" where
  "superclass BidSystemError = None"
| "superclass DomainError = Some BidSystemError"
| "superclass ApplicationError = Some BidSystemError"
| "superclass ResourceNotFoundError = Some ApplicationError"
| "superclass BusinessConflictError = Some DomainError"
| "superclass StateTransitionError = Some DomainError"
| "superclass AuthenticationError = Some ApplicationError"
| "superclass PermissionDeniedError = Some ApplicationError"
| "superclass ExternalServiceError = Some ApplicationError"
| "superclass FileSizeLimitExceededError = Some DomainError"
| "superclass InvalidDocumentUploadRequestError = Some DomainError"
| "superclass PageLimitExceededError = Some DomainError"
| "superclass DuplicateDocumentContentError = Some DomainError"
| "superclass UnsupportedDocumentTypeError = Some DomainError"
| "superclass EncryptedDocumentError = Some DomainError"
| "superclass MalwareDetectedError = Some DomainError"
| "superclass InvalidDocumentError = Some DomainError"

text \<open>The class attribute \<open>code\<close> of each class.\<close>

fun class_code :: "error_class \<Rightarrow> error_code" where
  "class_code BidSystemError = APPLICATION_ERROR"
| "class_code DomainError = DOMAIN_ERROR"
| "class_code ApplicationError = APPLICATION_ERROR"
| "class_code ResourceNotFoundError = NOT_FOUND"
| "class_code BusinessConflictError = CONFLICT"
| "class_code StateTransitionError = INVALID_STATE_TRANSITION"
| "class_code AuthenticationError = AUTHENTICATION_REQUIRED"
| "class_code PermissionDeniedError = PERMISSION_DENIED"
| "class_code ExternalServiceError = EXTERNAL_SERVICE_UNAVAILABLE"
| "class_code FileSizeLimitExceededError = FILE_TOO_LARGE"
| "class_code InvalidDocumentUploadRequestError = VALIDATION_ERROR"
| "class_code PageLimitExceededError = PAGE_LIMIT_EXCEEDED"
| "class_code DuplicateDocumentContentError = DUPLICATE_DOCUMENT_CONTENT"
| "class_code UnsupportedDocumentTypeError = UNSUPPORTED_DOCUMENT_TYPE"
| "class_code EncryptedDocumentError = ENCRYPTED_DOCUMENT"
| "class_code MalwareDetectedError = MALWARE_DETECTED"
| "class_code InvalidDocumentError = INVALID_DOCUMENT"

text \<open>Distance to the root of the hierarchy: \<open>isinstance\<close> walks it.\<close>

fun class_depth :: "error_class \<Rightarrow> nat" where
  "class_depth BidSystemError = 0"
| "class_depth DomainError = 1"
| "class_depth ApplicationError = 1"
| "class_depth _ = 2"

lemma superclass_depth: "superclass c = Some d \<Longrightarrow> class_depth d < class_depth c"
  by (cases c) auto

function subclass_of :: "error_class \<Rightarrow> error_class \<Rightarrow> bool" where
  "subclass_of c d =
     (c = d \<or> (case superclass c of None \<Rightarrow> False | Some p \<Rightarrow> subclass_of p d))"
  by pat_completeness auto
termination
  by (relation "measure (\<lambda>(c, d). class_depth c)") (auto dest: superclass_depth)

declare subclass_of.simps [simp del]

lemma subclass_of_refl [simp]: "subclass_of c c"
  by (simp add: subclass_of.simps)

lemma subclass_of_root: "subclass_of c BidSystemError"
  by (cases c) (simp_all add: subclass_of.simps)

section \<open>Public messages\<close>

text \<open>
  The messages passed as \<open>public_message\<close>; each constructor stands for one text of the
  source, \<open>None\<close> where the class's default message is used.
\<close>

datatype public_msg =
    Msg_no_parsable_pages | Msg_empty_file | Msg_bad_filename | Msg_missing_filename
  | Msg_archive_entries | Msg_archive_size | Msg_archive_path | Msg_archive_ratio
  | Msg_manifest_too_large | Msg_conversion_unavailable | Msg_conversion_timeout
  | Msg_conversion_failed | Msg_scanner_unavailable | Msg_scanner_bad_response
  | Msg_object_integrity | Msg_storage_unavailable | Msg_version_conflict

section \<open>Every exception a modelled operation raises\<close>

text \<open>
  \<open>IntegrityError\<close> carries what \<open>error.orig\<close> is; a \<open>UniqueViolation\<close> carries the
  constraint's name.  \<open>DataError\<close> is PostgreSQL's refusal of an overlong value.
\<close>

datatype db_violation =
    UniqueViolation string | ForeignKeyViolation string | CheckViolation string

datatype exn =
    ValueError string
  | TypeError string
  | RuntimeError string
  | OverflowError
  | UnicodeEncodeError
  | KeyError
  | TimeoutError
  | OSError
  | OtherException
  | CancelledError
  | BidError error_class "public_msg option"
  | TokenValidationError
  | InvalidTokenError
  | InvalidRefreshSessionError
  | RefreshTokenReplayError "nat list"
  | MultipleResultsFound
  | IntegrityError db_violation
  | DataError
  | RedisError
  | HTTPException int
  | RequestValidationError
  | RequestBodyTooLargeError
  | DuplicateToolError
  | UnknownToolError
  | UnknownHashError
  | ExceptionGroup nat
  | FileNotFoundError
  | FileExistsError
  | BadZipFile
  | LargeZipFile
  | ZlibError
  | ParseError
  | PdfReadError
  | IncompleteReadError
  | LimitOverrunError
  | S3Error string
  | PoolHTTPError

abbreviation raise_class :: "error_class \<Rightarrow> exn + 'a" where
  "raise_class c \<equiv> Inl (BidError c None)"

text \<open>\<open>except ValueError\<close> also catches the subclasses of \<open>ValueError\<close>.\<close>

fun is_value_error :: "exn \<Rightarrow> bool" where
  "is_value_error (ValueError _) = True"
| "is_value_error UnicodeEncodeError = True"
| "is_value_error TokenValidationError = True"
| "is_value_error InvalidRefreshSessionError = True"
| "is_value_error (RefreshTokenReplayError _) = True"
| "is_value_error DuplicateToolError = True"
| "is_value_error _ = False"

text \<open>\<open>except Exception\<close> catches everything but cancellation.\<close>

fun is_exception :: "exn \<Rightarrow> bool" where
  "is_exception CancelledError = False"
| "is_exception _ = True"

text \<open>The subclasses of \<open>OSError\<close>; \<open>TimeoutError\<close> is one of them.\<close>

fun is_os_error :: "exn \<Rightarrow> bool" where
  "is_os_error OSError = True"
| "is_os_error TimeoutError = True"
| "is_os_error FileNotFoundError = True"
| "is_os_error FileExistsError = True"
| "is_os_error _ = False"

text \<open>The SQLAlchemy errors (\<open>SQLAlchemyError\<close>).\<close>

fun is_sqlalchemy_error :: "exn \<Rightarrow> bool" where
  "is_sqlalchemy_error (IntegrityError _) = True"
| "is_sqlalchemy_error DataError = True"
| "is_sqlalchemy_error MultipleResultsFound = True"
| "is_sqlalchemy_error _ = False"

end
