(* ===== verification/PyPrelude.thy ===== *)
theory PyPrelude
  imports Complex_Main Errors "HOL-Library.Code_Target_Nat"
begin

text \<open>
  What the program uses of Python: sequencing of operations that may raise, strings as
  lists of code points, IEEE floats as extended rationals, aware and naive datetimes.
  The lemma collections \<open>py_bind\<close> (inversion of sequenced operations) and \<open>py_str\<close>
  (strings) are used by every component.
\<close>

named_theorems py_bind \<open>inversion and introduction for sequenced fallible operations\<close>
named_theorems py_str \<open>facts on strings of code points\<close>

section \<open>Sequencing operations that may raise\<close>

definition bindE :: "'e + 'a \<Rightarrow> ('a \<Rightarrow> 'e + 'b) \<Rightarrow> 'e + 'b" where
  "bindE m f = (case m of Inl e \<Rightarrow> Inl e | Inr x \<Rightarrow> f x)"

lemma bindE_simps [simp]:
  "bindE (Inl e) f = Inl e"
  "bindE (Inr x) f = f x"
  by (simp_all add: bindE_def)

lemma bindE_Inr [py_bind]: "bindE m f = Inr y \<longleftrightarrow> (\<exists>x. m = Inr x \<and> f x = Inr y)"
  by (cases m) auto

lemma bindE_Inl [py_bind]:
  "bindE m f = Inl e \<longleftrightarrow> m = Inl e \<or> (\<exists>x. m = Inr x \<and> f x = Inl e)"
  by (cases m) auto

text \<open>A guard that raises: \<open>if bad: raise e\<close>, then the rest.\<close>

definition raise_if :: "bool \<Rightarrow> 'e \<Rightarrow> 'e + 'a \<Rightarrow> 'e + 'a" where
  "raise_if bad e rest = (if bad then Inl e else rest)"

lemma raise_if_simps [simp]:
  "raise_if True e m = Inl e"
  "raise_if False e m = m"
  by (simp_all add: raise_if_def)

lemma raise_if_Inr [simp]: "raise_if b e m = Inr y \<longleftrightarrow> \<not> b \<and> m = Inr y"
  by (simp add: raise_if_def)

lemma raise_if_Inl [py_bind]: "raise_if b e m = Inl e' \<longleftrightarrow> b \<and> e' = e \<or> \<not> b \<and> m = Inl e'"
  by (auto simp: raise_if_def)

text \<open>A computation over a state that may raise keeps the state reached so far.\<close>

type_synonym ('s, 'a) stateful = "'s \<Rightarrow> (exn + 'a) \<times> 's"

definition retS :: "'a \<Rightarrow> ('s, 'a) stateful" where
  "retS x = (\<lambda>s. (Inr x, s))"

definition raiseS :: "exn \<Rightarrow> ('s, 'a) stateful" where
  "raiseS e = (\<lambda>s. (Inl e, s))"

definition liftS :: "(exn + 'a) \<Rightarrow> ('s, 'a) stateful" where
  "liftS r = (\<lambda>s. (r, s))"

definition bindS :: "('s, 'a) stateful \<Rightarrow> ('a \<Rightarrow> ('s, 'b) stateful) \<Rightarrow> ('s, 'b) stateful" where
  "bindS m f = (\<lambda>s. case m s of (Inl e, s') \<Rightarrow> (Inl e, s') | (Inr x, s') \<Rightarrow> f x s')"

lemma stateful_simps [simp]:
  "retS x s = (Inr x, s)"
  "raiseS e s = (Inl e, s)"
  "liftS r s = (r, s)"
  by (simp_all add: retS_def raiseS_def liftS_def)

lemma bindS_Inr [py_bind]:
  "bindS m f s = (Inr y, s') \<longleftrightarrow> (\<exists>x t. m s = (Inr x, t) \<and> f x t = (Inr y, s'))"
  by (auto simp: bindS_def split: prod.splits sum.splits)

lemma bindS_Inl [py_bind]:
  "bindS m f s = (Inl e, s') \<longleftrightarrow>
     m s = (Inl e, s') \<or> (\<exists>x t. m s = (Inr x, t) \<and> f x t = (Inl e, s'))"
  by (auto simp: bindS_def split: prod.splits sum.splits)

lemma bindS_apply:
  "bindS m f s = (case m s of (Inl e, s') \<Rightarrow> (Inl e, s') | (Inr x, s') \<Rightarrow> f x s')"
  by (simp add: bindS_def)

lemma map_sum_id [simp]:
  "map_sum f id r = Inr y \<longleftrightarrow> r = Inr y"
  "map_sum id g q = Inl e \<longleftrightarrow> q = Inl e"
  "map_sum f id r = Inl e' \<longleftrightarrow> (\<exists>d. r = Inl d \<and> e' = f d)"
  by (cases r; cases q; auto)+

text \<open>Guards inside a sequence: \<open>if bad: raise e\<close> and \<open>if x is None: raise e\<close>.\<close>

lemma guard_Inr [py_bind]:
  "(if b then raiseS e else m) s = (Inr y, t) \<longleftrightarrow> \<not> b \<and> m s = (Inr y, t)"
  "(case x of None \<Rightarrow> raiseS e | Some a \<Rightarrow> f a) s = (Inr y, t)
     \<longleftrightarrow> (\<exists>a. x = Some a \<and> f a s = (Inr y, t))"
  "(if b then Inl e' else r) = Inr z \<longleftrightarrow> \<not> b \<and> r = Inr z"
  "(case x of None \<Rightarrow> Inl e' | Some a \<Rightarrow> g a) = Inr z \<longleftrightarrow> (\<exists>a. x = Some a \<and> g a = Inr z)"
  by (auto split: option.splits)

text \<open>\<open>for x in xs: body(x)\<close> with early exit on an exception.\<close>

fun forE :: "('a \<Rightarrow> exn + unit) \<Rightarrow> 'a list \<Rightarrow> exn + unit" where
  "forE f [] = Inr ()"
| "forE f (x # xs) = bindE (f x) (\<lambda>_. forE f xs)"

lemma forE_Inr [py_bind]: "forE f xs = Inr () \<longleftrightarrow> (\<forall>x\<in>set xs. f x = Inr ())"
  by (induction xs) (auto simp: py_bind)

section \<open>Strings as lists of code points\<close>

type_synonym pystr = "nat list"

text \<open>An ASCII literal of the source.\<close>

definition lit :: "string \<Rightarrow> pystr" where
  "lit s = map of_char s"

lemma length_lit [simp]: "length (lit s) = length s"
  by (simp add: lit_def)

lemma inj_lit: "inj lit"
  unfolding lit_def by (rule inj_mapI) (simp add: inj_def)

lemma lit_eq_iff [simp]: "lit s = lit t \<longleftrightarrow> s = t"
  using inj_lit by (auto simp: inj_def)

lemma lit_append: "lit (s @ t) = lit s @ lit t"
  by (simp add: lit_def)

text \<open>The code points for which \<open>str.isspace\<close> holds, which \<open>strip\<close> and \<open>split\<close> use.\<close>

definition is_space :: "nat \<Rightarrow> bool" where
  "is_space c \<longleftrightarrow>
     9 \<le> c \<and> c \<le> 13 \<or> 28 \<le> c \<and> c \<le> 32 \<or> c = 133 \<or> c = 160 \<or> c = 5760 \<or>
     8192 \<le> c \<and> c \<le> 8202 \<or> c = 8232 \<or> c = 8233 \<or> c = 8239 \<or> c = 8287 \<or> c = 12288"

definition strip :: "pystr \<Rightarrow> pystr" where
  "strip s = rev (dropWhile is_space (rev (dropWhile is_space s)))"

text \<open>\<open>not value.strip()\<close>\<close>

definition blank :: "pystr \<Rightarrow> bool" where
  "blank s \<longleftrightarrow> strip s = []"

lemma dropWhile_eq_Nil: "dropWhile P s = [] \<longleftrightarrow> (\<forall>c\<in>set s. P c)"
  by (induction s) auto

lemma blank_iff [py_str]: "blank s \<longleftrightarrow> (\<forall>c\<in>set s. is_space c)"
  unfolding blank_def strip_def
  by (auto simp: dropWhile_eq_Nil dest: set_dropWhileD)
     (metis dropWhile_eq_Nil hd_dropWhile hd_in_set)

lemma blank_Nil [simp]: "blank []"
  by (simp add: blank_iff)

lemma set_strip [py_str]: "set (strip s) \<subseteq> set s"
proof
  fix x assume "x \<in> set (strip s)"
  then have "x \<in> set (dropWhile is_space s)"
    unfolding strip_def using set_dropWhileD by fastforce
  then show "x \<in> set s" using set_dropWhileD by fastforce
qed

lemma dropWhile_id: "(s = [] \<or> \<not> P (hd s)) \<Longrightarrow> dropWhile P s = s"
  by (cases s) auto

lemma strip_no_space [py_str]: "(\<forall>c\<in>set s. \<not> is_space c) \<Longrightarrow> strip s = s"
  unfolding strip_def
  by (cases "s = []") (simp_all add: dropWhile_id hd_rev)

text \<open>\<open>str.split()\<close>: the maximal runs of non-space code points.\<close>

function split_ws :: "pystr \<Rightarrow> pystr list" where
  "split_ws s =
     (case dropWhile is_space s of
        [] \<Rightarrow> []
      | c # cs \<Rightarrow> takeWhile (\<lambda>d. \<not> is_space d) (c # cs)
                # split_ws (dropWhile (\<lambda>d. \<not> is_space d) (c # cs)))"
  by pat_completeness auto
termination
proof (relation "measure length")
  fix s :: pystr and c cs
  assume eq: "dropWhile is_space s = c # cs"
  have "\<not> is_space c" using hd_dropWhile [of is_space s] eq by simp
  then have "length (dropWhile (\<lambda>d. \<not> is_space d) (c # cs)) \<le> length cs"
    using length_dropWhile_le by auto
  also have "\<dots> < length (dropWhile is_space s)" by (simp add: eq)
  also have "\<dots> \<le> length s" by (rule length_dropWhile_le)
  finally show "(dropWhile (\<lambda>d. \<not> is_space d) (c # cs), s) \<in> measure length" by simp
qed simp

declare split_ws.simps [simp del]

lemma split_ws_Nil [simp]: "split_ws [] = []"
  by (simp add: split_ws.simps)

lemma split_ws_word:
  assumes "w \<noteq> []" and "\<forall>c\<in>set w. \<not> is_space c"
  shows "split_ws w = [w]"
proof -
  obtain c cs where w: "w = c # cs" using assms(1) by (cases w) auto
  have drop: "dropWhile is_space w = w" and take: "takeWhile (\<lambda>d. \<not> is_space d) w = w"
    and rest: "dropWhile (\<lambda>d. \<not> is_space d) w = []"
    using assms w by (auto simp: dropWhile_eq_Nil takeWhile_eq_all_conv)
  show ?thesis
    by (subst split_ws.simps) (use drop take rest w in simp)
qed

lemma split_ws_two:
  assumes "a \<noteq> []" "\<forall>c\<in>set a. \<not> is_space c" "b \<noteq> []" "\<forall>c\<in>set b. \<not> is_space c"
    and "is_space sp"
  shows "split_ws (a @ sp # b) = [a, b]"
proof -
  obtain c cs where a: "a = c # cs" using assms(1) by (cases a) auto
  have drop: "dropWhile is_space (a @ sp # b) = a @ sp # b"
    using assms(2) a by simp
  have take: "takeWhile (\<lambda>d. \<not> is_space d) (a @ sp # b) = a"
    using assms(2,5) by (simp add: takeWhile_append2)
  have rest: "dropWhile (\<lambda>d. \<not> is_space d) (a @ sp # b) = sp # b"
    using assms(2,5) by (simp add: dropWhile_append2)
  have dropb: "dropWhile is_space (sp # b) = dropWhile is_space b"
    using assms(5) by simp
  have "split_ws (sp # b) = split_ws b"
    by (subst split_ws.simps, subst (2) split_ws.simps) (simp only: dropb)
  also have "\<dots> = [b]" using assms(3,4) by (rule split_ws_word)
  finally have b: "split_ws (sp # b) = [b]" .
  show ?thesis
    by (subst split_ws.simps) (use drop take rest b a in simp)
qed

lemma split_ws_words: "w \<in> set (split_ws s) \<Longrightarrow> w \<noteq> [] \<and> (\<forall>c\<in>set w. \<not> is_space c)"
proof (induction s rule: split_ws.induct)
  case (1 s)
  show ?case
  proof (cases "dropWhile is_space s")
    case Nil
    then have "split_ws s = []" by (subst split_ws.simps) (simp only: Nil list.case)
    then show ?thesis using "1.prems" by simp
  next
    case (Cons c cs)
    then have nsp: "\<not> is_space c" using hd_dropWhile [of is_space s] by simp
    have "split_ws s = takeWhile (\<lambda>d. \<not> is_space d) (c # cs)
        # split_ws (dropWhile (\<lambda>d. \<not> is_space d) (c # cs))"
      by (subst split_ws.simps) (simp only: Cons list.case)
    then have "w = takeWhile (\<lambda>d. \<not> is_space d) (c # cs) \<or>
          w \<in> set (split_ws (dropWhile (\<lambda>d. \<not> is_space d) (c # cs)))"
      using "1.prems" by (simp only: list.set insert_iff)
    then show ?thesis
    proof
      assume "w = takeWhile (\<lambda>d. \<not> is_space d) (c # cs)"
      then show ?thesis using nsp by (auto dest: set_takeWhileD)
    next
      assume "w \<in> set (split_ws (dropWhile (\<lambda>d. \<not> is_space d) (c # cs)))"
      then show ?thesis by (rule "1.IH" [OF Cons])
    qed
  qed
qed

text \<open>\<open>str.startswith\<close> and \<open>bytes.endswith\<close>.\<close>

definition startswith :: "'a list \<Rightarrow> 'a list \<Rightarrow> bool" where
  "startswith s p \<longleftrightarrow> take (length p) s = p"

definition endswith :: "'a list \<Rightarrow> 'a list \<Rightarrow> bool" where
  "endswith s p \<longleftrightarrow> startswith (rev s) (rev p)"

lemma startswith_iff: "startswith s p \<longleftrightarrow> (\<exists>r. s = p @ r)"
  unfolding startswith_def by (metis append_eq_conv_conj append_take_drop_id)

lemma endswith_iff: "endswith s p \<longleftrightarrow> (\<exists>r. s = r @ p)"
  unfolding endswith_def startswith_iff by (metis rev_append rev_rev_ident)

lemma endswith_append [simp]: "endswith (r @ p) p"
  by (auto simp: endswith_iff)

text \<open>\<open>len(value.encode("utf-8"))\<close>; a lone surrogate cannot be encoded.\<close>

definition utf8_width :: "nat \<Rightarrow> nat" where
  "utf8_width c = (if c < 128 then 1 else if c < 2048 then 2 else if c < 65536 then 3 else 4)"

definition is_surrogate :: "nat \<Rightarrow> bool" where
  "is_surrogate c \<longleftrightarrow> 55296 \<le> c \<and> c \<le> 57343"

definition utf8_length :: "pystr \<Rightarrow> exn + nat" where
  "utf8_length s =
     (if list_ex is_surrogate s then Inl UnicodeEncodeError
      else Inr (sum_list (map utf8_width s)))"

definition is_ascii :: "pystr \<Rightarrow> bool" where
  "is_ascii s \<longleftrightarrow> list_all (\<lambda>c. c < 128) s"

lemma utf8_width_bounds: "1 \<le> utf8_width c \<and> utf8_width c \<le> 4"
  by (simp add: utf8_width_def)

lemma utf8_length_bounds:
  assumes "utf8_length s = Inr n"
  shows "length s \<le> n \<and> n \<le> 4 * length s"
proof -
  have "n = sum_list (map utf8_width s)"
    using assms by (simp add: utf8_length_def split: if_splits)
  moreover have "length s \<le> sum_list (map utf8_width s) \<and>
      sum_list (map utf8_width s) \<le> 4 * length s"
  proof (induction s)
    case (Cons c s)
    then show ?case using utf8_width_bounds [of c] by simp
  qed simp
  ultimately show ?thesis by simp
qed

text \<open>
  \<open>secrets.compare_digest\<close> on two strings: it refuses non-ASCII text with a
  \<open>TypeError\<close>.
\<close>

definition compare_digest :: "pystr \<Rightarrow> pystr \<Rightarrow> exn + bool" where
  "compare_digest a b =
     (if is_ascii a \<and> is_ascii b then Inr (a = b)
      else Inl (TypeError ''comparing strings with non-ASCII characters is not supported''))"

text \<open>
  The Unicode character database behind \<open>casefold\<close>, \<open>upper\<close>, \<open>isalpha\<close> and
  \<open>isdigit\<close> is a parameter; \<open>ucd_ascii\<close> states what Unicode fixes for ASCII.
\<close>

record ucd =
  casefold_cp :: "nat \<Rightarrow> pystr"
  is_alpha_cp :: "nat \<Rightarrow> bool"
  is_digit_cp :: "nat \<Rightarrow> bool"

definition ascii_lower :: "nat \<Rightarrow> nat" where
  "ascii_lower c = (if 65 \<le> c \<and> c \<le> 90 then c + 32 else c)"

definition ucd_ascii :: "ucd \<Rightarrow> bool" where
  "ucd_ascii U \<longleftrightarrow>
     (\<forall>c<128. casefold_cp U c = [ascii_lower c]
        \<and> (is_alpha_cp U c \<longleftrightarrow> 65 \<le> c \<and> c \<le> 90 \<or> 97 \<le> c \<and> c \<le> 122)
        \<and> (is_digit_cp U c \<longleftrightarrow> 48 \<le> c \<and> c \<le> 57))"

definition casefold :: "ucd \<Rightarrow> pystr \<Rightarrow> pystr" where
  "casefold U s = concat (map (casefold_cp U) s)"

text \<open>A concrete database: the ASCII tables, every other code point left alone.\<close>

definition ascii_ucd :: ucd where
  "ascii_ucd =
     \<lparr>casefold_cp = (\<lambda>c. [ascii_lower c]),
      is_alpha_cp = (\<lambda>c. 65 \<le> c \<and> c \<le> 90 \<or> 97 \<le> c \<and> c \<le> 122),
      is_digit_cp = (\<lambda>c. 48 \<le> c \<and> c \<le> 57)\<rparr>"

lemma ucd_ascii_ascii_ucd [simp]: "ucd_ascii ascii_ucd"
  by (simp add: ucd_ascii_def ascii_ucd_def)

lemma casefold_ascii: "ucd_ascii U \<Longrightarrow> is_ascii s \<Longrightarrow> casefold U s = map ascii_lower s"
  unfolding casefold_def is_ascii_def by (induction s) (auto simp: ucd_ascii_def)

lemma casefold_lower_id:
  assumes "ucd_ascii U" and "\<forall>c\<in>set s. c < 128 \<and> \<not> (65 \<le> c \<and> c \<le> 90)"
  shows "casefold U s = s"
proof -
  have "is_ascii s" using assms(2) by (simp add: is_ascii_def list_all_iff)
  then have "casefold U s = map ascii_lower s" by (rule casefold_ascii [OF assms(1)])
  also have "\<dots> = s" using assms(2) by (auto simp: ascii_lower_def intro: map_idI)
  finally show ?thesis .
qed

text \<open>\<open>string.hexdigits\<close>\<close>

definition is_hexdigit :: "nat \<Rightarrow> bool" where
  "is_hexdigit c \<longleftrightarrow> 48 \<le> c \<and> c \<le> 57 \<or> 97 \<le> c \<and> c \<le> 102 \<or> 65 \<le> c \<and> c \<le> 70"

section \<open>Floats\<close>

text \<open>
  A float is a rational, an infinity or NaN; comparisons with NaN are false.
  Products are taken exactly, up to the overflow threshold of binary64.
\<close>

datatype pyfloat = Fin rat | PInf | NInf | NaN

fun fl_le :: "pyfloat \<Rightarrow> pyfloat \<Rightarrow> bool" where
  "fl_le NaN _ = False"
| "fl_le _ NaN = False"
| "fl_le NInf _ = True"
| "fl_le _ PInf = True"
| "fl_le (Fin a) (Fin b) = (a \<le> b)"
| "fl_le _ _ = False"

definition fl_lt :: "pyfloat \<Rightarrow> pyfloat \<Rightarrow> bool" where
  "fl_lt a b \<longleftrightarrow> fl_le a b \<and> \<not> fl_le b a"

lemma fl_le_Fin [simp]: "fl_le (Fin a) (Fin b) \<longleftrightarrow> a \<le> b"
  by simp

lemma fl_lt_Fin [simp]: "fl_lt (Fin a) (Fin b) \<longleftrightarrow> a < b"
  by (auto simp: fl_lt_def)

lemma fl_lt_NaN [simp]: "\<not> fl_lt NaN x" "\<not> fl_lt x NaN"
  by (cases x; simp add: fl_lt_def)+

text \<open>\<open>min(a, b)\<close> keeps \<open>a\<close> unless \<open>b < a\<close>; likewise \<open>max\<close>.\<close>

definition fl_min :: "pyfloat \<Rightarrow> pyfloat \<Rightarrow> pyfloat" where
  "fl_min a b = (if fl_lt b a then b else a)"

definition fl_max :: "pyfloat \<Rightarrow> pyfloat \<Rightarrow> pyfloat" where
  "fl_max a b = (if fl_lt a b then b else a)"

text \<open>The exact values from which rounding to binary64 gives an infinity.\<close>

definition fl_huge :: rat where
  "fl_huge = 2 ^ 1024 - 2 ^ 970"

definition fl_of_rat :: "rat \<Rightarrow> pyfloat" where
  "fl_of_rat q = (if fl_huge \<le> q then PInf else if q \<le> - fl_huge then NInf else Fin q)"

text \<open>For evaluation: small values are decided before the threshold is computed.\<close>

lemma fl_of_rat_code [code]:
  "fl_of_rat q = (if - 1000000000000000000 < q \<and> q < 1000000000000000000 then Fin q
     else if fl_huge \<le> q then PInf else if q \<le> - fl_huge then NInf else Fin q)"
proof -
  have "(1000000000000000000 :: rat) < fl_huge" by (simp add: fl_huge_def)
  then show ?thesis by (auto simp: fl_of_rat_def)
qed

text \<open>Multiplication by a positive power of two: exact, or an overflow to an infinity.\<close>

fun fl_scale :: "pyfloat \<Rightarrow> nat \<Rightarrow> pyfloat" where
  "fl_scale (Fin a) k = fl_of_rat (a * 2 ^ k)"
| "fl_scale PInf k = PInf"
| "fl_scale NInf k = NInf"
| "fl_scale NaN k = NaN"

section \<open>Datetimes\<close>

text \<open>
  \<open>Aware t off\<close> is the instant \<open>t\<close> (microseconds since the epoch in UTC) written at
  offset \<open>off\<close>; \<open>Naive w\<close> is a wall-clock reading without a time zone
  (\<open>tzinfo is None or utcoffset() is None\<close>).  Durations are microseconds.  Years run
  from 1 to 9999: an addition that leaves them raises \<open>OverflowError\<close>.
\<close>

datatype datetime = Naive int | Aware int int

type_synonym timedelta = int

fun is_aware :: "datetime \<Rightarrow> bool" where
  "is_aware (Naive _) = False"
| "is_aware (Aware _ _) = True"

fun instant :: "datetime \<Rightarrow> int" where
  "instant (Naive w) = w"
| "instant (Aware t off) = t"

fun wall_clock :: "datetime \<Rightarrow> int" where
  "wall_clock (Naive w) = w"
| "wall_clock (Aware t off) = t + off"

definition dt_min_us :: int where
  "dt_min_us = - 62135596800 * 1000000"

definition dt_max_us :: int where
  "dt_max_us = 253402300800 * 1000000 - 1"

fun dt_shift :: "datetime \<Rightarrow> timedelta \<Rightarrow> datetime" where
  "dt_shift (Naive w) d = Naive (w + d)"
| "dt_shift (Aware t off) d = Aware (t + d) off"

definition dt_add :: "datetime \<Rightarrow> timedelta \<Rightarrow> exn + datetime" where
  "dt_add a d =
     (let r = dt_shift a d
      in if dt_min_us \<le> wall_clock r \<and> wall_clock r \<le> dt_max_us then Inr r
         else Inl OverflowError)"

lemma is_aware_shift [simp]: "is_aware (dt_shift a d) = is_aware a"
  by (cases a) auto

lemma instant_shift [simp]: "instant (dt_shift a d) = instant a + d"
  by (cases a) auto

lemma dt_add_Inr [py_bind]:
  "dt_add a d = Inr r \<longleftrightarrow>
     r = dt_shift a d \<and> dt_min_us \<le> wall_clock r \<and> wall_clock r \<le> dt_max_us"
  by (auto simp: dt_add_def Let_def)

lemma dt_add_Inl [py_bind]:
  "dt_add a d = Inl e \<Longrightarrow> e = OverflowError"
  by (auto simp: dt_add_def Let_def split: if_splits)

text \<open>\<open>a < b\<close> on datetimes: mixing aware and naive values raises \<open>TypeError\<close>.\<close>

definition dt_lt :: "datetime \<Rightarrow> datetime \<Rightarrow> exn + bool" where
  "dt_lt a b =
     (if is_aware a = is_aware b then Inr (instant a < instant b)
      else Inl (TypeError ''can't compare offset-naive and offset-aware datetimes''))"

definition dt_ge :: "datetime \<Rightarrow> datetime \<Rightarrow> exn + bool" where
  "dt_ge a b = map_sum id Not (dt_lt a b)"

text \<open>\<open>min(a, b)\<close> on datetimes that are comparable.\<close>

definition dt_min :: "datetime \<Rightarrow> datetime \<Rightarrow> exn + datetime" where
  "dt_min a b = bindE (dt_lt b a) (\<lambda>less. Inr (if less then b else a))"

lemma dt_lt_same [simp]: "is_aware a = is_aware b \<Longrightarrow> dt_lt a b = Inr (instant a < instant b)"
  by (simp add: dt_lt_def)

lemma dt_ge_same [simp]: "is_aware a = is_aware b \<Longrightarrow> dt_ge a b = Inr (instant a \<ge> instant b)"
  by (auto simp: dt_ge_def)

lemma dt_min_same:
  "is_aware a = is_aware b \<Longrightarrow> dt_min a b = Inr (if instant b < instant a then b else a)"
  by (simp add: dt_min_def)

lemma dt_lt_Inr: "dt_lt a b = Inr r \<longleftrightarrow> is_aware a = is_aware b \<and> r = (instant a < instant b)"
  by (auto simp: dt_lt_def)

lemma dt_ge_Inr: "dt_ge a b = Inr r \<longleftrightarrow> is_aware a = is_aware b \<and> r = (instant a \<ge> instant b)"
  by (auto simp: dt_ge_def dt_lt_def)

section \<open>Lookups\<close>

text \<open>\<open>result.scalar_one_or_none()\<close>\<close>

definition scalar_one_or_none :: "'a list \<Rightarrow> exn + 'a option" where
  "scalar_one_or_none xs =
     (case xs of [] \<Rightarrow> Inr None | [x] \<Rightarrow> Inr (Some x) | _ \<Rightarrow> Inl MultipleResultsFound)"

lemma scalar_Some_iff: "scalar_one_or_none xs = Inr (Some x) \<longleftrightarrow> xs = [x]"
  by (auto simp: scalar_one_or_none_def split: list.splits)

lemma scalar_None_iff: "scalar_one_or_none xs = Inr None \<longleftrightarrow> xs = []"
  by (auto simp: scalar_one_or_none_def split: list.splits)

lemma filter_key_unique:
  "distinct (map f xs) \<Longrightarrow> x \<in> set xs \<Longrightarrow> filter (\<lambda>y. f y = f x) xs = [x]"
proof (induction xs)
  case (Cons y ys)
  show ?case
  proof (cases "x = y")
    case True
    then have "filter (\<lambda>z. f z = f x) ys = []"
      using Cons.prems(1) by (simp add: filter_empty_conv) (metis image_eqI)
    with True show ?thesis by simp
  next
    case False
    then show ?thesis using Cons by auto
  qed
qed simp

lemma scalar_filter_unique:
  assumes "distinct (map f xs)"
  shows "scalar_one_or_none (filter (\<lambda>y. f y = k) xs) = Inr (find (\<lambda>y. f y = k) xs)"
proof (cases "find (\<lambda>y. f y = k) xs")
  case None
  then have "filter (\<lambda>y. f y = k) xs = []" by (auto simp: find_None_iff filter_empty_conv)
  with None show ?thesis by (simp add: scalar_one_or_none_def)
next
  case (Some x)
  then have "x \<in> set xs" "f x = k" by (auto simp: find_Some_iff)
  then have "filter (\<lambda>y. f y = k) xs = [x]" using filter_key_unique [OF assms] by auto
  with Some show ?thesis by (simp add: scalar_one_or_none_def)
qed

lemma find_in_set: "find P xs = Some x \<Longrightarrow> x \<in> set xs \<and> P x"
  by (auto simp: find_Some_iff)

lemma find_unique_key:
  "distinct (map f xs) \<Longrightarrow> x \<in> set xs \<Longrightarrow> f x = k \<Longrightarrow> find (\<lambda>y. f y = k) xs = Some x"
  using filter_key_unique [of f xs x] scalar_filter_unique [of f xs k]
  by (auto simp: scalar_one_or_none_def)

end
