(* ===== verification/IdentityDomain.thy ===== *)
theory IdentityDomain
  imports PyPrelude
begin

text \<open>
  The identity domain (\<open>modules/identity/domain\<close>): roles, permissions and registration
  credentials (\<open>access.py\<close>), local accounts (\<open>account.py\<close>), tenant memberships
  (\<open>membership.py\<close>) and refresh sessions (\<open>session.py\<close>).  A frozen dataclass is a
  record; its \<open>__post_init__\<close> is the function \<open>mk_<class>\<close>, which returns the record or the
  \<open>ValueError\<close> raised.
\<close>

section \<open>Roles, permissions and registration credentials (access.py)\<close>

definition MIN_USERNAME_LENGTH :: nat where "MIN_USERNAME_LENGTH = 3"
definition MAX_USERNAME_LENGTH :: nat where "MAX_USERNAME_LENGTH = 32"
definition MIN_PASSWORD_LENGTH :: nat where "MIN_PASSWORD_LENGTH = 8"
definition MAX_PASSWORD_LENGTH :: nat where "MAX_PASSWORD_LENGTH = 128"
definition MAX_PASSWORD_BYTES :: nat where "MAX_PASSWORD_BYTES = 1024"

lemmas access_limits =
  MIN_USERNAME_LENGTH_def MAX_USERNAME_LENGTH_def MIN_PASSWORD_LENGTH_def
  MAX_PASSWORD_LENGTH_def MAX_PASSWORD_BYTES_def

text \<open>\<open>^[a-z0-9][a-z0-9_]*$\<close> under \<open>fullmatch\<close>\<close>

definition lower_alnum :: "nat \<Rightarrow> bool" where
  "lower_alnum c \<longleftrightarrow> 97 \<le> c \<and> c \<le> 122 \<or> 48 \<le> c \<and> c \<le> 57"

fun username_pattern :: "pystr \<Rightarrow> bool" where
  "username_pattern [] = False"
| "username_pattern (c # cs) =
     (lower_alnum c \<and> list_all (\<lambda>d. lower_alnum d \<or> d = 95) cs)"

datatype identity_role = MANAGER | EMPLOYEE

fun role_value :: "identity_role \<Rightarrow> pystr" where
  "role_value MANAGER = lit ''manager''"
| "role_value EMPLOYEE = lit ''employee''"

datatype permission_code = ACCOUNTS_CREATE | CONTENT_UPLOAD | CONTENT_MODIFY

fun permission_value :: "permission_code \<Rightarrow> pystr" where
  "permission_value ACCOUNTS_CREATE = lit ''accounts.create''"
| "permission_value CONTENT_UPLOAD = lit ''content.upload''"
| "permission_value CONTENT_MODIFY = lit ''content.modify''"

definition permissions_for_role :: "identity_role \<Rightarrow> permission_code set" where
  "permissions_for_role role =
     (if role = MANAGER then {ACCOUNTS_CREATE, CONTENT_UPLOAD, CONTENT_MODIFY} else {})"

record registration_credentials =
  rc_username :: pystr
  rc_password :: pystr

definition create_credentials ::
  "ucd \<Rightarrow> pystr \<Rightarrow> pystr \<Rightarrow> exn + registration_credentials" where
  "create_credentials U username password =
     (let normalized_username = casefold U (strip username)
      in raise_if (\<not> (MIN_USERNAME_LENGTH \<le> length normalized_username
                     \<and> length normalized_username \<le> MAX_USERNAME_LENGTH))
           (ValueError ''Username length is outside the supported boundary'')
         (raise_if (\<not> username_pattern normalized_username)
           (ValueError ''Username contains unsupported characters'')
         (raise_if (\<not> (MIN_PASSWORD_LENGTH \<le> length password
                       \<and> length password \<le> MAX_PASSWORD_LENGTH))
           (ValueError ''Password length is outside the supported boundary'')
         (bindE (utf8_length password) (\<lambda>n.
          raise_if (n > MAX_PASSWORD_BYTES)
           (ValueError ''Password byte length is outside the supported boundary'')
         (raise_if (\<not> list_ex (is_alpha_cp U) password)
           (ValueError ''Password must contain a letter'')
         (raise_if (\<not> list_ex (is_digit_cp U) password)
           (ValueError ''Password must contain a digit'')
         (raise_if (casefold U password = normalized_username)
           (ValueError ''Password must differ from username'')
         (Inr \<lparr>rc_username = normalized_username, rc_password = password\<rparr>)))))))))"

lemma username_pattern_chars:
  "username_pattern s \<Longrightarrow> c \<in> set s \<Longrightarrow> lower_alnum c \<or> c = 95"
  by (cases s) (auto simp: list_all_iff)

lemma username_pattern_normal:
  assumes "ucd_ascii U" and "username_pattern s"
  shows "casefold U (strip s) = s"
proof -
  have "\<forall>c\<in>set s. \<not> is_space c \<and> c < 128 \<and> \<not> (65 \<le> c \<and> c \<le> 90)"
  proof
    fix c assume "c \<in> set s"
    then have "lower_alnum c \<or> c = 95" by (rule username_pattern_chars [OF assms(2)])
    then show "\<not> is_space c \<and> c < 128 \<and> \<not> (65 \<le> c \<and> c \<le> 90)"
      by (auto simp: lower_alnum_def is_space_def)
  qed
  then show ?thesis by (simp add: strip_no_space casefold_lower_id [OF assms(1)])
qed

lemma create_credentials_Inr:
  "create_credentials U u p = Inr c \<longleftrightarrow>
     (let n = casefold U (strip u)
      in 3 \<le> length n \<and> length n \<le> 32 \<and> username_pattern n
         \<and> 8 \<le> length p \<and> length p \<le> 128
         \<and> (\<exists>b. utf8_length p = Inr b \<and> b \<le> 1024)
         \<and> list_ex (is_alpha_cp U) p \<and> list_ex (is_digit_cp U) p
         \<and> casefold U p \<noteq> n
         \<and> c = \<lparr>rc_username = n, rc_password = p\<rparr>)"
  by (auto simp: create_credentials_def Let_def access_limits py_bind)

text \<open>The byte limit never bites: 128 code points are at most 512 bytes.\<close>

lemma create_credentials_byte_limit:
  "create_credentials U u p \<noteq>
     Inl (ValueError ''Password byte length is outside the supported boundary'')"
  using utf8_length_bounds [of p]
  by (auto simp: create_credentials_def Let_def access_limits raise_if_def utf8_length_def
      split: if_splits)

section \<open>Local accounts (account.py)\<close>

datatype account_status = Account_ACTIVE | Account_DISABLED

record local_account =
  la_user_id :: pystr
  la_login_identifier :: pystr
  la_password_hash :: pystr
  la_status :: account_status
  la_password_version :: int

definition mk_local_account :: "local_account \<Rightarrow> exn + local_account" where
  "mk_local_account a =
     raise_if (list_ex blank [la_user_id a, la_login_identifier a, la_password_hash a])
       (ValueError ''Local account identifiers and password hash must not be blank'')
     (raise_if (la_password_version a < 1)
       (ValueError ''Password version must be positive'')
     (Inr a))"

definition register_account :: "ucd \<Rightarrow> pystr \<Rightarrow> pystr \<Rightarrow> pystr \<Rightarrow> exn + local_account" where
  "register_account U user_id login_identifier password_hash =
     (let normalized_identifier = casefold U (strip login_identifier)
      in mk_local_account
           \<lparr>la_user_id = user_id, la_login_identifier = normalized_identifier,
            la_password_hash = password_hash, la_status = Account_ACTIVE,
            la_password_version = 1\<rparr>)"

definition can_authenticate :: "local_account \<Rightarrow> bool" where
  "can_authenticate a \<longleftrightarrow> la_status a = Account_ACTIVE"

definition disable_account :: "local_account \<Rightarrow> exn + local_account" where
  "disable_account a = mk_local_account (a\<lparr>la_status := Account_DISABLED\<rparr>)"

definition replace_password :: "local_account \<Rightarrow> pystr \<Rightarrow> exn + local_account" where
  "replace_password a password_hash =
     mk_local_account (a\<lparr>la_password_hash := password_hash,
                         la_password_version := la_password_version a + 1\<rparr>)"

definition account_ok :: "local_account \<Rightarrow> bool" where
  "account_ok a \<longleftrightarrow> \<not> blank (la_user_id a) \<and> \<not> blank (la_login_identifier a)
     \<and> \<not> blank (la_password_hash a) \<and> 1 \<le> la_password_version a"

lemma mk_local_account_Inr [py_bind]: "mk_local_account a = Inr b \<longleftrightarrow> b = a \<and> account_ok a"
  by (auto simp: mk_local_account_def account_ok_def)

lemma mk_local_account_ok: "account_ok a \<Longrightarrow> mk_local_account a = Inr a"
  by (simp add: mk_local_account_Inr)

lemma disable_account_ok:
  "account_ok a \<Longrightarrow> disable_account a = Inr (a\<lparr>la_status := Account_DISABLED\<rparr>)"
  by (simp add: disable_account_def mk_local_account_Inr account_ok_def)

section \<open>Tenant memberships (membership.py)\<close>

datatype membership_status = Membership_ACTIVE | Membership_DISABLED

record tenant_membership =
  tm_membership_id :: pystr
  tm_user_id :: pystr
  tm_tenant_id :: pystr
  tm_roles :: "pystr set"
  tm_permissions :: "pystr set"
  tm_status :: membership_status

definition mk_tenant_membership :: "tenant_membership \<Rightarrow> exn + tenant_membership" where
  "mk_tenant_membership m =
     raise_if (list_ex blank [tm_membership_id m, tm_user_id m, tm_tenant_id m])
       (ValueError ''Tenant membership identifiers must not be blank'')
     (raise_if (\<exists>v \<in> tm_roles m \<union> tm_permissions m. blank v)
       (ValueError ''Role and permission codes must not be blank'')
     (Inr m))"

definition create_membership ::
  "pystr \<Rightarrow> pystr \<Rightarrow> pystr \<Rightarrow> pystr set \<Rightarrow> pystr set \<Rightarrow> exn + tenant_membership" where
  "create_membership membership_id user_id tenant_id roles permissions =
     mk_tenant_membership
       \<lparr>tm_membership_id = membership_id, tm_user_id = user_id, tm_tenant_id = tenant_id,
        tm_roles = roles, tm_permissions = permissions, tm_status = Membership_ACTIVE\<rparr>"

definition membership_active :: "tenant_membership \<Rightarrow> bool" where
  "membership_active m \<longleftrightarrow> tm_status m = Membership_ACTIVE"

definition disable_membership :: "tenant_membership \<Rightarrow> exn + tenant_membership" where
  "disable_membership m = mk_tenant_membership (m\<lparr>tm_status := Membership_DISABLED\<rparr>)"

lemma mk_tenant_membership_Inr [py_bind]:
  "mk_tenant_membership m = Inr n \<longleftrightarrow> n = m \<and>
     \<not> blank (tm_membership_id m) \<and> \<not> blank (tm_user_id m) \<and> \<not> blank (tm_tenant_id m) \<and>
     (\<forall>v \<in> tm_roles m \<union> tm_permissions m. \<not> blank v)"
  by (auto simp: mk_tenant_membership_def)

lemma lit_not_blank: "s \<noteq> [] \<Longrightarrow> \<not> is_space (of_char (hd s)) \<Longrightarrow> \<not> blank (lit s)"
  by (cases s) (auto simp: blank_iff lit_def)

lemma role_value_not_blank [simp]: "\<not> blank (role_value r)"
  by (cases r) (simp_all add: lit_not_blank is_space_def)

lemma permission_value_not_blank [simp]: "\<not> blank (permission_value p)"
  by (cases p) (simp_all add: lit_not_blank is_space_def)

lemma role_value_inj [simp]: "role_value r = role_value s \<longleftrightarrow> r = s"
  by (cases r; cases s) simp_all

section \<open>Refresh sessions (session.py)\<close>

record refresh_session =
  rs_session_id :: pystr
  rs_family_id :: pystr
  rs_user_id :: pystr
  rs_tenant_id :: pystr
  rs_token_digest :: pystr
  rs_issued_at :: datetime
  rs_idle_expires_at :: datetime
  rs_absolute_expires_at :: datetime
  rs_consumed_at :: "datetime option"
  rs_revoked_at :: "datetime option"

definition mk_refresh_session :: "refresh_session \<Rightarrow> exn + refresh_session" where
  "mk_refresh_session s =
     raise_if (list_ex blank [rs_session_id s, rs_family_id s, rs_user_id s, rs_tenant_id s,
                              rs_token_digest s])
       (ValueError ''Refresh-session identifiers must not be blank'')
     (raise_if (list_ex (\<lambda>t. \<not> is_aware t)
                 [rs_issued_at s, rs_idle_expires_at s, rs_absolute_expires_at s])
       (ValueError ''Refresh-session timestamps must be timezone-aware'')
     (bindE (dt_lt (rs_absolute_expires_at s) (rs_idle_expires_at s)) (\<lambda>late.
      raise_if late (ValueError ''Idle expiry must not exceed absolute expiry'')
     (Inr s))))"

definition validate_positive_ttl :: "timedelta \<Rightarrow> exn + unit" where
  "validate_positive_ttl v =
     raise_if (v \<le> 0) (ValueError ''Refresh-session TTL must be positive'') (Inr ())"

definition issue_session ::
  "pystr \<Rightarrow> pystr \<Rightarrow> pystr \<Rightarrow> pystr \<Rightarrow> pystr \<Rightarrow> datetime \<Rightarrow> timedelta \<Rightarrow> timedelta
    \<Rightarrow> exn + refresh_session" where
  "issue_session session_id family_id user_id tenant_id token_digest issued_at idle_ttl
      absolute_ttl =
     bindE (validate_positive_ttl idle_ttl) (\<lambda>_.
     bindE (validate_positive_ttl absolute_ttl) (\<lambda>_.
     bindE (dt_add issued_at absolute_ttl) (\<lambda>absolute_expires_at.
     bindE (dt_add issued_at idle_ttl) (\<lambda>idle.
     bindE (dt_min idle absolute_expires_at) (\<lambda>idle_expires_at.
     mk_refresh_session
       \<lparr>rs_session_id = session_id, rs_family_id = family_id, rs_user_id = user_id,
        rs_tenant_id = tenant_id, rs_token_digest = token_digest, rs_issued_at = issued_at,
        rs_idle_expires_at = idle_expires_at, rs_absolute_expires_at = absolute_expires_at,
        rs_consumed_at = None, rs_revoked_at = None\<rparr>)))))"

text \<open>
  \<open>rotate\<close>: the digest, the replay, then \<open>revoked or idle-expired or absolute-expired\<close>
  with Python's short-circuit \<open>or\<close>.
\<close>

definition rotate_session ::
  "refresh_session \<Rightarrow> pystr \<Rightarrow> pystr \<Rightarrow> pystr \<Rightarrow> datetime \<Rightarrow> timedelta
    \<Rightarrow> exn + refresh_session \<times> refresh_session" where
  "rotate_session s presented_digest replacement_session_id replacement_token_digest rotated_at
      idle_ttl =
     bindE (validate_positive_ttl idle_ttl) (\<lambda>_.
     bindE (compare_digest (rs_token_digest s) presented_digest) (\<lambda>same.
     raise_if (\<not> same) InvalidRefreshSessionError
     (raise_if (rs_consumed_at s \<noteq> None) (RefreshTokenReplayError (rs_family_id s))
     (raise_if (rs_revoked_at s \<noteq> None) InvalidRefreshSessionError
     (bindE (dt_ge rotated_at (rs_idle_expires_at s)) (\<lambda>idle_over.
      raise_if idle_over InvalidRefreshSessionError
     (bindE (dt_ge rotated_at (rs_absolute_expires_at s)) (\<lambda>absolute_over.
      raise_if absolute_over InvalidRefreshSessionError
     (bindE (mk_refresh_session (s\<lparr>rs_consumed_at := Some rotated_at\<rparr>)) (\<lambda>consumed.
      bindE (dt_add rotated_at idle_ttl) (\<lambda>idle.
      bindE (dt_min idle (rs_absolute_expires_at s)) (\<lambda>idle_expires_at.
      bindE (mk_refresh_session
        \<lparr>rs_session_id = replacement_session_id, rs_family_id = rs_family_id s,
         rs_user_id = rs_user_id s, rs_tenant_id = rs_tenant_id s,
         rs_token_digest = replacement_token_digest, rs_issued_at = rotated_at,
         rs_idle_expires_at = idle_expires_at,
         rs_absolute_expires_at = rs_absolute_expires_at s,
         rs_consumed_at = None, rs_revoked_at = None\<rparr>) (\<lambda>replacement.
      Inr (consumed, replacement))))))))))))))"

definition revoke_session :: "refresh_session \<Rightarrow> datetime \<Rightarrow> exn + refresh_session" where
  "revoke_session s revoked_at =
     (if rs_revoked_at s \<noteq> None then Inr s
      else mk_refresh_session (s\<lparr>rs_revoked_at := Some revoked_at\<rparr>))"

definition session_is_active :: "refresh_session \<Rightarrow> datetime \<Rightarrow> exn + bool" where
  "session_is_active s checked_at =
     (if rs_consumed_at s \<noteq> None then Inr False
      else if rs_revoked_at s \<noteq> None then Inr False
      else bindE (dt_lt checked_at (rs_idle_expires_at s)) (\<lambda>a.
        if \<not> a then Inr False else dt_lt checked_at (rs_absolute_expires_at s)))"

subsection \<open>The dataclass invariant and what each operation does to it\<close>

definition session_ok :: "refresh_session \<Rightarrow> bool" where
  "session_ok s \<longleftrightarrow>
     \<not> blank (rs_session_id s) \<and> \<not> blank (rs_family_id s) \<and> \<not> blank (rs_user_id s)
     \<and> \<not> blank (rs_tenant_id s) \<and> \<not> blank (rs_token_digest s)
     \<and> is_aware (rs_issued_at s) \<and> is_aware (rs_idle_expires_at s)
     \<and> is_aware (rs_absolute_expires_at s)
     \<and> instant (rs_idle_expires_at s) \<le> instant (rs_absolute_expires_at s)"

lemma mk_refresh_session_Inr [py_bind]:
  "mk_refresh_session s = Inr t \<longleftrightarrow> t = s \<and> session_ok s"
  by (auto simp: mk_refresh_session_def session_ok_def py_bind dt_lt_Inr)

lemma mk_refresh_session_ok [simp]: "session_ok s \<Longrightarrow> mk_refresh_session s = Inr s"
  by (simp add: mk_refresh_session_Inr)

lemma session_ok_update [simp]:
  "session_ok (s\<lparr>rs_consumed_at := c\<rparr>) = session_ok s"
  "session_ok (s\<lparr>rs_revoked_at := r\<rparr>) = session_ok s"
  by (simp_all add: session_ok_def)

lemma mk_refresh_session_error:
  "mk_refresh_session s = Inl e \<Longrightarrow> \<exists>m. e = ValueError m"
  by (auto simp: mk_refresh_session_def raise_if_def bindE_def dt_lt_def
      split: if_splits sum.splits)

text \<open>A session is live when it is neither consumed nor revoked.\<close>

definition live :: "refresh_session \<Rightarrow> bool" where
  "live s \<longleftrightarrow> rs_consumed_at s = None \<and> rs_revoked_at s = None"

lemma session_is_active_iff:
  "session_ok s \<Longrightarrow> is_aware now \<Longrightarrow>
   session_is_active s now = Inr (live s \<and> instant now < instant (rs_idle_expires_at s))"
  by (auto simp: session_is_active_def live_def session_ok_def)

lemma session_is_active_Inr_True:
  "session_is_active s now = Inr True \<Longrightarrow>
   live s \<and> instant now < instant (rs_idle_expires_at s)
   \<and> instant now < instant (rs_absolute_expires_at s)"
  by (auto simp: session_is_active_def live_def py_bind dt_lt_Inr split: if_splits)

lemma validate_positive_ttl_Inr [py_bind]: "validate_positive_ttl v = Inr u \<longleftrightarrow> 0 < v"
  by (auto simp: validate_positive_ttl_def)

lemma compare_digest_Inr [py_bind]:
  "compare_digest a b = Inr r \<longleftrightarrow> is_ascii a \<and> is_ascii b \<and> r = (a = b)"
  by (auto simp: compare_digest_def)

lemma dt_min_Inr [py_bind]:
  "dt_min a b = Inr r \<longleftrightarrow> is_aware a = is_aware b \<and> r = (if instant b < instant a then b else a)"
  by (auto simp: dt_min_def py_bind dt_lt_Inr)

lemma issue_session_Inr:
  assumes "issue_session sid fid uid tid dig now idle absl = Inr s"
  shows "session_ok s \<and> live s \<and> 0 < idle \<and> 0 < absl
    \<and> rs_session_id s = sid \<and> rs_family_id s = fid \<and> rs_user_id s = uid
    \<and> rs_tenant_id s = tid \<and> rs_token_digest s = dig \<and> rs_issued_at s = now
    \<and> instant (rs_absolute_expires_at s) = instant now + absl
    \<and> instant (rs_idle_expires_at s) = instant now + min idle absl"
  using assms
  by (auto simp: issue_session_def py_bind live_def min_def)

lemma rotate_session_Inr:
  assumes "rotate_session s d sid dig now idle = Inr (c, r)"
  shows "rs_token_digest s = d \<and> live s \<and> is_aware now \<and> 0 < idle
    \<and> c = s\<lparr>rs_consumed_at := Some now\<rparr> \<and> session_ok s
    \<and> session_ok r \<and> live r
    \<and> instant now < instant (rs_idle_expires_at s)
    \<and> rs_session_id r = sid \<and> rs_token_digest r = dig
    \<and> rs_family_id r = rs_family_id s \<and> rs_user_id r = rs_user_id s
    \<and> rs_tenant_id r = rs_tenant_id s \<and> rs_issued_at r = now
    \<and> rs_absolute_expires_at r = rs_absolute_expires_at s
    \<and> instant (rs_idle_expires_at r)
        = min (instant now + idle) (instant (rs_absolute_expires_at s))"
  using assms
  by (auto simp: rotate_session_def py_bind dt_ge_Inr live_def session_ok_def)

lemma dt_ge_Inl: "dt_ge a b = Inl e \<Longrightarrow> \<exists>m. e = TypeError m"
  by (auto simp: dt_ge_def dt_lt_def split: if_splits)

lemma dt_min_Inl: "dt_min a b = Inl e \<Longrightarrow> \<exists>m. e = TypeError m"
  by (auto simp: dt_min_def dt_lt_def bindE_def split: if_splits)

lemma rotate_session_fresh_not_replay:
  assumes "rs_consumed_at s = None"
  shows "rotate_session s d sid dig now idle \<noteq> Inl (RefreshTokenReplayError f)"
proof
  assume "rotate_session s d sid dig now idle = Inl (RefreshTokenReplayError f)"
  then show False
    using assms
    by (auto simp: rotate_session_def py_bind validate_positive_ttl_def compare_digest_def
        dest: dt_ge_Inl dt_min_Inl mk_refresh_session_error dt_add_Inl split: if_splits)
qed

lemma rotate_session_replay_iff:
  "rotate_session s d sid dig now idle = Inl (RefreshTokenReplayError f) \<longleftrightarrow>
     0 < idle \<and> is_ascii d \<and> rs_token_digest s = d \<and> rs_consumed_at s \<noteq> None
     \<and> f = rs_family_id s"
proof (cases "rs_consumed_at s = None")
  case True
  then show ?thesis using rotate_session_fresh_not_replay by blast
next
  case False
  then show ?thesis
    by (auto simp: rotate_session_def raise_if_def bindE_def validate_positive_ttl_def
        compare_digest_def)
qed

end
