(* ===== verification/IdentityStore.thy ===== *)
theory IdentityStore
  imports IdentityDomain
begin

text \<open>
  Identity persistence: the tables of \<open>modules/identity/infrastructure/models.py\<close> with
  their constraints, the queries and writes of \<open>SqlAlchemyIdentityReader\<close>
  (\<open>repository.py\<close>), and the unit of work of one database transaction.  The sessions
  are created with \<open>autoflush=False\<close>: an added or modified ORM object reaches the tables
  at the next \<open>flush\<close> or at the commit, a bulk \<open>UPDATE\<close> at once.  Row locks
  (\<open>with_for_update\<close>) make concurrent rotations sequential; the model runs them so.
\<close>

section \<open>Tables\<close>

record membership_row =
  mr_membership_id :: pystr
  mr_user_id :: pystr
  mr_tenant_id :: pystr
  mr_status :: membership_status

record role_row =
  ro_role_id :: pystr
  ro_tenant_id :: pystr
  ro_role_code :: pystr

record identity_db =
  db_accounts :: "local_account list"
  db_memberships :: "membership_row list"
  db_permissions :: "pystr list"
  db_roles :: "role_row list"
  db_role_permissions :: "(pystr \<times> pystr) list"
  db_membership_roles :: "(pystr \<times> pystr) list"
  db_sessions :: "refresh_session list"

definition ID_LENGTH :: nat where "ID_LENGTH = 64"
definition LOGIN_IDENTIFIER_LENGTH :: nat where "LOGIN_IDENTIFIER_LENGTH = 320"
definition TOKEN_DIGEST_LENGTH :: nat where "TOKEN_DIGEST_LENGTH = 64"

text \<open>The insertions, with what PostgreSQL checks: column length, check, unique, foreign key.\<close>

definition insert_account :: "local_account \<Rightarrow> identity_db \<Rightarrow> exn + identity_db" where
  "insert_account a db =
     raise_if (length (la_user_id a) > ID_LENGTH
               \<or> length (la_login_identifier a) > LOGIN_IDENTIFIER_LENGTH) DataError
     (raise_if (la_password_version a < 1)
       (IntegrityError (CheckViolation ''password_version_positive''))
     (raise_if (la_user_id a \<in> la_user_id ` set (db_accounts db))
       (IntegrityError (UniqueViolation ''pk_identity_account''))
     (raise_if (la_login_identifier a \<in> la_login_identifier ` set (db_accounts db))
       (IntegrityError (UniqueViolation ''uq_identity_account_login_identifier''))
     (Inr (db\<lparr>db_accounts := db_accounts db @ [a]\<rparr>)))))"

definition insert_membership :: "membership_row \<Rightarrow> identity_db \<Rightarrow> exn + identity_db" where
  "insert_membership m db =
     raise_if (length (mr_membership_id m) > ID_LENGTH \<or> length (mr_tenant_id m) > ID_LENGTH
               \<or> length (mr_user_id m) > ID_LENGTH) DataError
     (raise_if (mr_membership_id m \<in> mr_membership_id ` set (db_memberships db))
       (IntegrityError (UniqueViolation ''pk_tenant_membership''))
     (raise_if ((mr_user_id m, mr_tenant_id m)
                  \<in> (\<lambda>r. (mr_user_id r, mr_tenant_id r)) ` set (db_memberships db))
       (IntegrityError (UniqueViolation ''uq_tenant_membership_user_tenant''))
     (raise_if (mr_user_id m \<notin> la_user_id ` set (db_accounts db))
       (IntegrityError (ForeignKeyViolation ''identity_account.user_id''))
     (Inr (db\<lparr>db_memberships := db_memberships db @ [m]\<rparr>)))))"

definition insert_membership_role :: "pystr \<times> pystr \<Rightarrow> identity_db \<Rightarrow> exn + identity_db" where
  "insert_membership_role mr db =
     raise_if (length (fst mr) > ID_LENGTH \<or> length (snd mr) > ID_LENGTH) DataError
     (raise_if (mr \<in> set (db_membership_roles db))
       (IntegrityError (UniqueViolation ''pk_membership_role''))
     (raise_if (fst mr \<notin> mr_membership_id ` set (db_memberships db))
       (IntegrityError (ForeignKeyViolation ''tenant_membership.membership_id''))
     (raise_if (snd mr \<notin> ro_role_id ` set (db_roles db))
       (IntegrityError (ForeignKeyViolation ''role.role_id''))
     (Inr (db\<lparr>db_membership_roles := db_membership_roles db @ [mr]\<rparr>)))))"

definition insert_session :: "refresh_session \<Rightarrow> identity_db \<Rightarrow> exn + identity_db" where
  "insert_session s db =
     raise_if (list_ex (\<lambda>v. length v > ID_LENGTH)
                 [rs_session_id s, rs_family_id s, rs_user_id s, rs_tenant_id s]
               \<or> length (rs_token_digest s) > TOKEN_DIGEST_LENGTH) DataError
     (raise_if (rs_session_id s \<in> rs_session_id ` set (db_sessions db))
       (IntegrityError (UniqueViolation ''pk_refresh_session''))
     (raise_if (rs_token_digest s \<in> rs_token_digest ` set (db_sessions db))
       (IntegrityError (UniqueViolation ''uq_refresh_session_token_digest''))
     (raise_if (rs_user_id s \<notin> la_user_id ` set (db_accounts db))
       (IntegrityError (ForeignKeyViolation ''identity_account.user_id''))
     (Inr (db\<lparr>db_sessions := db_sessions db @ [s]\<rparr>)))))"

lemma insert_session_Inr [py_bind]:
  "insert_session s db = Inr db' \<longleftrightarrow>
     db' = db\<lparr>db_sessions := db_sessions db @ [s]\<rparr>
     \<and> (length (rs_session_id s) \<le> 64 \<and> length (rs_family_id s) \<le> 64
        \<and> length (rs_user_id s) \<le> 64 \<and> length (rs_tenant_id s) \<le> 64
        \<and> length (rs_token_digest s) \<le> 64)
     \<and> rs_session_id s \<notin> rs_session_id ` set (db_sessions db)
     \<and> rs_token_digest s \<notin> rs_token_digest ` set (db_sessions db)
     \<and> rs_user_id s \<in> la_user_id ` set (db_accounts db)"
  by (auto simp: insert_session_def ID_LENGTH_def TOKEN_DIGEST_LENGTH_def)

section \<open>Queries\<close>

definition get_account :: "identity_db \<Rightarrow> pystr \<Rightarrow> exn + local_account option" where
  "get_account db user_id =
     bindE (scalar_one_or_none (filter (\<lambda>a. la_user_id a = user_id) (db_accounts db)))
       (\<lambda>model. case model of None \<Rightarrow> Inr None
                  | Some a \<Rightarrow> map_sum id Some (mk_local_account a))"

definition get_account_by_login :: "identity_db \<Rightarrow> pystr \<Rightarrow> exn + local_account option" where
  "get_account_by_login db login_identifier =
     bindE (scalar_one_or_none
              (filter (\<lambda>a. la_login_identifier a = login_identifier) (db_accounts db)))
       (\<lambda>model. case model of None \<Rightarrow> Inr None
                  | Some a \<Rightarrow> map_sum id Some (mk_local_account a))"

text \<open>The joins of \<open>get_membership\<close>: role codes, and permission codes through the roles.\<close>

definition membership_role_codes :: "identity_db \<Rightarrow> membership_row \<Rightarrow> pystr list" where
  "membership_role_codes db m =
     [ro_role_code r. r \<leftarrow> db_roles db, mr \<leftarrow> db_membership_roles db,
        snd mr = ro_role_id r \<and> fst mr = mr_membership_id m \<and> ro_tenant_id r = mr_tenant_id m]"

definition membership_permission_codes :: "identity_db \<Rightarrow> membership_row \<Rightarrow> pystr list" where
  "membership_permission_codes db m =
     remdups [p. p \<leftarrow> db_permissions db, rp \<leftarrow> db_role_permissions db,
                 mr \<leftarrow> db_membership_roles db, r \<leftarrow> db_roles db,
                 snd rp = p \<and> snd mr = fst rp \<and> ro_role_id r = snd mr
                 \<and> fst mr = mr_membership_id m \<and> ro_tenant_id r = mr_tenant_id m]"

definition get_membership :: "identity_db \<Rightarrow> pystr \<Rightarrow> pystr \<Rightarrow> exn + tenant_membership option" where
  "get_membership db user_id tenant_id =
     bindE (scalar_one_or_none
              (filter (\<lambda>m. mr_user_id m = user_id \<and> mr_tenant_id m = tenant_id)
                 (db_memberships db)))
       (\<lambda>model. case model of None \<Rightarrow> Inr None
          | Some m \<Rightarrow> map_sum id Some (mk_tenant_membership
              \<lparr>tm_membership_id = mr_membership_id m, tm_user_id = mr_user_id m,
               tm_tenant_id = mr_tenant_id m,
               tm_roles = set (membership_role_codes db m),
               tm_permissions = set (membership_permission_codes db m),
               tm_status = mr_status m\<rparr>))"

definition get_session :: "identity_db \<Rightarrow> pystr \<Rightarrow> exn + refresh_session option" where
  "get_session db session_id =
     bindE (scalar_one_or_none (filter (\<lambda>s. rs_session_id s = session_id) (db_sessions db)))
       (\<lambda>model. case model of None \<Rightarrow> Inr None
                  | Some s \<Rightarrow> map_sum id Some (mk_refresh_session s))"

section \<open>The unit of work of one transaction\<close>

record identity_uow =
  uow_db :: identity_db
  uow_dirty :: "(pystr \<times> datetime) list"
  uow_new :: "refresh_session list"

type_synonym 'a identity_op = "(identity_uow, 'a) stateful"

definition queryS :: "(identity_db \<Rightarrow> exn + 'a) \<Rightarrow> 'a identity_op" where
  "queryS q = (\<lambda>u. (q (uow_db u), u))"

lemma queryS_apply [simp]: "queryS q u = (q (uow_db u), u)"
  by (simp add: queryS_def)

definition consume_rows ::
  "(pystr \<times> datetime) list \<Rightarrow> refresh_session list \<Rightarrow> refresh_session list" where
  "consume_rows dirty ss =
     map (\<lambda>s. case map_of dirty (rs_session_id s) of
               None \<Rightarrow> s | Some t \<Rightarrow> s\<lparr>rs_consumed_at := Some t\<rparr>) ss"

fun insert_sessions :: "refresh_session list \<Rightarrow> identity_db \<Rightarrow> exn + identity_db" where
  "insert_sessions [] db = Inr db"
| "insert_sessions (s # ss) db = bindE (insert_session s db) (insert_sessions ss)"

text \<open>\<open>session.flush()\<close>: the modified rows are written first, then the added ones.\<close>

definition flush :: "unit identity_op" where
  "flush u =
     (case insert_sessions (uow_new u)
             ((uow_db u)\<lparr>db_sessions := consume_rows (uow_dirty u) (db_sessions (uow_db u))\<rparr>) of
        Inl e \<Rightarrow> (Inl e, u)
      | Inr db \<Rightarrow> (Inr (), \<lparr>uow_db = db, uow_dirty = [], uow_new = []\<rparr>))"

text \<open>
  One transaction: the body, then the commit (which flushes); an exception in either
  leaves the committed tables as they were.
\<close>

definition begin_uow :: "identity_db \<Rightarrow> identity_uow" where
  "begin_uow db = \<lparr>uow_db = db, uow_dirty = [], uow_new = []\<rparr>"

definition run_transaction :: "'a identity_op \<Rightarrow> identity_db \<Rightarrow> (exn + 'a) \<times> identity_db" where
  "run_transaction body db =
     (case bindS body (\<lambda>x. bindS flush (\<lambda>_. retS x)) (begin_uow db) of
        (Inl e, u) \<Rightarrow> (Inl e, db)
      | (Inr x, u) \<Rightarrow> (Inr x, uow_db u))"

lemma run_transaction_Inl: "run_transaction body db = (Inl e, db') \<Longrightarrow> db' = db"
  by (auto simp: run_transaction_def split: prod.splits sum.splits)

lemma run_transaction_Inr:
  "run_transaction body db = (Inr x, db') \<longleftrightarrow>
     (\<exists>u v. body (begin_uow db) = (Inr x, u) \<and> flush u = (Inr (), v) \<and> db' = uow_db v)"
  by (auto simp: run_transaction_def bindS_def retS_def split: prod.splits sum.splits)

lemma flush_Inr:
  "flush u = (Inr y, v) \<longleftrightarrow>
     (\<exists>db. insert_sessions (uow_new u)
        ((uow_db u)\<lparr>db_sessions := consume_rows (uow_dirty u) (db_sessions (uow_db u))\<rparr>) = Inr db
      \<and> v = \<lparr>uow_db = db, uow_dirty = [], uow_new = []\<rparr>)"
  by (auto simp: flush_def split: sum.splits)

lemma consume_rows_Nil [simp]: "consume_rows [] ss = ss"
  by (simp add: consume_rows_def)

lemma consume_rows_single:
  "consume_rows [(k, t)] ss =
     map (\<lambda>s. if rs_session_id s = k then s\<lparr>rs_consumed_at := Some t\<rparr> else s) ss"
  by (simp add: consume_rows_def)

section \<open>Writes\<close>

definition update_password_hash :: "local_account \<Rightarrow> unit identity_op" where
  "update_password_hash account u =
     (Inr (), u\<lparr>uow_db := (uow_db u)\<lparr>db_accounts :=
        map (\<lambda>a. if la_user_id a = la_user_id account
                  then a\<lparr>la_password_hash := la_password_hash account,
                         la_password_version := la_password_version account\<rparr>
                  else a) (db_accounts (uow_db u))\<rparr>\<rparr>)"

definition add_refresh_session :: "refresh_session \<Rightarrow> unit identity_op" where
  "add_refresh_session s u = (Inr (), u\<lparr>uow_new := uow_new u @ [s]\<rparr>)"

definition manager_exists_for_update :: "pystr \<Rightarrow> bool identity_op" where
  "manager_exists_for_update tenant_id =
     queryS (\<lambda>db. bindE
       (scalar_one_or_none (filter (\<lambda>r. ro_tenant_id r = tenant_id
                                       \<and> ro_role_code r = role_value MANAGER) (db_roles db)))
       (\<lambda>role. case role of
          None \<Rightarrow> Inl (RuntimeError ''Required manager role has not been migrated'')
        | Some r \<Rightarrow> Inr (take 1 [fst mr. mr \<leftarrow> db_membership_roles db, m \<leftarrow> db_memberships db,
              mr_membership_id m = fst mr \<and> snd mr = ro_role_id r
              \<and> mr_tenant_id m = tenant_id] \<noteq> [])))"

record registration_record =
  rr_account :: local_account
  rr_membership :: tenant_membership
  rr_role :: identity_role

text \<open>Each \<open>add\<close> is flushed at once; a unique violation becomes a business conflict.\<close>

definition as_conflict :: "exn \<Rightarrow> exn" where
  "as_conflict e =
     (case e of IntegrityError (UniqueViolation c) \<Rightarrow> BidError BusinessConflictError None
        | _ \<Rightarrow> e)"

definition add_registration :: "registration_record \<Rightarrow> unit identity_op" where
  "add_registration rec u =
     (case bindE (scalar_one_or_none
                   [ro_role_id r. r \<leftarrow> db_roles (uow_db u),
                      ro_tenant_id r = tm_tenant_id (rr_membership rec)
                      \<and> ro_role_code r = role_value (rr_role rec)])
            (\<lambda>role. case role of
               None \<Rightarrow> Inl (RuntimeError ''Required identity role has not been migrated'')
             | Some role_id \<Rightarrow>
                 map_sum as_conflict id
                  (bindE (insert_account (rr_account rec) (uow_db u)) (\<lambda>db1.
                   bindE (insert_membership
                     \<lparr>mr_membership_id = tm_membership_id (rr_membership rec),
                      mr_user_id = tm_user_id (rr_membership rec),
                      mr_tenant_id = tm_tenant_id (rr_membership rec),
                      mr_status = tm_status (rr_membership rec)\<rparr> db1) (\<lambda>db2.
                   insert_membership_role (tm_membership_id (rr_membership rec), role_id) db2))))
       of Inl e \<Rightarrow> (Inl e, u) | Inr db \<Rightarrow> (Inr (), u\<lparr>uow_db := db\<rparr>))"

datatype rotation_status = ROTATED | INVALID | REPLAY_REVOKED

record rotation_result =
  rot_status :: rotation_status
  rot_session :: "refresh_session option"

definition revoke_family :: "pystr \<Rightarrow> datetime \<Rightarrow> refresh_session list \<Rightarrow> refresh_session list" where
  "revoke_family family_id revoked_at ss =
     map (\<lambda>s. if rs_family_id s = family_id \<and> rs_revoked_at s = None
               then s\<lparr>rs_revoked_at := Some revoked_at\<rparr> else s) ss"

definition update_sessions ::
  "(refresh_session list \<Rightarrow> refresh_session list) \<Rightarrow> identity_uow \<Rightarrow> identity_uow" where
  "update_sessions f u =
     u\<lparr>uow_db := (uow_db u)\<lparr>db_sessions := f (db_sessions (uow_db u))\<rparr>\<rparr>"

definition rotate_refresh_session ::
  "pystr \<Rightarrow> pystr \<Rightarrow> pystr \<Rightarrow> datetime \<Rightarrow> timedelta \<Rightarrow> rotation_result identity_op" where
  "rotate_refresh_session presented_digest replacement_session_id replacement_digest rotated_at
      idle_ttl =
     bindS (queryS (\<lambda>db. scalar_one_or_none
              (filter (\<lambda>s. rs_token_digest s = presented_digest) (db_sessions db))))
       (\<lambda>model. case model of
          None \<Rightarrow> retS \<lparr>rot_status = INVALID, rot_session = None\<rparr>
        | Some row \<Rightarrow>
            bindS (liftS (mk_refresh_session row)) (\<lambda>current u.
              case rotate_session current presented_digest replacement_session_id
                     replacement_digest rotated_at idle_ttl of
                Inl (RefreshTokenReplayError f) \<Rightarrow>
                  (Inr \<lparr>rot_status = REPLAY_REVOKED, rot_session = None\<rparr>,
                   update_sessions (revoke_family (rs_family_id current) rotated_at) u)
              | Inl InvalidRefreshSessionError \<Rightarrow>
                  (Inr \<lparr>rot_status = INVALID, rot_session = None\<rparr>, u)
              | Inl e \<Rightarrow> (Inl e, u)
              | Inr (consumed, replacement) \<Rightarrow>
                  bindS (add_refresh_session replacement)
                    (\<lambda>_. retS \<lparr>rot_status = ROTATED, rot_session = Some replacement\<rparr>)
                    (u\<lparr>uow_dirty := (rs_session_id row, rotated_at) # uow_dirty u\<rparr>)))"

definition revoke_refresh_family_by_digest :: "pystr \<Rightarrow> datetime \<Rightarrow> bool identity_op" where
  "revoke_refresh_family_by_digest token_digest revoked_at =
     bindS (queryS (\<lambda>db. scalar_one_or_none
              [rs_family_id s. s \<leftarrow> db_sessions db, rs_token_digest s = token_digest]))
       (\<lambda>family u. case family of
          None \<Rightarrow> (Inr False, u)
        | Some family_id \<Rightarrow>
            (Inr True, update_sessions (revoke_family family_id revoked_at) u))"

end
