(* ===== verification/SessionFamilies.thy ===== *)
theory SessionFamilies
  imports IdentityStore
begin

text \<open>
  What the refresh-session store promises its clients.  \<open>family_step\<close> is the abstract
  specification of the session table: a family is opened with one session, a live session
  is replaced by its successor, a family is revoked as a whole.  The locale
  \<open>session_store\<close> is the port \<open>RefreshSessionStore\<close> with its laws; it is interpreted on
  the transactions over the SQL model, which therefore refine the specification.
\<close>

section \<open>The specification of the session table\<close>

definition consume_session ::
  "pystr \<Rightarrow> datetime \<Rightarrow> refresh_session list \<Rightarrow> refresh_session list" where
  "consume_session k t ss =
     map (\<lambda>s. if rs_session_id s = k then s\<lparr>rs_consumed_at := Some t\<rparr> else s) ss"

definition fresh_in :: "refresh_session list \<Rightarrow> refresh_session \<Rightarrow> bool" where
  "fresh_in ss r \<longleftrightarrow> rs_session_id r \<notin> rs_session_id ` set ss
     \<and> rs_token_digest r \<notin> rs_token_digest ` set ss"

inductive family_step :: "refresh_session list \<Rightarrow> refresh_session list \<Rightarrow> bool" where
  stutter: "family_step ss ss"
| open_family: "issue_session sid fid uid tid dig now idle absl = Inr s \<Longrightarrow> fresh_in ss s \<Longrightarrow>
     fid \<notin> rs_family_id ` set ss \<Longrightarrow> family_step ss (ss @ [s])"
| rotate: "s \<in> set ss \<Longrightarrow> rotate_session s d sid dig now idle = Inr (c, r) \<Longrightarrow> fresh_in ss r \<Longrightarrow>
     family_step ss (consume_session (rs_session_id s) now ss @ [r])"
| revoke: "family_step ss (revoke_family f now ss)"

inductive_cases family_stepE: "family_step ss ss'"

inductive family_reachable :: "refresh_session list \<Rightarrow> refresh_session list \<Rightarrow> bool" where
  none: "family_reachable ss ss"
| step: "family_reachable ss ss' \<Longrightarrow> family_step ss' ss'' \<Longrightarrow> family_reachable ss ss''"

lemma family_reachable_one: "family_step ss ss' \<Longrightarrow> family_reachable ss ss'"
  by (rule family_reachable.step [OF family_reachable.none])

lemma family_reachable_trans:
  "family_reachable ss' ss'' \<Longrightarrow> family_reachable ss ss' \<Longrightarrow> family_reachable ss ss''"
  by (induction rule: family_reachable.induct) (auto intro: family_reachable.step)

section \<open>The invariant of the table\<close>

text \<open>
  Keys are unique, every row satisfies the dataclass invariant, a family belongs to one
  user, one tenant and one absolute expiry, and at most one session of a family is live.
\<close>

definition same_lineage :: "refresh_session \<Rightarrow> refresh_session \<Rightarrow> bool" where
  "same_lineage a b \<longleftrightarrow> rs_user_id a = rs_user_id b \<and> rs_tenant_id a = rs_tenant_id b
     \<and> rs_absolute_expires_at a = rs_absolute_expires_at b"

definition families_ok :: "refresh_session list \<Rightarrow> bool" where
  "families_ok ss \<longleftrightarrow>
     distinct (map rs_session_id ss) \<and> distinct (map rs_token_digest ss)
     \<and> (\<forall>s\<in>set ss. session_ok s)
     \<and> (\<forall>a\<in>set ss. \<forall>b\<in>set ss. rs_family_id a = rs_family_id b \<longrightarrow> same_lineage a b)
     \<and> (\<forall>a\<in>set ss. \<forall>b\<in>set ss. rs_family_id a = rs_family_id b \<longrightarrow> live a \<longrightarrow> live b \<longrightarrow> a = b)"

lemma same_lineage_update [simp]:
  "same_lineage (a\<lparr>rs_consumed_at := x\<rparr>) b = same_lineage a b"
  "same_lineage a (b\<lparr>rs_consumed_at := x\<rparr>) = same_lineage a b"
  "same_lineage (a\<lparr>rs_revoked_at := y\<rparr>) b = same_lineage a b"
  "same_lineage a (b\<lparr>rs_revoked_at := y\<rparr>) = same_lineage a b"
  by (simp_all add: same_lineage_def)

lemma live_update [simp]:
  "\<not> live (a\<lparr>rs_consumed_at := Some x\<rparr>)"
  "\<not> live (a\<lparr>rs_revoked_at := Some y\<rparr>)"
  by (simp_all add: live_def)

lemma families_ok_empty [simp]: "families_ok []"
  by (simp add: families_ok_def)

lemma map_key_consume [simp]:
  "map rs_session_id (consume_session k t ss) = map rs_session_id ss"
  "map rs_token_digest (consume_session k t ss) = map rs_token_digest ss"
  "map rs_family_id (consume_session k t ss) = map rs_family_id ss"
  by (simp_all add: consume_session_def)

lemma map_key_revoke [simp]:
  "map rs_session_id (revoke_family f t ss) = map rs_session_id ss"
  "map rs_token_digest (revoke_family f t ss) = map rs_token_digest ss"
  "map rs_family_id (revoke_family f t ss) = map rs_family_id ss"
  by (simp_all add: revoke_family_def)

lemma families_ok_open:
  assumes ok: "families_ok ss" and iss: "issue_session sid fid uid tid dig now idle absl = Inr s"
    and fresh: "fresh_in ss s" and fam: "fid \<notin> rs_family_id ` set ss"
  shows "families_ok (ss @ [s])"
proof -
  have s: "session_ok s" "rs_family_id s = fid" using issue_session_Inr [OF iss] by auto
  have other: "rs_family_id a \<noteq> rs_family_id s" if "a \<in> set ss" for a
    using that fam s by (metis image_eqI)
  have mem: "a = s \<and> b = s \<or> a \<in> set ss \<and> b \<in> set ss"
    if "a \<in> set (ss @ [s])" "b \<in> set (ss @ [s])" "rs_family_id a = rs_family_id b" for a b
    using that other by (metis Un_iff empty_iff insert_iff list.set set_append)
  have "distinct (map rs_session_id (ss @ [s]))" "distinct (map rs_token_digest (ss @ [s]))"
    using ok fresh by (simp_all add: families_ok_def fresh_in_def)
  moreover have "\<forall>a\<in>set (ss @ [s]). session_ok a" using ok s by (simp add: families_ok_def)
  moreover have "same_lineage a b \<and> (live a \<longrightarrow> live b \<longrightarrow> a = b)"
    if "a \<in> set (ss @ [s])" "b \<in> set (ss @ [s])" "rs_family_id a = rs_family_id b" for a b
    using mem [OF that] ok that(3) unfolding families_ok_def by (auto simp: same_lineage_def)
  ultimately show ?thesis unfolding families_ok_def by blast
qed

text \<open>Updating rows in a way that keeps keys, lineage and validity and revives nothing.\<close>

definition row_update_ok :: "(refresh_session \<Rightarrow> refresh_session) \<Rightarrow> bool" where
  "row_update_ok g \<longleftrightarrow>
     (\<forall>s. rs_session_id (g s) = rs_session_id s \<and> rs_token_digest (g s) = rs_token_digest s
        \<and> rs_family_id (g s) = rs_family_id s \<and> (session_ok s \<longrightarrow> session_ok (g s))
        \<and> same_lineage (g s) s \<and> (live (g s) \<longrightarrow> g s = s))"

lemma same_lineage_trans: "same_lineage a b \<Longrightarrow> same_lineage b c \<Longrightarrow> same_lineage a c"
  by (simp add: same_lineage_def)

lemma same_lineage_sym: "same_lineage a b \<Longrightarrow> same_lineage b a"
  by (simp add: same_lineage_def)

lemma same_lineage_refl [simp]: "same_lineage a a"
  by (simp add: same_lineage_def)

lemma row_update_consume:
  "row_update_ok (\<lambda>s. if rs_session_id s = k then s\<lparr>rs_consumed_at := Some t\<rparr> else s)"
  by (simp add: row_update_ok_def)

lemma row_update_revoke:
  "row_update_ok (\<lambda>s. if rs_family_id s = f \<and> rs_revoked_at s = None
                        then s\<lparr>rs_revoked_at := Some t\<rparr> else s)"
  by (simp add: row_update_ok_def)

lemma families_ok_map:
  assumes g: "row_update_ok g" and ok: "families_ok ss"
  shows "families_ok (map g ss)"
proof -
  note G = g [unfolded row_update_ok_def, rule_format]
  have keys: "map rs_session_id (map g ss) = map rs_session_id ss"
    "map rs_token_digest (map g ss) = map rs_token_digest ss"
    using G by simp_all
  have "same_lineage (g a) (g b)"
    if "a \<in> set ss" "b \<in> set ss" "rs_family_id (g a) = rs_family_id (g b)" for a b
    using that ok G unfolding families_ok_def
    by (metis same_lineage_sym same_lineage_trans)
  moreover have "g a = g b"
    if "a \<in> set ss" "b \<in> set ss" "rs_family_id (g a) = rs_family_id (g b)"
      "live (g a)" "live (g b)" for a b
    using that ok G unfolding families_ok_def by metis
  moreover have "\<forall>s\<in>set ss. session_ok (g s)" using ok G by (simp add: families_ok_def)
  ultimately show ?thesis
    using ok unfolding families_ok_def keys by (simp add: families_ok_def)
qed

lemma families_ok_revoke: "families_ok ss \<Longrightarrow> families_ok (revoke_family f t ss)"
  unfolding revoke_family_def by (intro families_ok_map row_update_revoke)

lemma families_ok_consume: "families_ok ss \<Longrightarrow> families_ok (consume_session k t ss)"
  unfolding consume_session_def by (intro families_ok_map row_update_consume)

lemma consume_session_member:
  "x \<in> set (consume_session k t ss) \<Longrightarrow>
     \<exists>y\<in>set ss. x = (if rs_session_id y = k then y\<lparr>rs_consumed_at := Some t\<rparr> else y)"
  by (auto simp: consume_session_def)

lemma families_ok_rotate:
  assumes ok: "families_ok ss" and s: "s \<in> set ss"
    and rot: "rotate_session s d sid dig now idle = Inr (c, r)" and fresh: "fresh_in ss r"
  shows "families_ok (consume_session (rs_session_id s) now ss @ [r])"
proof -
  let ?cs = "consume_session (rs_session_id s) now ss"
  note R = rotate_session_Inr [OF rot]
  have okc: "families_ok ?cs" using ok by (rule families_ok_consume)
  have dist: "distinct (map rs_session_id ss)" using ok by (simp add: families_ok_def)
  have dead: "\<not> live x" and lin: "same_lineage x r"
    if x: "x \<in> set ?cs" "rs_family_id x = rs_family_id r" for x
  proof -
    obtain y where y: "y \<in> set ss"
      and xy: "x = (if rs_session_id y = rs_session_id s then y\<lparr>rs_consumed_at := Some now\<rparr> else y)"
      using consume_session_member [OF x(1)] by blast
    have fam: "rs_family_id y = rs_family_id s" using x(2) R xy by (simp split: if_splits)
    have "same_lineage y s" using ok y s fam by (simp add: families_ok_def)
    then show "same_lineage x r" using R xy by (simp add: same_lineage_def)
    show "\<not> live x"
    proof
      assume "live x"
      then have "rs_session_id y \<noteq> rs_session_id s" "live y" using xy by (auto split: if_splits)
      then have "y = s" using ok y s fam R unfolding families_ok_def by blast
      with \<open>rs_session_id y \<noteq> rs_session_id s\<close> show False by simp
    qed
  qed
  have keys: "distinct (map rs_session_id (?cs @ [r]))" "distinct (map rs_token_digest (?cs @ [r]))"
    using okc fresh unfolding families_ok_def fresh_in_def
    by (simp_all flip: set_map)
  have "same_lineage a b \<and> (live a \<longrightarrow> live b \<longrightarrow> a = b)"
    if ab: "a \<in> set (?cs @ [r])" "b \<in> set (?cs @ [r])" "rs_family_id a = rs_family_id b" for a b
  proof (cases "a = r \<or> b = r")
    case True
    then show ?thesis
    proof
      assume "a = r"
      then show ?thesis using dead [of b] lin [of b] ab by (auto intro: same_lineage_sym)
    next
      assume "b = r"
      then show ?thesis using dead [of a] lin [of a] ab by auto
    qed
  next
    case False
    then show ?thesis using ab okc unfolding families_ok_def by simp
  qed
  moreover have "\<forall>a\<in>set (?cs @ [r]). session_ok a" using okc R by (simp add: families_ok_def)
  ultimately show ?thesis using keys unfolding families_ok_def by blast
qed

theorem family_step_ok: "family_step ss ss' \<Longrightarrow> families_ok ss \<Longrightarrow> families_ok ss'"
  by (auto elim!: family_stepE intro: families_ok_open families_ok_revoke families_ok_rotate)

lemma family_reachable_ok: "family_reachable ss ss' \<Longrightarrow> families_ok ss \<Longrightarrow> families_ok ss'"
  by (induction rule: family_reachable.induct) (auto intro: family_step_ok)

section \<open>A dead family stays dead\<close>

definition family_dead :: "pystr \<Rightarrow> refresh_session list \<Rightarrow> bool" where
  "family_dead f ss \<longleftrightarrow> f \<in> rs_family_id ` set ss
     \<and> (\<forall>s\<in>set ss. rs_family_id s = f \<longrightarrow> \<not> live s)"

lemma family_dead_revoke: "f \<in> rs_family_id ` set ss \<Longrightarrow> family_dead f (revoke_family f t ss)"
proof -
  assume f: "f \<in> rs_family_id ` set ss"
  have "rs_family_id ` set (revoke_family f t ss) = rs_family_id ` set ss"
    by (simp only: map_key_revoke flip: set_map)
  then show ?thesis
    using f by (auto simp: family_dead_def revoke_family_def live_def)
qed

lemma family_dead_step:
  assumes "family_step ss ss'" "family_dead f ss" shows "family_dead f ss'"
  using assms
proof (cases rule: family_step.cases)
  case (open_family sid fid uid tid dig now idle absl s)
  then have "rs_family_id s \<noteq> f"
    using assms(2) issue_session_Inr [OF open_family(2)] by (auto simp: family_dead_def)
  then show ?thesis using assms(2) open_family(1) by (auto simp: family_dead_def)
next
  case (rotate s d sid dig now idle c r)
  note R = rotate_session_Inr [OF rotate(3)]
  have "rs_family_id s \<noteq> f" using assms(2) R rotate(2) by (auto simp: family_dead_def)
  show ?thesis
  proof -
    have "rs_family_id ` set (consume_session (rs_session_id s) now ss) = rs_family_id ` set ss"
      by (simp only: map_key_consume flip: set_map)
    moreover have "\<not> live x" if "x \<in> set (consume_session (rs_session_id s) now ss)"
      "rs_family_id x = f" for x
      using consume_session_member [OF that(1)] that(2) assms(2)
      by (auto simp: family_dead_def split: if_splits)
    ultimately show ?thesis
      using assms(2) R rotate(1) \<open>rs_family_id s \<noteq> f\<close> by (auto simp: family_dead_def)
  qed
next
  case (revoke g t)
  have "rs_family_id ` set (revoke_family g t ss) = rs_family_id ` set ss"
    by (simp only: map_key_revoke flip: set_map)
  then show ?thesis
    using assms(2) revoke by (auto simp: family_dead_def revoke_family_def)
qed (use assms in simp)

lemma family_dead_reachable:
  "family_reachable ss ss' \<Longrightarrow> family_dead f ss \<Longrightarrow> family_dead f ss'"
  by (induction rule: family_reachable.induct) (auto intro: family_dead_step)

lemma family_dead_not_active:
  "family_dead f ss \<Longrightarrow> s \<in> set ss \<Longrightarrow> rs_family_id s = f \<Longrightarrow> session_is_active s t \<noteq> Inr True"
  by (auto simp: family_dead_def dest: session_is_active_Inr_True)

section \<open>The port and its laws\<close>

inductive rotation_outcome ::
  "refresh_session list \<Rightarrow> pystr \<Rightarrow> pystr \<Rightarrow> pystr \<Rightarrow> datetime \<Rightarrow> timedelta
    \<Rightarrow> exn + rotation_result \<Rightarrow> refresh_session list \<Rightarrow> bool" where
  failed: "rotation_outcome ss d sid dig now idle (Inl e) ss"
| invalid: "(\<forall>s\<in>set ss. rs_token_digest s = d \<longrightarrow>
       rotate_session s d sid dig now idle = Inl InvalidRefreshSessionError) \<Longrightarrow>
     rotation_outcome ss d sid dig now idle (Inr \<lparr>rot_status = INVALID, rot_session = None\<rparr>) ss"
| replayed: "s \<in> set ss \<Longrightarrow> rs_token_digest s = d \<Longrightarrow> rs_consumed_at s \<noteq> None \<Longrightarrow>
     rotation_outcome ss d sid dig now idle
       (Inr \<lparr>rot_status = REPLAY_REVOKED, rot_session = None\<rparr>)
       (revoke_family (rs_family_id s) now ss)"
| rotated: "s \<in> set ss \<Longrightarrow> rotate_session s d sid dig now idle = Inr (c, r) \<Longrightarrow> fresh_in ss r \<Longrightarrow>
     rotation_outcome ss d sid dig now idle
       (Inr \<lparr>rot_status = ROTATED, rot_session = Some r\<rparr>)
       (consume_session (rs_session_id s) now ss @ [r])"

inductive_cases rotation_rotatedE:
  "rotation_outcome ss d sid dig now idle (Inr \<lparr>rot_status = ROTATED, rot_session = x\<rparr>) ss'"
inductive_cases rotation_replayE:
  "rotation_outcome ss d sid dig now idle (Inr \<lparr>rot_status = REPLAY_REVOKED, rot_session = x\<rparr>) ss'"

lemma rotation_outcome_step:
  "rotation_outcome ss d sid dig now idle res ss' \<Longrightarrow> family_step ss ss'"
  by (auto elim!: rotation_outcome.cases intro: family_step.intros)

locale session_store =
  fixes sessions :: "'s \<Rightarrow> refresh_session list"
    and rotate :: "pystr \<Rightarrow> pystr \<Rightarrow> pystr \<Rightarrow> datetime \<Rightarrow> timedelta \<Rightarrow> 's
      \<Rightarrow> (exn + rotation_result) \<times> 's"
    and revoke :: "pystr \<Rightarrow> datetime \<Rightarrow> 's \<Rightarrow> (exn + bool) \<times> 's"
  assumes rotate_law: "families_ok (sessions s) \<Longrightarrow> rotate d sid dig now idle s = (res, s') \<Longrightarrow>
      rotation_outcome (sessions s) d sid dig now idle res (sessions s')"
    and replay_law: "families_ok (sessions s) \<Longrightarrow> x \<in> set (sessions s) \<Longrightarrow>
      rs_token_digest x = d \<Longrightarrow> rs_consumed_at x \<noteq> None \<Longrightarrow> is_ascii d \<Longrightarrow> 0 < idle \<Longrightarrow>
      fst (rotate d sid dig now idle s) = Inr \<lparr>rot_status = REPLAY_REVOKED, rot_session = None\<rparr>"
    and revoke_law: "families_ok (sessions s) \<Longrightarrow> revoke d now s = (Inr b, s') \<Longrightarrow>
      (if b then \<exists>x\<in>set (sessions s). rs_token_digest x = d
                 \<and> sessions s' = revoke_family (rs_family_id x) now (sessions s)
       else sessions s' = sessions s \<and> d \<notin> rs_token_digest ` set (sessions s))"
    and revoke_error: "revoke d now s = (Inl e, s') \<Longrightarrow> sessions s' = sessions s"
begin

lemma rotate_step:
  assumes "families_ok (sessions s)" "rotate d sid dig now idle s = (res, s')"
  shows "family_step (sessions s) (sessions s')"
  using rotate_law [OF assms] by (rule rotation_outcome_step)

lemma revoke_step:
  assumes "families_ok (sessions s)" "revoke d now s = (res, s')"
  shows "family_step (sessions s) (sessions s')"
proof (cases res)
  case (Inl e)
  then show ?thesis using revoke_error assms(2) by (auto intro: family_step.stutter)
next
  case (Inr b)
  then show ?thesis using revoke_law [OF assms(1), of d now b s'] assms(2)
    by (auto split: if_splits intro: family_step.intros)
qed

text \<open>A replay kills the whole family, whatever happens afterwards.\<close>

lemma replay_kills_family:
  assumes ok: "families_ok (sessions s)"
    and rot: "rotate d sid dig now idle s =
      (Inr \<lparr>rot_status = REPLAY_REVOKED, rot_session = None\<rparr>, s')"
  obtains x where "x \<in> set (sessions s)" "rs_token_digest x = d"
    "family_dead (rs_family_id x) (sessions s')"
proof -
  from rotate_law [OF ok rot] obtain x where x: "x \<in> set (sessions s)" "rs_token_digest x = d"
    and s': "sessions s' = revoke_family (rs_family_id x) now (sessions s)"
    by (auto elim!: rotation_replayE)
  have "family_dead (rs_family_id x) (sessions s')"
    unfolding s' using x(1) by (intro family_dead_revoke) auto
  with x show ?thesis using that by blast
qed

text \<open>Presenting the token of a rotation a second time is a replay.\<close>

lemma second_use_is_replay:
  assumes ok: "families_ok (sessions s)"
    and rot: "rotate d sid dig now idle s = (Inr \<lparr>rot_status = ROTATED, rot_session = Some r\<rparr>, s')"
    and idle': "0 < idle'"
  shows "fst (rotate d sid' dig' now' idle' s')
           = Inr \<lparr>rot_status = REPLAY_REVOKED, rot_session = None\<rparr>"
proof -
  from rotate_law [OF ok rot] obtain x c where x: "x \<in> set (sessions s)"
    and rs: "rotate_session x d sid dig now idle = Inr (c, r)"
    and s': "sessions s' = consume_session (rs_session_id x) now (sessions s) @ [r]"
    by (auto elim!: rotation_rotatedE)
  note R = rotate_session_Inr [OF rs]
  have ok': "families_ok (sessions s')"
    using family_step_ok [OF rotate_step [OF ok rot] ok] .
  have "x\<lparr>rs_consumed_at := Some now\<rparr> \<in> set (sessions s')"
    using x by (auto simp: s' consume_session_def image_iff)
  moreover have "is_ascii d"
    using rs by (auto simp: rotate_session_def py_bind)
  ultimately show ?thesis
    using replay_law [OF ok', of "x\<lparr>rs_consumed_at := Some now\<rparr>" d idle'] R idle' by simp
qed

end

section \<open>The SQL model provides the port\<close>

definition commit_rotate ::
  "pystr \<Rightarrow> pystr \<Rightarrow> pystr \<Rightarrow> datetime \<Rightarrow> timedelta \<Rightarrow> identity_db
    \<Rightarrow> (exn + rotation_result) \<times> identity_db" where
  "commit_rotate d sid dig now idle = run_transaction (rotate_refresh_session d sid dig now idle)"

definition commit_revoke :: "pystr \<Rightarrow> datetime \<Rightarrow> identity_db \<Rightarrow> (exn + bool) \<times> identity_db" where
  "commit_revoke d now = run_transaction (revoke_refresh_family_by_digest d now)"

lemma begin_uow_simps [simp]:
  "uow_db (begin_uow db) = db" "uow_dirty (begin_uow db) = []" "uow_new (begin_uow db) = []"
  by (simp_all add: begin_uow_def)

lemma update_sessions_simps [simp]:
  "uow_db (update_sessions f u) = (uow_db u)\<lparr>db_sessions := f (db_sessions (uow_db u))\<rparr>"
  "uow_dirty (update_sessions f u) = uow_dirty u"
  "uow_new (update_sessions f u) = uow_new u"
  by (simp_all add: update_sessions_def)

lemma digest_lookup:
  assumes "families_ok ss"
  shows "scalar_one_or_none (filter (\<lambda>s. rs_token_digest s = d) ss)
           = Inr (find (\<lambda>s. rs_token_digest s = d) ss)"
  using assms by (intro scalar_filter_unique) (simp add: families_ok_def)

lemma rotate_refresh_session_eq:
  assumes "families_ok (db_sessions (uow_db u))"
  shows "rotate_refresh_session d sid dig now idle u =
    (case find (\<lambda>s. rs_token_digest s = d) (db_sessions (uow_db u)) of
       None \<Rightarrow> (Inr \<lparr>rot_status = INVALID, rot_session = None\<rparr>, u)
     | Some s \<Rightarrow>
         (case rotate_session s d sid dig now idle of
            Inl (RefreshTokenReplayError f) \<Rightarrow>
              (Inr \<lparr>rot_status = REPLAY_REVOKED, rot_session = None\<rparr>,
               update_sessions (revoke_family (rs_family_id s) now) u)
          | Inl InvalidRefreshSessionError \<Rightarrow>
              (Inr \<lparr>rot_status = INVALID, rot_session = None\<rparr>, u)
          | Inl e \<Rightarrow> (Inl e, u)
          | Inr (c, r) \<Rightarrow>
              (Inr \<lparr>rot_status = ROTATED, rot_session = Some r\<rparr>,
               u\<lparr>uow_dirty := (rs_session_id s, now) # uow_dirty u, uow_new := uow_new u @ [r]\<rparr>)))"
proof (cases "find (\<lambda>s. rs_token_digest s = d) (db_sessions (uow_db u))")
  case None
  then show ?thesis by (simp add: rotate_refresh_session_def bindS_apply digest_lookup [OF assms])
next
  case (Some s)
  then have "s \<in> set (db_sessions (uow_db u))" by (auto dest: find_in_set)
  then have "session_ok s" using assms by (auto simp: families_ok_def)
  then show ?thesis using Some
    by (simp add: rotate_refresh_session_def bindS_apply digest_lookup [OF assms]
        add_refresh_session_def split: sum.splits exn.splits)
qed

lemma flush_clean:
  "uow_dirty u = [] \<Longrightarrow> uow_new u = [] \<Longrightarrow> flush u = (Inr (), u)"
  by (cases u) (simp add: flush_def)

lemma flush_rotation:
  "flush ((begin_uow db)\<lparr>uow_dirty := [(k, now)], uow_new := [r]\<rparr>) = (Inr y, v) \<Longrightarrow>
     uow_db v = db\<lparr>db_sessions := consume_session k now (db_sessions db) @ [r]\<rparr>
     \<and> fresh_in (db_sessions db) r"
  by (auto simp: flush_Inr py_bind consume_rows_single consume_session_def [symmetric]
      fresh_in_def simp flip: set_map)

lemma rotate_begin_cases:
  assumes ok: "families_ok (db_sessions db)"
    and rot: "rotate_refresh_session d sid dig now idle (begin_uow db) = (Inr res, u)"
  obtains
    (invalid) "res = \<lparr>rot_status = INVALID, rot_session = None\<rparr>" "u = begin_uow db"
      "\<forall>s\<in>set (db_sessions db). rs_token_digest s = d \<longrightarrow>
         rotate_session s d sid dig now idle = Inl InvalidRefreshSessionError"
  | (replayed) s where "res = \<lparr>rot_status = REPLAY_REVOKED, rot_session = None\<rparr>"
      "s \<in> set (db_sessions db)" "rs_token_digest s = d" "rs_consumed_at s \<noteq> None"
      "u = update_sessions (revoke_family (rs_family_id s) now) (begin_uow db)"
  | (rotated) s c r where "res = \<lparr>rot_status = ROTATED, rot_session = Some r\<rparr>"
      "s \<in> set (db_sessions db)" "rs_token_digest s = d"
      "rotate_session s d sid dig now idle = Inr (c, r)"
      "u = (begin_uow db)\<lparr>uow_dirty := [(rs_session_id s, now)], uow_new := [r]\<rparr>"
proof (cases "find (\<lambda>s. rs_token_digest s = d) (db_sessions db)")
  case None
  have none: "rs_token_digest s \<noteq> d" if "s \<in> set (db_sessions db)" for s
    using None that by (auto simp: find_None_iff)
  have "(Inr \<lparr>rot_status = INVALID, rot_session = None\<rparr>, begin_uow db) = (Inr res, u)"
    using rot ok None by (simp add: rotate_refresh_session_eq)
  then show ?thesis using none by (intro invalid) simp_all
next
  case (Some s)
  then have s: "s \<in> set (db_sessions db)" "rs_token_digest s = d" by (auto dest: find_in_set)
  have dist: "distinct (map rs_token_digest (db_sessions db))" using ok by (simp add: families_ok_def)
  have only: "x = s" if "x \<in> set (db_sessions db)" "rs_token_digest x = d" for x
    using dist that s by (metis distinct_map inj_onD)
  show ?thesis
  proof (cases "rotate_session s d sid dig now idle")
    case (Inr cr)
    then show ?thesis using rot ok Some s rotated
      by (cases cr) (auto simp: rotate_refresh_session_eq)
  next
    case (Inl e)
    then show ?thesis
    proof (cases "\<exists>f. e = RefreshTokenReplayError f")
      case True
      then have "rs_consumed_at s \<noteq> None" using Inl rotate_session_replay_iff by blast
      with True show ?thesis using rot ok Some s Inl replayed
        by (auto simp: rotate_refresh_session_eq)
    next
      case False
      then have "e = InvalidRefreshSessionError" "res = \<lparr>rot_status = INVALID, rot_session = None\<rparr>"
        "u = begin_uow db"
        using rot ok Some Inl by (auto simp: rotate_refresh_session_eq split: exn.splits)
      then show ?thesis using Inl only invalid by blast
    qed
  qed
qed

lemma commit_rotate_outcome:
  assumes ok: "families_ok (db_sessions db)"
    and run: "commit_rotate d sid dig now idle db = (res, db')"
  shows "rotation_outcome (db_sessions db) d sid dig now idle res (db_sessions db')"
proof (cases res)
  case (Inl e)
  then show ?thesis using run run_transaction_Inl rotation_outcome.failed
    by (fastforce simp: commit_rotate_def)
next
  case (Inr x)
  then obtain u v where body: "rotate_refresh_session d sid dig now idle (begin_uow db) = (Inr x, u)"
    and fl: "flush u = (Inr (), v)" and db': "db' = uow_db v"
    using run by (auto simp: commit_rotate_def run_transaction_Inr)
  from ok body show ?thesis
  proof (cases rule: rotate_begin_cases)
    case invalid
    then have "v = begin_uow db" using fl by (simp add: flush_clean)
    then have "db' = db" using db' by simp
    then show ?thesis
      unfolding Inr invalid(1) using rotation_outcome.invalid [OF invalid(3)] by simp
  next
    case (replayed s)
    then have "db_sessions db' = revoke_family (rs_family_id s) now (db_sessions db)"
      using fl db' by (auto simp: flush_clean)
    then show ?thesis
      unfolding Inr replayed(1) using rotation_outcome.replayed [OF replayed(2-4)] by simp
  next
    case (rotated s c r)
    then show ?thesis using Inr fl db' flush_rotation
      by (auto intro: rotation_outcome.rotated)
  qed
qed

lemma commit_rotate_replay:
  assumes ok: "families_ok (db_sessions db)" and x: "x \<in> set (db_sessions db)"
    and "rs_token_digest x = d" "rs_consumed_at x \<noteq> None" "is_ascii d" "0 < idle"
  shows "fst (commit_rotate d sid dig now idle db)
           = Inr \<lparr>rot_status = REPLAY_REVOKED, rot_session = None\<rparr>"
proof -
  have "find (\<lambda>s. rs_token_digest s = d) (db_sessions db) = Some x"
    using ok x assms(3) by (intro find_unique_key) (auto simp: families_ok_def)
  moreover have "rotate_session x d sid dig now idle = Inl (RefreshTokenReplayError (rs_family_id x))"
    using assms by (simp add: rotate_session_replay_iff)
  ultimately have "rotate_refresh_session d sid dig now idle (begin_uow db) =
      (Inr \<lparr>rot_status = REPLAY_REVOKED, rot_session = None\<rparr>,
       update_sessions (revoke_family (rs_family_id x) now) (begin_uow db))"
    using ok by (simp add: rotate_refresh_session_eq)
  then show ?thesis
    by (simp add: commit_rotate_def run_transaction_def bindS_apply flush_clean)
qed

lemma family_lookup:
  assumes "families_ok ss"
  shows "scalar_one_or_none [rs_family_id s. s \<leftarrow> ss, rs_token_digest s = d]
           = Inr (map_option rs_family_id (find (\<lambda>s. rs_token_digest s = d) ss))"
proof -
  have "[rs_family_id s. s \<leftarrow> ss, rs_token_digest s = d]
      = map rs_family_id (filter (\<lambda>s. rs_token_digest s = d) ss)"
    by (induction ss) auto
  moreover have "scalar_one_or_none (map rs_family_id xs)
      = map_sum id (map_option rs_family_id) (scalar_one_or_none xs)"
    for xs :: "refresh_session list"
    by (simp add: scalar_one_or_none_def split: list.splits)
  ultimately show ?thesis using digest_lookup [OF assms, of d] by (simp only: map_sum.simps)
qed

lemma commit_revoke_eq:
  assumes "families_ok (db_sessions db)"
  shows "commit_revoke d now db =
    (case find (\<lambda>s. rs_token_digest s = d) (db_sessions db) of
       None \<Rightarrow> (Inr False, db)
     | Some s \<Rightarrow> (Inr True,
         db\<lparr>db_sessions := revoke_family (rs_family_id s) now (db_sessions db)\<rparr>))"
  using assms
  by (auto simp: commit_revoke_def run_transaction_def revoke_refresh_family_by_digest_def
      bindS_apply family_lookup flush_clean split: option.splits)

interpretation sql: session_store db_sessions commit_rotate commit_revoke
proof unfold_locales
  fix db d sid dig now idle res db'
  assume "families_ok (db_sessions db)" "commit_rotate d sid dig now idle db = (res, db')"
  then show "rotation_outcome (db_sessions db) d sid dig now idle res (db_sessions db')"
    by (rule commit_rotate_outcome)
next
  fix db :: identity_db and d now b db'
  assume ok: "families_ok (db_sessions db)" and run: "commit_revoke d now db = (Inr b, db')"
  then show "if b then \<exists>x\<in>set (db_sessions db). rs_token_digest x = d
      \<and> db_sessions db' = revoke_family (rs_family_id x) now (db_sessions db)
    else db_sessions db' = db_sessions db \<and> d \<notin> rs_token_digest ` set (db_sessions db)"
    by (auto simp: commit_revoke_eq find_None_iff split: option.splits dest!: find_in_set)
next
  fix db :: identity_db and d now e db'
  assume "commit_revoke d now db = (Inl e, db')"
  then show "db_sessions db' = db_sessions db"
    by (auto simp: commit_revoke_def dest: run_transaction_Inl)
qed (rule commit_rotate_replay)

end
