(* ===== verification/IdentityApp.thy ===== *)
theory IdentityApp
  imports SessionFamilies
begin

text \<open>
  The identity use cases (\<open>modules/identity/application\<close>): login of a local account
  (\<open>authenticate.py\<close>), registration and the bootstrap of the first manager
  (\<open>register.py\<close>), and the resolution of token claims against the current tables
  (\<open>resolve_identity.py\<close>).  The handlers run over the SQL store of \<open>IdentityStore\<close>; the
  password ports are arguments.  Identifiers made by \<open>uuid4\<close> are fields of the commands.
\<close>

section \<open>Well-formed identity tables\<close>

text \<open>What the constraints of the schema and the dataclass checks keep true of the tables.\<close>

definition identity_ok :: "identity_db \<Rightarrow> bool" where
  "identity_ok db \<longleftrightarrow>
     distinct (map la_user_id (db_accounts db))
     \<and> distinct (map la_login_identifier (db_accounts db))
     \<and> (\<forall>a\<in>set (db_accounts db). account_ok a)
     \<and> distinct (map mr_membership_id (db_memberships db))
     \<and> distinct (map (\<lambda>m. (mr_user_id m, mr_tenant_id m)) (db_memberships db))
     \<and> (\<forall>m\<in>set (db_memberships db). \<not> blank (mr_membership_id m) \<and> \<not> blank (mr_user_id m)
          \<and> \<not> blank (mr_tenant_id m))
     \<and> distinct (map ro_role_id (db_roles db))
     \<and> distinct (map (\<lambda>r. (ro_tenant_id r, ro_role_code r)) (db_roles db))
     \<and> fst ` set (db_membership_roles db) \<subseteq> mr_membership_id ` set (db_memberships db)
     \<and> (\<forall>r\<in>set (db_roles db). \<not> blank (ro_role_code r))
     \<and> (\<forall>p\<in>set (db_permissions db). \<not> blank p)
     \<and> families_ok (db_sessions db)"

definition membership_of :: "identity_db \<Rightarrow> membership_row \<Rightarrow> tenant_membership" where
  "membership_of db m =
     \<lparr>tm_membership_id = mr_membership_id m, tm_user_id = mr_user_id m,
      tm_tenant_id = mr_tenant_id m, tm_roles = set (membership_role_codes db m),
      tm_permissions = set (membership_permission_codes db m), tm_status = mr_status m\<rparr>"

text \<open>On well-formed tables the queries are lookups and never raise.\<close>

lemma get_account_eq:
  assumes "identity_ok db"
  shows "get_account db k = Inr (find (\<lambda>a. la_user_id a = k) (db_accounts db))"
proof -
  have "scalar_one_or_none (filter (\<lambda>a. la_user_id a = k) (db_accounts db))
      = Inr (find (\<lambda>a. la_user_id a = k) (db_accounts db))"
    using assms by (intro scalar_filter_unique) (simp add: identity_ok_def)
  moreover have "account_ok a" if "find (\<lambda>a. la_user_id a = k) (db_accounts db) = Some a" for a
    using that assms by (auto simp: identity_ok_def dest!: find_in_set)
  ultimately show ?thesis
    by (simp add: get_account_def mk_local_account_ok split: option.splits)
qed

lemma get_account_by_login_eq:
  assumes "identity_ok db"
  shows "get_account_by_login db k
    = Inr (find (\<lambda>a. la_login_identifier a = k) (db_accounts db))"
proof -
  have "scalar_one_or_none (filter (\<lambda>a. la_login_identifier a = k) (db_accounts db))
      = Inr (find (\<lambda>a. la_login_identifier a = k) (db_accounts db))"
    using assms by (intro scalar_filter_unique) (simp add: identity_ok_def)
  moreover have "account_ok a"
    if "find (\<lambda>a. la_login_identifier a = k) (db_accounts db) = Some a" for a
    using that assms by (auto simp: identity_ok_def dest!: find_in_set)
  ultimately show ?thesis
    by (simp add: get_account_by_login_def mk_local_account_ok split: option.splits)
qed

lemma role_codes_in: "c \<in> set (membership_role_codes db m) \<Longrightarrow>
    \<exists>r\<in>set (db_roles db). c = ro_role_code r"
  by (auto simp: membership_role_codes_def)

lemma permission_codes_in: "c \<in> set (membership_permission_codes db m) \<Longrightarrow>
    c \<in> set (db_permissions db)"
  by (auto simp: membership_permission_codes_def)

lemma get_membership_eq:
  assumes ok: "identity_ok db"
  shows "get_membership db uid tid = Inr (map_option (membership_of db)
    (find (\<lambda>m. mr_user_id m = uid \<and> mr_tenant_id m = tid) (db_memberships db)))"
proof -
  let ?P = "\<lambda>m. mr_user_id m = uid \<and> mr_tenant_id m = tid"
  have "scalar_one_or_none (filter (\<lambda>m. (mr_user_id m, mr_tenant_id m) = (uid, tid))
      (db_memberships db))
      = Inr (find (\<lambda>m. (mr_user_id m, mr_tenant_id m) = (uid, tid)) (db_memberships db))"
    using ok by (intro scalar_filter_unique) (simp add: identity_ok_def)
  then have look: "scalar_one_or_none (filter ?P (db_memberships db))
      = Inr (find ?P (db_memberships db))" by simp
  have "mk_tenant_membership (membership_of db m) = Inr (membership_of db m)"
    if "m \<in> set (db_memberships db)" for m
    using ok that role_codes_in [of _ db m] permission_codes_in [of _ db m]
    unfolding identity_ok_def by (fastforce simp: py_bind membership_of_def)
  then show ?thesis
    by (auto simp: get_membership_def look membership_of_def split: option.splits
        dest!: find_in_set)
qed

lemma get_session_eq:
  assumes "families_ok (db_sessions db)"
  shows "get_session db k = Inr (find (\<lambda>s. rs_session_id s = k) (db_sessions db))"
proof -
  have "scalar_one_or_none (filter (\<lambda>s. rs_session_id s = k) (db_sessions db))
      = Inr (find (\<lambda>s. rs_session_id s = k) (db_sessions db))"
    using assms by (intro scalar_filter_unique) (simp add: families_ok_def)
  moreover have "session_ok s" if "find (\<lambda>s. rs_session_id s = k) (db_sessions db) = Some s" for s
    using that assms by (auto simp: families_ok_def dest!: find_in_set)
  ultimately show ?thesis by (simp add: get_session_def split: option.splits)
qed

section \<open>Login (authenticate.py)\<close>

record password_check =
  pc_valid :: bool
  pc_updated_hash :: "pystr option"

type_synonym password_verifier = "pystr \<Rightarrow> pystr option \<Rightarrow> exn + password_check"

record authenticate_command =
  ac_login_identifier :: pystr
  ac_password :: pystr
  ac_tenant_id :: pystr
  ac_session_id :: pystr
  ac_family_id :: pystr
  ac_refresh_token_digest :: pystr
  ac_authenticated_at :: datetime
  ac_idle_ttl :: timedelta
  ac_absolute_ttl :: timedelta

record authenticated_identity =
  ai_user_id :: pystr
  ai_tenant_id :: pystr
  ai_session_id :: pystr
  ai_roles :: "pystr set"
  ai_permissions :: "pystr set"

definition authenticate_local_account ::
  "ucd \<Rightarrow> password_verifier \<Rightarrow> authenticate_command \<Rightarrow> authenticated_identity identity_op" where
  "authenticate_local_account U verify c =
     (let normalized_login = casefold U (strip (ac_login_identifier c))
      in bindS (queryS (\<lambda>db. get_account_by_login db normalized_login)) (\<lambda>account.
         bindS (liftS (verify (ac_password c) (map_option la_password_hash account))) (\<lambda>check.
         case account of
           None \<Rightarrow> raiseS (BidError AuthenticationError None)
         | Some a \<Rightarrow>
             if \<not> can_authenticate a \<or> \<not> pc_valid check
             then raiseS (BidError AuthenticationError None)
             else bindS (queryS (\<lambda>db. get_membership db (la_user_id a) (ac_tenant_id c)))
               (\<lambda>membership. case membership of
                  None \<Rightarrow> raiseS (BidError AuthenticationError None)
                | Some m \<Rightarrow>
                    if \<not> membership_active m then raiseS (BidError AuthenticationError None)
                    else
                      bindS (case pc_updated_hash check of
                               None \<Rightarrow> retS a
                             | Some h \<Rightarrow> bindS (liftS (replace_password a h)) (\<lambda>a1.
                                 bindS (update_password_hash a1) (\<lambda>_. retS a1))) (\<lambda>a1.
                      bindS (liftS (issue_session (ac_session_id c) (ac_family_id c)
                               (la_user_id a1) (tm_tenant_id m) (ac_refresh_token_digest c)
                               (ac_authenticated_at c) (ac_idle_ttl c) (ac_absolute_ttl c)))
                        (\<lambda>s.
                      bindS (add_refresh_session s) (\<lambda>_.
                      retS \<lparr>ai_user_id = la_user_id a1, ai_tenant_id = tm_tenant_id m,
                            ai_session_id = rs_session_id s, ai_roles = tm_roles m,
                            ai_permissions = tm_permissions m\<rparr>)))))))"

text \<open>The rows after a password upgrade: only the hash and its version change.\<close>

definition store_hash :: "local_account \<Rightarrow> local_account list \<Rightarrow> local_account list" where
  "store_hash account as =
     map (\<lambda>a. if la_user_id a = la_user_id account
               then a\<lparr>la_password_hash := la_password_hash account,
                      la_password_version := la_password_version account\<rparr>
               else a) as"

lemma update_password_hash_eq [simp]:
  "update_password_hash account u =
     (Inr (), u\<lparr>uow_db := (uow_db u)\<lparr>db_accounts := store_hash account (db_accounts (uow_db u))\<rparr>\<rparr>)"
  by (simp add: update_password_hash_def store_hash_def)

lemma add_refresh_session_eq [simp]:
  "add_refresh_session s u = (Inr (), u\<lparr>uow_new := uow_new u @ [s]\<rparr>)"
  by (simp add: add_refresh_session_def)

text \<open>Who is allowed in: the account, the password, the membership.\<close>

definition login_grant ::
  "ucd \<Rightarrow> password_verifier \<Rightarrow> authenticate_command \<Rightarrow> identity_db
    \<Rightarrow> (local_account \<times> membership_row \<times> password_check) option" where
  "login_grant U verify c db =
     (case find (\<lambda>a. la_login_identifier a = casefold U (strip (ac_login_identifier c)))
             (db_accounts db) of
        None \<Rightarrow> None
      | Some a \<Rightarrow>
         (case verify (ac_password c) (Some (la_password_hash a)) of
            Inl e \<Rightarrow> None
          | Inr check \<Rightarrow>
             if can_authenticate a \<and> pc_valid check
             then (case find (\<lambda>m. mr_user_id m = la_user_id a \<and> mr_tenant_id m = ac_tenant_id c)
                      (db_memberships db) of
                     None \<Rightarrow> None
                   | Some m \<Rightarrow> if mr_status m = Membership_ACTIVE then Some (a, m, check) else None)
             else None))"

lemma authenticate_Inr:
  assumes ok: "identity_ok (uow_db u)"
    and run: "authenticate_local_account U verify c u = (Inr i, v)"
  shows "\<exists>a m check s. login_grant U verify c (uow_db u) = Some (a, m, check)
    \<and> issue_session (ac_session_id c) (ac_family_id c) (la_user_id a) (ac_tenant_id c)
        (ac_refresh_token_digest c) (ac_authenticated_at c) (ac_idle_ttl c) (ac_absolute_ttl c)
        = Inr s
    \<and> i = \<lparr>ai_user_id = la_user_id a, ai_tenant_id = ac_tenant_id c,
           ai_session_id = ac_session_id c,
           ai_roles = tm_roles (membership_of (uow_db u) m),
           ai_permissions = tm_permissions (membership_of (uow_db u) m)\<rparr>
    \<and> v = u\<lparr>uow_db := (case pc_updated_hash check of None \<Rightarrow> uow_db u
               | Some h \<Rightarrow> (uow_db u)\<lparr>db_accounts := store_hash
                   (a\<lparr>la_password_hash := h, la_password_version := la_password_version a + 1\<rparr>)
                   (db_accounts (uow_db u))\<rparr>),
             uow_new := uow_new u @ [s]\<rparr>
    \<and> (\<forall>h. pc_updated_hash check = Some h \<longrightarrow> \<not> blank h)"
proof -
  let ?l = "casefold U (strip (ac_login_identifier c))"
  obtain a check m where a: "find (\<lambda>a. la_login_identifier a = ?l) (db_accounts (uow_db u)) = Some a"
    and check: "verify (ac_password c) (Some (la_password_hash a)) = Inr check"
    and can: "can_authenticate a" "pc_valid check"
    and m: "find (\<lambda>m. mr_user_id m = la_user_id a \<and> mr_tenant_id m = ac_tenant_id c)
       (db_memberships (uow_db u)) = Some m"
    and act: "membership_active (membership_of (uow_db u) m)"
    using run ok
    by (auto simp: authenticate_local_account_def py_bind get_account_by_login_eq
        get_membership_eq)
  have mt: "tm_tenant_id (membership_of (uow_db u) m) = ac_tenant_id c"
    using find_in_set [OF m] by (simp add: membership_of_def)
  have g: "login_grant U verify c (uow_db u) = Some (a, m, check)"
    using a check can m act by (simp add: login_grant_def membership_active_def membership_of_def)
  have uid: "la_user_id b = la_user_id a"
    if "replace_password a h = Inr b" for b h
    using that by (auto simp: replace_password_def py_bind)
  show ?thesis
  proof (cases "pc_updated_hash check")
    case None
    then show ?thesis using run ok a check can m act g mt
      by (auto simp: authenticate_local_account_def py_bind get_account_by_login_eq
          get_membership_eq dest: issue_session_Inr)
  next
    case (Some h)
    then show ?thesis using run ok a check can m act g mt
      by (auto simp: authenticate_local_account_def py_bind get_account_by_login_eq
          get_membership_eq replace_password_def account_ok_def dest: issue_session_Inr)
  qed
qed

text \<open>The three reasons of a refusal are indistinguishable: one error, nothing written.\<close>

lemma authenticate_refused:
  assumes ok: "identity_ok (uow_db u)" and none: "login_grant U verify c (uow_db u) = None"
    and total: "\<And>h. \<exists>check. verify (ac_password c) h = Inr check"
  shows "authenticate_local_account U verify c u = (raise_class AuthenticationError, u)"
proof -
  let ?l = "casefold U (strip (ac_login_identifier c))"
  obtain ck where ck: "verify (ac_password c) (map_option la_password_hash
      (find (\<lambda>a. la_login_identifier a = ?l) (db_accounts (uow_db u)))) = Inr ck"
    using total by blast
  show ?thesis
    using ok none ck
    by (auto simp: authenticate_local_account_def bindS_apply get_account_by_login_eq
        get_membership_eq login_grant_def membership_active_def membership_of_def
        split: option.splits if_splits)
qed

section \<open>Registration and bootstrap (register.py)\<close>

record register_command =
  rg_username :: pystr
  rg_password :: pystr
  rg_role :: identity_role
  rg_tenant_id :: pystr
  rg_user_id :: pystr
  rg_membership_id :: pystr
  rg_actor_user_id :: pystr

record registered_account =
  ra_user_id :: pystr
  ra_username :: pystr
  ra_role :: identity_role

definition create_account ::
  "ucd \<Rightarrow> (pystr \<Rightarrow> exn + pystr) \<Rightarrow> pystr \<Rightarrow> pystr \<Rightarrow> identity_role \<Rightarrow> pystr \<Rightarrow> pystr \<Rightarrow> pystr
    \<Rightarrow> registered_account identity_op" where
  "create_account U hash_pw username password role tenant_id user_id membership_id =
     bindS (liftS (create_credentials U username password)) (\<lambda>credentials.
     bindS (liftS (hash_pw (rc_password credentials))) (\<lambda>h.
     bindS (liftS (register_account U user_id (rc_username credentials) h)) (\<lambda>account.
     bindS (liftS (create_membership membership_id user_id tenant_id {role_value role}
                     (permission_value ` permissions_for_role role))) (\<lambda>membership.
     bindS (add_registration
              \<lparr>rr_account = account, rr_membership = membership, rr_role = role\<rparr>) (\<lambda>_.
     retS \<lparr>ra_user_id = user_id, ra_username = rc_username credentials, ra_role = role\<rparr>)))))"

definition register_local_account ::
  "ucd \<Rightarrow> (pystr \<Rightarrow> exn + pystr) \<Rightarrow> register_command \<Rightarrow> registered_account identity_op" where
  "register_local_account U hash_pw c =
     bindS (queryS (\<lambda>db. get_membership db (rg_actor_user_id c) (rg_tenant_id c)))
       (\<lambda>actor. case actor of
          None \<Rightarrow> raiseS (BidError PermissionDeniedError None)
        | Some m \<Rightarrow>
            if \<not> membership_active m \<or> role_value MANAGER \<notin> tm_roles m
            then raiseS (BidError PermissionDeniedError None)
            else create_account U hash_pw (rg_username c) (rg_password c) (rg_role c)
                   (rg_tenant_id c) (rg_user_id c) (rg_membership_id c))"

record bootstrap_command =
  bc_username :: pystr
  bc_password :: pystr
  bc_tenant_id :: pystr
  bc_user_id :: pystr
  bc_membership_id :: pystr

definition bootstrap_manager ::
  "ucd \<Rightarrow> (pystr \<Rightarrow> exn + pystr) \<Rightarrow> bootstrap_command \<Rightarrow> bool identity_op" where
  "bootstrap_manager U hash_pw c =
     bindS (manager_exists_for_update (bc_tenant_id c)) (\<lambda>found.
       if found then retS False
       else bindS (create_account U hash_pw (bc_username c) (bc_password c) MANAGER
                     (bc_tenant_id c) (bc_user_id c) (bc_membership_id c))
              (\<lambda>_. retS True))"

text \<open>A successful \<open>add_registration\<close> appends one account, one membership and its role.\<close>

definition registered_db ::
  "local_account \<Rightarrow> tenant_membership \<Rightarrow> pystr \<Rightarrow> identity_db \<Rightarrow> identity_db" where
  "registered_db a m role_id db =
     db\<lparr>db_accounts := db_accounts db @ [a],
        db_memberships := db_memberships db @ [\<lparr>mr_membership_id = tm_membership_id m,
          mr_user_id = tm_user_id m, mr_tenant_id = tm_tenant_id m, mr_status = tm_status m\<rparr>],
        db_membership_roles := db_membership_roles db @ [(tm_membership_id m, role_id)]\<rparr>"

lemma role_lookup:
  assumes "identity_ok db"
  shows "scalar_one_or_none [ro_role_id r. r \<leftarrow> db_roles db,
      ro_tenant_id r = tid \<and> ro_role_code r = code]
    = Inr (map_option ro_role_id
        (find (\<lambda>r. ro_tenant_id r = tid \<and> ro_role_code r = code) (db_roles db)))"
proof -
  have "scalar_one_or_none (filter (\<lambda>r. (ro_tenant_id r, ro_role_code r) = (tid, code)) (db_roles db))
      = Inr (find (\<lambda>r. (ro_tenant_id r, ro_role_code r) = (tid, code)) (db_roles db))"
    using assms by (intro scalar_filter_unique) (simp add: identity_ok_def)
  then have look: "scalar_one_or_none
      (filter (\<lambda>r. ro_tenant_id r = tid \<and> ro_role_code r = code) (db_roles db))
      = Inr (find (\<lambda>r. ro_tenant_id r = tid \<and> ro_role_code r = code) (db_roles db))" by simp
  have "[ro_role_id r. r \<leftarrow> rs, ro_tenant_id r = tid \<and> ro_role_code r = code]
      = map ro_role_id (filter (\<lambda>r. ro_tenant_id r = tid \<and> ro_role_code r = code) rs)"
    for rs :: "role_row list"
    by (induction rs) auto
  moreover have "scalar_one_or_none (map ro_role_id xs)
      = map_sum id (map_option ro_role_id) (scalar_one_or_none xs)" for xs :: "role_row list"
    by (simp add: scalar_one_or_none_def split: list.splits)
  ultimately show ?thesis by (simp only: look map_sum.simps)
qed

lemma add_registration_Inr:
  assumes ok: "identity_ok (uow_db u)"
    and run: "add_registration rec u = (Inr x, v)"
  shows "\<exists>r. r \<in> set (db_roles (uow_db u)) \<and> ro_tenant_id r = tm_tenant_id (rr_membership rec)
    \<and> ro_role_code r = role_value (rr_role rec)
    \<and> v = u\<lparr>uow_db := registered_db (rr_account rec) (rr_membership rec) (ro_role_id r) (uow_db u)\<rparr>
    \<and> la_user_id (rr_account rec) \<notin> la_user_id ` set (db_accounts (uow_db u))
    \<and> la_login_identifier (rr_account rec) \<notin> la_login_identifier ` set (db_accounts (uow_db u))
    \<and> tm_membership_id (rr_membership rec) \<notin> mr_membership_id ` set (db_memberships (uow_db u))
    \<and> (tm_user_id (rr_membership rec), tm_tenant_id (rr_membership rec))
        \<notin> (\<lambda>m. (mr_user_id m, mr_tenant_id m)) ` set (db_memberships (uow_db u))"
proof -
  obtain r db1 db2 where
    r: "find (\<lambda>r. ro_tenant_id r = tm_tenant_id (rr_membership rec)
         \<and> ro_role_code r = role_value (rr_role rec)) (db_roles (uow_db u)) = Some r"
    and i1: "insert_account (rr_account rec) (uow_db u) = Inr db1"
    and i2: "insert_membership \<lparr>mr_membership_id = tm_membership_id (rr_membership rec),
      mr_user_id = tm_user_id (rr_membership rec), mr_tenant_id = tm_tenant_id (rr_membership rec),
      mr_status = tm_status (rr_membership rec)\<rparr> db1 = Inr db2"
    and i3: "insert_membership_role (tm_membership_id (rr_membership rec), ro_role_id r) db2
      = Inr (uow_db v)" and v: "v = u\<lparr>uow_db := uow_db v\<rparr>"
    using run
    by (auto simp: add_registration_def role_lookup [OF ok] py_bind split: sum.splits option.splits)
  have db1: "db1 = (uow_db u)\<lparr>db_accounts := db_accounts (uow_db u) @ [rr_account rec]\<rparr>"
    "la_user_id (rr_account rec) \<notin> la_user_id ` set (db_accounts (uow_db u))"
    "la_login_identifier (rr_account rec) \<notin> la_login_identifier ` set (db_accounts (uow_db u))"
    using i1 by (simp_all add: insert_account_def)
  show ?thesis
    using i2 i3 db1 find_in_set [OF r] v
    by (intro exI [of _ r]) (auto simp: insert_membership_def insert_membership_role_def
        registered_db_def)
qed

lemma add_registration_Inl: "add_registration rec u = (Inl e, v) \<Longrightarrow> v = u"
  by (auto simp: add_registration_def split: sum.splits)

lemma create_account_Inl: "create_account U h un pw ro tid uid mid u = (Inl e, v) \<Longrightarrow> v = u"
  by (auto simp: create_account_def py_bind dest: add_registration_Inl)

lemma create_account_Inr:
  assumes ok: "identity_ok (uow_db u)"
    and run: "create_account U hash_pw un pw role tid uid mid u = (Inr x, v)"
  obtains cr h r where "create_credentials U un pw = Inr cr" "hash_pw (rc_password cr) = Inr h"
    "x = \<lparr>ra_user_id = uid, ra_username = rc_username cr, ra_role = role\<rparr>"
    "r \<in> set (db_roles (uow_db u))" "ro_tenant_id r = tid" "ro_role_code r = role_value role"
    "v = u\<lparr>uow_db := registered_db
       \<lparr>la_user_id = uid, la_login_identifier = casefold U (strip (rc_username cr)),
        la_password_hash = h, la_status = Account_ACTIVE, la_password_version = 1\<rparr>
       \<lparr>tm_membership_id = mid, tm_user_id = uid, tm_tenant_id = tid,
        tm_roles = {role_value role}, tm_permissions = permission_value ` permissions_for_role role,
        tm_status = Membership_ACTIVE\<rparr> (ro_role_id r) (uow_db u)\<rparr>"
    "uid \<notin> la_user_id ` set (db_accounts (uow_db u))"
    "casefold U (strip (rc_username cr)) \<notin> la_login_identifier ` set (db_accounts (uow_db u))"
    "mid \<notin> mr_membership_id ` set (db_memberships (uow_db u))"
    "(uid, tid) \<notin> (\<lambda>m. (mr_user_id m, mr_tenant_id m)) ` set (db_memberships (uow_db u))"
    "\<not> blank uid" "\<not> blank h" "\<not> blank mid" "\<not> blank tid"
    "\<not> blank (casefold U (strip (rc_username cr)))"
proof -
  from run obtain cr h a m where c: "create_credentials U un pw = Inr cr"
    "hash_pw (rc_password cr) = Inr h" "register_account U uid (rc_username cr) h = Inr a"
    "create_membership mid uid tid {role_value role} (permission_value ` permissions_for_role role)
      = Inr m"
    and add: "add_registration \<lparr>rr_account = a, rr_membership = m, rr_role = role\<rparr> u = (Inr (), v)"
    and x: "x = \<lparr>ra_user_id = uid, ra_username = rc_username cr, ra_role = role\<rparr>"
    by (auto simp: create_account_def py_bind)
  have a: "a = \<lparr>la_user_id = uid, la_login_identifier = casefold U (strip (rc_username cr)),
        la_password_hash = h, la_status = Account_ACTIVE, la_password_version = 1\<rparr>"
    "account_ok a"
    using c(3) by (auto simp: register_account_def Let_def py_bind)
  have m: "m = \<lparr>tm_membership_id = mid, tm_user_id = uid, tm_tenant_id = tid,
        tm_roles = {role_value role}, tm_permissions = permission_value ` permissions_for_role role,
        tm_status = Membership_ACTIVE\<rparr>" "\<not> blank mid" "\<not> blank uid" "\<not> blank tid"
    using c(4) by (auto simp: create_membership_def py_bind)
  from add_registration_Inr [OF ok add] obtain r where r: "r \<in> set (db_roles (uow_db u))"
      "ro_tenant_id r = tid" "ro_role_code r = role_value role"
      "v = u\<lparr>uow_db := registered_db a m (ro_role_id r) (uow_db u)\<rparr>"
      "uid \<notin> la_user_id ` set (db_accounts (uow_db u))"
      "casefold U (strip (rc_username cr)) \<notin> la_login_identifier ` set (db_accounts (uow_db u))"
      "mid \<notin> mr_membership_id ` set (db_memberships (uow_db u))"
      "(uid, tid) \<notin> (\<lambda>m. (mr_user_id m, mr_tenant_id m)) ` set (db_memberships (uow_db u))"
    by (auto simp: a(1) m(1))
  show ?thesis
    by (rule that [OF c(1,2) x r(1-3) _ r(5-8)]) (use r(4) a m in \<open>auto simp: account_ok_def\<close>)
qed

lemma registered_db_ok:
  assumes "identity_ok db" "account_ok a"
    "la_user_id a \<notin> la_user_id ` set (db_accounts db)"
    "la_login_identifier a \<notin> la_login_identifier ` set (db_accounts db)"
    "tm_membership_id m \<notin> mr_membership_id ` set (db_memberships db)"
    "(tm_user_id m, tm_tenant_id m)
       \<notin> (\<lambda>m. (mr_user_id m, mr_tenant_id m)) ` set (db_memberships db)"
    "\<not> blank (tm_membership_id m)" "\<not> blank (tm_user_id m)" "\<not> blank (tm_tenant_id m)"
  shows "identity_ok (registered_db a m rid db)"
  using assms by (auto simp: identity_ok_def registered_db_def)

lemma create_account_ok:
  assumes ok: "identity_ok (uow_db u)"
    and run: "create_account U h un pw ro tid uid mid u = (res, v)"
  shows "identity_ok (uow_db v)"
proof (cases res)
  case (Inl e)
  then show ?thesis using create_account_Inl run ok by blast
next
  case (Inr x)
  with run have "create_account U h un pw ro tid uid mid u = (Inr x, v)" by simp
  from create_account_Inr [OF ok this] show ?thesis
    by (metis (no_types, lifting) account_ok_def registered_db_ok ok identity_uow.select_convs(1)
        identity_uow.surjective identity_uow.update_convs(1) local_account.select_convs
        order_refl tenant_membership.select_convs(1,2,3))
qed

text \<open>The new membership, read back, is the one that was created.\<close>

lemma list_ex_comp_if: "x \<in> set (if b then [y] else []) \<longleftrightarrow> b \<and> x = y"
  by auto

lemma pair_Bex: "(\<exists>q\<in>S. snd q = b \<and> fst q = a \<and> P) \<longleftrightarrow> (a, b) \<in> S \<and> P"
  by (auto simp: Bex_def)

lemma role_codes_iff:
  "c \<in> set (membership_role_codes db m) \<longleftrightarrow>
     (\<exists>r\<in>set (db_roles db). (mr_membership_id m, ro_role_id r) \<in> set (db_membership_roles db)
        \<and> ro_tenant_id r = mr_tenant_id m \<and> c = ro_role_code r)"
  unfolding membership_role_codes_def set_concat set_map UN_iff bex_simps(7) list_ex_comp_if
    conj_assoc pair_Bex by simp

lemma permission_codes_iff:
  "p \<in> set (membership_permission_codes db m) \<longleftrightarrow>
     p \<in> set (db_permissions db)
     \<and> (\<exists>r\<in>set (db_roles db). (mr_membership_id m, ro_role_id r) \<in> set (db_membership_roles db)
        \<and> ro_tenant_id r = mr_tenant_id m
        \<and> (ro_role_id r, p) \<in> set (db_role_permissions db))"
proof -
  have "p \<in> set (membership_permission_codes db m) \<longleftrightarrow>
      (\<exists>q\<in>set (db_permissions db). \<exists>rp\<in>set (db_role_permissions db).
       \<exists>mr\<in>set (db_membership_roles db). \<exists>r\<in>set (db_roles db).
         snd rp = q \<and> snd mr = fst rp \<and> ro_role_id r = snd mr \<and> fst mr = mr_membership_id m
         \<and> ro_tenant_id r = mr_tenant_id m \<and> p = q)"
    unfolding membership_permission_codes_def set_remdups set_concat set_map UN_iff
      bex_simps(7) list_ex_comp_if conj_assoc ..
  also have "\<dots> \<longleftrightarrow> p \<in> set (db_permissions db)
     \<and> (\<exists>r\<in>set (db_roles db). (mr_membership_id m, ro_role_id r) \<in> set (db_membership_roles db)
        \<and> ro_tenant_id r = mr_tenant_id m \<and> (ro_role_id r, p) \<in> set (db_role_permissions db))"
    by (simp add: Bex_def) (metis fst_conv snd_conv surjective_pairing)
  finally show ?thesis .
qed

lemma registered_membership_codes:
  assumes ok: "identity_ok db" and r: "r \<in> set (db_roles db)"
    and new: "tm_membership_id m \<notin> mr_membership_id ` set (db_memberships db)"
    and tid: "ro_tenant_id r = tm_tenant_id m" "mr_tenant_id row = tm_tenant_id m"
    and mid: "mr_membership_id row = tm_membership_id m"
  shows "set (membership_role_codes (registered_db a m (ro_role_id r) db) row) = {ro_role_code r}"
    and "set (membership_permission_codes (registered_db a m (ro_role_id r) db) row)
      = {p \<in> set (db_permissions db). (ro_role_id r, p) \<in> set (db_role_permissions db)}"
proof -
  let ?db = "registered_db a m (ro_role_id r) db"
  have "distinct (map ro_role_id (db_roles db))"
    and sub: "fst ` set (db_membership_roles db) \<subseteq> mr_membership_id ` set (db_memberships db)"
    using ok by (simp_all add: identity_ok_def)
  then have key: "q = r" if "q \<in> set (db_roles db)" "ro_role_id q = ro_role_id r" for q
    using that r by (metis distinct_map inj_onD)
  have fk: "(tm_membership_id m, x) \<notin> set (db_membership_roles db)" for x
    using sub new by force
  show "set (membership_role_codes (registered_db a m (ro_role_id r) db) row) = {ro_role_code r}"
  proof (intro set_eqI)
    fix c
    have "c \<in> set (membership_role_codes ?db row) \<longleftrightarrow> (\<exists>q\<in>set (db_roles db).
        ro_role_id q = ro_role_id r \<and> ro_tenant_id q = tm_tenant_id m \<and> c = ro_role_code q)"
      unfolding role_codes_iff using fk by (simp add: registered_db_def tid mid)
    then show "c \<in> set (membership_role_codes ?db row) \<longleftrightarrow> c \<in> {ro_role_code r}"
      using key r tid(1) by blast
  qed
  show "set (membership_permission_codes (registered_db a m (ro_role_id r) db) row)
      = {p \<in> set (db_permissions db). (ro_role_id r, p) \<in> set (db_role_permissions db)}"
  proof (intro set_eqI)
    fix p
    have "p \<in> set (membership_permission_codes ?db row) \<longleftrightarrow> p \<in> set (db_permissions db)
        \<and> (\<exists>q\<in>set (db_roles db). ro_role_id q = ro_role_id r \<and> ro_tenant_id q = tm_tenant_id m
             \<and> (ro_role_id q, p) \<in> set (db_role_permissions db))"
      unfolding permission_codes_iff using fk by (simp add: registered_db_def tid mid)
    then show "p \<in> set (membership_permission_codes ?db row) \<longleftrightarrow>
        p \<in> {p \<in> set (db_permissions db). (ro_role_id r, p) \<in> set (db_role_permissions db)}"
      using key r tid(1) by auto
  qed
qed

section \<open>Resolution of token claims (resolve_identity.py)\<close>

record resolve_query =
  rq_user_id :: pystr
  rq_tenant_id :: pystr
  rq_session_id :: pystr
  rq_resolved_at :: datetime

record resolved_identity =
  ri_user_id :: pystr
  ri_tenant_id :: pystr
  ri_session_id :: pystr
  ri_roles :: "pystr set"
  ri_permissions :: "pystr set"

definition resolve_identity :: "resolve_query \<Rightarrow> resolved_identity identity_op" where
  "resolve_identity q =
     bindS (queryS (\<lambda>db. get_account db (rq_user_id q))) (\<lambda>account.
     bindS (queryS (\<lambda>db. get_membership db (rq_user_id q) (rq_tenant_id q))) (\<lambda>membership.
     bindS (queryS (\<lambda>db. get_session db (rq_session_id q))) (\<lambda>session.
     case account of None \<Rightarrow> raiseS (BidError AuthenticationError None) | Some a \<Rightarrow>
       if \<not> can_authenticate a then raiseS (BidError AuthenticationError None) else
     (case membership of None \<Rightarrow> raiseS (BidError AuthenticationError None) | Some m \<Rightarrow>
       if \<not> membership_active m then raiseS (BidError AuthenticationError None) else
     (case session of None \<Rightarrow> raiseS (BidError AuthenticationError None) | Some s \<Rightarrow>
       if rs_user_id s \<noteq> rq_user_id q \<or> rs_tenant_id s \<noteq> rq_tenant_id q
       then raiseS (BidError AuthenticationError None) else
       bindS (liftS (session_is_active s (rq_resolved_at q))) (\<lambda>active.
         if \<not> active then raiseS (BidError AuthenticationError None)
         else retS \<lparr>ri_user_id = la_user_id a, ri_tenant_id = tm_tenant_id m,
                    ri_session_id = rs_session_id s, ri_roles = tm_roles m,
                    ri_permissions = tm_permissions m\<rparr>))))))"

text \<open>The rows that make a claimed identity current at the moment of the query.\<close>

definition identity_facts ::
  "identity_db \<Rightarrow> resolve_query \<Rightarrow> membership_row \<Rightarrow> bool" where
  "identity_facts db q m \<longleftrightarrow>
     (\<exists>a\<in>set (db_accounts db). la_user_id a = rq_user_id q \<and> la_status a = Account_ACTIVE)
     \<and> m \<in> set (db_memberships db) \<and> mr_user_id m = rq_user_id q
     \<and> mr_tenant_id m = rq_tenant_id q \<and> mr_status m = Membership_ACTIVE
     \<and> (\<exists>s\<in>set (db_sessions db). rs_session_id s = rq_session_id q
          \<and> rs_user_id s = rq_user_id q \<and> rs_tenant_id s = rq_tenant_id q
          \<and> live s \<and> instant (rq_resolved_at q) < instant (rs_idle_expires_at s))"

definition resolved_from :: "identity_db \<Rightarrow> resolve_query \<Rightarrow> membership_row \<Rightarrow> resolved_identity" where
  "resolved_from db q m =
     \<lparr>ri_user_id = rq_user_id q, ri_tenant_id = rq_tenant_id q, ri_session_id = rq_session_id q,
      ri_roles = set (membership_role_codes db m),
      ri_permissions = set (membership_permission_codes db m)\<rparr>"

lemma find_account:
  assumes "identity_ok db" "a \<in> set (db_accounts db)" "la_user_id a = k"
  shows "find (\<lambda>a. la_user_id a = k) (db_accounts db) = Some a"
  using assms by (intro find_unique_key) (simp_all add: identity_ok_def)

lemma find_login:
  assumes "identity_ok db" "a \<in> set (db_accounts db)" "la_login_identifier a = k"
  shows "find (\<lambda>a. la_login_identifier a = k) (db_accounts db) = Some a"
  using assms by (intro find_unique_key) (simp_all add: identity_ok_def)

lemma find_membership:
  assumes "identity_ok db" "m \<in> set (db_memberships db)" "mr_user_id m = uid"
    "mr_tenant_id m = tid"
  shows "find (\<lambda>m. mr_user_id m = uid \<and> mr_tenant_id m = tid) (db_memberships db) = Some m"
proof -
  have "find (\<lambda>m. (mr_user_id m, mr_tenant_id m) = (uid, tid)) (db_memberships db) = Some m"
    using assms by (intro find_unique_key) (simp_all add: identity_ok_def)
  then show ?thesis by simp
qed

lemma find_session:
  assumes "families_ok ss" "s \<in> set ss" "rs_session_id s = k"
  shows "find (\<lambda>s. rs_session_id s = k) ss = Some s"
  using assms by (intro find_unique_key) (simp_all add: families_ok_def)

lemma identity_ok_families: "identity_ok db \<Longrightarrow> families_ok (db_sessions db)"
  by (simp add: identity_ok_def)

lemma resolve_identity_Inr:
  assumes ok: "identity_ok (uow_db u)" and aw: "is_aware (rq_resolved_at q)"
  shows "resolve_identity q u = (Inr i, v) \<longleftrightarrow>
     v = u \<and> (\<exists>m. identity_facts (uow_db u) q m \<and> i = resolved_from (uow_db u) q m)"
proof
  note fam = identity_ok_families [OF ok]
  assume "resolve_identity q u = (Inr i, v)"
  then obtain a m s where
    F: "find (\<lambda>a. la_user_id a = rq_user_id q) (db_accounts (uow_db u)) = Some a"
    "find (\<lambda>m. mr_user_id m = rq_user_id q \<and> mr_tenant_id m = rq_tenant_id q)
       (db_memberships (uow_db u)) = Some m"
    "find (\<lambda>s. rs_session_id s = rq_session_id q) (db_sessions (uow_db u)) = Some s"
    and C: "can_authenticate a" "membership_active (membership_of (uow_db u) m)"
    "rs_user_id s = rq_user_id q" "rs_tenant_id s = rq_tenant_id q"
    "session_is_active s (rq_resolved_at q) = Inr True" "v = u"
    "i = \<lparr>ri_user_id = la_user_id a, ri_tenant_id = tm_tenant_id (membership_of (uow_db u) m),
         ri_session_id = rs_session_id s, ri_roles = tm_roles (membership_of (uow_db u) m),
         ri_permissions = tm_permissions (membership_of (uow_db u) m)\<rparr>"
    by (auto simp: resolve_identity_def py_bind get_account_eq [OF ok] get_membership_eq [OF ok]
        get_session_eq [OF fam])
  have "identity_facts (uow_db u) q m"
    using find_in_set [OF F(1)] find_in_set [OF F(2)] find_in_set [OF F(3)] C(1-4)
      session_is_active_Inr_True [OF C(5)]
    unfolding identity_facts_def
    by (auto simp: can_authenticate_def membership_active_def membership_of_def)
  then show "v = u \<and> (\<exists>m. identity_facts (uow_db u) q m \<and> i = resolved_from (uow_db u) q m)"
    using find_in_set [OF F(1)] find_in_set [OF F(2)] find_in_set [OF F(3)] C(6,7)
    by (auto simp: resolved_from_def membership_of_def)
next
  note fam = identity_ok_families [OF ok]
  assume "v = u \<and> (\<exists>m. identity_facts (uow_db u) q m \<and> i = resolved_from (uow_db u) q m)"
  then obtain m a s where v: "v = u" and i: "i = resolved_from (uow_db u) q m"
    and a: "a \<in> set (db_accounts (uow_db u))" "la_user_id a = rq_user_id q"
      "la_status a = Account_ACTIVE"
    and m: "m \<in> set (db_memberships (uow_db u))" "mr_user_id m = rq_user_id q"
      "mr_tenant_id m = rq_tenant_id q" "mr_status m = Membership_ACTIVE"
    and s: "s \<in> set (db_sessions (uow_db u))" "rs_session_id s = rq_session_id q"
      "rs_user_id s = rq_user_id q" "rs_tenant_id s = rq_tenant_id q" "live s"
      "instant (rq_resolved_at q) < instant (rs_idle_expires_at s)"
    unfolding identity_facts_def by blast
  have "session_ok s" using fam s(1) by (simp add: families_ok_def)
  then have "session_is_active s (rq_resolved_at q) = Inr True"
    using s aw by (simp add: session_is_active_iff)
  then show "resolve_identity q u = (Inr i, v)"
    using v i a m s find_account [OF ok a(1,2)] find_membership [OF ok m(1-3)]
      find_session [OF fam s(1,2)]
    by (simp add: resolve_identity_def bindS_apply get_account_eq [OF ok]
        get_membership_eq [OF ok] get_session_eq [OF fam] can_authenticate_def
        membership_active_def membership_of_def resolved_from_def)
qed

lemma resolve_identity_Inl:
  assumes ok: "identity_ok (uow_db u)" and aw: "is_aware (rq_resolved_at q)"
    and run: "resolve_identity q u = (Inl e, v)"
  shows "e = BidError AuthenticationError None \<and> v = u"
proof -
  note fam = identity_ok_families [OF ok]
  have act: "\<exists>b. session_is_active s (rq_resolved_at q) = Inr b"
    if "find (\<lambda>s. rs_session_id s = rq_session_id q) (db_sessions (uow_db u)) = Some s" for s
  proof -
    have "session_ok s" using find_in_set [OF that] fam by (simp add: families_ok_def)
    then show ?thesis using aw by (simp add: session_is_active_iff)
  qed
  show ?thesis
    using run act
    by (auto simp: resolve_identity_def bindS_apply get_account_eq [OF ok]
        get_membership_eq [OF ok] get_session_eq [OF fam] split: option.splits if_splits sum.splits)
qed

section \<open>The use cases as transactions\<close>

text \<open>The rows that migration \<open>20260723_0004\<close> inserts, on otherwise empty tables.\<close>

definition empty_identity_db :: identity_db where
  "empty_identity_db =
     \<lparr>db_accounts = [], db_memberships = [], db_permissions = [], db_roles = [],
      db_role_permissions = [], db_membership_roles = [], db_sessions = []\<rparr>"

definition seed_identity_roles :: "identity_db \<Rightarrow> identity_db" where
  "seed_identity_roles db =
     db\<lparr>db_permissions := db_permissions db
          @ [lit ''accounts.create'', lit ''content.upload'', lit ''content.modify''],
        db_roles := db_roles db
          @ [\<lparr>ro_role_id = lit ''default-manager'', ro_tenant_id = lit ''default'',
              ro_role_code = lit ''manager''\<rparr>,
             \<lparr>ro_role_id = lit ''default-employee'', ro_tenant_id = lit ''default'',
              ro_role_code = lit ''employee''\<rparr>],
        db_role_permissions := db_role_permissions db
          @ [(lit ''default-manager'', lit ''accounts.create''),
             (lit ''default-manager'', lit ''content.upload''),
             (lit ''default-manager'', lit ''content.modify'')]\<rparr>"

text \<open>Every role of a tenant carries the capabilities that \<open>permissions_for_role\<close> states.\<close>

definition roles_seeded :: "pystr \<Rightarrow> identity_db \<Rightarrow> bool" where
  "roles_seeded tid db \<longleftrightarrow>
     (\<forall>r\<in>set (db_roles db). \<forall>role\<in>{MANAGER, EMPLOYEE}.
        ro_tenant_id r = tid \<longrightarrow> ro_role_code r = role_value role \<longrightarrow>
        {p \<in> set (db_permissions db). (ro_role_id r, p) \<in> set (db_role_permissions db)}
          = permission_value ` permissions_for_role role)"

lemma identity_ok_empty: "identity_ok empty_identity_db"
  by (simp add: identity_ok_def empty_identity_db_def)

lemma lit_manager: "lit ''manager'' = role_value MANAGER" "lit ''employee'' = role_value EMPLOYEE"
  by simp_all

lemma identity_ok_seeded: "identity_ok (seed_identity_roles empty_identity_db)"
  by (auto simp: identity_ok_def empty_identity_db_def seed_identity_roles_def lit_not_blank
      is_space_def)

lemma roles_seeded_seed: "roles_seeded (lit ''default'') (seed_identity_roles empty_identity_db)"
  by (auto simp: roles_seeded_def seed_identity_roles_def empty_identity_db_def
      permissions_for_role_def)

text \<open>A registration leaves roles and capabilities alone.\<close>

lemma registered_db_simps [simp]:
  "db_roles (registered_db a m r db) = db_roles db"
  "db_permissions (registered_db a m r db) = db_permissions db"
  "db_role_permissions (registered_db a m r db) = db_role_permissions db"
  "db_sessions (registered_db a m r db) = db_sessions db"
  "db_accounts (registered_db a m r db) = db_accounts db @ [a]"
  by (simp_all add: registered_db_def)

lemma store_hash_keys [simp]:
  "map la_user_id (store_hash a as) = map la_user_id as"
  "map la_login_identifier (store_hash a as) = map la_login_identifier as"
  by (simp_all add: store_hash_def)

lemma store_hash_ok:
  "\<forall>a\<in>set as. account_ok a \<Longrightarrow> account_ok b \<Longrightarrow> \<forall>a\<in>set (store_hash b as). account_ok a"
  by (auto simp: store_hash_def account_ok_def)

lemma identity_ok_store_hash:
  "identity_ok db \<Longrightarrow> account_ok a \<Longrightarrow>
     identity_ok (db\<lparr>db_accounts := store_hash a (db_accounts db)\<rparr>)"
  using store_hash_ok [of "db_accounts db" a] by (simp add: identity_ok_def)

lemma identity_ok_new_session:
  assumes "identity_ok db"
    and "issue_session sid fid uid tid dig now idle absl = Inr s" "fresh_in (db_sessions db) s"
    and "fid \<notin> rs_family_id ` set (db_sessions db)"
  shows "identity_ok (db\<lparr>db_sessions := db_sessions db @ [s]\<rparr>)"
  using assms families_ok_open [OF _ assms(2-4)] by (simp add: identity_ok_def)

definition commit_login ::
  "ucd \<Rightarrow> password_verifier \<Rightarrow> authenticate_command \<Rightarrow> identity_db
    \<Rightarrow> (exn + authenticated_identity) \<times> identity_db" where
  "commit_login U verify c = run_transaction (authenticate_local_account U verify c)"

definition commit_register ::
  "ucd \<Rightarrow> (pystr \<Rightarrow> exn + pystr) \<Rightarrow> register_command \<Rightarrow> identity_db
    \<Rightarrow> (exn + registered_account) \<times> identity_db" where
  "commit_register U h c = run_transaction (register_local_account U h c)"

definition commit_bootstrap ::
  "ucd \<Rightarrow> (pystr \<Rightarrow> exn + pystr) \<Rightarrow> bootstrap_command \<Rightarrow> identity_db
    \<Rightarrow> (exn + bool) \<times> identity_db" where
  "commit_bootstrap U h c = run_transaction (bootstrap_manager U h c)"

lemma flush_one:
  "flush \<lparr>uow_db = db, uow_dirty = [], uow_new = [s]\<rparr> = (Inr y, v) \<longleftrightarrow>
     insert_session s db = Inr (uow_db v) \<and> v = begin_uow (uow_db v)"
  by (auto simp: flush_Inr py_bind begin_uow_def)

lemma login_Inr:
  assumes ok: "identity_ok db" and run: "commit_login U verify c db = (Inr i, db')"
  obtains a m check s where "login_grant U verify c db = Some (a, m, check)"
    "issue_session (ac_session_id c) (ac_family_id c) (la_user_id a) (ac_tenant_id c)
       (ac_refresh_token_digest c) (ac_authenticated_at c) (ac_idle_ttl c) (ac_absolute_ttl c)
       = Inr s"
    "i = \<lparr>ai_user_id = la_user_id a, ai_tenant_id = ac_tenant_id c,
           ai_session_id = ac_session_id c, ai_roles = set (membership_role_codes db m),
           ai_permissions = set (membership_permission_codes db m)\<rparr>"
    "db' = db\<lparr>db_accounts := (case pc_updated_hash check of None \<Rightarrow> db_accounts db
                | Some h \<Rightarrow> store_hash (a\<lparr>la_password_hash := h,
                      la_password_version := la_password_version a + 1\<rparr>) (db_accounts db)),
              db_sessions := db_sessions db @ [s]\<rparr>"
    "fresh_in (db_sessions db) s"
    "\<forall>h. pc_updated_hash check = Some h \<longrightarrow> \<not> blank h"
proof -
  obtain u v where body: "authenticate_local_account U verify c (begin_uow db) = (Inr i, u)"
    and fl: "flush u = (Inr (), v)" and db': "db' = uow_db v"
    using run by (auto simp: commit_login_def run_transaction_Inr)
  from ok have ok': "identity_ok (uow_db (begin_uow db))" by simp
  from authenticate_Inr [OF ok' body, unfolded begin_uow_simps append_Nil]
    obtain a m check s where
    g: "login_grant U verify c db = Some (a, m, check)"
    and s: "issue_session (ac_session_id c) (ac_family_id c) (la_user_id a) (ac_tenant_id c)
       (ac_refresh_token_digest c) (ac_authenticated_at c) (ac_idle_ttl c) (ac_absolute_ttl c)
       = Inr s"
    and i: "i = \<lparr>ai_user_id = la_user_id a, ai_tenant_id = ac_tenant_id c,
           ai_session_id = ac_session_id c, ai_roles = tm_roles (membership_of db m),
           ai_permissions = tm_permissions (membership_of db m)\<rparr>"
    and u: "u = (begin_uow db)\<lparr>uow_db := (case pc_updated_hash check of None \<Rightarrow> db
               | Some h \<Rightarrow> db\<lparr>db_accounts := store_hash
                   (a\<lparr>la_password_hash := h, la_password_version := la_password_version a + 1\<rparr>)
                   (db_accounts db)\<rparr>), uow_new := [s]\<rparr>"
    and h: "\<And>h. pc_updated_hash check = Some h \<Longrightarrow> \<not> blank h"
    by blast
  let ?accs = "case pc_updated_hash check of None \<Rightarrow> db_accounts db
                | Some h \<Rightarrow> store_hash (a\<lparr>la_password_hash := h,
                      la_password_version := la_password_version a + 1\<rparr>) (db_accounts db)"
  have u': "u = \<lparr>uow_db = db\<lparr>db_accounts := ?accs\<rparr>, uow_dirty = [], uow_new = [s]\<rparr>"
    using u by (auto simp: begin_uow_def split: option.splits)
  have ins: "insert_session s (db\<lparr>db_accounts := ?accs\<rparr>) = Inr db'"
    using fl unfolding u' flush_one db' by simp
  show ?thesis
    using that [OF g s] i ins h by (auto simp: py_bind fresh_in_def membership_of_def)
qed

end
