(* ===== verification/AuthTokens.thy ===== *)
theory AuthTokens
  imports IdentityApp
begin

text \<open>
  Credentials (\<open>platform/security/authentication.py\<close>): the bearer-header parser, issue and
  verification of access tokens, refresh-token generation and digests, password hashing, and
  the Argon2 adapters of \<open>modules/identity/infrastructure/passwords.py\<close>.  PyJWT, SHA-256
  and Argon2 are parameters; \<open>jwt_law\<close> states what PyJWT documents of them.
\<close>

definition ACCESS_TOKEN_TYPE :: pystr where "ACCESS_TOKEN_TYPE = lit ''at+jwt''"
definition SUPPORTED_JWT_ALGORITHM :: pystr where "SUPPORTED_JWT_ALGORITHM = lit ''RS256''"
definition REFRESH_TOKEN_ENTROPY_BYTES :: nat where "REFRESH_TOKEN_ENTROPY_BYTES = 32"
definition MAX_ACCESS_TOKEN_LENGTH :: nat where "MAX_ACCESS_TOKEN_LENGTH = 8192"
definition MAX_PASSWORD_LENGTH_BYTES :: nat where "MAX_PASSWORD_LENGTH_BYTES = 1024"

section \<open>The bearer header\<close>

definition parse_bearer :: "ucd \<Rightarrow> pystr option \<Rightarrow> exn + pystr" where
  "parse_bearer U header =
     (case header of
        None \<Rightarrow> Inl TokenValidationError
      | Some h \<Rightarrow>
          (case split_ws h of
             [scheme, token] \<Rightarrow>
               if casefold U scheme \<noteq> lit ''bearer'' \<or> token = [] then Inl TokenValidationError
               else Inr token
           | _ \<Rightarrow> Inl TokenValidationError))"

lemma parse_bearer_Inr:
  "parse_bearer U header = Inr t \<longleftrightarrow>
     (\<exists>h scheme. header = Some h \<and> split_ws h = [scheme, t] \<and> casefold U scheme = lit ''bearer'')"
proof -
  have "t \<noteq> []" if "split_ws h = [s, t]" for h s
    using split_ws_words [of t h] that by simp
  then show ?thesis
    by (auto simp: parse_bearer_def split: option.splits list.splits)
qed

lemma parse_bearer_Inl: "parse_bearer U header = Inl e \<Longrightarrow> e = TokenValidationError"
  by (auto simp: parse_bearer_def split: option.splits list.splits if_splits)

section \<open>Settings\<close>

text \<open>The fields of \<open>AuthSettings\<close> (\<open>platform/config/models.py\<close>).\<close>

record auth_settings =
  au_enabled :: bool
  au_algorithm :: "pystr option"
  au_active_key_id :: "pystr option"
  au_signing_private_key :: "pystr option"
  au_verification_keys :: "(pystr \<times> pystr) list"
  au_issuer :: "pystr option"
  au_audience :: "pystr option"
  au_access_token_ttl_seconds :: int
  au_refresh_token_absolute_ttl_seconds :: int
  au_refresh_token_idle_ttl_seconds :: int
  au_refresh_cookie_secure :: bool
  au_argon2_memory_cost_kib :: int
  au_argon2_time_cost :: int
  au_argon2_parallelism :: int
  au_default_tenant_id :: pystr
  au_initial_manager_username :: "pystr option"
  au_initial_manager_password :: "pystr option"

definition required_value :: "pystr option \<Rightarrow> exn + pystr" where
  "required_value v =
     (case v of None \<Rightarrow> Inl (ValueError ''Authentication configuration is incomplete'')
      | Some x \<Rightarrow> Inr x)"

lemma required_value_Inr [py_bind]: "required_value v = Inr x \<longleftrightarrow> v = Some x"
  by (auto simp: required_value_def split: option.splits)

definition required_secret :: "auth_settings \<Rightarrow> exn + pystr" where
  "required_secret S = required_value (au_signing_private_key S)"

text \<open>Microseconds: \<open>value.astimezone(UTC)\<close> and \<open>int(value.timestamp())\<close>, which truncates.\<close>

definition require_aware_utc :: "datetime \<Rightarrow> exn + datetime" where
  "require_aware_utc v =
     (case v of
        Naive w \<Rightarrow> Inl (ValueError ''Authentication timestamps must be timezone-aware'')
      | Aware t off \<Rightarrow> if dt_min_us \<le> t \<and> t \<le> dt_max_us then Inr (Aware t 0) else Inl OverflowError)"

definition int_timestamp :: "datetime \<Rightarrow> int" where
  "int_timestamp v =
     (if 0 \<le> instant v then instant v div 1000000 else - ((- instant v) div 1000000))"

text \<open>\<open>datetime.fromtimestamp(seconds, tz=UTC)\<close>\<close>

definition from_timestamp :: "int \<Rightarrow> exn + datetime" where
  "from_timestamp secs =
     (if secs < - (2 ^ 63) \<or> 2 ^ 63 \<le> secs then Inl OverflowError
      else if dt_min_us \<le> secs * 1000000 \<and> secs * 1000000 \<le> dt_max_us
           then Inr (Aware (secs * 1000000) 0)
           else Inl (ValueError ''year is out of range''))"

lemma require_aware_utc_Inr [py_bind]:
  "require_aware_utc v = Inr w \<longleftrightarrow>
     is_aware v \<and> dt_min_us \<le> instant v \<and> instant v \<le> dt_max_us \<and> w = Aware (instant v) 0"
  by (auto simp: require_aware_utc_def split: datetime.splits)

section \<open>Access tokens\<close>

datatype jval = JStr pystr | JInt int | JBool bool | JOther

text \<open>A decoded JSON object; \<open>dict.get\<close> is \<open>map_of\<close>.\<close>

type_synonym claims = "(pystr \<times> jval) list"

text \<open>
  The operations of PyJWT used: \<open>encode payload key kid typ\<close> under RS256,
  \<open>get_unverified_header\<close>, and \<open>decode token key audience issuer required\<close> with the time
  checks switched off.
\<close>

record jwt_lib =
  jwt_encode :: "claims \<Rightarrow> pystr \<Rightarrow> pystr option \<Rightarrow> pystr \<Rightarrow> exn + pystr"
  jwt_header :: "pystr \<Rightarrow> exn + claims"
  jwt_decode :: "pystr \<Rightarrow> pystr \<Rightarrow> pystr \<Rightarrow> pystr \<Rightarrow> pystr list \<Rightarrow> exn + claims"

record access_token_claims =
  atc_issuer :: pystr
  atc_audience :: pystr
  atc_subject :: pystr
  atc_tenant_id :: pystr
  atc_session_id :: pystr
  atc_token_id :: pystr
  atc_issued_at :: datetime
  atc_not_before :: datetime
  atc_expires_at :: datetime

definition mk_token_issuer :: "auth_settings \<Rightarrow> exn + auth_settings" where
  "mk_token_issuer S =
     raise_if (\<not> au_enabled S \<or> au_algorithm S \<noteq> Some SUPPORTED_JWT_ALGORITHM
               \<or> au_active_key_id S = None \<or> au_signing_private_key S = None
               \<or> au_issuer S = None \<or> au_audience S = None)
       (ValueError ''Access-token issuer configuration is incomplete'') (Inr S)"

definition issue_access_token ::
  "jwt_lib \<Rightarrow> auth_settings \<Rightarrow> pystr \<Rightarrow> pystr \<Rightarrow> pystr \<Rightarrow> pystr \<Rightarrow> datetime \<Rightarrow> exn + pystr" where
  "issue_access_token J S subject tenant_id session_id token_id issued_at =
     raise_if (list_ex blank [subject, tenant_id, session_id, token_id])
       (ValueError ''Access-token identity values must not be blank'')
     (bindE (require_aware_utc issued_at) (\<lambda>normalized_issued_at.
      bindE (dt_add normalized_issued_at (au_access_token_ttl_seconds S * 1000000)) (\<lambda>expires_at.
      bindE (required_value (au_issuer S)) (\<lambda>iss.
      bindE (required_value (au_audience S)) (\<lambda>aud.
      bindE (required_secret S) (\<lambda>key.
      jwt_encode J
        [(lit ''iss'', JStr iss), (lit ''aud'', JStr aud), (lit ''sub'', JStr subject),
         (lit ''tenant_id'', JStr tenant_id), (lit ''session_id'', JStr session_id),
         (lit ''jti'', JStr token_id),
         (lit ''iat'', JInt (int_timestamp normalized_issued_at)),
         (lit ''nbf'', JInt (int_timestamp normalized_issued_at)),
         (lit ''exp'', JInt (int_timestamp expires_at))]
        key (au_active_key_id S) ACCESS_TOKEN_TYPE))))))"

definition mk_token_verifier :: "auth_settings \<Rightarrow> exn + auth_settings" where
  "mk_token_verifier S =
     raise_if (\<not> au_enabled S \<or> au_algorithm S \<noteq> Some SUPPORTED_JWT_ALGORITHM
               \<or> au_issuer S = None \<or> au_audience S = None \<or> au_verification_keys S = [])
       (ValueError ''Access-token verifier configuration is incomplete'') (Inr S)"

text \<open>The dict comprehension over the key ring: the last entry of a key id wins.\<close>

definition verification_key :: "auth_settings \<Rightarrow> pystr \<rightharpoonup> pystr" where
  "verification_key S = map_of (rev (au_verification_keys S))"

definition required_claims :: "pystr list" where
  "required_claims =
     [lit ''iss'', lit ''aud'', lit ''sub'', lit ''tenant_id'', lit ''session_id'', lit ''jti'',
      lit ''iat'', lit ''nbf'', lit ''exp'']"

definition string_claim :: "claims \<Rightarrow> string \<Rightarrow> exn + pystr" where
  "string_claim decoded name =
     (case map_of decoded (lit name) of
        Some (JStr v) \<Rightarrow> if blank v then Inl TokenValidationError else Inr v
      | _ \<Rightarrow> Inl TokenValidationError)"

definition time_claim :: "claims \<Rightarrow> string \<Rightarrow> exn + int" where
  "time_claim decoded name =
     (case map_of decoded (lit name) of Some (JInt v) \<Rightarrow> Inr v | _ \<Rightarrow> Inl TokenValidationError)"

definition validated_claims :: "claims \<Rightarrow> datetime \<Rightarrow> exn + access_token_claims" where
  "validated_claims decoded verified_at =
     bindE (string_claim decoded ''iss'') (\<lambda>iss.
     bindE (string_claim decoded ''aud'') (\<lambda>aud.
     bindE (string_claim decoded ''sub'') (\<lambda>sub.
     bindE (string_claim decoded ''tenant_id'') (\<lambda>tid.
     bindE (string_claim decoded ''session_id'') (\<lambda>sid.
     bindE (string_claim decoded ''jti'') (\<lambda>jti.
     bindE (time_claim decoded ''iat'') (\<lambda>iat.
     bindE (time_claim decoded ''nbf'') (\<lambda>nbf.
     bindE (time_claim decoded ''exp'') (\<lambda>exp.
     bindE (require_aware_utc verified_at) (\<lambda>v.
     let now_timestamp = int_timestamp v
     in raise_if (iat > now_timestamp \<or> nbf > now_timestamp \<or> exp \<le> now_timestamp)
          TokenValidationError
        (bindE (from_timestamp iat) (\<lambda>issued.
         bindE (from_timestamp nbf) (\<lambda>not_before.
         bindE (from_timestamp exp) (\<lambda>expires.
         Inr \<lparr>atc_issuer = iss, atc_audience = aud, atc_subject = sub, atc_tenant_id = tid,
              atc_session_id = sid, atc_token_id = jti, atc_issued_at = issued,
              atc_not_before = not_before, atc_expires_at = expires\<rparr>))))))))))))))"

text \<open>The \<open>except\<close> clauses of \<open>verify\<close>.\<close>

definition as_token_error :: "exn \<Rightarrow> exn" where
  "as_token_error e =
     (if (case e of InvalidTokenError \<Rightarrow> True | KeyError \<Rightarrow> True | TypeError _ \<Rightarrow> True
            | _ \<Rightarrow> is_value_error e)
      then TokenValidationError else e)"

definition verify_access_token ::
  "jwt_lib \<Rightarrow> auth_settings \<Rightarrow> pystr \<Rightarrow> datetime \<Rightarrow> exn + access_token_claims" where
  "verify_access_token J S token verified_at =
     raise_if (token = [] \<or> length token > MAX_ACCESS_TOKEN_LENGTH) TokenValidationError
     (map_sum as_token_error id
       (bindE (jwt_header J token) (\<lambda>header.
          if map_of header (lit ''alg'') \<noteq> Some (JStr SUPPORTED_JWT_ALGORITHM)
             \<or> map_of header (lit ''typ'') \<noteq> Some (JStr ACCESS_TOKEN_TYPE)
          then Inl TokenValidationError
          else
            (case map_of header (lit ''kid'') of
               Some (JStr key_id) \<Rightarrow>
                 (case verification_key S key_id of
                    None \<Rightarrow> Inl TokenValidationError
                  | Some key \<Rightarrow>
                      bindE (required_value (au_audience S)) (\<lambda>aud.
                      bindE (required_value (au_issuer S)) (\<lambda>iss.
                      bindE (jwt_decode J token key aud iss required_claims) (\<lambda>decoded.
                      validated_claims decoded verified_at))))
             | _ \<Rightarrow> Inl TokenValidationError))))"

lemma JStr_guard_Inr [py_bind]:
  "(case v of JStr k \<Rightarrow> f k | _ \<Rightarrow> Inl e) = Inr y \<longleftrightarrow> (\<exists>k. v = JStr k \<and> f k = Inr y)"
  by (auto split: jval.splits)

lemma string_claim_Inr [py_bind]:
  "string_claim d n = Inr v \<longleftrightarrow> map_of d (lit n) = Some (JStr v) \<and> \<not> blank v"
  by (auto simp: string_claim_def split: option.splits jval.splits)

lemma time_claim_Inr [py_bind]: "time_claim d n = Inr v \<longleftrightarrow> map_of d (lit n) = Some (JInt v)"
  by (auto simp: time_claim_def split: option.splits jval.splits)

lemma from_timestamp_Inr [py_bind]:
  "from_timestamp secs = Inr t \<longleftrightarrow>
     dt_min_us \<le> secs * 1000000 \<and> secs * 1000000 \<le> dt_max_us \<and> t = Aware (secs * 1000000) 0"
  by (auto simp: from_timestamp_def dt_min_us_def dt_max_us_def)

lemma validated_claims_Inr:
  "validated_claims d now = Inr c \<longleftrightarrow>
     map_of d (lit ''iss'') = Some (JStr (atc_issuer c)) \<and> map_of d (lit ''aud'') = Some (JStr (atc_audience c))
     \<and> map_of d (lit ''sub'') = Some (JStr (atc_subject c))
     \<and> map_of d (lit ''tenant_id'') = Some (JStr (atc_tenant_id c))
     \<and> map_of d (lit ''session_id'') = Some (JStr (atc_session_id c))
     \<and> map_of d (lit ''jti'') = Some (JStr (atc_token_id c))
     \<and> list_all (\<lambda>v. \<not> blank v) [atc_issuer c, atc_audience c, atc_subject c, atc_tenant_id c,
          atc_session_id c, atc_token_id c]
     \<and> is_aware now \<and> dt_min_us \<le> instant now \<and> instant now \<le> dt_max_us
     \<and> (\<exists>iat nbf exp. map_of d (lit ''iat'') = Some (JInt iat) \<and> map_of d (lit ''nbf'') = Some (JInt nbf)
          \<and> map_of d (lit ''exp'') = Some (JInt exp)
          \<and> iat \<le> int_timestamp now \<and> nbf \<le> int_timestamp now \<and> int_timestamp now < exp
          \<and> from_timestamp iat = Inr (atc_issued_at c)
          \<and> from_timestamp nbf = Inr (atc_not_before c)
          \<and> from_timestamp exp = Inr (atc_expires_at c))"
proof -
  have "int_timestamp (Aware (instant now) 0) = int_timestamp now" by (simp add: int_timestamp_def)
  then show ?thesis
    by (cases c) (auto simp: validated_claims_def Let_def py_bind simp del: from_timestamp_Inr)
qed

section \<open>Refresh tokens\<close>

text \<open>\<open>base64.urlsafe_b64encode\<close> on bytes, then \<open>rstrip("=")\<close>.\<close>

definition b64_char :: "nat \<Rightarrow> nat" where
  "b64_char n =
     (if n < 26 then 65 + n else if n < 52 then 71 + n else if n < 62 then n - 4
      else if n = 62 then 45 else 95)"

fun urlsafe_b64encode :: "nat list \<Rightarrow> pystr" where
  "urlsafe_b64encode (a # b # c # rest) =
     b64_char (a div 4) # b64_char (a mod 4 * 16 + b div 16)
       # b64_char (b mod 16 * 4 + c div 64) # b64_char (c mod 64) # urlsafe_b64encode rest"
| "urlsafe_b64encode [a, b] =
     [b64_char (a div 4), b64_char (a mod 4 * 16 + b div 16), b64_char (b mod 16 * 4), 61]"
| "urlsafe_b64encode [a] = [b64_char (a div 4), b64_char (a mod 4 * 16), 61, 61]"
| "urlsafe_b64encode [] = []"

definition rstrip_pad :: "pystr \<Rightarrow> pystr" where
  "rstrip_pad s = rev (dropWhile (\<lambda>c. c = 61) (rev s))"

definition generate_refresh_token :: "nat list \<Rightarrow> exn + pystr" where
  "generate_refresh_token raw_token =
     raise_if (length raw_token \<noteq> REFRESH_TOKEN_ENTROPY_BYTES)
       (ValueError ''Refresh-token entropy source returned the wrong byte count'')
       (Inr (rstrip_pad (urlsafe_b64encode raw_token)))"

text \<open>\<open>hashlib.sha256(token.encode("ascii")).hexdigest()\<close>; the hash is a parameter.\<close>

definition refresh_token_digest :: "(pystr \<Rightarrow> pystr) \<Rightarrow> pystr \<Rightarrow> exn + pystr" where
  "refresh_token_digest sha256_hex token =
     raise_if (token = []) (ValueError ''Refresh token must not be blank'')
     (raise_if (\<not> is_ascii token) UnicodeEncodeError
     (Inr (sha256_hex token)))"

section \<open>Passwords\<close>

text \<open>\<open>pwdlib\<close> with Argon2id: \<open>hash\<close> and \<open>verify_and_update\<close>.\<close>

record pwd_lib =
  pl_hash :: "pystr \<Rightarrow> exn + pystr"
  pl_verify_and_update :: "pystr \<Rightarrow> pystr \<Rightarrow> exn + bool \<times> pystr option"

definition validate_password :: "pystr \<Rightarrow> exn + unit" where
  "validate_password password =
     bindE (utf8_length password) (\<lambda>password_length.
       raise_if (password_length = 0 \<or> password_length > MAX_PASSWORD_LENGTH_BYTES)
         (ValueError ''Password length is outside the supported boundary'') (Inr ()))"

definition hash_password :: "pwd_lib \<Rightarrow> pystr \<Rightarrow> exn + pystr" where
  "hash_password P password = bindE (validate_password password) (\<lambda>_. pl_hash P password)"

definition verify_and_update :: "pwd_lib \<Rightarrow> pystr \<Rightarrow> pystr \<Rightarrow> exn + password_check" where
  "verify_and_update P password encoded_hash =
     bindE (validate_password password) (\<lambda>_.
       case pl_verify_and_update P password encoded_hash of
         Inl UnknownHashError \<Rightarrow> Inr \<lparr>pc_valid = False, pc_updated_hash = None\<rparr>
       | Inl e \<Rightarrow> Inl e
       | Inr (valid, updated_hash) \<Rightarrow> Inr \<lparr>pc_valid = valid, pc_updated_hash = updated_hash\<rparr>)"

text \<open>\<open>Argon2PasswordVerifier.verify\<close>: an unknown account costs one hash as well.\<close>

definition argon2_verify :: "pwd_lib \<Rightarrow> password_verifier" where
  "argon2_verify P password encoded_hash =
     (case encoded_hash of
        None \<Rightarrow> bindE (hash_password P password)
                  (\<lambda>_. Inr \<lparr>pc_valid = False, pc_updated_hash = None\<rparr>)
      | Some h \<Rightarrow>
          bindE (verify_and_update P password h) (\<lambda>result.
            Inr \<lparr>pc_valid = pc_valid result, pc_updated_hash = pc_updated_hash result\<rparr>))"

definition argon2_encode :: "pwd_lib \<Rightarrow> pystr \<Rightarrow> exn + pystr" where
  "argon2_encode P password = hash_password P password"

section \<open>Guarantees\<close>

text \<open>
  What PyJWT documents: a token made by \<open>encode\<close> decodes, under the matching public key, to
  its payload, provided issuer and audience match and the required claims are present; and
  \<open>decode\<close> only returns claims of the expected issuer and audience.
\<close>

definition jwt_law :: "jwt_lib \<Rightarrow> pystr \<Rightarrow> pystr \<Rightarrow> bool" where
  "jwt_law J priv pub \<longleftrightarrow>
     (\<forall>payload kid typ tok. jwt_encode J payload priv (Some kid) typ = Inr tok \<longrightarrow>
        jwt_header J tok = Inr [(lit ''alg'', JStr SUPPORTED_JWT_ALGORITHM), (lit ''typ'', JStr typ),
                                (lit ''kid'', JStr kid)]
        \<and> (\<forall>aud iss req. map_of payload (lit ''aud'') = Some (JStr aud) \<longrightarrow>
             map_of payload (lit ''iss'') = Some (JStr iss) \<longrightarrow>
             (\<forall>k\<in>set req. map_of payload k \<noteq> None) \<longrightarrow>
             jwt_decode J tok pub aud iss req = Inr payload))"

definition jwt_checks :: "jwt_lib \<Rightarrow> bool" where
  "jwt_checks J \<longleftrightarrow>
     (\<forall>tok key aud iss req d. jwt_decode J tok key aud iss req = Inr d \<longrightarrow>
        map_of d (lit ''iss'') = Some (JStr iss)
        \<and> (\<forall>v. map_of d (lit ''aud'') = Some (JStr v) \<longrightarrow> v = aud))"

lemma int_timestamp_bounds:
  "0 \<le> instant v \<Longrightarrow> int_timestamp v * 1000000 \<le> instant v
     \<and> instant v < (int_timestamp v + 1) * 1000000"
  using div_mult_mod_eq [of "instant v" 1000000] pos_mod_bound [of 1000000 "instant v"]
    pos_mod_sign [of 1000000 "instant v"]
  by (simp add: int_timestamp_def) linarith

lemma int_timestamp_mono: "instant v \<le> instant w \<Longrightarrow> int_timestamp v \<le> int_timestamp w"
  by (auto simp: int_timestamp_def zdiv_mono1 pos_imp_zdiv_nonneg_iff
      intro: order_trans [of _ 0])

text \<open>A concrete library that signs exactly one payload, and settings that use it.\<close>

definition demo_settings :: auth_settings where
  "demo_settings =
     \<lparr>au_enabled = True, au_algorithm = Some SUPPORTED_JWT_ALGORITHM,
      au_active_key_id = Some (lit ''k1''), au_signing_private_key = Some (lit ''priv''),
      au_verification_keys = [(lit ''k1'', lit ''pub'')], au_issuer = Some (lit ''bid''),
      au_audience = Some (lit ''web''), au_access_token_ttl_seconds = 900,
      au_refresh_token_absolute_ttl_seconds = 1000, au_refresh_token_idle_ttl_seconds = 100,
      au_refresh_cookie_secure = True, au_argon2_memory_cost_kib = 19456,
      au_argon2_time_cost = 2, au_argon2_parallelism = 1, au_default_tenant_id = lit ''default'',
      au_initial_manager_username = None, au_initial_manager_password = None\<rparr>"

definition demo_payload :: claims where
  "demo_payload =
     [(lit ''iss'', JStr (lit ''bid'')), (lit ''aud'', JStr (lit ''web'')),
      (lit ''sub'', JStr (lit ''u1'')), (lit ''tenant_id'', JStr (lit ''default'')),
      (lit ''session_id'', JStr (lit ''s1'')), (lit ''jti'', JStr (lit ''j1'')),
      (lit ''iat'', JInt 10), (lit ''nbf'', JInt 10), (lit ''exp'', JInt 910)]"

definition demo_jwt :: jwt_lib where
  "demo_jwt =
     \<lparr>jwt_encode = (\<lambda>payload key kid typ.
        if payload = demo_payload \<and> key = lit ''priv'' \<and> kid = Some (lit ''k1'')
           \<and> typ = ACCESS_TOKEN_TYPE
        then Inr (lit ''tok'') else Inl (TypeError ''payload'')),
      jwt_header = (\<lambda>tok.
        if tok = lit ''tok''
        then Inr [(lit ''alg'', JStr SUPPORTED_JWT_ALGORITHM), (lit ''typ'', JStr ACCESS_TOKEN_TYPE),
                  (lit ''kid'', JStr (lit ''k1''))]
        else Inl InvalidTokenError),
      jwt_decode = (\<lambda>tok key aud iss req.
        if tok = lit ''tok'' \<and> key = lit ''pub'' \<and> aud = lit ''web'' \<and> iss = lit ''bid''
           \<and> list_all (\<lambda>k. map_of demo_payload k \<noteq> None) req
        then Inr demo_payload else Inl InvalidTokenError)\<rparr>"

lemma demo_jwt_law: "jwt_law demo_jwt (lit ''priv'') (lit ''pub'')"
  by (auto simp: jwt_law_def demo_jwt_def demo_payload_def list_all_iff split: if_splits)

lemma demo_jwt_checks: "jwt_checks demo_jwt"
  by (auto simp: jwt_checks_def demo_jwt_def demo_payload_def split: if_splits)

text \<open>Every accepted access token was offered under RS256 with the access-token type and a
  key of the ring, carries the configured issuer and audience and non-blank identities, and is
  inside its validity window: issued and valid no later than the second of verification, which
  is strictly before its expiry.\<close>

theorem verified_token_is_trusted:
  assumes "jwt_checks J" and "verify_access_token J S tok now = Inr c"
  shows "length tok \<le> 8192 \<and> tok \<noteq> []
    \<and> (\<exists>header kid key d. jwt_header J tok = Inr header
        \<and> map_of header (lit ''alg'') = Some (JStr (lit ''RS256''))
        \<and> map_of header (lit ''typ'') = Some (JStr (lit ''at+jwt''))
        \<and> map_of header (lit ''kid'') = Some (JStr kid)
        \<and> (kid, key) \<in> set (au_verification_keys S)
        \<and> jwt_decode J tok key (atc_audience c) (atc_issuer c) required_claims = Inr d)
    \<and> au_issuer S = Some (atc_issuer c) \<and> au_audience S = Some (atc_audience c)
    \<and> \<not> blank (atc_subject c) \<and> \<not> blank (atc_tenant_id c) \<and> \<not> blank (atc_session_id c)
    \<and> instant (atc_issued_at c) \<le> int_timestamp now * 1000000
    \<and> instant (atc_not_before c) \<le> int_timestamp now * 1000000
    \<and> int_timestamp now * 1000000 < instant (atc_expires_at c)"
proof -
  obtain header kid key aud iss d where
    H: "jwt_header J tok = Inr header"
      "map_of header (lit ''alg'') = Some (JStr SUPPORTED_JWT_ALGORITHM)"
      "map_of header (lit ''typ'') = Some (JStr ACCESS_TOKEN_TYPE)"
      "map_of header (lit ''kid'') = Some (JStr kid)"
    and K: "verification_key S kid = Some key"
    and D: "jwt_decode J tok key aud iss required_claims = Inr d"
    and S: "au_audience S = Some aud" "au_issuer S = Some iss"
    and V: "validated_claims d now = Inr c" and L: "length tok \<le> 8192" "tok \<noteq> []"
    using assms(2)
    by (auto simp: verify_access_token_def py_bind MAX_ACCESS_TOKEN_LENGTH_def)
  have key: "(kid, key) \<in> set (au_verification_keys S)"
    using K by (auto simp: verification_key_def dest: map_of_SomeD)
  have "map_of d (lit ''iss'') = Some (JStr iss)"
    "\<And>v. map_of d (lit ''aud'') = Some (JStr v) \<Longrightarrow> v = aud"
    using assms(1) D unfolding jwt_checks_def by blast+
  then have ia: "atc_issuer c = iss" "atc_audience c = aud"
    using V by (auto simp: validated_claims_Inr)
  show ?thesis
    using H K D S V L key ia
    by (auto simp: validated_claims_Inr py_bind ACCESS_TOKEN_TYPE_def SUPPORTED_JWT_ALGORITHM_def)
qed

lemma verified_token_is_trusted_witness:
  "au_issuer demo_settings = Some (lit ''bid'')
   \<and> (\<exists>c. verify_access_token demo_jwt demo_settings (lit ''tok'') (Aware 20000000 0) = Inr c
        \<and> \<not> blank (atc_subject c))"
proof -
  have "verify_access_token demo_jwt demo_settings (lit ''tok'') (Aware 20000000 0) = Inr
     \<lparr>atc_issuer = lit ''bid'', atc_audience = lit ''web'', atc_subject = lit ''u1'',
      atc_tenant_id = lit ''default'', atc_session_id = lit ''s1'', atc_token_id = lit ''j1'',
      atc_issued_at = Aware 10000000 0, atc_not_before = Aware 10000000 0,
      atc_expires_at = Aware 910000000 0\<rparr>" by code_simp
  from verified_token_is_trusted [OF demo_jwt_checks this] this
  show ?thesis by (simp add: demo_settings_def)
qed

lemma issued_token_verdict:
  assumes "jwt_law J priv pub" and "au_signing_private_key S = Some priv"
    and "au_active_key_id S = Some kid" and "verification_key S kid = Some pub"
    and "issue_access_token J S sub tid sid jti issued = Inr tok"
    and "tok \<noteq> []" and "length tok \<le> 8192"
    and "au_issuer S = Some iss" and "au_audience S = Some aud" and "\<not> blank iss" and "\<not> blank aud"
    and "is_aware now" and "dt_min_us \<le> instant now" and "instant now \<le> dt_max_us"
    and "0 \<le> instant issued" and "0 < au_access_token_ttl_seconds S"
  shows "verify_access_token J S tok now =
      (if int_timestamp issued \<le> int_timestamp now
         \<and> int_timestamp now < int_timestamp issued + au_access_token_ttl_seconds S
       then Inr \<lparr>atc_issuer = iss, atc_audience = aud, atc_subject = sub, atc_tenant_id = tid,
          atc_session_id = sid, atc_token_id = jti, atc_issued_at = Aware (int_timestamp issued * 1000000) 0,
          atc_not_before = Aware (int_timestamp issued * 1000000) 0,
          atc_expires_at = Aware ((int_timestamp issued + au_access_token_ttl_seconds S) * 1000000) 0\<rparr>
       else Inl TokenValidationError)"
proof -
  let ?i = "int_timestamp issued" and ?ttl = "au_access_token_ttl_seconds S"
  let ?p = "[(lit ''iss'', JStr iss), (lit ''aud'', JStr aud), (lit ''sub'', JStr sub),
      (lit ''tenant_id'', JStr tid), (lit ''session_id'', JStr sid), (lit ''jti'', JStr jti),
      (lit ''iat'', JInt ?i), (lit ''nbf'', JInt ?i), (lit ''exp'', JInt (?i + ?ttl))]"
  have same: "int_timestamp (Aware (instant v) 0) = int_timestamp v" for v
    by (simp add: int_timestamp_def)
  have later: "int_timestamp (Aware (instant issued + ?ttl * 1000000) 0) = ?i + ?ttl"
    using assms(15,16) by (simp add: int_timestamp_def)
  have enc: "jwt_encode J ?p priv (Some kid) ACCESS_TOKEN_TYPE = Inr tok"
    and nb: "\<not> blank sub" "\<not> blank tid" "\<not> blank sid" "\<not> blank jti"
    and range: "instant issued \<le> dt_max_us" "instant issued + ?ttl * 1000000 \<le> dt_max_us"
    using assms(5,2,3,8,9)
    by (auto simp: issue_access_token_def py_bind required_secret_def same later)
  have hdr: "jwt_header J tok = Inr [(lit ''alg'', JStr SUPPORTED_JWT_ALGORITHM),
      (lit ''typ'', JStr ACCESS_TOKEN_TYPE), (lit ''kid'', JStr kid)]"
    and dec: "jwt_decode J tok pub aud iss required_claims = Inr ?p"
    using assms(1) enc unfolding jwt_law_def by (blast, fastforce simp: required_claims_def)
  have ver: "verify_access_token J S tok now = map_sum as_token_error id (validated_claims ?p now)"
    using hdr dec assms(4,6-9)
    by (simp add: verify_access_token_def MAX_ACCESS_TOKEN_LENGTH_def required_value_def)
  have ts: "from_timestamp ?i = Inr (Aware (?i * 1000000) 0)"
    "from_timestamp (?i + ?ttl) = Inr (Aware ((?i + ?ttl) * 1000000) 0)"
    using int_timestamp_bounds [OF assms(15)] range assms(15,16)
    by (auto simp: from_timestamp_Inr dt_min_us_def int_timestamp_def algebra_simps)
  have req: "require_aware_utc now = Inr (Aware (instant now) 0)"
    using assms(12-14) by (simp add: require_aware_utc_Inr)
  have val: "validated_claims ?p now =
      (if ?i > int_timestamp now \<or> ?i + ?ttl \<le> int_timestamp now then Inl TokenValidationError
       else Inr \<lparr>atc_issuer = iss, atc_audience = aud, atc_subject = sub, atc_tenant_id = tid,
          atc_session_id = sid, atc_token_id = jti, atc_issued_at = Aware (?i * 1000000) 0,
          atc_not_before = Aware (?i * 1000000) 0,
          atc_expires_at = Aware ((?i + ?ttl) * 1000000) 0\<rparr>)"
    using nb assms(10,11) ts req
    by (simp add: validated_claims_def string_claim_def time_claim_def Let_def same raise_if_def)
  show ?thesis unfolding ver val by (simp add: as_token_error_def)
qed

text \<open>C39: issue and verify round-trip: a token issued at one instant is accepted exactly from that
  second on and strictly before the expiry second, yielding the identities it was issued for;
  outside that window it is refused with the uniform token error.\<close>

theorem issue_verify_roundtrip:
  assumes "jwt_law J priv pub" and "au_signing_private_key S = Some priv"
    and "au_active_key_id S = Some kid" and "verification_key S kid = Some pub"
    and "issue_access_token J S sub tid sid jti issued = Inr tok"
    and "tok \<noteq> []" and "length tok \<le> 8192"
    and "au_issuer S = Some iss" and "au_audience S = Some aud" and "\<not> blank iss" and "\<not> blank aud"
    and "is_aware now" and "dt_min_us \<le> instant now" and "instant now \<le> dt_max_us"
    and "0 \<le> instant issued" and "0 < au_access_token_ttl_seconds S"
  shows "(if int_timestamp issued \<le> int_timestamp now
            \<and> int_timestamp now < int_timestamp issued + au_access_token_ttl_seconds S
          then \<exists>c. verify_access_token J S tok now = Inr c \<and> atc_subject c = sub
             \<and> atc_tenant_id c = tid \<and> atc_session_id c = sid \<and> atc_token_id c = jti
             \<and> instant (atc_issued_at c) = int_timestamp issued * 1000000
             \<and> instant (atc_expires_at c)
                 = (int_timestamp issued + au_access_token_ttl_seconds S) * 1000000
          else verify_access_token J S tok now = Inl TokenValidationError)"
  using issued_token_verdict [OF assms] by simp

lemma issue_verify_roundtrip_witness:
  "verify_access_token demo_jwt demo_settings (lit ''tok'') (Aware 910000000 0)
     = Inl TokenValidationError"
proof -
  have "issue_access_token demo_jwt demo_settings (lit ''u1'') (lit ''default'') (lit ''s1'')
      (lit ''j1'') (Aware 10500000 0) = Inr (lit ''tok'')"
    "au_signing_private_key demo_settings = Some (lit ''priv'')"
    "au_active_key_id demo_settings = Some (lit ''k1'')"
    "verification_key demo_settings (lit ''k1'') = Some (lit ''pub'')"
    "au_issuer demo_settings = Some (lit ''bid'')" "au_audience demo_settings = Some (lit ''web'')"
    "\<not> blank (lit ''bid'')" "\<not> blank (lit ''web'')" "lit ''tok'' \<noteq> []"
    "length (lit ''tok'') \<le> 8192" "0 < au_access_token_ttl_seconds demo_settings"
    "is_aware (Aware 910000000 0)" "dt_min_us \<le> instant (Aware 910000000 0)"
    "instant (Aware 910000000 0) \<le> dt_max_us" "0 \<le> instant (Aware 10500000 0)"
    by code_simp+
  note H = this
  have "\<not> (int_timestamp (Aware 10500000 0) \<le> int_timestamp (Aware 910000000 0)
      \<and> int_timestamp (Aware 910000000 0)
          < int_timestamp (Aware 10500000 0) + au_access_token_ttl_seconds demo_settings)"
    by code_simp
  then show ?thesis
    using issue_verify_roundtrip [OF demo_jwt_law H(2,3,4,1,9,10,5,6,7,8,12,13,14,15,11)]
    by (simp only: if_False)
qed

text \<open>The alphabet of the URL-safe encoding: letters, digits, \<open>-\<close> and \<open>_\<close>.\<close>

definition url_safe :: "nat \<Rightarrow> bool" where
  "url_safe c \<longleftrightarrow> 65 \<le> c \<and> c \<le> 90 \<or> 97 \<le> c \<and> c \<le> 122 \<or> 48 \<le> c \<and> c \<le> 57 \<or> c = 45 \<or> c = 95"

lemma b64_char_inj: "m < 64 \<Longrightarrow> n < 64 \<Longrightarrow> b64_char m = b64_char n \<longleftrightarrow> m = n"
  by (auto simp: b64_char_def split: if_splits)

lemma b64_char_safe: "n < 64 \<Longrightarrow> url_safe (b64_char n)"
  by (auto simp: b64_char_def url_safe_def)

lemma url_safe_not_pad: "url_safe c \<Longrightarrow> c \<noteq> 61 \<and> c < 128 \<and> \<not> is_space c"
  by (auto simp: url_safe_def is_space_def)

lemma two_digits:
  fixes a :: nat shows "a * n + b = c * n + d \<Longrightarrow> b < n \<Longrightarrow> d < n \<Longrightarrow> a = c \<and> b = d"
  by (metis add.commute add_right_imp_eq div_mult_self3 mod_less mod_mult_self3 mult.commute
      mult_cancel1 not_less_zero div_less add_0)

lemma byte_digits: "(a::nat) div k = a' div k \<Longrightarrow> a mod k = a' mod k \<Longrightarrow> a = a'"
  by (metis div_mult_mod_eq)

lemma byte_div:
  fixes a :: nat assumes "a < 256"
  shows "a div 4 < 64" "a div 16 < 16" "a div 64 < 4"
  using assms by (simp_all add: less_mult_imp_div_less)

lemma six_bits:
  fixes a b :: nat assumes "a < 256" "b < 256"
  shows "a div 4 < 64" "a mod 4 * 16 + b div 16 < 64" "a mod 16 * 4 + b div 64 < 64"
    "a mod 64 < 64" "a mod 16 * 4 < 64"
proof -
  have "a mod 4 < 4" "a mod 16 < 16" by simp_all
  moreover note byte_div [OF assms(1)] byte_div [OF assms(2)]
  ultimately show "a mod 4 * 16 + b div 16 < 64" "a mod 16 * 4 + b div 64 < 64"
    "a mod 16 * 4 < 64" "a div 4 < 64" by linarith+
  show "a mod 64 < 64" by simp
qed

lemma b64_group_inj:
  fixes a b c a' b' c' :: nat
  assumes lt: "a < 256" "b < 256" "c < 256" "a' < 256" "b' < 256" "c' < 256"
    and eq: "b64_char (a div 4) = b64_char (a' div 4)"
      "b64_char (a mod 4 * 16 + b div 16) = b64_char (a' mod 4 * 16 + b' div 16)"
      "b64_char (b mod 16 * 4 + c div 64) = b64_char (b' mod 16 * 4 + c' div 64)"
      "b64_char (c mod 64) = b64_char (c' mod 64)"
  shows "a = a' \<and> b = b' \<and> c = c'"
proof -
  note S = six_bits [OF lt(1,2)] six_bits [OF lt(2,3)] six_bits [OF lt(3,3)]
  note S' = six_bits [OF lt(4,5)] six_bits [OF lt(5,6)] six_bits [OF lt(6,6)]
  have 1: "a div 4 = a' div 4" using b64_char_inj [OF S(1) S'(1)] eq(1) by blast
  have 2: "a mod 4 * 16 + b div 16 = a' mod 4 * 16 + b' div 16"
    using b64_char_inj [OF S(2) S'(2)] eq(2) by blast
  have 3: "b mod 16 * 4 + c div 64 = b' mod 16 * 4 + c' div 64"
    using b64_char_inj [OF S(8) S'(8)] eq(3) by blast
  have 4: "c mod 64 = c' mod 64" using b64_char_inj [OF S(14) S'(14)] eq(4) by blast
  have 5: "a mod 4 = a' mod 4 \<and> b div 16 = b' div 16"
    using two_digits [OF 2 byte_div(2) [OF lt(2)] byte_div(2) [OF lt(5)]] .
  have 6: "b mod 16 = b' mod 16 \<and> c div 64 = c' div 64"
    using two_digits [OF 3 byte_div(3) [OF lt(3)] byte_div(3) [OF lt(6)]] .
  show ?thesis
    using byte_digits [OF 1] byte_digits [of b 16 b'] byte_digits [of c 64 c'] 4 5 6 by blast
qed

lemma b64encode_inj:
  "list_all (\<lambda>b. b < 256) xs \<Longrightarrow> list_all (\<lambda>b. b < 256) ys \<Longrightarrow> length xs = length ys \<Longrightarrow>
     urlsafe_b64encode xs = urlsafe_b64encode ys \<Longrightarrow> xs = ys"
proof (induction xs arbitrary: ys rule: urlsafe_b64encode.induct)
  case (1 a b c rest)
  from "1.prems"(3) obtain a' b' c' rest' where ys: "ys = a' # b' # c' # rest'"
    by (cases ys rule: urlsafe_b64encode.cases) simp_all
  note eq = "1.prems"(4) [unfolded ys urlsafe_b64encode.simps list.inject]
  note lt = "1.prems"(1,2) [unfolded ys list.pred_inject]
  have "a = a' \<and> b = b' \<and> c = c'" by (rule b64_group_inj) (use eq lt in blast)+
  moreover have "length rest = length rest'" using "1.prems"(3) ys by simp
  then have "rest = rest'" using "1.IH" eq lt by blast
  ultimately show ?case using ys by blast
next
  case (2 a b)
  from "2.prems"(3) obtain a' b' where ys: "ys = [a', b']"
    by (cases ys rule: urlsafe_b64encode.cases) simp_all
  note eq = "2.prems"(4) [unfolded ys urlsafe_b64encode.simps list.inject]
  note lt = "2.prems"(1,2) [unfolded ys list.pred_inject]
  have z: "(0::nat) < 256" "b mod 16 * 4 + 0 div 64 = b mod 16 * 4"
    "b' mod 16 * 4 + 0 div 64 = b' mod 16 * 4" by simp_all
  have "a = a' \<and> b = b' \<and> (0::nat) = 0"
    by (rule b64_group_inj [of a b 0 a' b' 0, unfolded z(2,3)]) (use eq lt z(1) in blast)+
  then show ?case using ys by blast
next
  case (3 a)
  from "3.prems"(3) obtain a' where ys: "ys = [a']"
    by (cases ys rule: urlsafe_b64encode.cases) simp_all
  note eq = "3.prems"(4) [unfolded ys urlsafe_b64encode.simps list.inject]
  note lt = "3.prems"(1,2) [unfolded ys list.pred_inject]
  have z: "(0::nat) < 256" "a mod 4 * 16 + 0 div 16 = a mod 4 * 16"
    "a' mod 4 * 16 + 0 div 16 = a' mod 4 * 16" by simp_all
  have "a = a' \<and> (0::nat) = 0 \<and> (0::nat) = 0"
    by (rule b64_group_inj [of a 0 0 a' 0 0, unfolded z(2,3)]) (use eq lt z(1) in blast)+
  then show ?case using ys by blast
qed simp

lemma b64encode_shape:
  "list_all (\<lambda>b. b < 256) xs \<Longrightarrow> length xs mod 3 = 2 \<Longrightarrow>
     \<exists>p. urlsafe_b64encode xs = p @ [61] \<and> length p = 4 * (length xs div 3) + 3
       \<and> list_all url_safe p"
proof (induction xs rule: urlsafe_b64encode.induct)
  case (1 a b c rest)
  have lt: "a < 256" "b < 256" "c < 256" "list_all (\<lambda>b. b < 256) rest"
    using "1.prems"(1) by (simp_all only: list.pred_inject)
  have len: "length (a # b # c # rest) = length rest + 3" by (simp only: list.size)
  have "length rest mod 3 = 2" using "1.prems"(2) unfolding len by (simp only: mod_add_self2)
  then obtain p where p: "urlsafe_b64encode rest = p @ [61]" "length p = 4 * (length rest div 3) + 3"
    "list_all url_safe p" using "1.IH" lt(4) by blast
  let ?q = "b64_char (a div 4) # b64_char (a mod 4 * 16 + b div 16)
       # b64_char (b mod 16 * 4 + c div 64) # b64_char (c mod 64) # p"
  have "length ?q = 4 * (length (a # b # c # rest) div 3) + 3"
    unfolding len div_add_self2 [OF numeral_neq_zero [of "num.Bit1 num.One"]]
    using p(2) by simp
  moreover have "list_all url_safe ?q"
    using p(3) b64_char_safe six_bits [OF lt(1,2)] six_bits [OF lt(2,3)] six_bits [OF lt(3,3)]
    by (simp only: list.pred_inject)
  moreover have "urlsafe_b64encode (a # b # c # rest) = ?q @ [61]"
    using p(1) by (simp only: urlsafe_b64encode.simps append_Cons)
  ultimately show ?case by blast
next
  case (2 a b)
  have lt: "a < 256" "b < 256" using "2.prems"(1) by (simp_all only: list.pred_inject)
  have "list_all url_safe [b64_char (a div 4), b64_char (a mod 4 * 16 + b div 16),
      b64_char (b mod 16 * 4)]"
    using b64_char_safe six_bits [OF lt] six_bits [OF lt(2,2)] by (simp only: list.pred_inject)
  then show ?case
    by (intro exI [of _ "[b64_char (a div 4), b64_char (a mod 4 * 16 + b div 16),
        b64_char (b mod 16 * 4)]"]) (simp only: urlsafe_b64encode.simps append_Cons append_Nil, simp)
qed simp_all

text \<open>A refresh token generated from 32 random bytes is 43 URL-safe characters without the
  padding, so its digest never raises, and different entropy gives different tokens.\<close>

theorem refresh_token_well_formed:
  assumes "length raw = 32" and "list_all (\<lambda>b. b < 256) raw"
  shows "\<exists>tok. generate_refresh_token raw = Inr tok \<and> length tok = 43
    \<and> (\<forall>c\<in>set tok. url_safe c) \<and> refresh_token_digest sha tok = Inr (sha tok)
    \<and> (\<forall>raw2. length raw2 = 32 \<longrightarrow> list_all (\<lambda>b. b < 256) raw2 \<longrightarrow>
          generate_refresh_token raw2 = Inr tok \<longrightarrow> raw2 = raw)"
proof -
  have shape: "\<exists>p. urlsafe_b64encode r = p @ [61] \<and> length p = 43 \<and> (\<forall>c\<in>set p. url_safe c)
      \<and> generate_refresh_token r = Inr p" if r: "length r = 32" "list_all (\<lambda>b. b < 256) r" for r
  proof -
    from b64encode_shape [OF r(2)] r(1) obtain p where p: "urlsafe_b64encode r = p @ [61]"
      "length p = 43" "\<forall>c\<in>set p. url_safe c" by (auto simp: list_all_iff)
    have "p \<noteq> []" using p(2) by auto
    then have "last p \<noteq> 61" using p(3) url_safe_not_pad by (meson last_in_set)
    then have "dropWhile (\<lambda>c. c = 61) (rev p) = rev p"
      using \<open>p \<noteq> []\<close> by (simp add: dropWhile_id hd_rev)
    then have "rstrip_pad (urlsafe_b64encode r) = p" by (simp add: rstrip_pad_def p(1))
    then show ?thesis
      using p r by (auto simp: generate_refresh_token_def REFRESH_TOKEN_ENTROPY_BYTES_def)
  qed
  from shape [OF assms] obtain p where p: "urlsafe_b64encode raw = p @ [61]" "length p = 43"
    "\<forall>c\<in>set p. url_safe c" "generate_refresh_token raw = Inr p" by blast
  have "refresh_token_digest sha p = Inr (sha p)"
    using p(2,3) url_safe_not_pad
    by (auto simp: refresh_token_digest_def is_ascii_def list_all_iff)
  moreover have "raw2 = raw"
    if r2: "length raw2 = 32" "list_all (\<lambda>b. b < 256) raw2" "generate_refresh_token raw2 = Inr p" for raw2
    using shape [OF r2(1,2)] r2 p(1) b64encode_inj [OF r2(2) assms(2)] assms(1) by auto
  ultimately show ?thesis using p by blast
qed

lemma refresh_token_well_formed_witness:
  "\<exists>tok. generate_refresh_token (replicate 32 255) = Inr tok \<and> length tok = 43"
proof -
  have "length (replicate 32 (255::nat)) = 32" "list_all (\<lambda>b. b < 256) (replicate 32 (255::nat))"
    by code_simp+
  from refresh_token_well_formed [OF this] show ?thesis by blast
qed

text \<open>The parser returns the credential of a well-formed bearer header.\<close>

lemma parse_bearer_credential:
  assumes "ucd_ascii U" "tok \<noteq> []" "\<forall>c\<in>set tok. \<not> is_space c"
  shows "parse_bearer U (Some (lit ''Bearer '' @ tok)) = Inr tok"
proof -
  have s: "lit ''Bearer '' @ tok = lit ''Bearer'' @ 32 # tok" by (simp add: lit_def)
  have "split_ws (lit ''Bearer '' @ tok) = [lit ''Bearer'', tok]"
    unfolding s by (rule split_ws_two) (use assms in \<open>simp_all add: lit_def is_space_def\<close>)
  moreover have "casefold U (lit ''Bearer'') = lit ''bearer''"
    using casefold_ascii [OF assms(1), of "lit ''Bearer''"]
    by (simp add: lit_def is_ascii_def ascii_lower_def)
  ultimately show ?thesis by (simp add: parse_bearer_Inr)
qed

text \<open>The adapter accepts the hash it made, when the library does, and never an unknown account.\<close>

lemma argon2_verify_encoded:
  assumes "argon2_encode P pw = Inr h" "pl_verify_and_update P pw h = Inr (True, None)"
  shows "argon2_verify P pw (Some h) = Inr \<lparr>pc_valid = True, pc_updated_hash = None\<rparr>"
  using assms
  by (auto simp: argon2_encode_def hash_password_def argon2_verify_def verify_and_update_def py_bind)

lemma argon2_verify_unknown:
  "argon2_verify P pw None = Inr c \<Longrightarrow> \<not> pc_valid c \<and> (\<exists>h. hash_password P pw = Inr h)"
  by (auto simp: argon2_verify_def py_bind)

end
