(* ===== verification/AccessControl.thy ===== *)
theory AccessControl
  imports AuthTokens
begin

text \<open>
  The request guards of \<open>platform/security\<close>: permission evaluation
  (\<open>authorization.py\<close>), the trusted tenant context (\<open>tenant.py\<close>) and the Redis rate
  limiter (\<open>rate_limit.py\<close>).  The limiter's Lua script is translated over the Redis
  commands \<open>INCR\<close> and \<open>EXPIRE\<close>, which are parameters with the law \<open>redis_law\<close>.
\<close>

section \<open>Principals and permissions\<close>

record authenticated_principal =
  ap_user_id :: pystr
  ap_tenant_id :: pystr
  ap_session_id :: pystr
  ap_roles :: "pystr set"
  ap_permissions :: "pystr set"
  ap_active :: bool

datatype denial_reason = INACTIVE_PRINCIPAL | TENANT_MISMATCH | MISSING_PERMISSION

record authorization_decision =
  ad_allowed :: bool
  ad_denial_reason :: "denial_reason option"

definition evaluate_permission ::
  "authenticated_principal \<Rightarrow> pystr set \<Rightarrow> pystr \<Rightarrow> authorization_decision" where
  "evaluate_permission prin required_permissions tenant_id =
     (if \<not> ap_active prin
      then \<lparr>ad_allowed = False, ad_denial_reason = Some INACTIVE_PRINCIPAL\<rparr>
      else if ap_tenant_id prin \<noteq> tenant_id
      then \<lparr>ad_allowed = False, ad_denial_reason = Some TENANT_MISMATCH\<rparr>
      else if \<not> required_permissions \<subseteq> ap_permissions prin
      then \<lparr>ad_allowed = False, ad_denial_reason = Some MISSING_PERMISSION\<rparr>
      else \<lparr>ad_allowed = True, ad_denial_reason = None\<rparr>)"

definition require_permission :: "authorization_decision \<Rightarrow> exn + unit" where
  "require_permission d =
     raise_if (\<not> ad_allowed d) (BidError PermissionDeniedError None) (Inr ())"

lemma require_permission_Inr [py_bind]:
  "require_permission (evaluate_permission p req tid) = Inr u \<longleftrightarrow>
     ap_active p \<and> ap_tenant_id p = tid \<and> req \<subseteq> ap_permissions p"
  by (auto simp: require_permission_def evaluate_permission_def)

text \<open>\<open>TenantContextError\<close> is a subclass of \<open>ValueError\<close>.\<close>

record tenant_context =
  tc_tenant_id :: pystr
  tc_user_id :: pystr
  tc_session_id :: pystr

definition tenant_context_from ::
  "authenticated_principal \<Rightarrow> pystr \<Rightarrow> exn + tenant_context" where
  "tenant_context_from prin requested_tenant_id =
     raise_if (\<not> ap_active prin \<or> blank requested_tenant_id
               \<or> requested_tenant_id \<noteq> ap_tenant_id prin)
       (ValueError ''Tenant context is invalid'')
     (Inr \<lparr>tc_tenant_id = ap_tenant_id prin, tc_user_id = ap_user_id prin,
           tc_session_id = ap_session_id prin\<rparr>)"

text \<open>A permission check passes exactly for an active principal of that tenant that holds every
  required permission; a denial always carries its first reason in the order inactive, wrong
  tenant, missing permission; and a tenant context only ever names the principal's own tenant.\<close>

theorem authorization_correct:
  "(ad_allowed (evaluate_permission p req tid)
      \<longleftrightarrow> ap_active p \<and> ap_tenant_id p = tid \<and> (\<forall>x\<in>req. x \<in> ap_permissions p))
   \<and> (require_permission (evaluate_permission p req tid) = Inr ()
      \<longleftrightarrow> ad_denial_reason (evaluate_permission p req tid) = None)
   \<and> (ad_denial_reason (evaluate_permission p req tid) = Some INACTIVE_PRINCIPAL \<longleftrightarrow> \<not> ap_active p)
   \<and> (ad_denial_reason (evaluate_permission p req tid) = Some TENANT_MISMATCH
      \<longleftrightarrow> ap_active p \<and> ap_tenant_id p \<noteq> tid)
   \<and> (\<forall>c. tenant_context_from p tid = Inr c \<longrightarrow> tc_tenant_id c = ap_tenant_id p
        \<and> ap_tenant_id p = tid \<and> ap_active p)"
  by (auto simp: evaluate_permission_def require_permission_def tenant_context_from_def)

lemma authorization_correct_witness:
  "let p = \<lparr>ap_user_id = lit ''u1'', ap_tenant_id = lit ''default'', ap_session_id = lit ''s1'',
      ap_roles = {}, ap_permissions = {lit ''content.upload''}, ap_active = True\<rparr>
   in ad_allowed (evaluate_permission p {lit ''content.upload''} (lit ''default''))
      \<and> \<not> ad_allowed (evaluate_permission p {lit ''accounts.create''} (lit ''default''))"
  using authorization_correct by (simp add: Let_def)

section \<open>Rate limiting\<close>

datatype outage_mode = DENY | ALLOW

record rate_limit_policy =
  rp_capacity :: int
  rp_window_seconds :: int
  rp_outage_mode :: outage_mode

definition mk_rate_limit_policy :: "rate_limit_policy \<Rightarrow> exn + rate_limit_policy" where
  "mk_rate_limit_policy p =
     raise_if (rp_capacity p < 1 \<or> rp_window_seconds p < 1)
       (ValueError ''Rate-limit capacity and window must be positive'') (Inr p)"

record rate_limit_decision =
  rd_allowed :: bool
  rd_remaining :: int
  rd_degraded :: bool

text \<open>The keys; the identifier of an account only enters as its SHA-256.\<close>

definition login_rate_key :: "ucd \<Rightarrow> (pystr \<Rightarrow> pystr) \<Rightarrow> pystr \<Rightarrow> pystr \<Rightarrow> exn + pystr" where
  "login_rate_key U sha256_hex client_ip account_identifier =
     (let normalized_identifier = casefold U (strip account_identifier)
      in raise_if (blank client_ip \<or> normalized_identifier = [])
           (ValueError ''Login rate-limit key inputs must not be blank'')
         (bindE (utf8_length normalized_identifier) (\<lambda>_.
          Inr (lit ''security:rate:login:'' @ client_ip @ lit '':''
               @ sha256_hex normalized_identifier))))"

definition sensitive_rate_key :: "pystr \<Rightarrow> pystr \<Rightarrow> pystr \<Rightarrow> exn + pystr" where
  "sensitive_rate_key tenant_id actor_id action =
     raise_if (list_ex blank [tenant_id, actor_id, action])
       (ValueError ''Sensitive rate-limit key inputs must not be blank'')
     (Inr (lit ''security:rate:sensitive:'' @ tenant_id @ lit '':'' @ actor_id @ lit '':'' @ action))"

definition refresh_rate_key :: "pystr \<Rightarrow> pystr \<Rightarrow> exn + pystr" where
  "refresh_rate_key client_ip token_digest =
     raise_if (blank client_ip \<or> blank token_digest)
       (ValueError ''Refresh rate-limit key inputs must not be blank'')
     (Inr (lit ''security:rate:refresh:'' @ client_ip @ lit '':'' @ token_digest))"

text \<open>
  The Redis commands of the script at a clock reading in seconds: \<open>INCR key\<close> and
  \<open>EXPIRE key seconds\<close>.
\<close>

record 's redis_lib =
  redis_incr :: "pystr \<Rightarrow> int \<Rightarrow> 's \<Rightarrow> int \<times> 's"
  redis_expire :: "pystr \<Rightarrow> int \<Rightarrow> int \<Rightarrow> 's \<Rightarrow> 's"

definition fixed_window_script ::
  "'s redis_lib \<Rightarrow> int \<Rightarrow> pystr \<Rightarrow> int \<Rightarrow> 's \<Rightarrow> (exn + int) \<times> 's" where
  "fixed_window_script L now key window s =
     (let (current, s1) = redis_incr L key now s
      in (Inr current, if current = 1 then redis_expire L key window now s1 else s1))"

definition check_rate ::
  "(pystr \<Rightarrow> int \<Rightarrow> ('s, int) stateful) \<Rightarrow> pystr \<Rightarrow> rate_limit_policy
    \<Rightarrow> ('s, rate_limit_decision) stateful" where
  "check_rate eval key policy s =
     (if blank key then (Inl (ValueError ''Rate-limit key must not be blank''), s)
      else (case eval key (rp_window_seconds policy) s of
         (Inl e, s1) \<Rightarrow>
           if e = RedisError \<or> e = TimeoutError
           then (Inr \<lparr>rd_allowed = (rp_outage_mode policy = ALLOW), rd_remaining = 0,
                      rd_degraded = True\<rparr>, s1)
           else (Inl e, s1)
       | (Inr count, s1) \<Rightarrow>
           (Inr \<lparr>rd_allowed = (count \<le> rp_capacity policy),
                 rd_remaining = max (rp_capacity policy - count) 0, rd_degraded = False\<rparr>, s1)))"

text \<open>What Redis documents: a key is live until its deadline, if it has one.\<close>

type_synonym redis_view = "pystr \<rightharpoonup> int \<times> int option"

fun live_entry :: "int \<Rightarrow> (int \<times> int option) option \<Rightarrow> (int \<times> int option) option" where
  "live_entry now (Some (c, Some d)) = (if now < d then Some (c, Some d) else None)"
| "live_entry now (Some (c, None)) = Some (c, None)"
| "live_entry now None = None"

definition incr_entry :: "int \<Rightarrow> (int \<times> int option) option \<Rightarrow> int \<times> int option" where
  "incr_entry now e = (case live_entry now e of None \<Rightarrow> (1, None) | Some (c, d) \<Rightarrow> (c + 1, d))"

definition redis_law :: "'s redis_lib \<Rightarrow> ('s \<Rightarrow> redis_view) \<Rightarrow> bool" where
  "redis_law L view \<longleftrightarrow>
     (\<forall>k now s. fst (redis_incr L k now s) = fst (incr_entry now (view s k))
        \<and> view (snd (redis_incr L k now s)) = (view s)(k \<mapsto> incr_entry now (view s k)))
     \<and> (\<forall>k secs now s c d. view s k = Some (c, d) \<longrightarrow>
          view (redis_expire L k secs now s) = (view s)(k \<mapsto> (c, Some (now + secs))))"

definition demo_redis :: "redis_view redis_lib" where
  "demo_redis =
     \<lparr>redis_incr = (\<lambda>k now s. (fst (incr_entry now (s k)), s(k \<mapsto> incr_entry now (s k)))),
      redis_expire = (\<lambda>k secs now s. s(k := map_option (\<lambda>(c, d). (c, Some (now + secs))) (s k)))\<rparr>"

lemma demo_redis_law: "redis_law demo_redis (\<lambda>s. s)"
  by (auto simp: redis_law_def demo_redis_def)

text \<open>A sequence of checks of one key at given clock readings.\<close>

fun run_checks ::
  "'s redis_lib \<Rightarrow> pystr \<Rightarrow> rate_limit_policy \<Rightarrow> int list \<Rightarrow> 's
    \<Rightarrow> (exn + rate_limit_decision) list" where
  "run_checks L key policy [] s = []"
| "run_checks L key policy (t # ts) s =
     (let (d, s1) = check_rate (fixed_window_script L t) key policy s
      in d # run_checks L key policy ts s1)"

definition decision_at :: "rate_limit_policy \<Rightarrow> int \<Rightarrow> exn + rate_limit_decision" where
  "decision_at policy count =
     Inr \<lparr>rd_allowed = (count \<le> rp_capacity policy),
          rd_remaining = max (rp_capacity policy - count) 0, rd_degraded = False\<rparr>"

lemma check_rate_script:
  assumes "redis_law L view" "\<not> blank key"
  shows "fst (check_rate (fixed_window_script L t) key policy s)
      = decision_at policy (fst (incr_entry t (view s key)))"
    and "view (snd (check_rate (fixed_window_script L t) key policy s)) key
      = (let (c, d) = incr_entry t (view s key)
         in Some (c, if c = 1 then Some (t + rp_window_seconds policy) else d))"
  using assms
  by (auto simp: check_rate_def fixed_window_script_def redis_law_def decision_at_def
      split: prod.splits) (metis fst_conv fun_upd_same snd_conv)+

lemma run_checks_open:
  assumes law: "redis_law L view" and key: "\<not> blank key"
  shows "view s key = Some (int c, Some d) \<Longrightarrow> 0 < c \<Longrightarrow> \<forall>t\<in>set ts. t < d \<Longrightarrow>
    run_checks L key policy ts s
      = map (\<lambda>i. decision_at policy (int (c + i + 1))) [0..<length ts]"
proof (induction ts arbitrary: s c)
  case (Cons t ts)
  have inc: "incr_entry t (view s key) = (int (c + 1), Some d)"
    using Cons.prems by (simp add: incr_entry_def)
  let ?s = "snd (check_rate (fixed_window_script L t) key policy s)"
  have view: "view ?s key = Some (int (c + 1), Some d)"
    using check_rate_script(2) [OF law key, of t policy s] inc Cons.prems(2) by simp
  have dec: "fst (check_rate (fixed_window_script L t) key policy s)
      = decision_at policy (int (c + 1))"
    using check_rate_script(1) [OF law key, of t policy s] inc by simp
  have tail: "run_checks L key policy ts ?s
      = map (\<lambda>i. decision_at policy (int (c + 1 + i + 1))) [0..<length ts]"
    by (rule Cons.IH [OF view]) (use Cons.prems in auto)
  have "run_checks L key policy (t # ts) s
      = decision_at policy (int (c + 1)) # run_checks L key policy ts ?s"
    using dec by (simp add: split_beta)
  also have "\<dots> = map (\<lambda>i. decision_at policy (int (c + i + 1))) [0..<length (t # ts)]"
    unfolding tail by (simp add: map_upt_Suc del: upt_Suc)
  finally show ?case .
qed simp

text \<open>C40: within one window the limiter admits exactly the first \<open>capacity\<close> checks of a key: when
  the key is unused or expired at the first check, the i-th check of the window (whenever it
  comes) is allowed if and only if i is at most the capacity, with the remaining budget
  counted down to zero.\<close>

theorem rate_limit_window:
  assumes "redis_law L view" and "\<not> blank key" and "mk_rate_limit_policy policy = Inr policy"
    and "live_entry t0 (view s key) = None"
    and "\<forall>t\<in>set ts. t0 \<le> t \<and> t < t0 + rp_window_seconds policy"
  shows "run_checks L key policy (t0 # ts) s
    = map (\<lambda>i. Inr \<lparr>rd_allowed = (int i < rp_capacity policy),
                    rd_remaining = max (rp_capacity policy - int i - 1) 0,
                    rd_degraded = False\<rparr>) [0..<length ts + 1]"
proof -
  have inc: "incr_entry t0 (view s key) = (1, None)"
    using assms(4) by (simp add: incr_entry_def)
  let ?s = "snd (check_rate (fixed_window_script L t0) key policy s)"
  have view: "view ?s key = Some (int 1, Some (t0 + rp_window_seconds policy))"
    using check_rate_script(2) [OF assms(1,2), of t0 policy s] inc by simp
  have dec: "fst (check_rate (fixed_window_script L t0) key policy s) = decision_at policy 1"
    using check_rate_script(1) [OF assms(1,2), of t0 policy s] inc by simp
  have "run_checks L key policy ts ?s
      = map (\<lambda>i. decision_at policy (int (1 + i + 1))) [0..<length ts]"
    by (rule run_checks_open [OF assms(1,2) view]) (use assms(5) in auto)
  then have "run_checks L key policy (t0 # ts) s
      = map (\<lambda>i. decision_at policy (int (i + 1))) [0..<length ts + 1]"
    using dec by (simp add: split_beta map_upt_Suc del: upt_Suc)
  also have "\<dots> = map (\<lambda>i. Inr \<lparr>rd_allowed = (int i < rp_capacity policy),
      rd_remaining = max (rp_capacity policy - int i - 1) 0, rd_degraded = False\<rparr>) [0..<length ts + 1]"
    by (intro map_cong) (auto simp: decision_at_def)
  finally show ?thesis .
qed

lemma rate_limit_window_witness:
  "map (\<lambda>d. rd_allowed (projr d))
     (run_checks demo_redis (lit ''k'') \<lparr>rp_capacity = 2, rp_window_seconds = 60, rp_outage_mode = DENY\<rparr>
       (5 # [10, 20, 30]) Map.empty) = [True, True, False, False]"
proof -
  let ?p = "\<lparr>rp_capacity = 2, rp_window_seconds = 60, rp_outage_mode = DENY\<rparr>"
  have "\<not> blank (lit ''k'')" by code_simp
  moreover have "mk_rate_limit_policy ?p = Inr ?p" by (simp add: mk_rate_limit_policy_def)
  ultimately have "run_checks demo_redis (lit ''k'') ?p (5 # [10, 20, 30]) Map.empty
    = map (\<lambda>i. Inr \<lparr>rd_allowed = (int i < rp_capacity ?p),
        rd_remaining = max (rp_capacity ?p - int i - 1) 0, rd_degraded = False\<rparr>)
        [0..<length [10, 20, 30::int] + 1]"
    by (intro rate_limit_window [OF demo_redis_law]) simp_all
  then show ?thesis by (simp add: upt_rec)
qed

text \<open>When Redis fails or times out, a policy in outage mode \<open>DENY\<close> refuses the request and
  \<open>ALLOW\<close> admits it, in both cases marked as degraded; no other error is swallowed.\<close>

theorem rate_limit_outage:
  assumes "\<not> blank key" and "eval key (rp_window_seconds policy) s = (Inl e, s1)"
  shows "check_rate eval key policy s =
    (if e = RedisError \<or> e = TimeoutError
     then (Inr \<lparr>rd_allowed = (rp_outage_mode policy = ALLOW), rd_remaining = 0, rd_degraded = True\<rparr>, s1)
     else (Inl e, s1))"
  using assms by (simp add: check_rate_def)

lemma rate_limit_outage_witness:
  "check_rate (\<lambda>k w s. (Inl RedisError, s)) (lit ''k'')
     \<lparr>rp_capacity = 5, rp_window_seconds = 60, rp_outage_mode = DENY\<rparr> ()
   = (Inr \<lparr>rd_allowed = False, rd_remaining = 0, rd_degraded = True\<rparr>, ())"
proof -
  have "\<not> blank (lit ''k'')" by code_simp
  from rate_limit_outage [OF this, of "\<lambda>k w s. (Inl RedisError, s)"
      "\<lparr>rp_capacity = 5, rp_window_seconds = 60, rp_outage_mode = DENY\<rparr>" "()" RedisError "()"]
  show ?thesis by simp
qed

end
