(* ===== verification/IdentityGuarantees.thy ===== *)
theory IdentityGuarantees
  imports IdentityApp
begin

text \<open>
  The guarantees of the identity component at the level of committed transactions: refresh
  rotation, replay, login, registration, bootstrap, resolution of claims.  The facts on
  refresh families rest on the interpretation \<open>sql\<close> of the locale \<open>session_store\<close>.  The
  \<open>demo\<close> definitions are the concrete tables the witnesses evaluate.
\<close>

section \<open>Concrete inputs\<close>

definition demo_hash :: "pystr \<Rightarrow> exn + pystr" where
  "demo_hash p = Inr (lit ''argon2id'' @ p)"

definition demo_verify :: password_verifier where
  "demo_verify p h =
     Inr \<lparr>pc_valid = (h = Some (lit ''argon2id'' @ p)), pc_updated_hash = None\<rparr>"

definition demo_manager :: bootstrap_command where
  "demo_manager =
     \<lparr>bc_username = lit ''Root'', bc_password = lit ''secret99'', bc_tenant_id = lit ''default'',
      bc_user_id = lit ''u1'', bc_membership_id = lit ''m1''\<rparr>"

definition demo_seed :: identity_db where
  "demo_seed = seed_identity_roles empty_identity_db"

definition demo_db :: identity_db where
  "demo_db = snd (commit_bootstrap ascii_ucd demo_hash demo_manager demo_seed)"

definition demo_login :: authenticate_command where
  "demo_login =
     \<lparr>ac_login_identifier = lit '' rOOt '', ac_password = lit ''secret99'',
      ac_tenant_id = lit ''default'', ac_session_id = lit ''s1'', ac_family_id = lit ''f1'',
      ac_refresh_token_digest = lit ''d1'', ac_authenticated_at = Aware 0 0,
      ac_idle_ttl = 100, ac_absolute_ttl = 1000\<rparr>"

definition demo_logged_in :: identity_db where
  "demo_logged_in = snd (commit_login ascii_ucd demo_verify demo_login demo_db)"

definition demo_rotated :: identity_db where
  "demo_rotated = snd (commit_rotate (lit ''d1'') (lit ''s2'') (lit ''d2'') (Aware 50 0) 100
     demo_logged_in)"

definition demo_register :: register_command where
  "demo_register =
     \<lparr>rg_username = lit ''Worker_1'', rg_password = lit ''passw0rd'', rg_role = EMPLOYEE,
      rg_tenant_id = lit ''default'', rg_user_id = lit ''u2'', rg_membership_id = lit ''m2'',
      rg_actor_user_id = lit ''u1''\<rparr>"

lemma demo_seed_ok: "identity_ok demo_seed"
  unfolding demo_seed_def by (rule identity_ok_seeded)

lemma demo_db_ok: "identity_ok demo_db"
  by code_simp

lemma demo_logged_in_ok: "identity_ok demo_logged_in"
  by code_simp

lemma demo_rotated_ok: "identity_ok demo_rotated"
  by code_simp

section \<open>Refresh-token rotation\<close>

lemma rotated_session_was_live:
  assumes "families_ok (db_sessions db)"
    and "commit_rotate d sid dig now idle db
           = (Inr \<lparr>rot_status = ROTATED, rot_session = Some r\<rparr>, db')"
  shows "\<exists>s\<in>set (db_sessions db). rs_token_digest s = d \<and> live s"
proof -
  from sql.rotate_law [OF assms] obtain s c where "s \<in> set (db_sessions db)"
    "rotate_session s d sid dig now idle = Inr (c, r)"
    by (auto elim!: rotation_rotatedE)
  then show ?thesis using rotate_session_Inr by blast
qed



text \<open>C1: once a consumed refresh token has been presented again, no session of its family is
  active in any state the session table can reach afterwards, at any time.\<close>

theorem replay_revokes_family_forever:
  assumes "families_ok (db_sessions db)" and "x \<in> set (db_sessions db)"
    and "rs_token_digest x = d" and "rs_consumed_at x \<noteq> None" and "is_ascii d" and "0 < idle"
    and "commit_rotate d sid dig now idle db = (res, db')"
    and "family_reachable (db_sessions db') later"
    and "s \<in> set later" and "rs_family_id s = rs_family_id x"
  shows "res = Inr \<lparr>rot_status = REPLAY_REVOKED, rot_session = None\<rparr>
    \<and> session_is_active s t \<noteq> Inr True"
proof -
  have res: "res = Inr \<lparr>rot_status = REPLAY_REVOKED, rot_session = None\<rparr>"
    using sql.replay_law [OF assms(1-6), of sid dig now] assms(7) by simp
  obtain y where y: "y \<in> set (db_sessions db)" "rs_token_digest y = d"
    and dead: "family_dead (rs_family_id y) (db_sessions db')"
    using sql.replay_kills_family [OF assms(1)] assms(7) unfolding res by blast
  have "distinct (map rs_token_digest (db_sessions db))"
    using assms(1) by (simp add: families_ok_def)
  then have "y = x" using y assms(2,3) by (metis distinct_map inj_onD)
  then have "family_dead (rs_family_id x) later"
    using family_dead_reachable [OF assms(8)] dead by simp
  then show ?thesis using res family_dead_not_active assms(9,10) by blast
qed

lemma replay_revokes_family_forever_witness:
  "session_is_active (last (db_sessions (snd (commit_rotate (lit ''d1'') (lit ''s3'')
     (lit ''d3'') (Aware 60 0) 100 demo_rotated)))) (Aware 70 0) \<noteq> Inr True"
proof -
  let ?r = "commit_rotate (lit ''d1'') (lit ''s3'') (lit ''d3'') (Aware 60 0) 100 demo_rotated"
  have "rs_consumed_at (hd (db_sessions demo_rotated)) \<noteq> None"
    "hd (db_sessions demo_rotated) \<in> set (db_sessions demo_rotated)"
    "rs_token_digest (hd (db_sessions demo_rotated)) = lit ''d1''"
    "is_ascii (lit ''d1'')"
    "last (db_sessions (snd ?r)) \<in> set (db_sessions (snd ?r))"
    "rs_family_id (last (db_sessions (snd ?r))) = rs_family_id (hd (db_sessions demo_rotated))"
    by code_simp+
  then show ?thesis
    using replay_revokes_family_forever [OF identity_ok_families [OF demo_rotated_ok], of
        "hd (db_sessions demo_rotated)" "lit ''d1''" 100 "lit ''s3''" "lit ''d3''" "Aware 60 0"
        "fst ?r" "snd ?r" _ "last (db_sessions (snd ?r))"] family_reachable.none
    by (metis prod.collapse zero_less_numeral)
qed

text \<open>The token of a committed rotation, presented a second time at whatever time and with
  whatever replacement, is always answered as a replay and the family is dead.\<close>

theorem rotated_token_reuse_is_replay:
  assumes "families_ok (db_sessions db)"
    and "commit_rotate d sid dig now idle db
           = (Inr \<lparr>rot_status = ROTATED, rot_session = Some r\<rparr>, db1)"
    and "0 < idle2" and "commit_rotate d sid2 dig2 now2 idle2 db1 = (res, db2)"
  shows "res = Inr \<lparr>rot_status = REPLAY_REVOKED, rot_session = None\<rparr>
    \<and> family_dead (rs_family_id r) (db_sessions db2)"
proof -
  have res: "res = Inr \<lparr>rot_status = REPLAY_REVOKED, rot_session = None\<rparr>"
    using sql.second_use_is_replay [OF assms(1,2,3)] assms(4) by (metis fst_conv)
  from sql.rotate_law [OF assms(1,2)] obtain s c where s: "s \<in> set (db_sessions db)"
    and rot: "rotate_session s d sid dig now idle = Inr (c, r)" and fresh: "fresh_in (db_sessions db) r"
    and db1: "db_sessions db1 = consume_session (rs_session_id s) now (db_sessions db) @ [r]"
    by (auto elim!: rotation_rotatedE)
  note R = rotate_session_Inr [OF rot]
  have ok1: "families_ok (db_sessions db1)"
    using family_step_ok [OF sql.rotate_step [OF assms(1,2)] assms(1)] .
  obtain y where y: "y \<in> set (db_sessions db1)" "rs_token_digest y = d"
    and dead: "family_dead (rs_family_id y) (db_sessions db2)"
    using sql.replay_kills_family [OF ok1] assms(4) unfolding res by blast
  have s1: "s\<lparr>rs_consumed_at := Some now\<rparr> \<in> set (db_sessions db1)"
    using s by (force simp: db1 consume_session_def)
  have "distinct (map rs_token_digest (db_sessions db1))"
    using ok1 by (simp add: families_ok_def)
  moreover have "rs_token_digest (s\<lparr>rs_consumed_at := Some now\<rparr>) = d" using R by simp
  ultimately have "y = s\<lparr>rs_consumed_at := Some now\<rparr>"
    using y s1 by (metis distinct_map inj_onD)
  then show ?thesis using res dead R by simp
qed

lemma rotated_token_reuse_is_replay_witness:
  "family_dead (lit ''f1'') (db_sessions (snd (commit_rotate (lit ''d1'') (lit ''s3'')
     (lit ''d3'') (Aware 99 0) 7 demo_rotated)))"
proof -
  have rot: "fst (commit_rotate (lit ''d1'') (lit ''s2'') (lit ''d2'') (Aware 50 0) 100 demo_logged_in)
      = Inr \<lparr>rot_status = ROTATED, rot_session = Some (last (db_sessions demo_rotated))\<rparr>"
    and fam: "rs_family_id (last (db_sessions demo_rotated)) = lit ''f1''"
    by code_simp+
  have first: "commit_rotate (lit ''d1'') (lit ''s2'') (lit ''d2'') (Aware 50 0) 100 demo_logged_in
      = (Inr \<lparr>rot_status = ROTATED, rot_session = Some (last (db_sessions demo_rotated))\<rparr>,
         demo_rotated)"
    using rot by (simp add: demo_rotated_def prod_eq_iff)
  show ?thesis
    using rotated_token_reuse_is_replay [OF identity_ok_families [OF demo_logged_in_ok] first, of 7
        "lit ''s3''" "lit ''d3''" "Aware 99 0"] fam
    by (metis prod.collapse zero_less_numeral)
qed

section \<open>Login\<close>

lemma login_identity_ok:
  assumes ok: "identity_ok db" and run: "commit_login U verify c db = (Inr i, db')"
    and new: "ac_family_id c \<notin> rs_family_id ` set (db_sessions db)"
  shows "identity_ok db'"
proof -
  obtain a m check s where
    g: "login_grant U verify c db = Some (a, m, check)"
    and s: "issue_session (ac_session_id c) (ac_family_id c) (la_user_id a) (ac_tenant_id c)
       (ac_refresh_token_digest c) (ac_authenticated_at c) (ac_idle_ttl c) (ac_absolute_ttl c)
       = Inr s"
    and "i = \<lparr>ai_user_id = la_user_id a, ai_tenant_id = ac_tenant_id c,
           ai_session_id = ac_session_id c, ai_roles = set (membership_role_codes db m),
           ai_permissions = set (membership_permission_codes db m)\<rparr>"
    and db': "db' = db\<lparr>db_accounts := (case pc_updated_hash check of None \<Rightarrow> db_accounts db
                | Some h \<Rightarrow> store_hash (a\<lparr>la_password_hash := h,
                      la_password_version := la_password_version a + 1\<rparr>) (db_accounts db)),
              db_sessions := db_sessions db @ [s]\<rparr>"
    and fresh: "fresh_in (db_sessions db) s"
    and h: "\<forall>h. pc_updated_hash check = Some h \<longrightarrow> \<not> blank h"
    by (rule login_Inr [OF ok run])
  have a: "a \<in> set (db_accounts db)"
    using g by (auto simp: login_grant_def dest!: find_in_set split: option.splits sum.splits if_splits)
  have "account_ok (a\<lparr>la_password_hash := x, la_password_version := la_password_version a + 1\<rparr>)"
    if "pc_updated_hash check = Some x" for x
    using ok a h that by (auto simp: identity_ok_def account_ok_def)
  then have "identity_ok (db\<lparr>db_accounts := (case pc_updated_hash check of None \<Rightarrow> db_accounts db
                | Some h \<Rightarrow> store_hash (a\<lparr>la_password_hash := h,
                      la_password_version := la_password_version a + 1\<rparr>) (db_accounts db))\<rparr>)"
    using ok by (auto simp: identity_ok_store_hash split: option.splits)
  from identity_ok_new_session [OF this s] show "identity_ok db'"
    using fresh new unfolding db' by simp
qed

text \<open>A committed login means that an active account with that (case-folded) login exists,
  its stored hash accepted the password, its membership in the tenant is active; it added
  exactly one session, live and fresh, that belongs to that user and tenant; roles and
  permissions are the current ones; and the tables stay well-formed.\<close>

theorem login_correct:
  assumes "identity_ok db" and "commit_login U verify c db = (Inr i, db')"
    and "ac_family_id c \<notin> rs_family_id ` set (db_sessions db)"
  shows "\<exists>a\<in>set (db_accounts db). \<exists>m\<in>set (db_memberships db). \<exists>check s.
      la_login_identifier a = casefold U (strip (ac_login_identifier c))
      \<and> la_status a = Account_ACTIVE
      \<and> verify (ac_password c) (Some (la_password_hash a)) = Inr check \<and> pc_valid check
      \<and> mr_user_id m = la_user_id a \<and> mr_tenant_id m = ac_tenant_id c
      \<and> mr_status m = Membership_ACTIVE
      \<and> i = \<lparr>ai_user_id = la_user_id a, ai_tenant_id = ac_tenant_id c,
             ai_session_id = ac_session_id c, ai_roles = set (membership_role_codes db m),
             ai_permissions = set (membership_permission_codes db m)\<rparr>
      \<and> db_sessions db' = db_sessions db @ [s] \<and> fresh_in (db_sessions db) s \<and> live s
      \<and> rs_user_id s = la_user_id a \<and> rs_tenant_id s = ac_tenant_id c
      \<and> rs_token_digest s = ac_refresh_token_digest c
      \<and> identity_ok db'"
proof -
  from login_Inr [OF assms(1,2)] obtain a m check s where
    g: "login_grant U verify c db = Some (a, m, check)"
    and s: "issue_session (ac_session_id c) (ac_family_id c) (la_user_id a) (ac_tenant_id c)
       (ac_refresh_token_digest c) (ac_authenticated_at c) (ac_idle_ttl c) (ac_absolute_ttl c)
       = Inr s"
    and i: "i = \<lparr>ai_user_id = la_user_id a, ai_tenant_id = ac_tenant_id c,
           ai_session_id = ac_session_id c, ai_roles = set (membership_role_codes db m),
           ai_permissions = set (membership_permission_codes db m)\<rparr>"
    and db': "db' = db\<lparr>db_accounts := (case pc_updated_hash check of None \<Rightarrow> db_accounts db
                | Some h \<Rightarrow> store_hash (a\<lparr>la_password_hash := h,
                      la_password_version := la_password_version a + 1\<rparr>) (db_accounts db)),
              db_sessions := db_sessions db @ [s]\<rparr>"
    and fresh: "fresh_in (db_sessions db) s"
    and h: "\<And>h. pc_updated_hash check = Some h \<Longrightarrow> \<not> blank h"
    by blast
  have facts: "a \<in> set (db_accounts db)" "m \<in> set (db_memberships db)"
    "la_login_identifier a = casefold U (strip (ac_login_identifier c))"
    "la_status a = Account_ACTIVE"
    "verify (ac_password c) (Some (la_password_hash a)) = Inr check" "pc_valid check"
    "mr_user_id m = la_user_id a" "mr_tenant_id m = ac_tenant_id c"
    "mr_status m = Membership_ACTIVE"
    using g by (auto simp: login_grant_def can_authenticate_def dest!: find_in_set
        split: option.splits sum.splits if_splits)
  have "identity_ok db'" by (rule login_identity_ok [OF assms])
  moreover have "db_sessions db' = db_sessions db @ [s]" by (simp add: db')
  ultimately show ?thesis using facts i fresh issue_session_Inr [OF s] by blast
qed

lemma login_correct_witness:
  "identity_ok demo_logged_in \<and> \<not> (\<exists>s. s \<in> set (db_sessions demo_db))"
proof -
  have r: "fst (commit_login ascii_ucd demo_verify demo_login demo_db) = Inr
      \<lparr>ai_user_id = lit ''u1'', ai_tenant_id = lit ''default'', ai_session_id = lit ''s1'',
       ai_roles = {lit ''manager''},
       ai_permissions = {lit ''accounts.create'', lit ''content.upload'', lit ''content.modify''}\<rparr>"
    and e: "db_sessions demo_db = []"
    by code_simp+
  then obtain i where run: "commit_login ascii_ucd demo_verify demo_login demo_db = (Inr i, demo_logged_in)"
    by (metis demo_logged_in_def prod.collapse)
  show ?thesis using login_correct [OF demo_db_ok run] e by auto
qed

text \<open>A login with an unknown identifier, a disabled account, a wrong password or no active
  membership is always refused with the one authentication error, and changes nothing.\<close>

theorem login_refused:
  assumes "identity_ok db" and "\<And>h. \<exists>check. verify (ac_password c) h = Inr check"
    and "\<not> (\<exists>a\<in>set (db_accounts db). \<exists>m\<in>set (db_memberships db). \<exists>check.
        la_login_identifier a = casefold U (strip (ac_login_identifier c))
        \<and> la_status a = Account_ACTIVE
        \<and> verify (ac_password c) (Some (la_password_hash a)) = Inr check \<and> pc_valid check
        \<and> mr_user_id m = la_user_id a \<and> mr_tenant_id m = ac_tenant_id c
        \<and> mr_status m = Membership_ACTIVE)"
  shows "commit_login U verify c db = (raise_class AuthenticationError, db)"
proof -
  have "login_grant U verify c db = None"
    using assms(3) by (auto simp: login_grant_def can_authenticate_def dest!: find_in_set
        split: option.splits sum.splits)
  then have "authenticate_local_account U verify c (begin_uow db)
      = (raise_class AuthenticationError, begin_uow db)"
    using assms(1,2) by (intro authenticate_refused) simp_all
  then show ?thesis by (simp add: commit_login_def run_transaction_def bindS_apply)
qed

lemma login_refused_witness:
  "commit_login ascii_ucd demo_verify (demo_login\<lparr>ac_password := lit ''wrong''\<rparr>) demo_db
     = (raise_class AuthenticationError, demo_db)"
proof -
  have "la_password_hash a = lit ''argon2id'' @ lit ''secret99''" if "a \<in> set (db_accounts demo_db)" for a
  proof -
    have "\<forall>a\<in>set (db_accounts demo_db). la_password_hash a = lit ''argon2id'' @ lit ''secret99''"
      by code_simp
    then show ?thesis using that by blast
  qed
  then show ?thesis
    by (intro login_refused [OF demo_db_ok]) (auto simp: demo_verify_def)
qed

section \<open>Resolution of claims\<close>

text \<open>Claims resolve exactly when, in the tables as they are now, the account is active,
  the membership of that tenant is active and the claimed session belongs to that user and
  tenant, is neither consumed nor revoked and is not expired; the grants returned are the
  current ones; in every other case the one authentication error is raised.\<close>

theorem resolve_identity_correct:
  assumes "identity_ok (uow_db u)" and "is_aware (rq_resolved_at q)"
  shows "(\<forall>i v. resolve_identity q u = (Inr i, v) \<longleftrightarrow>
            v = u \<and> (\<exists>m. identity_facts (uow_db u) q m \<and> i = resolved_from (uow_db u) q m))
    \<and> (\<forall>e v. resolve_identity q u = (Inl e, v) \<longrightarrow> e = BidError AuthenticationError None \<and> v = u)"
  using resolve_identity_Inr [OF assms] resolve_identity_Inl [OF assms] by blast

lemma resolve_identity_correct_witness:
  "resolve_identity \<lparr>rq_user_id = lit ''u1'', rq_tenant_id = lit ''default'',
      rq_session_id = lit ''s1'', rq_resolved_at = Aware 60 0\<rparr> (begin_uow demo_rotated)
     = (raise_class AuthenticationError, begin_uow demo_rotated)
   \<and> fst (resolve_identity \<lparr>rq_user_id = lit ''u1'', rq_tenant_id = lit ''default'',
      rq_session_id = lit ''s2'', rq_resolved_at = Aware 60 0\<rparr> (begin_uow demo_rotated))
     \<noteq> raise_class AuthenticationError"
proof -
  let ?q = "\<lambda>s. \<lparr>rq_user_id = lit ''u1'', rq_tenant_id = lit ''default'',
      rq_session_id = s, rq_resolved_at = Aware 60 0\<rparr>"
  have e: "fst (resolve_identity (?q (lit ''s1'')) (begin_uow demo_rotated))
      = raise_class AuthenticationError" by code_simp
  have "resolve_identity (?q (lit ''s1'')) (begin_uow demo_rotated)
      = (raise_class AuthenticationError, begin_uow demo_rotated)"
    using resolve_identity_correct [of "begin_uow demo_rotated" "?q (lit ''s1'')"] demo_rotated_ok e
    by (metis begin_uow_simps(1) is_aware.simps(2) prod.collapse resolve_query.select_convs(4))
  moreover have "fst (resolve_identity (?q (lit ''s2'')) (begin_uow demo_rotated))
     \<noteq> raise_class AuthenticationError" by code_simp
  ultimately show ?thesis by blast
qed

section \<open>Registration\<close>

lemma flush_begin [simp]: "flush ((begin_uow db)\<lparr>uow_db := db'\<rparr>) = (Inr (), begin_uow db')"
  by (simp add: flush_def begin_uow_def)

lemma run_create_account:
  assumes ok: "identity_ok db"
    and run: "run_transaction (create_account U h un pw ro tid uid mid) db = (Inr x, db')"
  obtains cr hs r where "create_credentials U un pw = Inr cr" "h (rc_password cr) = Inr hs"
    "x = \<lparr>ra_user_id = uid, ra_username = rc_username cr, ra_role = ro\<rparr>"
    "r \<in> set (db_roles db)" "ro_tenant_id r = tid" "ro_role_code r = role_value ro"
    "db' = registered_db
       \<lparr>la_user_id = uid, la_login_identifier = casefold U (strip (rc_username cr)),
        la_password_hash = hs, la_status = Account_ACTIVE, la_password_version = 1\<rparr>
       \<lparr>tm_membership_id = mid, tm_user_id = uid, tm_tenant_id = tid,
        tm_roles = {role_value ro}, tm_permissions = permission_value ` permissions_for_role ro,
        tm_status = Membership_ACTIVE\<rparr> (ro_role_id r) db"
    "mid \<notin> mr_membership_id ` set (db_memberships db)" "identity_ok db'"
proof -
  obtain u v where body: "create_account U h un pw ro tid uid mid (begin_uow db) = (Inr x, u)"
    and fl: "flush u = (Inr (), v)" and db': "db' = uow_db v"
    using run by (auto simp: run_transaction_Inr)
  have ok': "identity_ok (uow_db (begin_uow db))" using ok by simp
  note okv = create_account_ok [OF ok' body]
  show ?thesis
    by (rule create_account_Inr [OF ok' body], rule that)
       (use fl db' okv in \<open>auto simp: flush_begin\<close>)
qed

lemma run_query_bind:
  "run_transaction (bindS (queryS q) f) db =
     (case q db of Inl e \<Rightarrow> (Inl e, db) | Inr x \<Rightarrow> run_transaction (f x) db)"
  by (simp add: run_transaction_def bindS_apply split: sum.splits)

lemma run_raise [simp]: "run_transaction (raiseS e) db = (Inl e, db)"
  by (simp add: run_transaction_def bindS_apply)

lemma run_return [simp]: "run_transaction (retS x) db = (Inr x, db)"
  by (simp add: run_transaction_def bindS_apply flush_clean)

definition manages :: "pystr \<Rightarrow> pystr \<Rightarrow> identity_db \<Rightarrow> bool" where
  "manages uid tid db \<longleftrightarrow>
     (\<exists>m\<in>set (db_memberships db). mr_user_id m = uid \<and> mr_tenant_id m = tid
        \<and> mr_status m = Membership_ACTIVE \<and> role_value MANAGER \<in> set (membership_role_codes db m))"

lemma commit_register_eq:
  assumes ok: "identity_ok db"
  shows "commit_register U h c db =
    (if manages (rg_actor_user_id c) (rg_tenant_id c) db
     then run_transaction (create_account U h (rg_username c) (rg_password c) (rg_role c)
            (rg_tenant_id c) (rg_user_id c) (rg_membership_id c)) db
     else (raise_class PermissionDeniedError, db))"
proof (cases "find (\<lambda>m. mr_user_id m = rg_actor_user_id c \<and> mr_tenant_id m = rg_tenant_id c)
    (db_memberships db)")
  case None
  then have "\<not> manages (rg_actor_user_id c) (rg_tenant_id c) db"
    by (auto simp: manages_def find_None_iff)
  with None show ?thesis
    by (simp add: commit_register_def register_local_account_def run_query_bind
        get_membership_eq [OF ok])
next
  case (Some m)
  have "m' = m" if "m' \<in> set (db_memberships db)" "mr_user_id m' = rg_actor_user_id c"
    "mr_tenant_id m' = rg_tenant_id c" for m'
    using find_membership [OF ok that] Some by simp
  then have "manages (rg_actor_user_id c) (rg_tenant_id c) db \<longleftrightarrow>
      membership_active (membership_of db m) \<and> role_value MANAGER \<in> tm_roles (membership_of db m)"
    using find_in_set [OF Some]
    by (auto simp: manages_def membership_active_def membership_of_def)
  with Some show ?thesis
    by (simp add: commit_register_def register_local_account_def run_query_bind
        get_membership_eq [OF ok])
qed

text \<open>Only an active manager of the tenant registers accounts; for everyone else the request
  is refused and nothing is written.  A registration that fails for any reason writes nothing.\<close>

theorem registration_only_by_manager:
  assumes "identity_ok db"
  shows "(\<not> manages (rg_actor_user_id c) (rg_tenant_id c) db \<longrightarrow>
            commit_register U h c db = (raise_class PermissionDeniedError, db))
    \<and> (\<forall>e db'. commit_register U h c db = (Inl e, db') \<longrightarrow> db' = db)"
  using commit_register_eq [OF assms] by (auto simp: commit_register_def dest: run_transaction_Inl)

lemma registration_only_by_manager_witness:
  "commit_register ascii_ucd demo_hash (demo_register\<lparr>rg_actor_user_id := lit ''u9''\<rparr>) demo_db
     = (raise_class PermissionDeniedError, demo_db)"
proof -
  have "\<not> manages (rg_actor_user_id (demo_register\<lparr>rg_actor_user_id := lit ''u9''\<rparr>))
      (rg_tenant_id (demo_register\<lparr>rg_actor_user_id := lit ''u9''\<rparr>)) demo_db"
    by code_simp
  then show ?thesis using registration_only_by_manager [OF demo_db_ok] by blast
qed

text \<open>The rows of a committed creation of an account.\<close>

lemma created_account_steps:
  assumes "identity_ok db" and "roles_seeded tid db" and "ucd_ascii U"
    and run: "run_transaction (create_account U h un pw ro tid uid mid) db = (Inr x, db')"
  obtains cr a m where "create_credentials U un pw = Inr cr"
    "h pw = Inr (la_password_hash a)"
    "x = \<lparr>ra_user_id = uid, ra_username = rc_username cr, ra_role = ro\<rparr>"
    "rc_username cr = casefold U (strip un)"
    "db_accounts db' = db_accounts db @ [a]" "a \<in> set (db_accounts db')"
    "la_user_id a = uid" "la_login_identifier a = casefold U (strip un)"
    "la_status a = Account_ACTIVE" "la_password_version a = 1"
    "m \<in> set (db_memberships db')" "mr_user_id m = uid"
    "mr_tenant_id m = tid" "mr_status m = Membership_ACTIVE"
    "mr_membership_id m = mid"
    "set (membership_role_codes db' m) = {role_value ro}"
    "set (membership_permission_codes db' m) = permission_value ` permissions_for_role ro"
    "db_sessions db' = db_sessions db" "identity_ok db'"
proof -
  from run_create_account [OF assms(1) run] obtain cr hs r where
    cr: "create_credentials U un pw = Inr cr"
    and hs: "h (rc_password cr) = Inr hs"
    and x: "x = \<lparr>ra_user_id = uid, ra_username = rc_username cr, ra_role = ro\<rparr>"
    and r: "r \<in> set (db_roles db)" "ro_tenant_id r = tid"
      "ro_role_code r = role_value ro"
    and db': "db' = registered_db
       \<lparr>la_user_id = uid, la_login_identifier = casefold U (strip (rc_username cr)),
        la_password_hash = hs, la_status = Account_ACTIVE, la_password_version = 1\<rparr>
       \<lparr>tm_membership_id = mid, tm_user_id = uid,
        tm_tenant_id = tid, tm_roles = {role_value ro},
        tm_permissions = permission_value ` permissions_for_role ro,
        tm_status = Membership_ACTIVE\<rparr> (ro_role_id r) db" (is "_ = registered_db ?a ?m _ _")
    and fresh: "mid \<notin> mr_membership_id ` set (db_memberships db)"
    and ok': "identity_ok db'"
    by blast
  have norm: "casefold U (strip (rc_username cr)) = rc_username cr" and pwd: "rc_password cr = pw"
    and unm: "rc_username cr = casefold U (strip un)"
    using cr username_pattern_normal [OF assms(3)] by (auto simp: create_credentials_Inr Let_def)
  let ?row = "\<lparr>mr_membership_id = mid, mr_user_id = uid,
      mr_tenant_id = tid, mr_status = Membership_ACTIVE\<rparr>"
  have row: "?row \<in> set (db_memberships db')" by (simp add: db' registered_db_def)
  have codes: "set (membership_role_codes db' ?row) = {ro_role_code r}"
    "set (membership_permission_codes db' ?row)
      = {p \<in> set (db_permissions db). (ro_role_id r, p) \<in> set (db_role_permissions db)}"
    unfolding db' using registered_membership_codes [OF assms(1) r(1), of ?m ?row ?a] fresh r(2)
    by simp_all
  have "ro \<in> {MANAGER, EMPLOYEE}" by (cases ro) simp_all
  then have perms: "{p \<in> set (db_permissions db). (ro_role_id r, p) \<in> set (db_role_permissions db)}
      = permission_value ` permissions_for_role ro"
    using assms(2) r unfolding roles_seeded_def by blast
  show ?thesis
    by (rule that [of cr ?a ?row])
       (use cr hs x codes perms r(3) ok' norm pwd unm row in \<open>auto simp: db'\<close>)
qed

lemma registration_steps:
  assumes "identity_ok db" and "roles_seeded (rg_tenant_id c) db" and "ucd_ascii U"
    and "commit_register U h c db = (Inr x, db')"
  obtains cr a m where "create_credentials U (rg_username c) (rg_password c) = Inr cr"
    "h (rg_password c) = Inr (la_password_hash a)"
    "x = \<lparr>ra_user_id = rg_user_id c, ra_username = rc_username cr, ra_role = rg_role c\<rparr>"
    "rc_username cr = casefold U (strip (rg_username c))"
    "db_accounts db' = db_accounts db @ [a]" "a \<in> set (db_accounts db')"
    "la_user_id a = rg_user_id c" "la_login_identifier a = casefold U (strip (rg_username c))"
    "la_status a = Account_ACTIVE" "la_password_version a = 1"
    "m \<in> set (db_memberships db')" "mr_user_id m = rg_user_id c"
    "mr_tenant_id m = rg_tenant_id c" "mr_status m = Membership_ACTIVE"
    "mr_membership_id m = rg_membership_id c"
    "set (membership_role_codes db' m) = {role_value (rg_role c)}"
    "set (membership_permission_codes db' m) = permission_value ` permissions_for_role (rg_role c)"
    "db_sessions db' = db_sessions db" "identity_ok db'"
proof -
  have run: "run_transaction (create_account U h (rg_username c) (rg_password c) (rg_role c)
      (rg_tenant_id c) (rg_user_id c) (rg_membership_id c)) db = (Inr x, db')"
    using assms(4) commit_register_eq [OF assms(1), of U h c] by (auto split: if_splits)
  show ?thesis by (rule created_account_steps [OF assms(1-3) run]) (rule that)
qed

text \<open>After a committed registration the account and the membership, read back through the
  store, are exactly those of the request: active, normalised user name, the hash of the
  password, the one requested role and the capabilities \<open>permissions_for_role\<close> gives it;
  existing accounts, memberships and sessions are untouched and the tables well-formed.\<close>

theorem registration_roundtrip:
  assumes "identity_ok db" and "roles_seeded (rg_tenant_id c) db" and "ucd_ascii U"
    and "commit_register U h c db = (Inr x, db')"
  shows "\<exists>cr hs. create_credentials U (rg_username c) (rg_password c) = Inr cr
      \<and> h (rg_password c) = Inr hs
      \<and> x = \<lparr>ra_user_id = rg_user_id c, ra_username = rc_username cr, ra_role = rg_role c\<rparr>
      \<and> get_account_by_login db' (rc_username cr) = Inr (Some
          \<lparr>la_user_id = rg_user_id c, la_login_identifier = rc_username cr, la_password_hash = hs,
           la_status = Account_ACTIVE, la_password_version = 1\<rparr>)
      \<and> get_membership db' (rg_user_id c) (rg_tenant_id c) = Inr (Some
          \<lparr>tm_membership_id = rg_membership_id c, tm_user_id = rg_user_id c,
           tm_tenant_id = rg_tenant_id c, tm_roles = {role_value (rg_role c)},
           tm_permissions = permission_value ` permissions_for_role (rg_role c),
           tm_status = Membership_ACTIVE\<rparr>)
      \<and> take (length (db_accounts db)) (db_accounts db') = db_accounts db
      \<and> db_sessions db' = db_sessions db \<and> identity_ok db'"
proof -
  from registration_steps [OF assms] obtain cr a m where
    cr: "create_credentials U (rg_username c) (rg_password c) = Inr cr"
      "rc_username cr = casefold U (strip (rg_username c))"
    and x: "x = \<lparr>ra_user_id = rg_user_id c, ra_username = rc_username cr, ra_role = rg_role c\<rparr>"
    and a: "h (rg_password c) = Inr (la_password_hash a)" "db_accounts db' = db_accounts db @ [a]"
      "a \<in> set (db_accounts db')" "la_user_id a = rg_user_id c"
      "la_login_identifier a = casefold U (strip (rg_username c))"
      "la_status a = Account_ACTIVE" "la_password_version a = 1"
    and m: "m \<in> set (db_memberships db')" "mr_user_id m = rg_user_id c"
      "mr_tenant_id m = rg_tenant_id c" "mr_status m = Membership_ACTIVE"
      "mr_membership_id m = rg_membership_id c"
      "set (membership_role_codes db' m) = {role_value (rg_role c)}"
      "set (membership_permission_codes db' m) = permission_value ` permissions_for_role (rg_role c)"
    and ok': "db_sessions db' = db_sessions db" "identity_ok db'"
    by metis
  have "get_membership db' (rg_user_id c) (rg_tenant_id c) = Inr (Some (membership_of db' m))"
    using get_membership_eq [OF ok'(2)] find_membership [OF ok'(2) m(1-3)] by simp
  moreover have "get_account_by_login db' (rc_username cr) = Inr (Some a)"
    using get_account_by_login_eq [OF ok'(2)] find_login [OF ok'(2) a(3)] a(5) cr(2) by simp
  ultimately show ?thesis
    using cr x a m ok' by (intro exI [of _ cr] exI [of _ "la_password_hash a"])
      (simp add: membership_of_def)
qed

lemma registration_roundtrip_witness:
  "identity_ok (snd (commit_register ascii_ucd demo_hash demo_register demo_db))"
proof -
  have "roles_seeded (rg_tenant_id demo_register) demo_db"
    "fst (commit_register ascii_ucd demo_hash demo_register demo_db) = Inr
      \<lparr>ra_user_id = lit ''u2'', ra_username = lit ''worker_1'', ra_role = EMPLOYEE\<rparr>"
    by code_simp+
  then show ?thesis
    using registration_roundtrip [OF demo_db_ok, of demo_register ascii_ucd demo_hash]
    by (metis prod.collapse ucd_ascii_ascii_ucd)
qed

section \<open>Bootstrap of the first manager\<close>

definition has_manager :: "pystr \<Rightarrow> identity_db \<Rightarrow> bool" where
  "has_manager tid db \<longleftrightarrow>
     (\<exists>r\<in>set (db_roles db). ro_tenant_id r = tid \<and> ro_role_code r = role_value MANAGER
        \<and> (\<exists>m\<in>set (db_memberships db). mr_tenant_id m = tid
             \<and> (mr_membership_id m, ro_role_id r) \<in> set (db_membership_roles db)))"

lemma take1_Nil: "take 1 xs = [] \<longleftrightarrow> xs = []"
  by (cases xs) auto

lemma manager_exists_eq:
  assumes ok: "identity_ok db" and r: "r \<in> set (db_roles db)" "ro_tenant_id r = tid"
    "ro_role_code r = role_value MANAGER"
  shows "manager_exists_for_update tid (begin_uow db) = (Inr (has_manager tid db), begin_uow db)"
proof -
  let ?xs = "[fst mr. mr \<leftarrow> db_membership_roles db, m \<leftarrow> db_memberships db,
      mr_membership_id m = fst mr \<and> snd mr = ro_role_id r \<and> mr_tenant_id m = tid]"
  have dist: "distinct (map (\<lambda>r. (ro_tenant_id r, ro_role_code r)) (db_roles db))"
    using ok by (simp add: identity_ok_def)
  have only: "q = r" if "q \<in> set (db_roles db)" "ro_tenant_id q = tid"
    "ro_role_code q = role_value MANAGER" for q
    using dist that r by (metis (mono_tags, lifting) distinct_map inj_onD)
  have "filter (\<lambda>q. (ro_tenant_id q, ro_role_code q) = (tid, role_value MANAGER)) (db_roles db) = [r]"
    using filter_key_unique [OF dist r(1)] r(2,3) by simp
  then have look: "scalar_one_or_none (filter (\<lambda>q. ro_tenant_id q = tid
      \<and> ro_role_code q = role_value MANAGER) (db_roles db)) = Inr (Some r)"
    by (simp add: scalar_one_or_none_def)
  have "(\<exists>mr\<in>set (db_membership_roles db). \<exists>m\<in>set (db_memberships db).
      mr_membership_id m = fst mr \<and> snd mr = ro_role_id r \<and> mr_tenant_id m = tid)
    \<longleftrightarrow> has_manager tid db"
  proof
    assume "\<exists>mr\<in>set (db_membership_roles db). \<exists>m\<in>set (db_memberships db).
      mr_membership_id m = fst mr \<and> snd mr = ro_role_id r \<and> mr_tenant_id m = tid"
    then show "has_manager tid db" unfolding has_manager_def using r by (metis prod.collapse)
  next
    assume "has_manager tid db"
    then show "\<exists>mr\<in>set (db_membership_roles db). \<exists>m\<in>set (db_memberships db).
      mr_membership_id m = fst mr \<and> snd mr = ro_role_id r \<and> mr_tenant_id m = tid"
      unfolding has_manager_def using only by (metis fst_conv snd_conv)
  qed
  moreover have "?xs \<noteq> [] \<longleftrightarrow> (\<exists>mr\<in>set (db_membership_roles db). \<exists>m\<in>set (db_memberships db).
      mr_membership_id m = fst mr \<and> snd mr = ro_role_id r \<and> mr_tenant_id m = tid)"
    by (auto simp: concat_eq_Nil_conv)
  ultimately have "(take 1 ?xs \<noteq> []) = has_manager tid db" by (simp only: take1_Nil)
  then show ?thesis
    by (simp only: manager_exists_for_update_def queryS_apply begin_uow_simps look bindE_simps
        option.case)
qed

lemma commit_bootstrap_eq:
  assumes ok: "identity_ok db" and r: "r \<in> set (db_roles db)" "ro_tenant_id r = bc_tenant_id c"
    "ro_role_code r = role_value MANAGER"
  shows "commit_bootstrap U h c db =
    (if has_manager (bc_tenant_id c) db then (Inr False, db)
     else (case run_transaction (create_account U h (bc_username c) (bc_password c) MANAGER
              (bc_tenant_id c) (bc_user_id c) (bc_membership_id c)) db of
             (Inl e, db') \<Rightarrow> (Inl e, db') | (Inr x, db') \<Rightarrow> (Inr True, db')))"
  using manager_exists_eq [OF ok r]
  by (auto simp: commit_bootstrap_def bootstrap_manager_def run_transaction_def bindS_apply
      flush_clean split: prod.splits sum.splits)

text \<open>A bootstrap finds the seeded role of the manager.\<close>

lemma bootstrap_role:
  assumes "commit_bootstrap U h c db = (Inr created, db')"
  shows "\<exists>r\<in>set (db_roles db). ro_tenant_id r = bc_tenant_id c \<and> ro_role_code r = role_value MANAGER"
  using assms scalar_filter_unique
  by (auto simp: commit_bootstrap_def bootstrap_manager_def manager_exists_for_update_def
      run_transaction_Inr py_bind scalar_Some_iff filter_eq_Cons_iff split: option.splits)

text \<open>The bootstrap creates a manager only where there is none and is idempotent: after any
  committed bootstrap of a tenant it finds its manager, and every later bootstrap of that
  tenant, whatever its credentials, reports \<open>created=False\<close> and leaves the tables as they are.\<close>

theorem bootstrap_idempotent:
  assumes "identity_ok db" and "commit_bootstrap U h c db = (Inr created, db')"
    and "bc_tenant_id c2 = bc_tenant_id c"
  shows "(created \<longleftrightarrow> \<not> has_manager (bc_tenant_id c) db) \<and> (\<not> created \<longrightarrow> db' = db)
    \<and> has_manager (bc_tenant_id c) db' \<and> identity_ok db'
    \<and> commit_bootstrap U2 h2 c2 db' = (Inr False, db')"
proof -
  let ?t = "bc_tenant_id c"
  have "\<exists>r\<in>set (db_roles db). ro_tenant_id r = ?t \<and> ro_role_code r = role_value MANAGER"
    by (rule bootstrap_role [OF assms(2)])
  then obtain r where r: "r \<in> set (db_roles db)" "ro_tenant_id r = ?t"
    "ro_role_code r = role_value MANAGER" by blast
  note eq = commit_bootstrap_eq [OF assms(1) r, of U h]
  have main: "(created \<longleftrightarrow> \<not> has_manager ?t db) \<and> (\<not> created \<longrightarrow> db' = db)
    \<and> has_manager ?t db' \<and> identity_ok db' \<and> db_roles db' = db_roles db"
  proof (cases "has_manager ?t db")
    case True
    then show ?thesis using eq assms(1,2) by simp
  next
    case False
    then obtain x where cr: "created"
      and run: "run_transaction (create_account U h (bc_username c) (bc_password c) MANAGER ?t
        (bc_user_id c) (bc_membership_id c)) db = (Inr x, db')"
      using eq assms(2) by (auto split: prod.splits sum.splits)
    from run_create_account [OF assms(1) run] obtain a q where
      q: "q \<in> set (db_roles db)" "ro_tenant_id q = ?t" "ro_role_code q = role_value MANAGER"
      and db': "db' = registered_db a \<lparr>tm_membership_id = bc_membership_id c,
        tm_user_id = bc_user_id c, tm_tenant_id = ?t, tm_roles = {role_value MANAGER},
        tm_permissions = permission_value ` permissions_for_role MANAGER,
        tm_status = Membership_ACTIVE\<rparr> (ro_role_id q) db" and ok': "identity_ok db'"
      by metis
    have "has_manager ?t db'"
      using q unfolding has_manager_def by (auto simp: db' registered_db_def)
    then show ?thesis using False cr ok' by (simp add: db')
  qed
  moreover have "commit_bootstrap U2 h2 c2 db' = (Inr False, db')"
    using commit_bootstrap_eq [of db' r c2 U2 h2] main r assms(3) by simp
  ultimately show ?thesis by blast
qed

lemma bootstrap_idempotent_witness:
  "commit_bootstrap ascii_ucd demo_hash (demo_manager\<lparr>bc_username := lit ''other''\<rparr>) demo_db
     = (Inr False, demo_db)"
proof -
  have "fst (commit_bootstrap ascii_ucd demo_hash demo_manager demo_seed) = Inr True"
    by code_simp
  then have run: "commit_bootstrap ascii_ucd demo_hash demo_manager demo_seed = (Inr True, demo_db)"
    by (simp add: demo_db_def prod_eq_iff)
  show ?thesis
    using bootstrap_idempotent [OF demo_seed_ok run, of "demo_manager\<lparr>bc_username := lit ''other''\<rparr>"]
    by simp
qed

section \<open>Registration followed by login\<close>

lemma authenticate_granted:
  assumes ok: "identity_ok (uow_db u)"
    and g: "login_grant U verify c (uow_db u) = Some (a, m, \<lparr>pc_valid = True, pc_updated_hash = None\<rparr>)"
    and s: "issue_session (ac_session_id c) (ac_family_id c) (la_user_id a) (ac_tenant_id c)
       (ac_refresh_token_digest c) (ac_authenticated_at c) (ac_idle_ttl c) (ac_absolute_ttl c)
       = Inr s"
  shows "authenticate_local_account U verify c u =
    (Inr \<lparr>ai_user_id = la_user_id a, ai_tenant_id = ac_tenant_id c,
          ai_session_id = ac_session_id c,
          ai_roles = set (membership_role_codes (uow_db u) m),
          ai_permissions = set (membership_permission_codes (uow_db u) m)\<rparr>,
     u\<lparr>uow_new := uow_new u @ [s]\<rparr>)"
proof -
  let ?l = "casefold U (strip (ac_login_identifier c))"
  have F: "find (\<lambda>a. la_login_identifier a = ?l) (db_accounts (uow_db u)) = Some a"
    "verify (ac_password c) (Some (la_password_hash a))
       = Inr \<lparr>pc_valid = True, pc_updated_hash = None\<rparr>" "can_authenticate a"
    "find (\<lambda>m. mr_user_id m = la_user_id a \<and> mr_tenant_id m = ac_tenant_id c)
       (db_memberships (uow_db u)) = Some m" "mr_status m = Membership_ACTIVE"
    using g by (auto simp: login_grant_def split: option.splits sum.splits if_splits)
  have mt: "mr_tenant_id m = ac_tenant_id c" using find_in_set [OF F(4)] by simp
  have "membership_active (membership_of (uow_db u) m)"
    using F(5) by (simp add: membership_active_def membership_of_def)
  then show ?thesis
    using F mt s issue_session_Inr [OF s]
    by (simp add: authenticate_local_account_def bindS_apply get_account_by_login_eq [OF ok]
        get_membership_eq [OF ok] membership_of_def)
qed

text \<open>A created account can log in.\<close>

lemma created_account_can_login:
  assumes "identity_ok db" and "roles_seeded tid db" and "ucd_ascii U"
    and "run_transaction (create_account U h un pw ro tid uid mid) db = (Inr x, db1)"
    and "\<And>p q. h p = Inr q \<Longrightarrow> verify p (Some q) = Inr \<lparr>pc_valid = True, pc_updated_hash = None\<rparr>"
    and "casefold U (strip (ac_login_identifier l)) = casefold U (strip un)"
    and "ac_password l = pw" and "ac_tenant_id l = tid"
    and "issue_session (ac_session_id l) (ac_family_id l) uid (ac_tenant_id l)
       (ac_refresh_token_digest l) (ac_authenticated_at l) (ac_idle_ttl l) (ac_absolute_ttl l)
       = Inr s"
    and "fresh_in (db_sessions db) s"
    and "\<forall>v\<in>{ac_session_id l, ac_family_id l, uid, ac_tenant_id l,
       ac_refresh_token_digest l}. length v \<le> 64"
  shows "commit_login U verify l db1 =
    (Inr \<lparr>ai_user_id = uid, ai_tenant_id = tid,
          ai_session_id = ac_session_id l, ai_roles = {role_value ro},
          ai_permissions = permission_value ` permissions_for_role ro\<rparr>,
     db1\<lparr>db_sessions := db_sessions db @ [s]\<rparr>)"
proof -
  obtain cr a m where reg: "create_credentials U un pw = Inr cr"
    "h pw = Inr (la_password_hash a)"
    "x = \<lparr>ra_user_id = uid, ra_username = rc_username cr, ra_role = ro\<rparr>"
    "rc_username cr = casefold U (strip un)"
    "db_accounts db1 = db_accounts db @ [a]"
    and a: "a \<in> set (db_accounts db1)"
    "la_user_id a = uid" "la_login_identifier a = casefold U (strip un)"
    "la_status a = Account_ACTIVE" "la_password_version a = 1"
    and m: "m \<in> set (db_memberships db1)" "mr_user_id m = uid"
    "mr_tenant_id m = tid" "mr_status m = Membership_ACTIVE"
    "mr_membership_id m = mid"
    and codes: "set (membership_role_codes db1 m) = {role_value ro}"
    "set (membership_permission_codes db1 m) = permission_value ` permissions_for_role ro"
    and ss: "db_sessions db1 = db_sessions db" and ok1: "identity_ok db1"
    by (rule created_account_steps [OF assms(1-4)])
  have "login_grant U verify l (uow_db (begin_uow db1))
      = Some (a, m, \<lparr>pc_valid = True, pc_updated_hash = None\<rparr>)"
    using find_login [OF ok1 a(1,3)] find_membership [OF ok1 m(1-3)] a m reg(2) assms(5-8)
    by (simp add: login_grant_def can_authenticate_def)
  from authenticate_granted [OF _ this] have body: "authenticate_local_account U verify l (begin_uow db1) =
    (Inr \<lparr>ai_user_id = uid, ai_tenant_id = tid,
          ai_session_id = ac_session_id l, ai_roles = {role_value ro},
          ai_permissions = permission_value ` permissions_for_role ro\<rparr>,
     (begin_uow db1)\<lparr>uow_new := [s]\<rparr>)"
    using ok1 a(2) assms(8,9) codes by simp
  have "insert_session s db1 = Inr (db1\<lparr>db_sessions := db_sessions db @ [s]\<rparr>)"
    using assms(10,11) issue_session_Inr [OF assms(9)] imageI [OF a(1), of la_user_id] a(2)
    by (auto simp: py_bind fresh_in_def ss)
  then show ?thesis
    using body by (simp add: commit_login_def run_transaction_def bindS_apply flush_def begin_uow_def)
qed

text \<open>An account registered through the API can log in: with the registered password and the
  user name in any letter case and with any surrounding white space, the login commits and
  grants exactly the registered role and its capabilities.\<close>

theorem registered_account_can_login:
  assumes "identity_ok db" and "roles_seeded (rg_tenant_id c) db" and "ucd_ascii U"
    and "commit_register U h c db = (Inr x, db1)"
    and "\<And>p q. h p = Inr q \<Longrightarrow> verify p (Some q) = Inr \<lparr>pc_valid = True, pc_updated_hash = None\<rparr>"
    and "casefold U (strip (ac_login_identifier l)) = casefold U (strip (rg_username c))"
    and "ac_password l = rg_password c" and "ac_tenant_id l = rg_tenant_id c"
    and "issue_session (ac_session_id l) (ac_family_id l) (rg_user_id c) (ac_tenant_id l)
       (ac_refresh_token_digest l) (ac_authenticated_at l) (ac_idle_ttl l) (ac_absolute_ttl l)
       = Inr s"
    and "fresh_in (db_sessions db) s"
    and "\<forall>v\<in>{ac_session_id l, ac_family_id l, rg_user_id c, ac_tenant_id l,
       ac_refresh_token_digest l}. length v \<le> 64"
  shows "commit_login U verify l db1 =
    (Inr \<lparr>ai_user_id = rg_user_id c, ai_tenant_id = rg_tenant_id c,
          ai_session_id = ac_session_id l, ai_roles = {role_value (rg_role c)},
          ai_permissions = permission_value ` permissions_for_role (rg_role c)\<rparr>,
     db1\<lparr>db_sessions := db_sessions db @ [s]\<rparr>)"
proof -
  have run: "run_transaction (create_account U h (rg_username c) (rg_password c) (rg_role c)
      (rg_tenant_id c) (rg_user_id c) (rg_membership_id c)) db = (Inr x, db1)"
    using assms(4) commit_register_eq [OF assms(1), of U h c] by (auto split: if_splits)
  show ?thesis by (rule created_account_can_login [where h = h and verify = verify, OF assms(1-3) run assms(5-11)])
qed

lemma registered_account_can_login_witness:
  "ai_roles (projr (fst (commit_login ascii_ucd demo_verify
      (demo_login\<lparr>ac_login_identifier := lit '' WORKER_1'', ac_password := lit ''passw0rd''\<rparr>)
      (snd (commit_register ascii_ucd demo_hash demo_register demo_db))))) = {lit ''employee''}"
proof -
  let ?l = "demo_login\<lparr>ac_login_identifier := lit '' WORKER_1'', ac_password := lit ''passw0rd''\<rparr>"
  let ?r = "commit_register ascii_ucd demo_hash demo_register demo_db"
  let ?s = "projr (issue_session (lit ''s1'') (lit ''f1'') (lit ''u2'') (lit ''default'')
      (lit ''d1'') (Aware 0 0) 100 1000)"
  have seed: "roles_seeded (rg_tenant_id demo_register) demo_db" by code_simp
  have "fst ?r = Inr
      \<lparr>ra_user_id = lit ''u2'', ra_username = lit ''worker_1'', ra_role = EMPLOYEE\<rparr>"
    by code_simp
  then have run: "?r = (Inr \<lparr>ra_user_id = lit ''u2'', ra_username = lit ''worker_1'',
      ra_role = EMPLOYEE\<rparr>, snd ?r)" by (simp add: prod_eq_iff)
  have v: "demo_verify p (Some q) = Inr \<lparr>pc_valid = True, pc_updated_hash = None\<rparr>"
    if "demo_hash p = Inr q" for p q
    using that by (auto simp: demo_hash_def demo_verify_def)
  have "casefold ascii_ucd (strip (ac_login_identifier ?l))
      = casefold ascii_ucd (strip (rg_username demo_register))"
    "issue_session (ac_session_id ?l) (ac_family_id ?l) (rg_user_id demo_register) (ac_tenant_id ?l)
       (ac_refresh_token_digest ?l) (ac_authenticated_at ?l) (ac_idle_ttl ?l) (ac_absolute_ttl ?l)
       = Inr ?s"
    "fresh_in (db_sessions demo_db) ?s"
    "\<forall>v\<in>{ac_session_id ?l, ac_family_id ?l, rg_user_id demo_register, ac_tenant_id ?l,
       ac_refresh_token_digest ?l}. length v \<le> 64"
    "ac_password ?l = rg_password demo_register" "ac_tenant_id ?l = rg_tenant_id demo_register"
    by code_simp+
  note H = this
  have r: "role_value (rg_role demo_register) = lit ''employee''"
    by (simp add: demo_register_def)
  show ?thesis
    using registered_account_can_login [where l = ?l and c = demo_register and U = ascii_ucd
        and h = demo_hash and verify = demo_verify and s = ?s, OF demo_db_ok seed
        ucd_ascii_ascii_ucd run v H(1,5,6,2,3,4)]
    by (simp add: r)
qed

end
