(* ===== verification/AuthRoutes.thy ===== *)
theory AuthRoutes
  imports AccessControl IdentityGuarantees
begin

text \<open>
  The browser authentication protocol (\<open>entrypoints/api/routes/auth.py\<close>) and the resolution
  of the current principal (\<open>entrypoints/api/dependencies.py\<close>).  A route runs over the rate
  limiter's store and the identity tables: the limiter is consulted outside the database
  transaction's effects, everything else inside it, and an exception rolls the tables back.
  The clock, the \<open>uuid4\<close> identifiers and the random bytes of a request are in \<open>request_env\<close>.
\<close>

section \<open>Environment\<close>

record auth_env =
  ae_ucd :: ucd
  ae_sha256_hex :: "pystr \<Rightarrow> pystr"
  ae_jwt :: jwt_lib
  ae_pwd :: pwd_lib
  ae_settings :: auth_settings

record request_env =
  re_client_ip :: "pystr option"
  re_now :: datetime
  re_session_id :: pystr
  re_family_id :: pystr
  re_token_id :: pystr
  re_user_id :: pystr
  re_membership_id :: pystr
  re_refresh_bytes :: "nat list"
  re_csrf_bytes :: "nat list"

definition MAX_LOGIN_IDENTIFIER_LENGTH :: nat where "MAX_LOGIN_IDENTIFIER_LENGTH = 320"
definition MAX_PASSWORD_REQUEST_BYTES :: nat where "MAX_PASSWORD_REQUEST_BYTES = 1024"

definition LOGIN_RATE_POLICY :: rate_limit_policy where
  "LOGIN_RATE_POLICY = \<lparr>rp_capacity = 5, rp_window_seconds = 60, rp_outage_mode = DENY\<rparr>"

definition REFRESH_RATE_POLICY :: rate_limit_policy where
  "REFRESH_RATE_POLICY = \<lparr>rp_capacity = 10, rp_window_seconds = 60, rp_outage_mode = DENY\<rparr>"

definition REGISTER_RATE_POLICY :: rate_limit_policy where
  "REGISTER_RATE_POLICY = \<lparr>rp_capacity = 5, rp_window_seconds = 3600, rp_outage_mode = DENY\<rparr>"

section \<open>Payloads and responses\<close>

record login_request =
  lq_username :: pystr
  lq_password :: pystr

definition validate_login_request :: "login_request \<Rightarrow> exn + unit" where
  "validate_login_request q =
     raise_if (\<not> (1 \<le> length (lq_username q) \<and> length (lq_username q) \<le> MAX_LOGIN_IDENTIFIER_LENGTH)
               \<or> length (lq_password q) < 1
               \<or> (case utf8_length (lq_password q) of Inl _ \<Rightarrow> True
                   | Inr n \<Rightarrow> n > MAX_PASSWORD_REQUEST_BYTES))
       RequestValidationError (Inr ())"

record register_request =
  gq_username :: pystr
  gq_password :: pystr
  gq_role :: identity_role

definition validate_register_request :: "ucd \<Rightarrow> register_request \<Rightarrow> exn + unit" where
  "validate_register_request U q =
     raise_if (\<not> (1 \<le> length (gq_username q) \<and> length (gq_username q) \<le> MAX_LOGIN_IDENTIFIER_LENGTH)
               \<or> length (gq_password q) < 1
               \<or> (case create_credentials U (gq_username q) (gq_password q) of Inl _ \<Rightarrow> True
                   | Inr _ \<Rightarrow> False))
       RequestValidationError (Inr ())"

record access_token_response =
  tr_access_token :: pystr
  tr_token_type :: pystr
  tr_expires_in :: int

record login_response =
  lr_token :: access_token_response
  lr_user_id :: pystr
  lr_username :: pystr
  lr_role :: identity_role

text \<open>The two cookies of a session; both are \<open>samesite=lax\<close> under the auth path.\<close>

record cookie =
  ck_name :: pystr
  ck_value :: pystr
  ck_max_age :: int
  ck_httponly :: bool
  ck_secure :: bool
  ck_path :: pystr

definition REFRESH_COOKIE_NAME :: pystr where "REFRESH_COOKIE_NAME = lit ''bid_refresh_token''"
definition CSRF_COOKIE_NAME :: pystr where "CSRF_COOKIE_NAME = lit ''bid_csrf_token''"
definition AUTH_COOKIE_PATH :: pystr where "AUTH_COOKIE_PATH = lit ''/api/v1/auth''"

definition set_auth_cookies :: "pystr \<Rightarrow> pystr \<Rightarrow> bool \<Rightarrow> int \<Rightarrow> cookie list" where
  "set_auth_cookies refresh_token csrf_token secure max_age =
     [\<lparr>ck_name = REFRESH_COOKIE_NAME, ck_value = refresh_token, ck_max_age = max_age,
       ck_httponly = True, ck_secure = secure, ck_path = AUTH_COOKIE_PATH\<rparr>,
      \<lparr>ck_name = CSRF_COOKIE_NAME, ck_value = csrf_token, ck_max_age = max_age,
       ck_httponly = False, ck_secure = secure, ck_path = AUTH_COOKIE_PATH\<rparr>]"

definition token_response :: "pystr \<Rightarrow> int \<Rightarrow> access_token_response" where
  "token_response access_token expires_in =
     \<lparr>tr_access_token = access_token, tr_token_type = lit ''Bearer'', tr_expires_in = expires_in\<rparr>"

text \<open>The double-submit check compares cookie and header with \<open>secrets.compare_digest\<close>.\<close>

definition require_csrf :: "pystr option \<Rightarrow> pystr option \<Rightarrow> exn + unit" where
  "require_csrf csrf_cookie csrf_header =
     (case csrf_cookie of None \<Rightarrow> raise_class AuthenticationError | Some c \<Rightarrow>
     (case csrf_header of None \<Rightarrow> raise_class AuthenticationError | Some h \<Rightarrow>
       bindE (compare_digest c h) (\<lambda>same.
         raise_if (\<not> same) (BidError AuthenticationError None) (Inr ()))))"

definition identity_roles :: "pystr set \<Rightarrow> identity_role list" where
  "identity_roles values = filter (\<lambda>role. role_value role \<in> values) [MANAGER, EMPLOYEE]"

definition single_identity_role :: "pystr set \<Rightarrow> exn + identity_role" where
  "single_identity_role values =
     (case identity_roles values of [r] \<Rightarrow> Inr r | _ \<Rightarrow> raise_class AuthenticationError)"

definition require_auth_enabled :: "auth_settings \<Rightarrow> exn + auth_settings" where
  "require_auth_enabled S = raise_if (\<not> au_enabled S) (BidError AuthenticationError None) (Inr S)"

section \<open>Routes\<close>

type_synonym ('s, 'a) route = "('s \<times> identity_db, 'a) stateful"

definition client_ip_or_unknown :: "pystr option \<Rightarrow> pystr" where
  "client_ip_or_unknown ip =
     (case ip of None \<Rightarrow> lit ''unknown'' | Some v \<Rightarrow> if v = [] then lit ''unknown'' else v)"

definition enforce_limit ::
  "(pystr \<Rightarrow> int \<Rightarrow> ('s, int) stateful) \<Rightarrow> pystr \<Rightarrow> rate_limit_policy \<Rightarrow> ('s, unit) route" where
  "enforce_limit eval key policy = (\<lambda>(s, db).
     case check_rate eval key policy s of
       (Inl e, s1) \<Rightarrow> (Inl e, (s1, db))
     | (Inr decision, s1) \<Rightarrow>
         (raise_if (\<not> rd_allowed decision) (HTTPException 429) (Inr ()), (s1, db)))"

definition in_transaction :: "'a identity_op \<Rightarrow> ('s, 'a) route" where
  "in_transaction body = (\<lambda>(s, db). let (r, db1) = run_transaction body db in (r, (s, db1)))"

definition login_command ::
  "auth_env \<Rightarrow> request_env \<Rightarrow> login_request \<Rightarrow> pystr \<Rightarrow> authenticate_command" where
  "login_command E R q digest =
     \<lparr>ac_login_identifier = lq_username q, ac_password = lq_password q,
      ac_tenant_id = au_default_tenant_id (ae_settings E), ac_session_id = re_session_id R,
      ac_family_id = re_family_id R, ac_refresh_token_digest = digest,
      ac_authenticated_at = re_now R,
      ac_idle_ttl = au_refresh_token_idle_ttl_seconds (ae_settings E) * 1000000,
      ac_absolute_ttl = au_refresh_token_absolute_ttl_seconds (ae_settings E) * 1000000\<rparr>"

definition login_body ::
  "auth_env \<Rightarrow> request_env \<Rightarrow> login_request \<Rightarrow> (login_response \<times> cookie list) identity_op" where
  "login_body E R q =
     (let S = ae_settings E in
     bindS (liftS (generate_refresh_token (re_refresh_bytes R))) (\<lambda>refresh_token.
     bindS (liftS (generate_refresh_token (re_csrf_bytes R))) (\<lambda>csrf_token.
     bindS (liftS (refresh_token_digest (ae_sha256_hex E) refresh_token)) (\<lambda>digest.
     bindS (authenticate_local_account (ae_ucd E) (argon2_verify (ae_pwd E))
       (login_command E R q digest)) (\<lambda>identity.
     bindS (liftS (mk_token_issuer S)) (\<lambda>_.
     bindS (liftS (issue_access_token (ae_jwt E) S (ai_user_id identity) (ai_tenant_id identity)
       (ai_session_id identity) (re_token_id R) (re_now R))) (\<lambda>access_token.
     bindS (liftS (single_identity_role (ai_roles identity))) (\<lambda>role.
     retS (\<lparr>lr_token = token_response access_token (au_access_token_ttl_seconds S),
            lr_user_id = ai_user_id identity,
            lr_username = casefold (ae_ucd E) (strip (lq_username q)), lr_role = role\<rparr>,
           set_auth_cookies refresh_token csrf_token (au_refresh_cookie_secure S)
             (au_refresh_token_idle_ttl_seconds S))))))))))"

definition login_route ::
  "auth_env \<Rightarrow> (pystr \<Rightarrow> int \<Rightarrow> ('s, int) stateful) \<Rightarrow> request_env \<Rightarrow> login_request
    \<Rightarrow> ('s, login_response \<times> cookie list) route" where
  "login_route E eval R q =
     bindS (liftS (validate_login_request q)) (\<lambda>_.
     bindS (liftS (login_rate_key (ae_ucd E) (ae_sha256_hex E)
              (client_ip_or_unknown (re_client_ip R)) (lq_username q))) (\<lambda>key.
     bindS (enforce_limit eval key LOGIN_RATE_POLICY) (\<lambda>_.
     bindS (liftS (require_auth_enabled (ae_settings E))) (\<lambda>_.
     in_transaction (login_body E R q)))))"

definition register_route ::
  "auth_env \<Rightarrow> (pystr \<Rightarrow> int \<Rightarrow> ('s, int) stateful) \<Rightarrow> request_env \<Rightarrow> authenticated_principal
    \<Rightarrow> register_request \<Rightarrow> ('s, registered_account) route" where
  "register_route E eval R p q =
     bindS (liftS (validate_register_request (ae_ucd E) q)) (\<lambda>_.
     bindS (liftS (require_permission (evaluate_permission p
              {permission_value ACCOUNTS_CREATE} (ap_tenant_id p)))) (\<lambda>_.
     bindS (liftS (sensitive_rate_key (ap_tenant_id p) (ap_user_id p)
              (lit ''accounts.create:'' @ client_ip_or_unknown (re_client_ip R)))) (\<lambda>key.
     bindS (enforce_limit eval key REGISTER_RATE_POLICY) (\<lambda>_.
     bindS (liftS (require_auth_enabled (ae_settings E))) (\<lambda>_.
     in_transaction (register_local_account (ae_ucd E) (argon2_encode (ae_pwd E))
       \<lparr>rg_username = gq_username q, rg_password = gq_password q, rg_role = gq_role q,
        rg_tenant_id = ap_tenant_id p, rg_user_id = re_user_id R,
        rg_membership_id = re_membership_id R, rg_actor_user_id = ap_user_id p\<rparr>))))))"

text \<open>The 401 of a failed rotation is a returned response, so its transaction commits.\<close>

datatype refresh_outcome =
    Refreshed access_token_response "cookie list"
  | Refresh_unauthorized

definition refresh_rotated ::
  "auth_env \<Rightarrow> request_env \<Rightarrow> pystr \<Rightarrow> pystr \<Rightarrow> refresh_session \<Rightarrow> refresh_outcome identity_op" where
  "refresh_rotated E R replacement_token replacement_csrf session =
     (let S = ae_settings E in
     bindS flush (\<lambda>_.
     bindS (resolve_identity \<lparr>rq_user_id = rs_user_id session,
       rq_tenant_id = rs_tenant_id session, rq_session_id = rs_session_id session,
       rq_resolved_at = re_now R\<rparr>) (\<lambda>identity.
     bindS (liftS (mk_token_issuer S)) (\<lambda>_.
     bindS (liftS (issue_access_token (ae_jwt E) S (ri_user_id identity)
       (ri_tenant_id identity) (ri_session_id identity) (re_token_id R) (re_now R)))
       (\<lambda>access_token.
     retS (Refreshed (token_response access_token (au_access_token_ttl_seconds S))
       (set_auth_cookies replacement_token replacement_csrf (au_refresh_cookie_secure S)
         (au_refresh_token_idle_ttl_seconds S))))))))"

definition refresh_body ::
  "auth_env \<Rightarrow> request_env \<Rightarrow> pystr \<Rightarrow> refresh_outcome identity_op" where
  "refresh_body E R presented_digest =
     bindS (liftS (generate_refresh_token (re_refresh_bytes R))) (\<lambda>replacement_token.
     bindS (liftS (generate_refresh_token (re_csrf_bytes R))) (\<lambda>replacement_csrf.
     bindS (liftS (refresh_token_digest (ae_sha256_hex E) replacement_token)) (\<lambda>replacement_digest.
     bindS (rotate_refresh_session presented_digest (re_session_id R) replacement_digest (re_now R)
              (au_refresh_token_idle_ttl_seconds (ae_settings E) * 1000000)) (\<lambda>rotation.
     if rot_status rotation \<noteq> ROTATED then retS Refresh_unauthorized
     else (case rot_session rotation of
             None \<Rightarrow> retS Refresh_unauthorized
           | Some session \<Rightarrow> refresh_rotated E R replacement_token replacement_csrf session)))))"

definition refresh_route ::
  "auth_env \<Rightarrow> (pystr \<Rightarrow> int \<Rightarrow> ('s, int) stateful) \<Rightarrow> request_env
    \<Rightarrow> pystr option \<Rightarrow> pystr option \<Rightarrow> pystr option \<Rightarrow> ('s, refresh_outcome) route" where
  "refresh_route E eval R csrf_cookie csrf_header refresh_cookie =
     bindS (liftS (require_csrf csrf_cookie csrf_header)) (\<lambda>_.
     case refresh_cookie of
       None \<Rightarrow> raiseS (BidError AuthenticationError None)
     | Some refresh_token \<Rightarrow>
         bindS (liftS (refresh_token_digest (ae_sha256_hex E) refresh_token)) (\<lambda>presented_digest.
         bindS (liftS (refresh_rate_key (client_ip_or_unknown (re_client_ip R)) presented_digest))
           (\<lambda>key.
         bindS (enforce_limit eval key REFRESH_RATE_POLICY) (\<lambda>_.
         bindS (liftS (require_auth_enabled (ae_settings E))) (\<lambda>_.
         in_transaction (refresh_body E R presented_digest))))))"

definition logout_route ::
  "auth_env \<Rightarrow> request_env \<Rightarrow> pystr option \<Rightarrow> pystr option \<Rightarrow> pystr option \<Rightarrow> ('s, bool) route" where
  "logout_route E R csrf_cookie csrf_header refresh_cookie =
     bindS (liftS (require_csrf csrf_cookie csrf_header)) (\<lambda>_.
     case refresh_cookie of
       None \<Rightarrow> retS True
     | Some refresh_token \<Rightarrow>
         bindS (liftS (refresh_token_digest (ae_sha256_hex E) refresh_token)) (\<lambda>digest.
         in_transaction (bindS (revoke_refresh_family_by_digest digest (re_now R)) (\<lambda>_. retS True))))"

section \<open>The current principal (dependencies.py)\<close>

definition resolve_current_principal ::
  "auth_env \<Rightarrow> pystr option \<Rightarrow> datetime \<Rightarrow> authenticated_principal identity_op" where
  "resolve_current_principal E authorization_header resolved_at =
     bindS (liftS (map_sum
        (\<lambda>e. if e = TokenValidationError then BidError AuthenticationError None else e) id
        (bindE (parse_bearer (ae_ucd E) authorization_header) (\<lambda>token.
         bindE (mk_token_verifier (ae_settings E)) (\<lambda>S.
         verify_access_token (ae_jwt E) S token resolved_at))))) (\<lambda>claims.
     bindS (resolve_identity \<lparr>rq_user_id = atc_subject claims, rq_tenant_id = atc_tenant_id claims,
              rq_session_id = atc_session_id claims, rq_resolved_at = resolved_at\<rparr>) (\<lambda>identity.
     retS \<lparr>ap_user_id = ri_user_id identity, ap_tenant_id = ri_tenant_id identity,
           ap_session_id = ri_session_id identity, ap_roles = ri_roles identity,
           ap_permissions = ri_permissions identity, ap_active = True\<rparr>))"

definition get_current_principal ::
  "auth_env \<Rightarrow> (pystr \<times> pystr) option \<Rightarrow> datetime \<Rightarrow> identity_db
    \<Rightarrow> (exn + authenticated_principal) \<times> identity_db" where
  "get_current_principal E credentials resolved_at db =
     (case credentials of
        None \<Rightarrow> (raise_class AuthenticationError, db)
      | Some (scheme, token) \<Rightarrow>
          run_transaction (resolve_current_principal E (Some (scheme @ lit '' '' @ token)) resolved_at) db)"

section \<open>Routes as steps of the session table\<close>

lemma identity_ok_sessions:
  "identity_ok db \<Longrightarrow> families_ok ss \<Longrightarrow> identity_ok (db\<lparr>db_sessions := ss\<rparr>)"
  by (simp add: identity_ok_def)

lemma commit_rotate_frame:
  assumes ok: "families_ok (db_sessions db)"
    and run: "commit_rotate d sid dig now idle db = (res, db')"
  shows "db' = db\<lparr>db_sessions := db_sessions db'\<rparr>"
proof (cases res)
  case (Inl e)
  then show ?thesis using run run_transaction_Inl by (fastforce simp: commit_rotate_def)
next
  case (Inr x)
  then obtain u v where body: "rotate_refresh_session d sid dig now idle (begin_uow db) = (Inr x, u)"
    and fl: "flush u = (Inr (), v)" and db': "db' = uow_db v"
    using run by (auto simp: commit_rotate_def run_transaction_Inr)
  from ok body show ?thesis
  proof (cases rule: rotate_begin_cases)
    case invalid
    then have "v = begin_uow db" using fl by (simp add: flush_clean)
    then show ?thesis using db' by simp
  next
    case (replayed s)
    then have "v = update_sessions (revoke_family (rs_family_id s) now) (begin_uow db)"
      using fl by (simp add: flush_clean)
    then show ?thesis using db' by simp
  next
    case (rotated s c r)
    then show ?thesis using fl db' flush_rotation by auto
  qed
qed

lemma commit_rotate_ok:
  assumes "identity_ok db" "commit_rotate d sid dig now idle db = (res, db')"
  shows "identity_ok db' \<and> family_step (db_sessions db) (db_sessions db')"
proof -
  note fam = identity_ok_families [OF assms(1)]
  have step: "family_step (db_sessions db) (db_sessions db')" by (rule sql.rotate_step [OF fam assms(2)])
  have "identity_ok (db\<lparr>db_sessions := db_sessions db'\<rparr>)"
    by (rule identity_ok_sessions [OF assms(1) family_step_ok [OF step fam]])
  then show ?thesis using step commit_rotate_frame [OF fam assms(2)] by simp
qed

lemma commit_revoke_ok:
  assumes "identity_ok db" "commit_revoke d now db = (res, db')"
  shows "identity_ok db' \<and> family_step (db_sessions db) (db_sessions db')"
proof -
  note fam = identity_ok_families [OF assms(1)]
  have step: "family_step (db_sessions db) (db_sessions db')" by (rule sql.revoke_step [OF fam assms(2)])
  have "db' = db\<lparr>db_sessions := db_sessions db'\<rparr>"
    using assms(2) by (auto simp: commit_revoke_eq [OF fam] split: option.splits)
  then show ?thesis
    using step identity_ok_sessions [OF assms(1) family_step_ok [OF step fam]] by metis
qed

lemma login_body_commit:
  assumes "run_transaction (login_body E R q) db = (Inr x, db')"
  obtains digest i where "commit_login (ae_ucd E) (argon2_verify (ae_pwd E))
    (login_command E R q digest) db = (Inr i, db')"
proof -
  obtain u v where body: "login_body E R q (begin_uow db) = (Inr x, u)"
    and fl: "flush u = (Inr (), v)" and db': "db' = uow_db v"
    using assms by (auto simp: run_transaction_Inr)
  from body obtain digest i where
    "authenticate_local_account (ae_ucd E) (argon2_verify (ae_pwd E)) (login_command E R q digest)
       (begin_uow db) = (Inr i, u)"
    by (auto simp: login_body_def Let_def py_bind)
  then show ?thesis
    using that fl db' unfolding commit_login_def run_transaction_Inr by blast
qed

lemma login_ok:
  assumes "identity_ok db" "commit_login U verify c db = (Inr i, db')"
    "ac_family_id c \<notin> rs_family_id ` set (db_sessions db)"
  shows "identity_ok db' \<and> family_step (db_sessions db) (db_sessions db')"
proof -
  obtain a m check s where
    "login_grant U verify c db = Some (a, m, check)"
    and s: "issue_session (ac_session_id c) (ac_family_id c) (la_user_id a) (ac_tenant_id c)
       (ac_refresh_token_digest c) (ac_authenticated_at c) (ac_idle_ttl c) (ac_absolute_ttl c)
       = Inr s"
    and "i = \<lparr>ai_user_id = la_user_id a, ai_tenant_id = ac_tenant_id c,
           ai_session_id = ac_session_id c, ai_roles = set (membership_role_codes db m),
           ai_permissions = set (membership_permission_codes db m)\<rparr>"
    and db': "db' = db\<lparr>db_accounts := (case pc_updated_hash check of None \<Rightarrow> db_accounts db
                | Some h \<Rightarrow> store_hash (a\<lparr>la_password_hash := h,
                      la_password_version := la_password_version a + 1\<rparr>) (db_accounts db)),
              db_sessions := db_sessions db @ [s]\<rparr>"
    and fresh: "fresh_in (db_sessions db) s"
    and "\<forall>h. pc_updated_hash check = Some h \<longrightarrow> \<not> blank h"
    by (rule login_Inr [OF assms(1,2)])
  have "db_sessions db' = db_sessions db @ [s]" by (simp add: db')
  then have "family_step (db_sessions db) (db_sessions db')"
    using family_step.open_family [OF s fresh assms(3)] by simp
  then show ?thesis using login_identity_ok [OF assms] by blast
qed

lemma resolve_identity_state: "resolve_identity q u = (r, v) \<Longrightarrow> v = u"
  by (auto simp: resolve_identity_def bindS_apply split: sum.splits option.splits if_splits)

lemma flush_result: "flush u = (Inr y, v) \<Longrightarrow> uow_dirty v = [] \<and> uow_new v = []"
  by (auto simp: flush_Inr)

text \<open>A committed refresh is a committed rotation; a granted one rotated the session.\<close>

lemma refresh_rotated_state:
  assumes "refresh_rotated E R tok csrf s w = (Inr x, u)"
  shows "flush w = (Inr (), u)"
  using assms
  by (auto simp: refresh_rotated_def Let_def py_bind dest!: resolve_identity_state)

lemma refresh_body_commit:
  assumes run: "run_transaction (refresh_body E R d) db = (Inr x, db')"
  obtains dig rot where "commit_rotate d (re_session_id R) dig (re_now R)
      (au_refresh_token_idle_ttl_seconds (ae_settings E) * 1000000) db = (Inr rot, db')"
    "x \<noteq> Refresh_unauthorized \<Longrightarrow> rot_status rot = ROTATED \<and> (\<exists>r. rot_session rot = Some r)"
proof -
  let ?idle = "au_refresh_token_idle_ttl_seconds (ae_settings E) * 1000000"
  obtain u v where body: "refresh_body E R d (begin_uow db) = (Inr x, u)"
    and fl: "flush u = (Inr (), v)" and db': "db' = uow_db v"
    using run by (auto simp: run_transaction_Inr)
  from body obtain tok csrf dig rot w where
    rot: "rotate_refresh_session d (re_session_id R) dig (re_now R) ?idle (begin_uow db) = (Inr rot, w)"
    and rest: "(if rot_status rot \<noteq> ROTATED then retS Refresh_unauthorized
     else (case rot_session rot of
             None \<Rightarrow> retS Refresh_unauthorized
           | Some session \<Rightarrow> refresh_rotated E R tok csrf session)) w = (Inr x, u)"
    unfolding refresh_body_def bindS_Inr stateful_simps prod.inject by blast
  show ?thesis
  proof (cases "rot_status rot = ROTATED \<and> (\<exists>r. rot_session rot = Some r)")
    case True
    then have "flush w = (Inr (), u)" using rest by (auto dest: refresh_rotated_state)
    moreover from this have "v = u" using fl flush_result [of w] by (simp add: flush_clean)
    ultimately have "commit_rotate d (re_session_id R) dig (re_now R) ?idle db = (Inr rot, db')"
      using rot db' unfolding commit_rotate_def run_transaction_Inr by blast
    then show ?thesis using that True by blast
  next
    case False
    then have u: "u = w" "x = Refresh_unauthorized" using rest by (auto split: option.splits if_splits)
    then have "commit_rotate d (re_session_id R) dig (re_now R) ?idle db = (Inr rot, db')"
      using rot db' fl unfolding commit_rotate_def run_transaction_Inr by blast
    then show ?thesis using that u by blast
  qed
qed

text \<open>The database after a route: unchanged when it raised, else one committed body.\<close>

lemma in_transaction_cases:
  "in_transaction body (s, db) = (res, (s1, db')) \<Longrightarrow>
     s1 = s \<and> run_transaction body db = (res, db') \<and> (\<forall>e. res = Inl e \<longrightarrow> db' = db)"
  by (auto simp: in_transaction_def split_beta dest: run_transaction_Inl)
     (metis prod.collapse run_transaction_Inl)

lemma enforce_limit_db: "enforce_limit eval key p (s, db) = (r, (s1, db1)) \<Longrightarrow> db1 = db"
  by (auto simp: enforce_limit_def split: prod.splits sum.splits)

lemma login_route_cases:
  assumes "login_route E eval R q (s, db) = (res, (s1, db'))"
  shows "(\<exists>e. res = Inl e \<and> db' = db)
    \<or> (\<exists>x. res = Inr x \<and> run_transaction (login_body E R q) db = (Inr x, db'))"
proof (cases res)
  case (Inl e)
  then show ?thesis using assms
    by (auto simp: login_route_def py_bind dest!: enforce_limit_db in_transaction_cases)
next
  case (Inr x)
  then show ?thesis using assms
    by (auto simp: login_route_def py_bind dest!: enforce_limit_db in_transaction_cases)
qed

lemma register_route_cases:
  assumes "register_route E eval R p q (s, db) = (res, (s1, db'))"
  shows "(\<exists>e. res = Inl e \<and> db' = db)
    \<or> (\<exists>c x. commit_register (ae_ucd E) (argon2_encode (ae_pwd E)) c db = (Inr x, db'))"
proof (cases res)
  case (Inl e)
  then show ?thesis using assms
    by (auto simp: register_route_def py_bind dest!: enforce_limit_db in_transaction_cases)
next
  case (Inr x)
  then show ?thesis using assms
    by (auto simp: register_route_def py_bind commit_register_def
        dest!: enforce_limit_db in_transaction_cases)
qed

lemma refresh_route_cases:
  assumes "refresh_route E eval R cc ch rc (s, db) = (res, (s1, db'))"
  shows "(\<exists>e. res = Inl e \<and> db' = db)
    \<or> (\<exists>tok d x. rc = Some tok \<and> refresh_token_digest (ae_sha256_hex E) tok = Inr d \<and> res = Inr x
         \<and> run_transaction (refresh_body E R d) db = (Inr x, db'))"
proof (cases res)
  case (Inl e)
  then show ?thesis using assms
    by (auto simp: refresh_route_def py_bind split: option.splits
        dest!: enforce_limit_db in_transaction_cases)
next
  case (Inr x)
  then show ?thesis using assms
    by (auto simp: refresh_route_def py_bind dest!: enforce_limit_db in_transaction_cases)
qed

lemma logout_transaction:
  "run_transaction (bindS (revoke_refresh_family_by_digest d now) (\<lambda>_. retS True)) db
     = (case commit_revoke d now db of (Inl e, db') \<Rightarrow> (Inl e, db') | (Inr b, db') \<Rightarrow> (Inr True, db'))"
  by (auto simp: commit_revoke_def run_transaction_def bindS_apply split: prod.splits sum.splits)

lemma logout_route_cases:
  assumes "logout_route E R cc ch rc (s, db) = (res, (s1, db'))"
  shows "db' = db \<or> (\<exists>tok d b. rc = Some tok \<and> refresh_token_digest (ae_sha256_hex E) tok = Inr d
      \<and> commit_revoke d (re_now R) db = (Inr b, db'))"
proof (cases res)
  case (Inl e)
  then show ?thesis using assms
    by (auto simp: logout_route_def py_bind split: option.splits
        dest!: enforce_limit_db in_transaction_cases)
next
  case (Inr x)
  then show ?thesis using assms
    by (auto simp: logout_route_def py_bind logout_transaction split: option.splits prod.splits
        sum.splits dest!: in_transaction_cases)
qed

section \<open>The API as a state machine\<close>

text \<open>
  One request of any client; whatever it contains, the only thing assumed is that \<open>uuid4\<close>
  gives a new session family a fresh identifier.
\<close>

inductive api_step ::
  "auth_env \<Rightarrow> (pystr \<Rightarrow> int \<Rightarrow> ('s, int) stateful) \<Rightarrow> 's \<times> identity_db \<Rightarrow> 's \<times> identity_db \<Rightarrow> bool"
  for E eval where
  login: "login_route E eval R q (s, db) = (res, st) \<Longrightarrow>
     re_family_id R \<notin> rs_family_id ` set (db_sessions db) \<Longrightarrow> api_step E eval (s, db) st"
| register: "register_route E eval R p q (s, db) = (res, st) \<Longrightarrow> api_step E eval (s, db) st"
| refresh: "refresh_route E eval R cc ch rc (s, db) = (res, st) \<Longrightarrow> api_step E eval (s, db) st"
| logout: "logout_route E R cc ch rc (s, db) = (res, st) \<Longrightarrow> api_step E eval (s, db) st"

inductive api_reachable ::
  "auth_env \<Rightarrow> (pystr \<Rightarrow> int \<Rightarrow> ('s, int) stateful) \<Rightarrow> 's \<times> identity_db \<Rightarrow> 's \<times> identity_db \<Rightarrow> bool"
  for E eval where
  start: "api_reachable E eval st st"
| step: "api_reachable E eval st st1 \<Longrightarrow> api_step E eval st1 st2 \<Longrightarrow> api_reachable E eval st st2"

lemma commit_register_ok:
  assumes ok: "identity_ok db" and run: "commit_register U h c db = (Inr x, db')"
  shows "identity_ok db' \<and> db_sessions db' = db_sessions db"
proof -
  have "run_transaction (create_account U h (rg_username c) (rg_password c) (rg_role c)
      (rg_tenant_id c) (rg_user_id c) (rg_membership_id c)) db = (Inr x, db')"
    using run commit_register_eq [OF ok, of U h c] by (auto split: if_splits)
  from run_create_account [OF ok this] show ?thesis by (metis registered_db_simps(4))
qed

lemma api_step_ok:
  assumes "api_step E eval (s, db) (s', db')" "identity_ok db"
  shows "identity_ok db' \<and> family_step (db_sessions db) (db_sessions db')"
  using assms(1)
proof (cases rule: api_step.cases)
  case (login R q res)
  then have run: "login_route E eval R q (s, db) = (res, (s', db'))"
    and fresh: "re_family_id R \<notin> rs_family_id ` set (db_sessions db)" by simp_all
  have "identity_ok db' \<and> family_step (db_sessions db) (db_sessions db')"
    if body: "run_transaction (login_body E R q) db = (Inr x, db')" for x
  proof -
    obtain digest i where commit: "commit_login (ae_ucd E) (argon2_verify (ae_pwd E))
        (login_command E R q digest) db = (Inr i, db')"
      by (rule login_body_commit [OF body])
    show ?thesis using login_ok [OF assms(2) commit] fresh by (simp add: login_command_def)
  qed
  then show ?thesis
    using login_route_cases [OF run] assms(2) family_step.stutter by blast
next
  case (register R p q res)
  then have "register_route E eval R p q (s, db) = (res, (s', db'))" by simp
  from register_route_cases [OF this] show ?thesis
    using assms(2) commit_register_ok [OF assms(2)] by (metis family_step.stutter)
next
  case (refresh R cc ch rc res)
  then have run: "refresh_route E eval R cc ch rc (s, db) = (res, (s', db'))" by simp
  have "identity_ok db' \<and> family_step (db_sessions db) (db_sessions db')"
    if body: "run_transaction (refresh_body E R d) db = (Inr x, db')" for d x
    by (rule refresh_body_commit [OF body]) (rule commit_rotate_ok [OF assms(2)])
  then show ?thesis
    using refresh_route_cases [OF run] assms(2) family_step.stutter by blast
next
  case (logout R cc ch rc res)
  then have "logout_route E R cc ch rc (s, db) = (res, (s', db'))" by simp
  from logout_route_cases [OF this] show ?thesis
    using assms(2) commit_revoke_ok [OF assms(2)] by (metis family_step.stutter)
qed

lemma api_reachable_ok:
  "api_reachable E eval st st' \<Longrightarrow> identity_ok (snd st) \<Longrightarrow>
     identity_ok (snd st') \<and> family_reachable (db_sessions (snd st)) (db_sessions (snd st'))"
proof (induction rule: api_reachable.induct)
  case (step st st1 st2)
  then show ?case
    using api_step_ok [of E eval "fst st1" "snd st1" "fst st2" "snd st2"]
    by (auto intro: family_reachable.step)
qed (simp add: family_reachable.none)

section \<open>Concrete requests\<close>

definition demo_env :: auth_env where
  "demo_env =
     \<lparr>ae_ucd = ascii_ucd, ae_sha256_hex = (\<lambda>t. t), ae_jwt = demo_jwt,
      ae_pwd = \<lparr>pl_hash = demo_hash,
        pl_verify_and_update = (\<lambda>p h. Inr (h = lit ''argon2id'' @ p, None))\<rparr>,
      ae_settings = demo_settings\<rparr>"

definition demo_eval :: "pystr \<Rightarrow> int \<Rightarrow> (unit, int) stateful" where
  "demo_eval k w s = (Inr 1, s)"

definition demo_request :: request_env where
  "demo_request =
     \<lparr>re_client_ip = None, re_now = Aware 10500000 0, re_session_id = lit ''s1'',
      re_family_id = lit ''f1'', re_token_id = lit ''j1'', re_user_id = lit ''u2'',
      re_membership_id = lit ''m2'', re_refresh_bytes = replicate 32 7,
      re_csrf_bytes = replicate 32 9\<rparr>"

definition demo_token :: pystr where
  "demo_token = projr (generate_refresh_token (replicate 32 7))"

definition demo_after_login :: identity_db where
  "demo_after_login = snd (snd (login_route demo_env demo_eval demo_request
     \<lparr>lq_username = lit ''ROOT'', lq_password = lit ''secret99''\<rparr> ((), demo_db)))"

definition demo_after_logout :: identity_db where
  "demo_after_logout = snd (snd (logout_route demo_env demo_request (Some (lit ''x''))
     (Some (lit ''x'')) (Some demo_token) ((), demo_after_login)))"

lemma demo_login_reachable:
  "api_reachable demo_env demo_eval ((), demo_db) ((), demo_after_login)"
proof -
  let ?r = "login_route demo_env demo_eval demo_request
     \<lparr>lq_username = lit ''ROOT'', lq_password = lit ''secret99''\<rparr> ((), demo_db)"
  have "?r = (fst ?r, ((), demo_after_login))" by (simp add: demo_after_login_def prod_eq_iff)
  moreover have "db_sessions demo_db = []" by code_simp
  ultimately have "api_step demo_env demo_eval ((), demo_db) ((), demo_after_login)"
    by (intro api_step.login) simp_all
  then show ?thesis by (rule api_reachable.step [OF api_reachable.start])
qed

lemma demo_after_login_ok: "identity_ok demo_after_login"
  using api_reachable_ok [OF demo_login_reachable] demo_db_ok by simp

text \<open>C2: in every state the API can reach from well-formed tables, by any sequence of login,
  register, refresh and logout requests with any contents, a refresh family belongs to one user
  and tenant with one absolute expiry, has at most one live session, and no session outlives
  the absolute expiry fixed at login; and the tables stay well-formed.\<close>

theorem api_session_invariant:
  assumes "api_reachable E eval (s, db) (s', db')" and "identity_ok db"
    and "a \<in> set (db_sessions db')" and "b \<in> set (db_sessions db')"
    and "rs_family_id a = rs_family_id b"
  shows "rs_user_id a = rs_user_id b \<and> rs_tenant_id a = rs_tenant_id b
    \<and> rs_absolute_expires_at a = rs_absolute_expires_at b
    \<and> (live a \<and> live b \<longrightarrow> a = b)
    \<and> instant (rs_idle_expires_at a) \<le> instant (rs_absolute_expires_at b)
    \<and> identity_ok db'"
proof -
  have ok: "identity_ok db'" using api_reachable_ok [OF assms(1)] assms(2) by simp
  have fam: "families_ok (db_sessions db')" by (rule identity_ok_families [OF ok])
  then have "same_lineage a b" "live a \<and> live b \<longrightarrow> a = b" "session_ok a"
    using assms(3-5) unfolding families_ok_def by blast+
  then show ?thesis using ok by (simp add: same_lineage_def session_ok_def)
qed

lemma api_session_invariant_witness:
  "identity_ok demo_after_login \<and> length (db_sessions demo_after_login) = 1"
proof -
  have one: "length (db_sessions demo_after_login) = 1" by code_simp
  then have "hd (db_sessions demo_after_login) \<in> set (db_sessions demo_after_login)"
    by (intro hd_in_set) auto
  from api_session_invariant [OF demo_login_reachable demo_db_ok this this refl] one
  show ?thesis by blast
qed

text \<open>Once a family is dead (by logout, or by a replay), no request sequence revives it: no
  later refresh of any of its tokens is granted and none of its sessions resolves any more.\<close>

theorem dead_family_stays_dead:
  assumes "api_reachable E eval (s, db) (s', db')" and "identity_ok db"
    and "family_dead f (db_sessions db)"
    and "x \<in> set (db_sessions db')" and "rs_family_id x = f"
    and "refresh_token_digest (ae_sha256_hex E) tok = Inr (rs_token_digest x)"
  shows "(\<forall>R cc ch ts cs s2 db2. refresh_route E eval R cc ch (Some tok) (s', db')
            \<noteq> (Inr (Refreshed ts cs), (s2, db2)))
    \<and> (\<forall>q i v. rq_session_id q = rs_session_id x \<longrightarrow>
          resolve_identity q (begin_uow db') \<noteq> (Inr i, v))"
proof -
  have ok: "identity_ok db'" and reach: "family_reachable (db_sessions db) (db_sessions db')"
    using api_reachable_ok [OF assms(1)] assms(2) by simp_all
  note fam = identity_ok_families [OF ok]
  have dead: "family_dead f (db_sessions db')" by (rule family_dead_reachable [OF reach assms(3)])
  have notlive: "\<not> live x" using dead assms(4,5) by (simp add: family_dead_def)
  have dist: "distinct (map rs_token_digest (db_sessions db'))"
    "distinct (map rs_session_id (db_sessions db'))"
    using fam by (simp_all add: families_ok_def)
  have "refresh_route E eval R cc ch (Some tok) (s', db') \<noteq> (Inr (Refreshed ts cs), (s2, db2))"
    for R cc ch ts cs s2 db2
  proof
    assume "refresh_route E eval R cc ch (Some tok) (s', db') = (Inr (Refreshed ts cs), (s2, db2))"
    from refresh_route_cases [OF this] assms(6)
    have run: "run_transaction (refresh_body E R (rs_token_digest x)) db' = (Inr (Refreshed ts cs), db2)"
      by auto
    obtain dig rot where rot: "commit_rotate (rs_token_digest x) (re_session_id R) dig (re_now R)
        (au_refresh_token_idle_ttl_seconds (ae_settings E) * 1000000) db' = (Inr rot, db2)"
      and st: "rot_status rot = ROTATED" "\<exists>r. rot_session rot = Some r"
      using refresh_body_commit [OF run] by blast
    then obtain r where "rot = \<lparr>rot_status = ROTATED, rot_session = Some r\<rparr>"
      by (metis (full_types) old.unit.exhaust rotation_result.surjective)
    with rot rotated_session_was_live [OF fam] obtain y where y: "y \<in> set (db_sessions db')"
      "rs_token_digest y = rs_token_digest x" "live y" by blast
    then have "y = x" using dist(1) assms(4) by (metis distinct_map inj_onD)
    then show False using y(3) notlive by simp
  qed
  moreover have "resolve_identity q (begin_uow db') \<noteq> (Inr i, v)"
    if q: "rq_session_id q = rs_session_id x" for q i v
  proof
    assume "resolve_identity q (begin_uow db') = (Inr i, v)"
    then obtain sess where f: "find (\<lambda>s. rs_session_id s = rq_session_id q) (db_sessions db') = Some sess"
      and act: "session_is_active sess (rq_resolved_at q) = Inr True"
      using ok by (auto simp: resolve_identity_def py_bind get_account_eq get_membership_eq
          get_session_eq [OF fam])
    have "sess = x" using find_in_set [OF f] dist(2) assms(4) q by (metis distinct_map inj_onD)
    then show False using session_is_active_Inr_True [OF act] notlive by simp
  qed
  ultimately show ?thesis by blast
qed

lemma dead_family_stays_dead_witness:
  "(\<forall>ts cs db2. refresh_route demo_env demo_eval demo_request (Some (lit ''x'')) (Some (lit ''x''))
     (Some demo_token) ((), demo_after_logout) \<noteq> (Inr (Refreshed ts cs), ((), db2)))
   \<and> family_dead (lit ''f1'') (db_sessions demo_after_logout)"
proof -
  let ?x = "hd (db_sessions demo_after_logout)"
  have H: "identity_ok demo_after_logout" "family_dead (lit ''f1'') (db_sessions demo_after_logout)"
    "?x \<in> set (db_sessions demo_after_logout)" "rs_family_id ?x = lit ''f1''"
    "refresh_token_digest (ae_sha256_hex demo_env) demo_token = Inr (rs_token_digest ?x)"
    by code_simp+
  from dead_family_stays_dead [where eval = demo_eval, OF api_reachable.start H] H(2)
  show ?thesis by simp
qed

text \<open>A logout that presents a known refresh token answers success and leaves the token's
  whole family dead; without a token, or with an unknown one, it changes nothing and still
  answers success.\<close>

theorem logout_correct:
  assumes "identity_ok db" and "require_csrf cc ch = Inr ()"
    and "refresh_token_digest (ae_sha256_hex E) tok = Inr d"
  shows "logout_route E R cc ch (Some tok) (s, db) = (Inr True, (s,
      (case find (\<lambda>x. rs_token_digest x = d) (db_sessions db) of
         None \<Rightarrow> db
       | Some x \<Rightarrow> db\<lparr>db_sessions := revoke_family (rs_family_id x) (re_now R) (db_sessions db)\<rparr>)))
    \<and> (\<forall>x\<in>set (db_sessions db). rs_token_digest x = d \<longrightarrow>
         family_dead (rs_family_id x)
           (db_sessions (snd (snd (logout_route E R cc ch (Some tok) (s, db))))))
    \<and> logout_route E R cc ch None (s, db) = (Inr True, (s, db))"
proof -
  note fam = identity_ok_families [OF assms(1)]
  have main: "logout_route E R cc ch (Some tok) (s, db) = (Inr True, (s,
      (case find (\<lambda>x. rs_token_digest x = d) (db_sessions db) of
         None \<Rightarrow> db
       | Some x \<Rightarrow> db\<lparr>db_sessions := revoke_family (rs_family_id x) (re_now R) (db_sessions db)\<rparr>)))"
    using assms(2,3)
    by (simp add: logout_route_def bindS_apply in_transaction_def logout_transaction
        commit_revoke_eq [OF fam] split: option.splits)
  have dead: "family_dead (rs_family_id x)
      (db_sessions (snd (snd (logout_route E R cc ch (Some tok) (s, db)))))"
    if x: "x \<in> set (db_sessions db)" "rs_token_digest x = d" for x
  proof -
    have "find (\<lambda>x. rs_token_digest x = d) (db_sessions db) = Some x"
      using fam x by (intro find_unique_key) (simp_all add: families_ok_def)
    then show ?thesis unfolding main using x(1) by (simp add: family_dead_revoke)
  qed
  have "logout_route E R cc ch None (s, db) = (Inr True, (s, db))"
    using assms(2) by (simp add: logout_route_def bindS_apply)
  with main dead show ?thesis by blast
qed

lemma logout_correct_witness:
  "family_dead (lit ''f1'') (db_sessions (snd (snd (logout_route demo_env demo_request
     (Some (lit ''x'')) (Some (lit ''x'')) (Some demo_token) ((), demo_after_login)))))"
proof -
  let ?x = "hd (db_sessions demo_after_login)"
  have H: "require_csrf (Some (lit ''x'')) (Some (lit ''x'')) = Inr ()"
    "refresh_token_digest (ae_sha256_hex demo_env) demo_token = Inr demo_token"
    and x: "?x \<in> set (db_sessions demo_after_login)" "rs_token_digest ?x = demo_token"
    "rs_family_id ?x = lit ''f1''" by code_simp+
  from logout_correct [OF demo_after_login_ok H(1,2), of demo_request "()"] x
  show ?thesis by metis
qed

text \<open>
  A CSRF cookie or header with a non-ASCII character is not answered with the authentication
  error: \<open>compare_digest\<close> raises \<open>TypeError\<close>.
\<close>

lemma csrf_non_ascii_type_error:
  assumes "\<not> is_ascii c \<or> \<not> is_ascii h"
  shows "\<exists>m. require_csrf (Some c) (Some h) = Inl (TypeError m)"
  using assms by (auto simp: require_csrf_def compare_digest_def)

text \<open>A refresh cookie that is empty or not ASCII raises a \<open>ValueError\<close> out of the route.\<close>

lemma refresh_cookie_value_error:
  assumes "require_csrf cc ch = Inr ()" and "tok = [] \<or> \<not> is_ascii tok"
  shows "\<exists>e. is_value_error e \<and> refresh_route E eval R cc ch (Some tok) st = (Inl e, st)"
  using assms by (auto simp: refresh_route_def bindS_apply refresh_token_digest_def raise_if_def)

section \<open>Login, then use of the access token\<close>

text \<open>What an answered login has committed, and what that leaves in the tables.\<close>

lemma login_route_committed:
  assumes "login_route E eval R q (s, db) = (Inr (resp, cks), (s1, db1))"
  obtains digest i where
    "commit_login (ae_ucd E) (argon2_verify (ae_pwd E)) (login_command E R q digest) db = (Inr i, db1)"
    "mk_token_issuer (ae_settings E) = Inr (ae_settings E)"
    "issue_access_token (ae_jwt E) (ae_settings E) (ai_user_id i) (ai_tenant_id i) (ai_session_id i)
       (re_token_id R) (re_now R) = Inr (tr_access_token (lr_token resp))"
    "single_identity_role (ai_roles i) = Inr (lr_role resp)" "lr_user_id resp = ai_user_id i"
proof -
  have "run_transaction (login_body E R q) db = (Inr (resp, cks), db1)"
    using assms by (auto simp: login_route_def py_bind require_auth_enabled_def
        dest!: enforce_limit_db in_transaction_cases)
  then obtain u v where body: "login_body E R q (begin_uow db) = (Inr (resp, cks), u)"
    and fl: "flush u = (Inr (), v)" and db1: "db1 = uow_db v"
    by (auto simp: run_transaction_Inr)
  from body obtain digest i where
    auth: "authenticate_local_account (ae_ucd E) (argon2_verify (ae_pwd E)) (login_command E R q digest)
       (begin_uow db) = (Inr i, u)"
    and rest: "mk_token_issuer (ae_settings E) = Inr (ae_settings E)"
      "issue_access_token (ae_jwt E) (ae_settings E) (ai_user_id i) (ai_tenant_id i) (ai_session_id i)
       (re_token_id R) (re_now R) = Inr (tr_access_token (lr_token resp))"
      "single_identity_role (ai_roles i) = Inr (lr_role resp)" "lr_user_id resp = ai_user_id i"
    by (auto simp: login_body_def Let_def py_bind token_response_def mk_token_issuer_def)
  have "commit_login (ae_ucd E) (argon2_verify (ae_pwd E)) (login_command E R q digest) db = (Inr i, db1)"
    using auth fl db1 unfolding commit_login_def run_transaction_Inr by blast
  then show ?thesis using that rest by blast
qed

lemma login_leaves_facts:
  assumes ok: "identity_ok db" and run: "commit_login U verify c db = (Inr i, db1)"
    and now: "instant now < instant (ac_authenticated_at c) + min (ac_idle_ttl c) (ac_absolute_ttl c)"
  obtains m where
    "identity_facts db1 \<lparr>rq_user_id = ai_user_id i, rq_tenant_id = ac_tenant_id c,
       rq_session_id = ac_session_id c, rq_resolved_at = now\<rparr> m"
    "ai_roles i = set (membership_role_codes db1 m)"
    "ai_session_id i = ac_session_id c" "ai_tenant_id i = ac_tenant_id c"
proof -
  obtain a m check sess where
    g: "login_grant U verify c db = Some (a, m, check)"
    and sess: "issue_session (ac_session_id c) (ac_family_id c) (la_user_id a) (ac_tenant_id c)
       (ac_refresh_token_digest c) (ac_authenticated_at c) (ac_idle_ttl c) (ac_absolute_ttl c)
       = Inr sess"
    and i: "i = \<lparr>ai_user_id = la_user_id a, ai_tenant_id = ac_tenant_id c,
           ai_session_id = ac_session_id c, ai_roles = set (membership_role_codes db m),
           ai_permissions = set (membership_permission_codes db m)\<rparr>"
    and d1: "db1 = db\<lparr>db_accounts := (case pc_updated_hash check of None \<Rightarrow> db_accounts db
                | Some h \<Rightarrow> store_hash (a\<lparr>la_password_hash := h,
                      la_password_version := la_password_version a + 1\<rparr>) (db_accounts db)),
              db_sessions := db_sessions db @ [sess]\<rparr>"
    and "fresh_in (db_sessions db) sess"
    and "\<forall>h. pc_updated_hash check = Some h \<longrightarrow> \<not> blank h"
    by (rule login_Inr [OF ok run])
  have gm: "a \<in> set (db_accounts db)" "la_status a = Account_ACTIVE" "m \<in> set (db_memberships db)"
    "mr_user_id m = la_user_id a" "mr_tenant_id m = ac_tenant_id c" "mr_status m = Membership_ACTIVE"
    using g by (auto simp: login_grant_def can_authenticate_def dest!: find_in_set
        split: option.splits sum.splits if_splits)
  note I = issue_session_Inr [OF sess]
  have acc: "\<exists>b\<in>set (db_accounts db1). la_user_id b = la_user_id a \<and> la_status b = Account_ACTIVE"
  proof (cases "pc_updated_hash check")
    case None
    then show ?thesis using gm(1,2) by (auto simp: d1)
  next
    case (Some h)
    let ?b = "a\<lparr>la_password_hash := h, la_password_version := la_password_version a + 1\<rparr>"
    have "?b \<in> set (store_hash ?b (db_accounts db))"
      using gm(1) by (force simp: store_hash_def)
    then show ?thesis using Some gm(2) by (intro bexI [of _ ?b]) (simp_all add: d1)
  qed
  let ?q = "\<lparr>rq_user_id = la_user_id a, rq_tenant_id = ac_tenant_id c,
      rq_session_id = ac_session_id c, rq_resolved_at = now\<rparr>"
  have "sess \<in> set (db_sessions db1)" by (simp add: d1)
  moreover have "instant now < instant (rs_idle_expires_at sess)" using I now by simp
  ultimately have "identity_facts db1 ?q m"
    using acc gm I unfolding identity_facts_def by (auto simp: d1)
  then show ?thesis using that [of m] by (simp add: i d1 membership_role_codes_def)
qed

text \<open>C34: the access token of a login works: presented as a bearer credential from the second of
  the login on, before the token and the session expire, it resolves to the logged-in user in the
  tenant of the login, with the role answered by the login among the current roles.\<close>

theorem login_token_resolves:
  assumes "identity_ok db" and "ucd_ascii (ae_ucd E)"
    and "login_route E eval R q (s, db) = (Inr (resp, cks), (s1, db1))"
    and "re_family_id R \<notin> rs_family_id ` set (db_sessions db)"
    and "jwt_law (ae_jwt E) priv pub" and "au_signing_private_key (ae_settings E) = Some priv"
    and "au_active_key_id (ae_settings E) = Some kid"
    and "verification_key (ae_settings E) kid = Some pub"
    and "au_issuer (ae_settings E) = Some iss" and "au_audience (ae_settings E) = Some aud"
    and "\<not> blank iss" and "\<not> blank aud" and "0 < au_access_token_ttl_seconds (ae_settings E)"
    and "tr_access_token (lr_token resp) \<noteq> []" and "length (tr_access_token (lr_token resp)) \<le> 8192"
    and "\<forall>ch\<in>set (tr_access_token (lr_token resp)). \<not> is_space ch"
    and "is_aware now" and "0 \<le> instant (re_now R)" and "instant (re_now R) \<le> instant now"
    and "instant now \<le> dt_max_us"
    and "int_timestamp now
           < int_timestamp (re_now R) + au_access_token_ttl_seconds (ae_settings E)"
    and "instant now < instant (re_now R)
           + min (au_refresh_token_idle_ttl_seconds (ae_settings E) * 1000000)
                 (au_refresh_token_absolute_ttl_seconds (ae_settings E) * 1000000)"
  shows "\<exists>p. get_current_principal E (Some (lit ''Bearer'', tr_access_token (lr_token resp))) now db1
        = (Inr p, db1)
      \<and> ap_user_id p = lr_user_id resp \<and> ap_tenant_id p = au_default_tenant_id (ae_settings E)
      \<and> ap_session_id p = re_session_id R \<and> ap_active p \<and> role_value (lr_role resp) \<in> ap_roles p"
proof -
  let ?S = "ae_settings E" and ?tok = "tr_access_token (lr_token resp)"
  obtain digest i where
    commit: "commit_login (ae_ucd E) (argon2_verify (ae_pwd E)) (login_command E R q digest) db = (Inr i, db1)"
    and iss: "mk_token_issuer ?S = Inr ?S"
    and tok: "issue_access_token (ae_jwt E) ?S (ai_user_id i) (ai_tenant_id i) (ai_session_id i)
       (re_token_id R) (re_now R) = Inr ?tok"
    and role: "single_identity_role (ai_roles i) = Inr (lr_role resp)"
    and uid: "lr_user_id resp = ai_user_id i"
    by (rule login_route_committed [OF assms(3)])
  let ?c = "login_command E R q digest"
  have c [simp]: "ac_tenant_id ?c = au_default_tenant_id ?S" "ac_session_id ?c = re_session_id R"
    by (simp_all add: login_command_def)
  have ok1: "identity_ok db1"
    using login_ok [OF assms(1) commit] assms(4) by (simp add: login_command_def)
  obtain m where
    facts: "identity_facts db1 \<lparr>rq_user_id = ai_user_id i, rq_tenant_id = ac_tenant_id ?c,
       rq_session_id = ac_session_id ?c, rq_resolved_at = now\<rparr> m"
    and i: "ai_roles i = set (membership_role_codes db1 m)"
      "ai_session_id i = ac_session_id ?c" "ai_tenant_id i = ac_tenant_id ?c"
    by (rule login_leaves_facts [OF assms(1) commit, of now]) (use assms(22) in \<open>simp_all add: login_command_def\<close>)
  have "dt_min_us \<le> instant now" using assms(18,19) by (simp add: dt_min_us_def)
  moreover have "int_timestamp (re_now R) \<le> int_timestamp now" by (rule int_timestamp_mono [OF assms(19)])
  ultimately obtain cl where ver: "verify_access_token (ae_jwt E) ?S ?tok now = Inr cl"
      "atc_subject cl = ai_user_id i" "atc_tenant_id cl = ai_tenant_id i" "atc_session_id cl = ai_session_id i"
    using issued_token_verdict [OF assms(5,6,7,8) tok assms(14,15,9,10,11,12,17) _ assms(20,18,13)]
      assms(21) by auto
  have mk: "mk_token_verifier ?S = Inr ?S"
    using iss assms(8) by (auto simp: mk_token_verifier_def mk_token_issuer_def verification_key_def)
  have res: "resolve_identity \<lparr>rq_user_id = ai_user_id i, rq_tenant_id = ac_tenant_id ?c,
       rq_session_id = ac_session_id ?c, rq_resolved_at = now\<rparr> (begin_uow db1)
     = (Inr (resolved_from db1 \<lparr>rq_user_id = ai_user_id i, rq_tenant_id = ac_tenant_id ?c,
       rq_session_id = ac_session_id ?c, rq_resolved_at = now\<rparr> m), begin_uow db1)"
    using facts ok1 assms(17) by (intro resolve_identity_Inr [THEN iffD2]) auto
  have hd: "lit ''Bearer'' @ lit '' '' @ ?tok = lit ''Bearer '' @ ?tok" by (simp add: lit_def)
  have "resolve_current_principal E (Some (lit ''Bearer'' @ lit '' '' @ ?tok)) now (begin_uow db1)
      = (Inr \<lparr>ap_user_id = ai_user_id i, ap_tenant_id = ac_tenant_id ?c,
             ap_session_id = ac_session_id ?c, ap_roles = ai_roles i,
             ap_permissions = set (membership_permission_codes db1 m), ap_active = True\<rparr>,
         begin_uow db1)"
    unfolding resolve_current_principal_def hd
    using parse_bearer_credential [OF assms(2,14,16)] mk ver i res
    by (simp add: bindS_apply resolved_from_def)
  moreover have "role_value (lr_role resp) \<in> ai_roles i"
    using role by (auto simp: single_identity_role_def identity_roles_def split: list.splits if_splits)
  ultimately show ?thesis
    using uid by (simp add: get_current_principal_def run_transaction_def bindS_apply flush_clean)
qed

lemma login_token_resolves_witness:
  "\<exists>p. get_current_principal demo_env (Some (lit ''Bearer'', lit ''tok'')) (Aware 20000000 0)
     demo_after_login = (Inr p, demo_after_login) \<and> ap_user_id p = lit ''u1''
     \<and> lit ''manager'' \<in> ap_roles p"
proof -
  let ?r = "login_route demo_env demo_eval demo_request
     \<lparr>lq_username = lit ''ROOT'', lq_password = lit ''secret99''\<rparr> ((), demo_db)"
  let ?resp = "\<lparr>lr_token = \<lparr>tr_access_token = lit ''tok'', tr_token_type = lit ''Bearer'',
      tr_expires_in = 900\<rparr>, lr_user_id = lit ''u1'', lr_username = lit ''root'', lr_role = MANAGER\<rparr>"
  have "fst ?r = Inr (?resp, set_auth_cookies demo_token
      (projr (generate_refresh_token (replicate 32 9))) True 100)" by code_simp
  then have run: "?r = (Inr (?resp, set_auth_cookies demo_token
      (projr (generate_refresh_token (replicate 32 9))) True 100), ((), demo_after_login))"
    by (simp add: demo_after_login_def prod_eq_iff)
  have "ucd_ascii (ae_ucd demo_env)" by (simp add: demo_env_def)
  note u = this
  have law: "jwt_law (ae_jwt demo_env) (lit ''priv'') (lit ''pub'')"
    using demo_jwt_law by (simp add: demo_env_def)
  have H: "re_family_id demo_request \<notin> rs_family_id ` set (db_sessions demo_db)"
    "au_signing_private_key (ae_settings demo_env) = Some (lit ''priv'')"
    "au_active_key_id (ae_settings demo_env) = Some (lit ''k1'')"
    "verification_key (ae_settings demo_env) (lit ''k1'') = Some (lit ''pub'')"
    "au_issuer (ae_settings demo_env) = Some (lit ''bid'')"
    "au_audience (ae_settings demo_env) = Some (lit ''web'')"
    "\<not> blank (lit ''bid'')" "\<not> blank (lit ''web'')"
    "0 < au_access_token_ttl_seconds (ae_settings demo_env)"
    "tr_access_token (lr_token ?resp) \<noteq> []" "length (tr_access_token (lr_token ?resp)) \<le> 8192"
    "\<forall>ch\<in>set (tr_access_token (lr_token ?resp)). \<not> is_space ch"
    "is_aware (Aware 20000000 0)" "0 \<le> instant (re_now demo_request)"
    "instant (re_now demo_request) \<le> instant (Aware 20000000 0)"
    "instant (Aware 20000000 0) \<le> dt_max_us"
    "int_timestamp (Aware 20000000 0)
       < int_timestamp (re_now demo_request) + au_access_token_ttl_seconds (ae_settings demo_env)"
    "instant (Aware 20000000 0) < instant (re_now demo_request)
       + min (au_refresh_token_idle_ttl_seconds (ae_settings demo_env) * 1000000)
             (au_refresh_token_absolute_ttl_seconds (ae_settings demo_env) * 1000000)"
    by code_simp+
  from login_token_resolves [OF demo_db_ok u run H(1) law H(2-18)] show ?thesis by auto
qed

end
