(* ===== verification/DocElements.thy ===== *)
theory DocElements
  imports PyPrelude
begin

text \<open>
  The parsed document elements (\<open>modules/documents/domain/elements.py\<close>): evidence
  coordinates, confidence and review metadata, extraction of comparison symbols, and the text,
  picture and table elements.  A subclass of \<open>DocumentElement\<close> is an extension of its record;
  \<open>__post_init__\<close> of class \<open>C\<close> is \<open>mk_C\<close>.
\<close>

type_synonym uuid = nat

definition MIN_PAGE_DIMENSION :: int where "MIN_PAGE_DIMENSION = 1"
definition MIN_TABLE_DIMENSION :: int where "MIN_TABLE_DIMENSION = 1"
definition SHA256_HEX_LENGTH :: nat where "SHA256_HEX_LENGTH = 64"

datatype document_element_type = TEXT | PICTURE | TABLE

datatype comparison_operator = GT | LT | GE | LE | EQ | NE

datatype confidence_status = KNOWN | PARTIAL | Confidence_UNKNOWN

datatype confidence_basis =
    PROVIDED | LAYOUT_ONLY | MIN_LAYOUT_RECOGNITION | MIN_AVAILABLE | Basis_UNKNOWN

datatype review_status = NOT_REVIEWED | Review_PENDING | CONFIRMED

datatype table_merge_status = NOT_REQUIRED | UNRESOLVED | MERGED | REJECTED

section \<open>Shared validations\<close>

definition validate_confidence :: "pyfloat \<Rightarrow> string \<Rightarrow> exn + unit" where
  "validate_confidence value field_name =
     raise_if (\<not> (fl_le (Fin 0) value \<and> fl_le value (Fin 1)))
       (ValueError (field_name @ '' must be between 0 and 1'')) (Inr ())"

definition unit_float :: "pyfloat \<Rightarrow> bool" where
  "unit_float v \<longleftrightarrow> (\<exists>q. v = Fin q \<and> 0 \<le> q \<and> q \<le> 1)"

lemma unit_float_iff: "fl_le (Fin 0) v \<and> fl_le v (Fin 1) \<longleftrightarrow> unit_float v"
  by (cases v) (auto simp: unit_float_def)

lemma validate_confidence_Inr [py_bind]:
  "validate_confidence v f = Inr u \<longleftrightarrow> unit_float v"
  by (auto simp: validate_confidence_def unit_float_iff [symmetric])

definition validate_optional :: "pyfloat option \<Rightarrow> string \<Rightarrow> exn + unit" where
  "validate_optional v field_name =
     (case v of None \<Rightarrow> Inr () | Some x \<Rightarrow> validate_confidence x field_name)"

lemma validate_optional_Inr [py_bind]:
  "validate_optional v f = Inr u \<longleftrightarrow> pred_option unit_float v"
  by (cases v) (auto simp: validate_optional_def py_bind)

definition is_sha256 :: "pystr \<Rightarrow> bool" where
  "is_sha256 v \<longleftrightarrow> length v = SHA256_HEX_LENGTH \<and> list_all is_hexdigit v"

text \<open>\<open>value is not None and not value.strip()\<close>\<close>

definition blank_if_present :: "pystr option \<Rightarrow> bool" where
  "blank_if_present v = (case v of None \<Rightarrow> False | Some s \<Rightarrow> blank s)"

section \<open>Coordinates\<close>

record bounding_box =
  bb_x1 :: int
  bb_y1 :: int
  bb_x2 :: int
  bb_y2 :: int

definition mk_bounding_box :: "bounding_box \<Rightarrow> exn + bounding_box" where
  "mk_bounding_box b =
     raise_if (bb_x1 b < 0 \<or> bb_y1 b < 0)
       (ValueError ''bounding-box origin must not be negative'')
     (raise_if (bb_x2 b \<le> bb_x1 b \<or> bb_y2 b \<le> bb_y1 b)
       (ValueError ''bounding box must have positive width and height'')
     (Inr b))"

record normalized_bounding_box =
  nb_x1 :: pyfloat
  nb_y1 :: pyfloat
  nb_x2 :: pyfloat
  nb_y2 :: pyfloat

definition mk_normalized_bounding_box ::
  "normalized_bounding_box \<Rightarrow> exn + normalized_bounding_box" where
  "mk_normalized_bounding_box b =
     bindE (forE (\<lambda>(field_name, v). validate_confidence v field_name)
       [(''x1'', nb_x1 b), (''y1'', nb_y1 b), (''x2'', nb_x2 b), (''y2'', nb_y2 b)]) (\<lambda>_.
     raise_if (fl_le (nb_x2 b) (nb_x1 b) \<or> fl_le (nb_y2 b) (nb_y1 b))
       (ValueError ''normalized bounding box must have positive dimensions'')
     (Inr b))"

record page_position =
  pp_page_index :: int
  pp_page_width :: int
  pp_page_height :: int
  pp_bbox :: bounding_box
  pp_reading_order :: "int option"
  pp_raw_block_id :: int

definition mk_page_position :: "page_position \<Rightarrow> exn + page_position" where
  "mk_page_position p =
     raise_if (pp_page_index p < 0) (ValueError ''page index must not be negative'')
     (raise_if (pp_page_width p < MIN_PAGE_DIMENSION \<or> pp_page_height p < MIN_PAGE_DIMENSION)
       (ValueError ''page dimensions must be positive'')
     (raise_if (bb_x2 (pp_bbox p) > pp_page_width p \<or> bb_y2 (pp_bbox p) > pp_page_height p)
       (ValueError ''bounding box must remain inside the page'')
     (raise_if (case pp_reading_order p of None \<Rightarrow> False | Some r \<Rightarrow> r < 0)
       (ValueError ''reading order must not be negative'')
     (raise_if (pp_raw_block_id p < 0) (ValueError ''raw block id must not be negative'')
     (Inr p)))))"

definition page_number :: "page_position \<Rightarrow> int" where
  "page_number p = pp_page_index p + 1"

text \<open>
  Python's \<open>a / b\<close> on integers with \<open>0 \<le> a \<le> b\<close>, \<open>0 < b\<close>: the quotient rounded to binary64,
  half to even.  The scale \<open>2 ^ k\<close> gives 53 significant bits, or the subnormal grid.
\<close>

function div_scale :: "int \<Rightarrow> int \<Rightarrow> nat \<Rightarrow> nat" where
  "div_scale a b k = (if a * 2 ^ k < 2 ^ 52 * b \<and> k < 1074 then div_scale a b (Suc k) else k)"
  by pat_completeness auto
termination by (relation "measure (\<lambda>(a, b, k). 1074 - k)") auto

declare div_scale.simps [simp del]

definition round_half_even :: "int \<Rightarrow> int \<Rightarrow> int" where
  "round_half_even n b =
     (let q = n div b; r = n mod b
      in if 2 * r < b then q else if b < 2 * r then q + 1 else if even q then q else q + 1)"

definition fl_div :: "int \<Rightarrow> int \<Rightarrow> pyfloat" where
  "fl_div a b =
     (let k = div_scale a b 52
      in Fin (of_int (round_half_even (a * 2 ^ k) b) / 2 ^ k))"

definition normalized_bbox :: "page_position \<Rightarrow> exn + normalized_bounding_box" where
  "normalized_bbox p =
     mk_normalized_bounding_box
       \<lparr>nb_x1 = fl_div (bb_x1 (pp_bbox p)) (pp_page_width p),
        nb_y1 = fl_div (bb_y1 (pp_bbox p)) (pp_page_height p),
        nb_x2 = fl_div (bb_x2 (pp_bbox p)) (pp_page_width p),
        nb_y2 = fl_div (bb_y2 (pp_bbox p)) (pp_page_height p)\<rparr>"

subsection \<open>The rounding error of the division\<close>

lemma div_scale_ge: "k \<le> div_scale a b k"
proof (induction a b k rule: div_scale.induct)
  case (1 a b k)
  then show ?case by (subst div_scale.simps) (auto intro: Suc_leD)
qed

lemma round_half_even_error:
  assumes "0 < b" shows "2 * \<bar>round_half_even n b * b - n\<bar> \<le> b"
proof -
  define q r where "q = n div b" and "r = n mod b"
  have n: "n = q * b + r" and r: "0 \<le> r" "r < b"
    using assms by (simp_all add: q_def r_def)
  have "round_half_even n b = q \<and> 2 * r \<le> b \<or> round_half_even n b = q + 1 \<and> b \<le> 2 * r"
    by (auto simp: round_half_even_def Let_def q_def r_def)
  then show ?thesis
  proof
    assume "round_half_even n b = q \<and> 2 * r \<le> b"
    then show ?thesis using n r by simp
  next
    assume *: "round_half_even n b = q + 1 \<and> b \<le> 2 * r"
    then have "round_half_even n b * b - n = b - r" using n by (simp add: algebra_simps)
    then show ?thesis using * r by simp
  qed
qed

lemma round_half_even_bounds:
  assumes "0 < b" "0 \<le> n" "n \<le> m * b"
  shows "0 \<le> round_half_even n b" "round_half_even n b \<le> m"
proof -
  have q: "0 \<le> n div b" using assms by (simp add: pos_imp_zdiv_nonneg_iff)
  then show "0 \<le> round_half_even n b" by (auto simp: round_half_even_def Let_def)
  have "n div b \<le> m" using assms by (metis mult.commute nonzero_mult_div_cancel_left
      order_less_irrefl zdiv_mono1)
  moreover have "n mod b = 0" if "n div b = m"
  proof -
    have "n = m * b + n mod b" using that by (metis div_mult_mod_eq)
    then show ?thesis using assms(1,3) pos_mod_sign [OF assms(1), of n] by linarith
  qed
  ultimately show "round_half_even n b \<le> m"
    using assms(1) by (cases "n div b = m") (auto simp: round_half_even_def Let_def)
qed

lemma fl_div_range:
  assumes "0 \<le> a" "a \<le> b" "0 < b" shows "unit_float (fl_div a b)"
proof -
  let ?k = "div_scale a b 52"
  have "a * 2 ^ ?k \<le> 2 ^ ?k * b" using assms(2) by (simp add: mult.commute)
  then have r: "0 \<le> round_half_even (a * 2 ^ ?k) b" "round_half_even (a * 2 ^ ?k) b \<le> 2 ^ ?k"
    using round_half_even_bounds [OF assms(3), of "a * 2 ^ ?k" "2 ^ ?k"] assms(1) by simp_all
  then have "(of_int (round_half_even (a * 2 ^ ?k) b) :: rat) \<le> 2 ^ ?k"
    by (metis of_int_le_iff of_int_numeral of_int_power)
  with r(1) show ?thesis by (simp add: fl_div_def unit_float_def Let_def)
qed

lemma fl_div_error:
  assumes "0 < b"
  shows "\<exists>x. fl_div a b = Fin x \<and> \<bar>x - of_int a / of_int b\<bar> \<le> 1 / 2 ^ 53"
proof -
  let ?k = "div_scale a b 52" and ?B = "of_int b :: rat"
  define m where "m = round_half_even (a * 2 ^ ?k) b"
  have B: "0 < ?B" using assms by simp
  have "2 * \<bar>m * b - a * 2 ^ ?k\<bar> \<le> b"
    unfolding m_def by (rule round_half_even_error [OF assms])
  then have "(of_int (2 * \<bar>m * b - a * 2 ^ ?k\<bar>) :: rat) \<le> ?B" by (simp only: of_int_le_iff)
  then have e: "2 * \<bar>of_int m * ?B - of_int a * 2 ^ ?k\<bar> \<le> ?B" by simp
  have eq: "of_int m / 2 ^ ?k - of_int a / ?B
      = (of_int m * ?B - of_int a * 2 ^ ?k) / (2 ^ ?k * ?B)"
    using B by (simp add: field_simps)
  have "\<bar>of_int m / 2 ^ ?k - of_int a / ?B\<bar> = \<bar>of_int m * ?B - of_int a * 2 ^ ?k\<bar> / (2 ^ ?k * ?B)"
    unfolding eq using B by (simp add: abs_mult abs_divide)
  also have "\<dots> \<le> (?B / 2) / (2 ^ ?k * ?B)"
    using e B by (intro divide_right_mono) auto
  also have "\<dots> = 1 / 2 ^ (Suc ?k)" using B by (simp add: field_simps)
  also have "\<dots> \<le> 1 / 2 ^ 53"
    using div_scale_ge [of 52 a b] by (intro divide_left_mono power_increasing) auto
  finally show ?thesis by (simp add: fl_div_def Let_def m_def)
qed

lemma fl_div_strict:
  assumes "0 < b" "b < 2 ^ 52" "a < c"
  shows "\<not> fl_le (fl_div c b) (fl_div a b)"
proof -
  obtain x y where x: "fl_div a b = Fin x" "\<bar>x - of_int a / of_int b\<bar> \<le> 1 / 2 ^ 53"
    and y: "fl_div c b = Fin y" "\<bar>y - of_int c / of_int b\<bar> \<le> 1 / 2 ^ 53"
    using fl_div_error [OF assms(1)] by metis
  let ?B = "of_int b :: rat"
  have B: "0 < ?B" using assms(1) by simp
  have "?B < of_int (2 ^ 52)" using assms(2) by (simp only: of_int_less_iff)
  then have "?B < 2 ^ 52" by simp
  then have small: "1 / 2 ^ 52 < 1 / ?B" using B by (simp add: divide_strict_left_mono)
  have "1 \<le> (of_int (c - a) :: rat)" using assms(3) by (simp only: of_int_1_le_iff)
  then have "1 / ?B \<le> of_int (c - a) / ?B" using B by (simp add: divide_right_mono)
  also have "\<dots> = of_int c / ?B - of_int a / ?B" by (simp add: diff_divide_distrib)
  finally have "1 / 2 ^ 52 < of_int c / ?B - of_int a / ?B" using small by linarith
  moreover have "(1::rat) / 2 ^ 52 = 1 / 2 ^ 53 + 1 / 2 ^ 53" by simp
  ultimately have "x < y" using x(2) y(2) by linarith
  then show ?thesis by (simp add: x(1) y(1))
qed

text \<open>The page-relative box of every valid page position exists, without any error, and lies
  in the unit square with positive width and height, for pages up to 2^52 - 1 pixels a side.\<close>

theorem normalized_bbox_total:
  assumes "mk_bounding_box (pp_bbox p) = Inr (pp_bbox p)" and "mk_page_position p = Inr p"
    and "pp_page_width p < 2 ^ 52" and "pp_page_height p < 2 ^ 52"
  shows "\<exists>n. normalized_bbox p = Inr n
    \<and> unit_float (nb_x1 n) \<and> unit_float (nb_y1 n) \<and> unit_float (nb_x2 n) \<and> unit_float (nb_y2 n)
    \<and> fl_lt (nb_x1 n) (nb_x2 n) \<and> fl_lt (nb_y1 n) (nb_y2 n)"
proof -
  let ?b = "pp_bbox p"
  have b: "0 \<le> bb_x1 ?b" "0 \<le> bb_y1 ?b" "bb_x1 ?b < bb_x2 ?b" "bb_y1 ?b < bb_y2 ?b"
    using assms(1) by (auto simp: mk_bounding_box_def)
  have w: "bb_x2 ?b \<le> pp_page_width p" "bb_y2 ?b \<le> pp_page_height p"
    using assms(2) by (auto simp: mk_page_position_def)
  let ?n = "\<lparr>nb_x1 = fl_div (bb_x1 ?b) (pp_page_width p), nb_y1 = fl_div (bb_y1 ?b) (pp_page_height p),
      nb_x2 = fl_div (bb_x2 ?b) (pp_page_width p), nb_y2 = fl_div (bb_y2 ?b) (pp_page_height p)\<rparr>"
  have u: "unit_float (nb_x1 ?n)" "unit_float (nb_y1 ?n)" "unit_float (nb_x2 ?n)" "unit_float (nb_y2 ?n)"
    using b w by (auto intro: fl_div_range)
  have s: "\<not> fl_le (nb_x2 ?n) (nb_x1 ?n)" "\<not> fl_le (nb_y2 ?n) (nb_y1 ?n)"
    using fl_div_strict [of "pp_page_width p"] fl_div_strict [of "pp_page_height p"] b w assms(3,4)
    by auto
  have "normalized_bbox p = Inr ?n"
    using u s by (simp add: normalized_bbox_def mk_normalized_bounding_box_def py_bind)
  moreover have "fl_lt (nb_x1 ?n) (nb_x2 ?n)" "fl_lt (nb_y1 ?n) (nb_y2 ?n)"
    using u s by (auto simp: fl_lt_def unit_float_def)
  ultimately show ?thesis using u by blast
qed

lemma normalized_bbox_total_witness:
  "\<exists>n. normalized_bbox \<lparr>pp_page_index = 0, pp_page_width = 300, pp_page_height = 200,
      pp_bbox = \<lparr>bb_x1 = 10, bb_y1 = 20, bb_x2 = 100, bb_y2 = 60\<rparr>, pp_reading_order = None,
      pp_raw_block_id = 1\<rparr> = Inr n \<and> fl_lt (nb_x1 n) (nb_x2 n)"
proof -
  let ?p = "\<lparr>pp_page_index = 0, pp_page_width = 300, pp_page_height = 200,
      pp_bbox = \<lparr>bb_x1 = 10, bb_y1 = 20, bb_x2 = 100, bb_y2 = 60\<rparr>, pp_reading_order = None,
      pp_raw_block_id = 1\<rparr>"
  have "mk_bounding_box (pp_bbox ?p) = Inr (pp_bbox ?p)" "mk_page_position ?p = Inr ?p"
    "pp_page_width ?p < 2 ^ 52" "pp_page_height ?p < 2 ^ 52"
    by code_simp+
  from normalized_bbox_total [OF this] show ?thesis by blast
qed

text \<open>Beyond that size the rounding can collapse a valid box, and the property raises.\<close>

lemma normalized_bbox_huge_page_raises:
  "normalized_bbox \<lparr>pp_page_index = 0, pp_page_width = 2 ^ 61, pp_page_height = 200,
      pp_bbox = \<lparr>bb_x1 = 2 ^ 60, bb_y1 = 20, bb_x2 = 2 ^ 60 + 1, bb_y2 = 60\<rparr>,
      pp_reading_order = None, pp_raw_block_id = 1\<rparr>
   = Inl (ValueError ''normalized bounding box must have positive dimensions'')"
  by code_simp

section \<open>Confidence\<close>

record recognition_confidence =
  rec_minimum :: pyfloat
  rec_average :: pyfloat
  rec_maximum :: pyfloat

definition mk_recognition_confidence ::
  "recognition_confidence \<Rightarrow> exn + recognition_confidence" where
  "mk_recognition_confidence r =
     bindE (validate_confidence (rec_minimum r) ''minimum recognition confidence'') (\<lambda>_.
     bindE (validate_confidence (rec_average r) ''average recognition confidence'') (\<lambda>_.
     bindE (validate_confidence (rec_maximum r) ''maximum recognition confidence'') (\<lambda>_.
     raise_if (\<not> (fl_le (rec_minimum r) (rec_average r) \<and> fl_le (rec_average r) (rec_maximum r)))
       (ValueError ''recognition confidence must satisfy minimum <= average <= maximum'')
     (Inr r))))"

record element_confidence =
  ec_status :: confidence_status
  ec_basis :: confidence_basis
  ec_overall :: "pyfloat option"
  ec_layout :: "pyfloat option"
  ec_recognition :: "recognition_confidence option"
  ec_structure :: "pyfloat option"

definition has_score :: "element_confidence \<Rightarrow> bool" where
  "has_score c \<longleftrightarrow> ec_overall c \<noteq> None \<or> ec_layout c \<noteq> None \<or> ec_recognition c \<noteq> None
     \<or> ec_structure c \<noteq> None"

definition mk_element_confidence :: "element_confidence \<Rightarrow> exn + element_confidence" where
  "mk_element_confidence c =
     bindE (forE (\<lambda>(field_name, v). validate_optional v field_name)
       [(''overall confidence'', ec_overall c), (''layout confidence'', ec_layout c),
        (''structure confidence'', ec_structure c)]) (\<lambda>_.
     raise_if (ec_status c = Confidence_UNKNOWN \<and> has_score c)
       (ValueError ''unknown confidence must not contain scores'')
     (raise_if (ec_status c \<noteq> Confidence_UNKNOWN \<and> \<not> has_score c)
       (ValueError ''known or partial confidence must contain a score'')
     (raise_if (ec_status c = Confidence_UNKNOWN \<and> ec_basis c \<noteq> Basis_UNKNOWN)
       (ValueError ''unknown confidence must use the unknown basis'')
     (raise_if (ec_status c \<noteq> Confidence_UNKNOWN \<and> ec_basis c = Basis_UNKNOWN)
       (ValueError ''available confidence must declare its aggregation basis'')
     (Inr c)))))"

text \<open>Unknown confidence and only unknown confidence is without any score.\<close>

lemma element_confidence_unknown_iff:
  assumes "mk_element_confidence c = Inr d"
  shows "d = c \<and> (ec_status c = Confidence_UNKNOWN \<longleftrightarrow> \<not> has_score c)
    \<and> (ec_status c = Confidence_UNKNOWN \<longleftrightarrow> ec_basis c = Basis_UNKNOWN)
    \<and> pred_option unit_float (ec_overall c) \<and> pred_option unit_float (ec_layout c)
    \<and> pred_option unit_float (ec_structure c)"
  using assms by (auto simp: mk_element_confidence_def py_bind)

section \<open>Comparison symbols\<close>

record comparison_match =
  cm_raw :: pystr
  cm_operator :: comparison_operator
  cm_start :: int
  cm_end :: int
  cm_source_field :: pystr
  cm_source_id :: "uuid option"

text \<open>\<open>_SYMBOL_OPERATORS\<close>: the code points are \<open>>\<close> 62, \<open><\<close> 60, \<open>=\<close> 61 and the signs for
  not equal 8800, at most 8804, at least 8805.\<close>

definition symbol_operators :: "(pystr \<times> comparison_operator) list" where
  "symbol_operators =
     [([62], GT), ([60], LT), ([62, 61], GE), ([8805], GE), ([60, 61], LE), ([8804], LE),
      ([61], EQ), ([8800], NE)]"

definition mk_comparison_match :: "comparison_match \<Rightarrow> exn + comparison_match" where
  "mk_comparison_match m =
     (case map_of symbol_operators (cm_raw m) of
        None \<Rightarrow> Inl (ValueError ''unsupported comparison symbol'')
      | Some expected_operator \<Rightarrow>
          raise_if (cm_operator m \<noteq> expected_operator)
            (ValueError ''comparison symbol does not match normalized operator'')
          (raise_if (cm_start m < 0 \<or> cm_end m \<le> cm_start m)
            (ValueError ''comparison offsets must define a positive source span'')
          (raise_if (cm_end m - cm_start m \<noteq> int (length (cm_raw m)))
            (ValueError ''comparison offsets must match the raw symbol length'')
          (raise_if (blank (cm_source_field m))
            (ValueError ''comparison source field must not be blank'')
          (Inr m)))))"

text \<open>The pattern \<open>>=|<=|...\<close>: the alternatives are tried in this order at each position.\<close>

definition comparison_pattern :: "pystr list" where
  "comparison_pattern = [[62, 61], [60, 61], [8800], [8805], [8804], [62], [60], [61]]"

definition match_symbol :: "pystr \<Rightarrow> pystr option" where
  "match_symbol s = find (startswith s) comparison_pattern"

text \<open>\<open>finditer\<close>: the matches from the left, each after the end of the one before.\<close>

function find_symbols :: "pystr \<Rightarrow> nat \<Rightarrow> (pystr \<times> nat) list" where
  "find_symbols s i =
     (case s of
        [] \<Rightarrow> []
      | c # cs \<Rightarrow>
          (case match_symbol s of
             None \<Rightarrow> find_symbols cs (Suc i)
           | Some raw \<Rightarrow> (raw, i) # find_symbols (drop (length raw) s) (i + length raw)))"
  by pat_completeness auto
termination
proof (relation "measure (\<lambda>(s, i). length s)")
  fix s i c cs raw
  assume "s = c # cs" "match_symbol s = Some raw"
  then have "raw \<in> set comparison_pattern" by (auto simp: match_symbol_def dest: find_in_set)
  then have "0 < length raw" by (auto simp: comparison_pattern_def)
  then show "((drop (length raw) s, i + length raw), s, i) \<in> measure (\<lambda>(s, i). length s)"
    using \<open>s = c # cs\<close> by simp
qed simp_all

declare find_symbols.simps [simp del]

definition extract_comparison_symbols ::
  "pystr \<Rightarrow> pystr \<Rightarrow> uuid option \<Rightarrow> exn + comparison_match list" where
  "extract_comparison_symbols text source_field source_id =
     raise_if (blank source_field) (ValueError ''comparison source field must not be blank'')
       (foldr (\<lambda>(raw, i) rest.
          bindE (case map_of symbol_operators raw of None \<Rightarrow> Inl KeyError | Some op \<Rightarrow> Inr op) (\<lambda>op.
          bindE (mk_comparison_match
            \<lparr>cm_raw = raw, cm_operator = op, cm_start = int i, cm_end = int (i + length raw),
             cm_source_field = source_field, cm_source_id = source_id\<rparr>) (\<lambda>m.
          map_sum id (Cons m) rest))) (find_symbols text 0) (Inr []))"

subsection \<open>The scanner against a declarative reading of the text\<close>

text \<open>
  What stands at a position, read off the text alone: after \<open>>\<close> or \<open><\<close> an adjacent \<open>=\<close>
  belongs to the sign; the special signs stand for themselves; \<open>=\<close> counts on its own when the
  character before it is neither \<open>>\<close> nor \<open><\<close>.
\<close>

definition symbol_at :: "pystr \<Rightarrow> pystr \<Rightarrow> nat \<Rightarrow> bool" where
  "symbol_at text raw i \<longleftrightarrow> i < length text \<and>
     (if text ! i = 62 \<or> text ! i = 60
      then raw = (if Suc i < length text \<and> text ! Suc i = 61 then [text ! i, 61] else [text ! i])
      else if text ! i = 61 then raw = [61] \<and> (i = 0 \<or> text ! (i - 1) \<noteq> 60 \<and> text ! (i - 1) \<noteq> 62)
      else (text ! i = 8800 \<or> text ! i = 8804 \<or> text ! i = 8805) \<and> raw = [text ! i])"

text \<open>The first character of a suffix is never the second half of a compound sign.\<close>

definition clean_before :: "pystr \<Rightarrow> nat \<Rightarrow> bool" where
  "clean_before text i \<longleftrightarrow>
     \<not> (0 < i \<and> i < length text \<and> text ! i = 61 \<and> text ! (i - 1) \<in> {60, 62})"

lemma startswith_drop:
  "startswith (drop i text) [c] \<longleftrightarrow> i < length text \<and> text ! i = c"
  "startswith (drop i text) [c, d] \<longleftrightarrow> Suc i < length text \<and> text ! i = c \<and> text ! Suc i = d"
proof -
  show "startswith (drop i text) [c] \<longleftrightarrow> i < length text \<and> text ! i = c"
  proof (cases "i < length text")
    case True
    then have "drop i text = text ! i # drop (Suc i) text" by (simp add: Cons_nth_drop_Suc)
    then show ?thesis using True by (simp add: startswith_def)
  qed (simp add: startswith_def)
  show "startswith (drop i text) [c, d] \<longleftrightarrow> Suc i < length text \<and> text ! i = c \<and> text ! Suc i = d"
  proof (cases "Suc i < length text")
    case True
    then have "drop i text = text ! i # text ! Suc i # drop (Suc (Suc i)) text"
      by (simp add: Cons_nth_drop_Suc)
    then show ?thesis using True by (simp add: startswith_def)
  next
    case False
    then have "length (take 2 (drop i text)) \<noteq> length [c, d]" by simp
    then have "take 2 (drop i text) \<noteq> [c, d]" by metis
    then show ?thesis using False by (simp add: startswith_def numeral_2_eq_2)
  qed
qed

lemma match_symbol_eq:
  assumes "i < length text"
  shows "match_symbol (drop i text) =
      (if text ! i = 62 \<and> Suc i < length text \<and> text ! Suc i = 61 then Some [62, 61]
       else if text ! i = 60 \<and> Suc i < length text \<and> text ! Suc i = 61 then Some [60, 61]
       else if text ! i = 8800 \<or> text ! i = 8805 \<or> text ! i = 8804 \<or> text ! i = 62 \<or> text ! i = 60
         \<or> text ! i = 61 then Some [text ! i] else None)"
  using assms unfolding match_symbol_def comparison_pattern_def find.simps startswith_drop
  by (cases "text ! i = 62"; cases "text ! i = 60"; cases "text ! i = 8800";
      cases "text ! i = 8805"; cases "text ! i = 8804"; simp)

lemma match_symbol_drop:
  assumes "clean_before text i" "i < length text"
  shows "match_symbol (drop i text) = Some raw \<longleftrightarrow> symbol_at text raw i"
  using assms unfolding match_symbol_eq [OF assms(2)] symbol_at_def clean_before_def
  by (simp split: if_split) auto

lemma match_symbol_None:
  assumes "clean_before text i" "i < length text" "match_symbol (drop i text) = None"
  shows "\<not> symbol_at text raw i" "clean_before text (Suc i)"
proof -
  show "\<not> symbol_at text raw i" using match_symbol_drop [OF assms(1,2), of raw] assms(3) by simp
  have "text ! i \<noteq> 62 \<and> text ! i \<noteq> 60"
    using assms(3) unfolding match_symbol_eq [OF assms(2)] by (simp split: if_splits)
  then show "clean_before text (Suc i)" by (simp add: clean_before_def)
qed

lemma symbol_at_cases:
  assumes "symbol_at text raw i"
  obtains (one) c where "raw = [c]" "i < length text" "text ! i = c"
      "c = 62 \<or> c = 60 \<Longrightarrow> \<not> (Suc i < length text \<and> text ! Suc i = 61)"
  | (two) c where "raw = [c, 61]" "Suc i < length text" "text ! i = c" "text ! Suc i = 61"
  using assms unfolding symbol_at_def by (simp split: if_splits)

lemma symbol_at_length:
  assumes "symbol_at text raw i"
  shows "raw \<noteq> [] \<and> take (length raw) (drop i text) = raw \<and> i + length raw \<le> length text"
  using assms
proof (cases rule: symbol_at_cases)
  case (one c)
  then have "startswith (drop i text) [c]" by (simp add: startswith_drop)
  then show ?thesis using one(1,2) by (simp add: startswith_def)
next
  case (two c)
  then have "startswith (drop i text) [c, 61]" by (simp add: startswith_drop)
  then show ?thesis using two(1,2) by (simp add: startswith_def)
qed

text \<open>Where the scanner continues, no symbol was skipped.\<close>

lemma symbol_at_next:
  assumes "symbol_at text raw i"
  shows "clean_before text (i + length raw)"
    and "\<And>j r. i < j \<Longrightarrow> j < i + length raw \<Longrightarrow> \<not> symbol_at text r j"
proof -
  show "clean_before text (i + length raw)" using assms
  proof (cases rule: symbol_at_cases)
    case (one c) then show ?thesis by (auto simp: clean_before_def)
  next
    case (two c) then show ?thesis by (simp add: clean_before_def)
  qed
  fix j r assume j: "i < j" "j < i + length raw"
  from assms show "\<not> symbol_at text r j"
  proof (cases rule: symbol_at_cases)
    case (one c) then show ?thesis using j by simp
  next
    case (two c)
    have "j = Suc i" using j unfolding two(1) by simp
    moreover have "text ! i = 60 \<or> text ! i = 62"
      using assms unfolding two(1) symbol_at_def by (simp split: if_splits) blast
    ultimately show ?thesis using two(4) unfolding symbol_at_def by simp
  qed
qed

lemma find_symbols_spec:
  "clean_before text i \<Longrightarrow>
     set (find_symbols (drop i text) i) = {(raw, j). i \<le> j \<and> symbol_at text raw j}
     \<and> sorted_wrt (\<lambda>(r, j) (r', j'). j + length r \<le> j') (find_symbols (drop i text) i)"
proof (induction "length text - i" arbitrary: i rule: less_induct)
  case less
  show ?case
  proof (cases "i < length text")
    case False
    then have "find_symbols (drop i text) i = []" by (subst find_symbols.simps) simp
    then show ?thesis using False by (auto simp: symbol_at_def)
  next
    case True
    then have dr: "drop i text = text ! i # drop (Suc i) text" by (simp add: Cons_nth_drop_Suc)
    show ?thesis
    proof (cases "match_symbol (drop i text)")
      case None
      have eq: "find_symbols (drop i text) i = find_symbols (drop (Suc i) text) (Suc i)"
        by (subst find_symbols.simps) (use None dr in simp)
      note N = match_symbol_None [OF less.prems True None]
      have "{(raw, j). i \<le> j \<and> symbol_at text raw j} = {(raw, j). Suc i \<le> j \<and> symbol_at text raw j}"
        using N(1) by (auto simp: Suc_le_eq le_less)
      then show ?thesis unfolding eq using less.hyps [of "Suc i"] N(2) True by simp
    next
      case (Some raw)
      let ?k = "i + length raw"
      have s: "symbol_at text raw i" using match_symbol_drop [OF less.prems True] Some by blast
      note L = symbol_at_length [OF s] and S = symbol_at_next [OF s]
      have "drop (length raw) (drop i text) = drop ?k text" by (simp add: add.commute)
      then have eq: "find_symbols (drop i text) i = (raw, i) # find_symbols (drop ?k text) ?k"
        by (subst find_symbols.simps) (use Some dr in simp)
      have only: "r = raw" if "symbol_at text r i" for r
        using match_symbol_drop [OF less.prems True, of r] Some that by simp
      have "0 < length raw" using L by simp
      then have lt: "length text - ?k < length text - i" using True by linarith
      have IH: "set (find_symbols (drop ?k text) ?k) = {(raw, j). ?k \<le> j \<and> symbol_at text raw j}"
        "sorted_wrt (\<lambda>(r, j) (r', j'). j + length r \<le> j') (find_symbols (drop ?k text) ?k)"
        using less.hyps [OF lt S(1)] by simp_all
      have "{(r, j). i \<le> j \<and> symbol_at text r j}
          = insert (raw, i) {(r, j). ?k \<le> j \<and> symbol_at text r j}"
      proof (intro set_eqI, clarify)
        fix r j
        have "i \<le> j \<longleftrightarrow> j = i \<or> i < j \<and> j < ?k \<or> ?k \<le> j" using L by (cases raw) auto
        then show "(r, j) \<in> {(r, j). i \<le> j \<and> symbol_at text r j}
            \<longleftrightarrow> (r, j) \<in> insert (raw, i) {(r, j). ?k \<le> j \<and> symbol_at text r j}"
          using only s S(2) by blast
      qed
      then show ?thesis unfolding eq using IH by auto
    qed
  qed
qed

lemma find_symbols_text:
  "set (find_symbols text 0) = {(raw, j). symbol_at text raw j}"
  "sorted_wrt (\<lambda>(r, j) (r', j'). j + length r \<le> j') (find_symbols text 0)"
  using find_symbols_spec [of "text" 0] by (simp_all add: clean_before_def)

definition match_of ::
  "pystr \<Rightarrow> uuid option \<Rightarrow> pystr \<times> nat \<Rightarrow> comparison_match" where
  "match_of source_field source_id = (\<lambda>(raw, i).
     \<lparr>cm_raw = raw, cm_operator = the (map_of symbol_operators raw), cm_start = int i,
      cm_end = int (i + length raw), cm_source_field = source_field, cm_source_id = source_id\<rparr>)"

lemma symbol_at_operator: "symbol_at text raw i \<Longrightarrow> \<exists>op. map_of symbol_operators raw = Some op"
  unfolding symbol_at_def symbol_operators_def by (simp split: if_splits) auto

lemma mk_match_of:
  assumes "symbol_at text raw i" "\<not> blank f"
  shows "mk_comparison_match (match_of f sid (raw, i)) = Inr (match_of f sid (raw, i))"
proof -
  obtain op where "map_of symbol_operators raw = Some op" using symbol_at_operator [OF assms(1)] by blast
  moreover have "0 < length raw" using symbol_at_length [OF assms(1)] by simp
  ultimately show ?thesis using assms(2) by (simp add: mk_comparison_match_def match_of_def)
qed

lemma extract_comparison_symbols_eq:
  assumes "\<not> blank f"
  shows "extract_comparison_symbols text f sid = Inr (map (match_of f sid) (find_symbols text 0))"
proof -
  let ?step = "\<lambda>(raw, i) rest.
      bindE (case map_of symbol_operators raw of None \<Rightarrow> Inl KeyError | Some op \<Rightarrow> Inr op) (\<lambda>op.
      bindE (mk_comparison_match
        \<lparr>cm_raw = raw, cm_operator = op, cm_start = int i, cm_end = int (i + length raw),
         cm_source_field = f, cm_source_id = sid\<rparr>) (\<lambda>m. map_sum id (Cons m) rest))"
  have "foldr ?step xs (Inr []) = Inr (map (match_of f sid) xs)"
    if "\<forall>(raw, i)\<in>set xs. symbol_at text raw i" for xs
    using that
  proof (induction xs)
    case (Cons x xs)
    obtain raw i where x: "x = (raw, i)" by (cases x)
    then have s: "symbol_at text raw i" using Cons.prems by simp
    then obtain op where op: "map_of symbol_operators raw = Some op" using symbol_at_operator by blast
    have "\<lparr>cm_raw = raw, cm_operator = op, cm_start = int i, cm_end = int (i + length raw),
         cm_source_field = f, cm_source_id = sid\<rparr> = match_of f sid (raw, i)"
      by (simp add: match_of_def op)
    then show ?case using Cons x op mk_match_of [OF s assms] by simp
  qed simp
  then show ?thesis
    using assms find_symbols_text(1) [of "text"] by (auto simp: extract_comparison_symbols_def)
qed

text \<open>C36: extraction of comparison symbols is sound, complete and ordered: from a named source it
  never raises; it yields exactly the symbols that stand in the text, compound signs taken
  whole, each with its normalised operator and the exact half-open span of its occurrence, in
  source order and without overlaps.\<close>

theorem comparison_extraction_correct:
  assumes "\<not> blank source_field"
  shows "\<exists>ms. extract_comparison_symbols text source_field source_id = Inr ms
    \<and> (\<forall>raw i. symbol_at text raw i \<longleftrightarrow> (\<exists>m\<in>set ms. cm_raw m = raw \<and> cm_start m = int i))
    \<and> (\<forall>m\<in>set ms. cm_source_field m = source_field \<and> cm_source_id m = source_id
        \<and> 0 \<le> cm_start m \<and> cm_end m \<le> int (length text)
        \<and> cm_raw m = take (nat (cm_end m - cm_start m)) (drop (nat (cm_start m)) text)
        \<and> map_of symbol_operators (cm_raw m) = Some (cm_operator m))
    \<and> sorted_wrt (\<lambda>a b. cm_end a \<le> cm_start b) ms"
proof -
  let ?ms = "map (match_of source_field source_id) (find_symbols text 0)"
  note F = find_symbols_text [of "text"]
  have mem: "(raw, i) \<in> set (find_symbols text 0) \<longleftrightarrow> symbol_at text raw i" for raw i
    using F(1) by simp
  have "symbol_at text raw i \<longleftrightarrow> (\<exists>m\<in>set ?ms. cm_raw m = raw \<and> cm_start m = int i)" for raw i
    unfolding mem [symmetric] by (force simp: match_of_def)
  moreover have "cm_source_field m = source_field \<and> cm_source_id m = source_id
        \<and> 0 \<le> cm_start m \<and> cm_end m \<le> int (length text)
        \<and> cm_raw m = take (nat (cm_end m - cm_start m)) (drop (nat (cm_start m)) text)
        \<and> map_of symbol_operators (cm_raw m) = Some (cm_operator m)" if m: "m \<in> set ?ms" for m
  proof -
    obtain raw i where "(raw, i) \<in> set (find_symbols text 0)"
      and meq: "m = match_of source_field source_id (raw, i)" using m by auto
    then have s: "symbol_at text raw i" using mem by blast
    show ?thesis
      using symbol_at_length [OF s] symbol_at_operator [OF s] by (auto simp: meq match_of_def)
  qed
  moreover have "sorted_wrt (\<lambda>a b. cm_end a \<le> cm_start b) ?ms"
  proof -
    have "sorted_wrt (\<lambda>x y. cm_end (match_of source_field source_id x)
        \<le> cm_start (match_of source_field source_id y)) (find_symbols text 0)"
      by (rule sorted_wrt_mono_rel [OF _ F(2)]) (auto simp: match_of_def)
    then show ?thesis by (simp add: sorted_wrt_map)
  qed
  ultimately show ?thesis using extract_comparison_symbols_eq [OF assms] by blast
qed

lemma comparison_extraction_correct_witness:
  "map_sum id (map (\<lambda>m. (cm_operator m, cm_start m)))
     (extract_comparison_symbols [112, 62, 61, 61, 50, 8800, 60] (lit ''text'') None)
   = Inr [(GE, 1), (EQ, 3), (NE, 5), (LT, 6)]
   \<and> (\<exists>ms. extract_comparison_symbols [112, 62, 61, 61, 50, 8800, 60] (lit ''text'') None = Inr ms
        \<and> sorted_wrt (\<lambda>a b. cm_end a \<le> cm_start b) ms)"
proof -
  have "\<not> blank (lit ''text'')" by code_simp
  moreover have "map_sum id (map (\<lambda>m. (cm_operator m, cm_start m)))
     (extract_comparison_symbols [112, 62, 61, 61, 50, 8800, 60] (lit ''text'') None)
   = Inr [(GE, 1), (EQ, 3), (NE, 5), (LT, 6)]" by code_simp
  ultimately show ?thesis using comparison_extraction_correct by blast
qed

section \<open>Provenance, review and the common element\<close>

record parser_provenance =
  pv_parser_name :: pystr
  pv_parser_version :: pystr
  pv_parsed_at :: datetime
  pv_raw_result_uri :: "pystr option"
  pv_model_names :: "pystr list"

definition mk_parser_provenance :: "parser_provenance \<Rightarrow> exn + parser_provenance" where
  "mk_parser_provenance p =
     raise_if (blank (pv_parser_name p) \<or> blank (pv_parser_version p))
       (ValueError ''parser name and version must not be blank'')
     (raise_if (\<not> is_aware (pv_parsed_at p)) (ValueError ''parsed time must be timezone-aware'')
     (raise_if (blank_if_present (pv_raw_result_uri p))
       (ValueError ''raw result URI must be absent or non-blank'')
     (raise_if (list_ex blank (pv_model_names p))
       (ValueError ''parser model names must not be blank'')
     (Inr p))))"

record review_metadata =
  rv_required :: bool
  rv_status :: review_status
  rv_reasons :: "pystr list"

definition mk_review_metadata :: "review_metadata \<Rightarrow> exn + review_metadata" where
  "mk_review_metadata r =
     raise_if (list_ex blank (rv_reasons r)) (ValueError ''review reasons must not be blank'')
     (raise_if (rv_required r \<and> rv_reasons r = [])
       (ValueError ''required review must contain at least one reason'')
     (raise_if (\<not> rv_required r \<and> rv_status r = Review_PENDING)
       (ValueError ''non-required review cannot be pending'')
     (Inr r)))"

record document_element =
  de_id :: uuid
  de_document_version_id :: uuid
  de_raw_type :: pystr
  de_position :: page_position
  de_confidence :: element_confidence
  de_review :: review_metadata
  de_provenance :: parser_provenance

definition check_document_element :: "'a document_element_scheme \<Rightarrow> exn + unit" where
  "check_document_element e =
     raise_if (blank (de_raw_type e)) (ValueError ''raw parser type must not be blank'') (Inr ())"

section \<open>Text and picture elements\<close>

record text_element = document_element +
  te_text :: pystr
  te_markdown :: "pystr option"
  te_language :: "pystr option"
  te_heading_path :: "pystr list"

definition mk_text_element :: "text_element \<Rightarrow> exn + text_element" where
  "mk_text_element e =
     bindE (check_document_element e) (\<lambda>_.
     raise_if (blank (te_text e)) (ValueError ''text element content must not be blank'')
     (raise_if (blank_if_present (te_markdown e))
       (ValueError ''text markdown must be absent or non-blank'')
     (raise_if (blank_if_present (te_language e))
       (ValueError ''text language must be absent or non-blank'')
     (raise_if (list_ex blank (te_heading_path e))
       (ValueError ''heading path items must not be blank'')
     (Inr e)))))"

type_synonym comparison_info = "comparison_match list"

definition combine_comparisons :: "comparison_info list \<Rightarrow> comparison_info" where
  "combine_comparisons items = concat items"

definition text_comparison :: "text_element \<Rightarrow> exn + comparison_info" where
  "text_comparison e = extract_comparison_symbols (te_text e) (lit ''text'') None"

record picture_element = document_element +
  pe_object_uri :: pystr
  pe_relative_path :: pystr
  pe_mime_type :: pystr
  pe_width :: int
  pe_height :: int
  pe_sha256 :: "pystr option"
  pe_caption :: "pystr option"
  pe_ocr_text :: "pystr option"

definition mk_picture_element :: "picture_element \<Rightarrow> exn + picture_element" where
  "mk_picture_element e =
     bindE (check_document_element e) (\<lambda>_.
     raise_if (blank (pe_object_uri e) \<or> blank (pe_relative_path e))
       (ValueError ''picture object URI and relative path must not be blank'')
     (raise_if (blank (pe_mime_type e)) (ValueError ''picture MIME type must not be blank'')
     (raise_if (pe_width e < MIN_PAGE_DIMENSION \<or> pe_height e < MIN_PAGE_DIMENSION)
       (ValueError ''picture dimensions must be positive'')
     (raise_if (case pe_sha256 e of None \<Rightarrow> False | Some h \<Rightarrow> \<not> is_sha256 h)
       (ValueError ''picture hash must be a SHA-256 hex digest'')
     (raise_if (blank_if_present (pe_caption e))
       (ValueError ''picture caption must be absent or non-blank'')
     (raise_if (blank_if_present (pe_ocr_text e))
       (ValueError ''picture OCR text must be absent or non-blank'')
     (Inr e)))))))"

definition optional_comparison :: "pystr option \<Rightarrow> pystr \<Rightarrow> exn + comparison_info" where
  "optional_comparison text source_field =
     (case text of None \<Rightarrow> Inr [] | Some s \<Rightarrow> extract_comparison_symbols s source_field None)"

definition picture_comparison :: "picture_element \<Rightarrow> exn + comparison_info" where
  "picture_comparison e =
     bindE (optional_comparison (pe_caption e) (lit ''caption'')) (\<lambda>a.
     bindE (optional_comparison (pe_ocr_text e) (lit ''ocr_text'')) (\<lambda>b.
     Inr (combine_comparisons [a, b])))"

section \<open>Table elements\<close>

record table_cell =
  tc_cell_id :: uuid
  tc_row_start :: int
  tc_row_end :: int
  tc_column_start :: int
  tc_column_end :: int
  tc_bbox :: bounding_box
  tc_text :: pystr
  tc_confidence :: "pyfloat option"

definition mk_table_cell :: "table_cell \<Rightarrow> exn + table_cell" where
  "mk_table_cell c =
     raise_if (tc_row_start c < 0 \<or> tc_column_start c < 0)
       (ValueError ''table-cell start coordinates must not be negative'')
     (raise_if (tc_row_end c < tc_row_start c \<or> tc_column_end c < tc_column_start c)
       (ValueError ''table-cell end coordinates must not precede start coordinates'')
     (bindE (validate_optional (tc_confidence c) ''table-cell recognition confidence'') (\<lambda>_.
     Inr c)))"

definition row_span :: "table_cell \<Rightarrow> int" where
  "row_span c = tc_row_end c - tc_row_start c + 1"

definition column_span :: "table_cell \<Rightarrow> int" where
  "column_span c = tc_column_end c - tc_column_start c + 1"

definition cell_comparison :: "table_cell \<Rightarrow> exn + comparison_info" where
  "cell_comparison c =
     extract_comparison_symbols (tc_text c) (lit ''cell.text'') (Some (tc_cell_id c))"

record table_continuation =
  tn_logical_table_id :: "uuid option"
  tn_segment_index :: int
  tn_is_cross_page :: bool
  tn_is_continuation :: bool
  tn_previous_element_id :: "uuid option"
  tn_next_element_id :: "uuid option"
  tn_merge_status :: table_merge_status

definition mk_table_continuation :: "table_continuation \<Rightarrow> exn + table_continuation" where
  "mk_table_continuation c =
     raise_if (tn_segment_index c < 0) (ValueError ''table segment index must not be negative'')
     (raise_if (tn_is_cross_page c \<and> tn_logical_table_id c = None)
       (ValueError ''cross-page table segment must identify its logical table'')
     (raise_if (\<not> tn_is_cross_page c \<and> tn_merge_status c \<noteq> NOT_REQUIRED)
       (ValueError ''single-page table must not have a cross-page merge status'')
     (raise_if (tn_is_continuation c \<and> tn_previous_element_id c = None)
       (ValueError ''continuation table segment must identify the previous segment'')
     (Inr c))))"

record table_element = document_element +
  tb_html :: pystr
  tb_row_count :: int
  tb_column_count :: int
  tb_cells :: "table_cell list"
  tb_continuation :: table_continuation
  tb_title :: "pystr option"
  tb_markdown :: "pystr option"

text \<open>The loop over the cells with the set of identifiers seen so far.\<close>

fun check_cells :: "int \<Rightarrow> int \<Rightarrow> uuid set \<Rightarrow> table_cell list \<Rightarrow> exn + unit" where
  "check_cells rows columns cell_ids [] = Inr ()"
| "check_cells rows columns cell_ids (cell # cells) =
     raise_if (tc_cell_id cell \<in> cell_ids) (ValueError ''table cell ids must be unique'')
     (raise_if (tc_row_end cell \<ge> rows \<or> tc_column_end cell \<ge> columns)
       (ValueError ''table cell coordinates exceed table dimensions'')
     (check_cells rows columns (insert (tc_cell_id cell) cell_ids) cells))"

definition mk_table_element :: "table_element \<Rightarrow> exn + table_element" where
  "mk_table_element e =
     bindE (check_document_element e) (\<lambda>_.
     raise_if (blank (tb_html e) \<and> tb_cells e = [])
       (ValueError ''table element must contain HTML or cells'')
     (raise_if (tb_row_count e < MIN_TABLE_DIMENSION \<or> tb_column_count e < MIN_TABLE_DIMENSION)
       (ValueError ''table dimensions must be positive'')
     (raise_if (blank_if_present (tb_title e))
       (ValueError ''table title must be absent or non-blank'')
     (raise_if (blank_if_present (tb_markdown e))
       (ValueError ''table markdown must be absent or non-blank'')
     (bindE (check_cells (tb_row_count e) (tb_column_count e) {} (tb_cells e)) (\<lambda>_.
     Inr e))))))"

fun cell_comparisons :: "table_cell list \<Rightarrow> exn + comparison_info list" where
  "cell_comparisons [] = Inr []"
| "cell_comparisons (c # cs) =
     bindE (cell_comparison c) (\<lambda>m. bindE (cell_comparisons cs) (\<lambda>ms. Inr (m # ms)))"

definition table_comparison :: "table_element \<Rightarrow> exn + comparison_info" where
  "table_comparison e =
     bindE (cell_comparisons (tb_cells e)) (\<lambda>sources.
     case tb_title e of
       None \<Rightarrow> Inr (combine_comparisons sources)
     | Some title \<Rightarrow>
         bindE (extract_comparison_symbols title (lit ''title'') None) (\<lambda>t.
         Inr (combine_comparisons (t # sources))))"

text \<open>One element of any of the three kinds, with its discriminator and its symbols.\<close>

datatype parsed_element =
    TextElement text_element | PictureElement picture_element | TableElement table_element

fun element_type :: "parsed_element \<Rightarrow> document_element_type" where
  "element_type (TextElement e) = TEXT"
| "element_type (PictureElement e) = PICTURE"
| "element_type (TableElement e) = TABLE"

fun element_comparison :: "parsed_element \<Rightarrow> exn + comparison_info" where
  "element_comparison (TextElement e) = text_comparison e"
| "element_comparison (PictureElement e) = picture_comparison e"
| "element_comparison (TableElement e) = table_comparison e"

subsection \<open>Guarantees\<close>

lemma check_cells_Inr [py_bind]:
  "check_cells rows columns ids cells = Inr () \<longleftrightarrow>
     distinct (map tc_cell_id cells) \<and> tc_cell_id ` set cells \<inter> ids = {}
     \<and> (\<forall>c\<in>set cells. tc_row_end c < rows \<and> tc_column_end c < columns)"
  by (induction rows columns ids cells rule: check_cells.induct) (auto simp: not_le)

text \<open>A table element is accepted exactly when its type and optional texts are not blank, it has
  content, its dimensions are positive, its cells have distinct identifiers and every cell ends
  inside the table.\<close>

theorem table_element_valid_iff:
  "mk_table_element e = Inr r \<longleftrightarrow> r = e
     \<and> \<not> blank (de_raw_type e) \<and> (\<not> blank (tb_html e) \<or> tb_cells e \<noteq> [])
     \<and> 1 \<le> tb_row_count e \<and> 1 \<le> tb_column_count e
     \<and> \<not> blank_if_present (tb_title e) \<and> \<not> blank_if_present (tb_markdown e)
     \<and> distinct (map tc_cell_id (tb_cells e))
     \<and> (\<forall>c\<in>set (tb_cells e). tc_row_end c < tb_row_count e \<and> tc_column_end c < tb_column_count e)"
  by (auto simp: mk_table_element_def check_document_element_def py_bind MIN_TABLE_DIMENSION_def)

definition demo_position :: page_position where
  "demo_position =
     \<lparr>pp_page_index = 0, pp_page_width = 300, pp_page_height = 200,
      pp_bbox = \<lparr>bb_x1 = 10, bb_y1 = 20, bb_x2 = 100, bb_y2 = 60\<rparr>, pp_reading_order = None,
      pp_raw_block_id = 1\<rparr>"

definition demo_cell :: "uuid \<Rightarrow> int \<Rightarrow> pystr \<Rightarrow> table_cell" where
  "demo_cell i row s =
     \<lparr>tc_cell_id = i, tc_row_start = row, tc_row_end = row, tc_column_start = 0, tc_column_end = 0,
      tc_bbox = pp_bbox demo_position, tc_text = s, tc_confidence = Some (Fin (1 / 2))\<rparr>"

definition demo_table :: table_element where
  "demo_table =
     \<lparr>de_id = 1, de_document_version_id = 2, de_raw_type = lit ''table'', de_position = demo_position,
      de_confidence = \<lparr>ec_status = Confidence_UNKNOWN, ec_basis = Basis_UNKNOWN, ec_overall = None,
        ec_layout = None, ec_recognition = None, ec_structure = None\<rparr>,
      de_review = \<lparr>rv_required = False, rv_status = NOT_REVIEWED, rv_reasons = []\<rparr>,
      de_provenance = \<lparr>pv_parser_name = lit ''p'', pv_parser_version = lit ''1'',
        pv_parsed_at = Aware 0 0, pv_raw_result_uri = None, pv_model_names = []\<rparr>,
      tb_html = [], tb_row_count = 2, tb_column_count = 1,
      tb_cells = [demo_cell 7 0 (lit ''a>=5''), demo_cell 8 1 (lit ''<3'')],
      tb_continuation = \<lparr>tn_logical_table_id = None, tn_segment_index = 0, tn_is_cross_page = False,
        tn_is_continuation = False, tn_previous_element_id = None, tn_next_element_id = None,
        tn_merge_status = NOT_REQUIRED\<rparr>,
      tb_title = Some (lit ''x=1''), tb_markdown = None\<rparr>"

lemma table_element_valid_iff_witness:
  "mk_table_element demo_table = Inr demo_table
   \<and> mk_table_element (demo_table\<lparr>tb_row_count := 1\<rparr>) \<noteq> Inr (demo_table\<lparr>tb_row_count := 1\<rparr>)"
  by (simp add: table_element_valid_iff demo_table_def demo_cell_def blank_if_present_def
      lit_def blank_iff is_space_def)

lemma named_source [simp]:
  "\<not> blank (lit ''text'')" "\<not> blank (lit ''cell.text'')" "\<not> blank (lit ''title'')"
  "\<not> blank (lit ''caption'')" "\<not> blank (lit ''ocr_text'')"
  by (simp_all add: blank_iff lit_def is_space_def)

lemma cell_comparisons_eq:
  "cell_comparisons cs = Inr (map (\<lambda>c. map (match_of (lit ''cell.text'') (Some (tc_cell_id c)))
     (find_symbols (tc_text c) 0)) cs)"
  by (induction cs) (simp_all add: cell_comparison_def extract_comparison_symbols_eq)

lemma table_comparison_eq:
  "table_comparison e = Inr
     ((case tb_title e of None \<Rightarrow> []
       | Some s \<Rightarrow> map (match_of (lit ''title'') None) (find_symbols s 0))
      @ concat (map (\<lambda>c. map (match_of (lit ''cell.text'') (Some (tc_cell_id c)))
          (find_symbols (tc_text c) 0)) (tb_cells e)))"
  by (simp add: table_comparison_def cell_comparisons_eq extract_comparison_symbols_eq
      combine_comparisons_def split: option.splits)

text \<open>The symbols a table reports, and where they come from.\<close>

definition table_symbols :: "table_element \<Rightarrow> comparison_match list" where
  "table_symbols e =
     (case tb_title e of None \<Rightarrow> []
      | Some s \<Rightarrow> map (match_of (lit ''title'') None) (find_symbols s 0))
     @ concat (map (\<lambda>c. map (match_of (lit ''cell.text'') (Some (tc_cell_id c)))
         (find_symbols (tc_text c) 0)) (tb_cells e))"

lemma table_symbols_iff:
  "m \<in> set (table_symbols e) \<longleftrightarrow>
     (\<exists>s raw i. tb_title e = Some s \<and> symbol_at s raw i \<and> m = match_of (lit ''title'') None (raw, i))
   \<or> (\<exists>c\<in>set (tb_cells e). \<exists>raw i. symbol_at (tc_text c) raw i
        \<and> m = match_of (lit ''cell.text'') (Some (tc_cell_id c)) (raw, i))"
proof -
  have mem: "(raw, i) \<in> set (find_symbols s 0) \<longleftrightarrow> symbol_at s raw i" for s raw i
    using find_symbols_text(1) [of s] by simp
  let ?C = "\<lambda>c. map (match_of (lit ''cell.text'') (Some (tc_cell_id c))) (find_symbols (tc_text c) 0)"
  have T: "m \<in> set (case tb_title e of None \<Rightarrow> []
      | Some s \<Rightarrow> map (match_of (lit ''title'') None) (find_symbols s 0))
    \<longleftrightarrow> (\<exists>s raw i. tb_title e = Some s \<and> symbol_at s raw i \<and> m = match_of (lit ''title'') None (raw, i))"
    by (cases "tb_title e") (auto simp: mem [symmetric])
  have C: "m \<in> set (?C c) \<longleftrightarrow> (\<exists>raw i. symbol_at (tc_text c) raw i
      \<and> m = match_of (lit ''cell.text'') (Some (tc_cell_id c)) (raw, i))" for c
    by (auto simp: mem [symmetric])
  have U: "m \<in> set (concat (map ?C (tb_cells e))) \<longleftrightarrow> (\<exists>c\<in>set (tb_cells e). m \<in> set (?C c))"
    by auto
  show ?thesis unfolding table_symbols_def set_append Un_iff T U C by (rule refl)
qed

lemma table_cell_unique:
  assumes "mk_table_element e = Inr e" "c \<in> set (tb_cells e)"
  shows "\<exists>!d. d \<in> set (tb_cells e) \<and> Some (tc_cell_id c) = Some (tc_cell_id d)"
proof -
  have "distinct (map tc_cell_id (tb_cells e))"
    using assms(1) by (auto simp: mk_table_element_def py_bind)
  then show ?thesis using assms(2) by (metis distinct_map inj_onD option.inject)
qed

text \<open>C37: the comparison symbols of a valid table never raise and are traceable evidence: each is
  a symbol of the title, or of exactly one cell, named by its identifier, at the stated offset;
  and every symbol of the title and of every cell is reported.\<close>

theorem table_comparison_traceable:
  assumes "mk_table_element e = Inr e"
  shows "\<exists>ms. table_comparison e = Inr ms
    \<and> (\<forall>m\<in>set ms.
         cm_source_id m = None \<and> cm_source_field m = lit ''title''
           \<and> (\<exists>s. tb_title e = Some s \<and> symbol_at s (cm_raw m) (nat (cm_start m)))
       \<or> (\<exists>!c. c \<in> set (tb_cells e) \<and> cm_source_id m = Some (tc_cell_id c))
           \<and> (\<exists>c\<in>set (tb_cells e). cm_source_id m = Some (tc_cell_id c)
                \<and> cm_source_field m = lit ''cell.text''
                \<and> symbol_at (tc_text c) (cm_raw m) (nat (cm_start m))))
    \<and> (\<forall>c\<in>set (tb_cells e). \<forall>raw i. symbol_at (tc_text c) raw i \<longrightarrow>
         (\<exists>m\<in>set ms. cm_source_id m = Some (tc_cell_id c) \<and> cm_raw m = raw \<and> cm_start m = int i))
    \<and> (\<forall>s raw i. tb_title e = Some s \<longrightarrow> symbol_at s raw i \<longrightarrow>
         (\<exists>m\<in>set ms. cm_source_id m = None \<and> cm_raw m = raw \<and> cm_start m = int i))"
proof (intro exI [of _ "table_symbols e"] conjI ballI allI impI)
  show "table_comparison e = Inr (table_symbols e)"
    unfolding table_symbols_def by (rule table_comparison_eq)
next
  fix m assume "m \<in> set (table_symbols e)"
  then show "cm_source_id m = None \<and> cm_source_field m = lit ''title''
           \<and> (\<exists>s. tb_title e = Some s \<and> symbol_at s (cm_raw m) (nat (cm_start m)))
       \<or> (\<exists>!c. c \<in> set (tb_cells e) \<and> cm_source_id m = Some (tc_cell_id c))
           \<and> (\<exists>c\<in>set (tb_cells e). cm_source_id m = Some (tc_cell_id c)
                \<and> cm_source_field m = lit ''cell.text''
                \<and> symbol_at (tc_text c) (cm_raw m) (nat (cm_start m)))"
    unfolding table_symbols_iff
  proof (elim disjE exE bexE conjE)
    fix c raw i assume c: "c \<in> set (tb_cells e)" "symbol_at (tc_text c) raw i"
      "m = match_of (lit ''cell.text'') (Some (tc_cell_id c)) (raw, i)"
    then have "cm_source_id m = Some (tc_cell_id c)" "cm_source_field m = lit ''cell.text''"
      "symbol_at (tc_text c) (cm_raw m) (nat (cm_start m))" by (simp_all add: match_of_def)
    then show ?thesis using table_cell_unique [OF assms c(1)] c(1) by (simp only:) blast
  qed (simp add: match_of_def)
next
  fix c raw i assume "c \<in> set (tb_cells e)" "symbol_at (tc_text c) raw i"
  then have "match_of (lit ''cell.text'') (Some (tc_cell_id c)) (raw, i) \<in> set (table_symbols e)"
    unfolding table_symbols_iff by blast
  then show "\<exists>m\<in>set (table_symbols e). cm_source_id m = Some (tc_cell_id c) \<and> cm_raw m = raw \<and> cm_start m = int i"
    by (rule rev_bexI) (simp add: match_of_def)
next
  fix s raw i assume "tb_title e = Some s" "symbol_at s raw i"
  then have "match_of (lit ''title'') None (raw, i) \<in> set (table_symbols e)"
    unfolding table_symbols_iff by blast
  then show "\<exists>m\<in>set (table_symbols e). cm_source_id m = None \<and> cm_raw m = raw \<and> cm_start m = int i"
    by (rule rev_bexI) (simp add: match_of_def)
qed

lemma table_comparison_traceable_witness:
  "map_sum id (map (\<lambda>m. (cm_operator m, cm_source_id m))) (table_comparison demo_table)
     = Inr [(EQ, None), (GE, Some 7), (LT, Some 8)]
   \<and> (\<exists>ms. table_comparison demo_table = Inr ms)"
proof -
  have "mk_table_element demo_table = Inr demo_table"
    "map_sum id (map (\<lambda>m. (cm_operator m, cm_source_id m))) (table_comparison demo_table)
       = Inr [(EQ, None), (GE, Some 7), (LT, Some 8)]"
    by code_simp+
  then show ?thesis using table_comparison_traceable [of demo_table] by blast
qed

end
