(* ===== verification/DocVersions.thy ===== *)
theory DocVersions
  imports DocElements
begin

text \<open>
  The document aggregate (\<open>modules/documents/domain/models.py\<close>): immutable source
  versions and the append-only history of one logical document.  \<open>__post_init__\<close> of class
  \<open>C\<close> is \<open>mk_C\<close>; the checks stand in the order of the source.
\<close>

definition MAX_DOCUMENT_PAGES :: int where "MAX_DOCUMENT_PAGES = 500"

datatype document_format = PDF | DOCX | PPTX

definition is_sha256_digest :: "pystr \<Rightarrow> bool" where
  "is_sha256_digest v \<longleftrightarrow> length v = 64 \<and> list_all is_hexdigit v"

section \<open>One immutable version\<close>

record document_version =
  dv_id :: uuid
  dv_document_id :: uuid
  dv_name :: pystr
  dv_file_url :: pystr
  dv_normalized_pdf_url :: pystr
  dv_file_format :: document_format
  dv_file_hash :: pystr
  dv_normalized_pdf_hash :: pystr
  dv_version :: int
  dv_uploaded_at :: datetime
  dv_expires_at :: "datetime option"
  dv_page_count :: int
  dv_parser_version :: pystr
  dv_parse_duration_ms :: int

definition mk_document_version :: "document_version \<Rightarrow> exn + document_version" where
  "mk_document_version v =
     raise_if (blank (dv_name v)) (ValueError ''document name must not be blank'')
     (raise_if (blank (dv_file_url v) \<or> blank (dv_normalized_pdf_url v))
       (ValueError ''document object URLs must not be blank'')
     (raise_if (\<not> is_sha256_digest (dv_file_hash v) \<or> \<not> is_sha256_digest (dv_normalized_pdf_hash v))
       (ValueError ''document hashes must be SHA-256 hex digests'')
     (raise_if (dv_version v < 1) (ValueError ''document version must be positive'')
     (raise_if (\<not> (1 \<le> dv_page_count v \<and> dv_page_count v \<le> MAX_DOCUMENT_PAGES))
       (ValueError ''document page count is outside the supported boundary'')
     (raise_if (blank (dv_parser_version v)) (ValueError ''parser version must not be blank'')
     (raise_if (dv_parse_duration_ms v < 0) (ValueError ''parse duration must not be negative'')
     (raise_if (\<not> is_aware (dv_uploaded_at v))
       (ValueError ''upload time must be timezone-aware'')
     (raise_if (case dv_expires_at v of None \<Rightarrow> False | Some t \<Rightarrow> \<not> is_aware t)
       (ValueError ''expiration time must be timezone-aware'')
     (raise_if (dv_file_format v = PDF \<and>
          (dv_normalized_pdf_url v \<noteq> dv_file_url v \<or> dv_normalized_pdf_hash v \<noteq> dv_file_hash v))
       (ValueError ''PDF source must be its own normalized PDF'')
     (Inr v))))))))))"

definition version_ok :: "document_version \<Rightarrow> bool" where
  "version_ok v \<longleftrightarrow> mk_document_version v = Inr v"

lemma mk_document_version_Inr [py_bind]:
  "mk_document_version v = Inr w \<longleftrightarrow> w = v \<and> version_ok v"
  by (auto simp: version_ok_def mk_document_version_def)

lemma version_ok_facts:
  assumes "version_ok v"
  shows "1 \<le> dv_version v" "1 \<le> dv_page_count v" "dv_page_count v \<le> 500"
    "0 \<le> dv_parse_duration_ms v" "is_aware (dv_uploaded_at v)"
    "length (dv_file_hash v) = 64" "length (dv_normalized_pdf_hash v) = 64"
  using assms
  by (auto simp: version_ok_def mk_document_version_def is_sha256_digest_def MAX_DOCUMENT_PAGES_def)

section \<open>The logical document\<close>

record document =
  do_id :: uuid
  do_versions :: "document_version list"

text \<open>The loop of \<open>__post_init__\<close>, with its two accumulators.\<close>

fun check_versions ::
  "uuid \<Rightarrow> int \<Rightarrow> pystr set \<Rightarrow> document_version list \<Rightarrow> exn + unit" where
  "check_versions i expected hashes [] = Inr ()"
| "check_versions i expected hashes (v # vs) =
     raise_if (dv_document_id v \<noteq> i) (ValueError ''document version does not match its document'')
     (raise_if (dv_version v \<noteq> expected)
       (ValueError ''document versions must be contiguous and start at one'')
     (raise_if (dv_file_hash v \<in> hashes)
       (ValueError ''document file hash already exists in version history'')
     (check_versions i (expected + 1) (insert (dv_file_hash v) hashes) vs)))"

definition mk_document :: "document \<Rightarrow> exn + document" where
  "mk_document d =
     raise_if (do_versions d = []) (ValueError ''document must contain at least one version'')
     (bindE (check_versions (do_id d) 1 {} (do_versions d)) (\<lambda>_. Inr d))"

definition create_document :: "uuid \<Rightarrow> document_version \<Rightarrow> exn + document" where
  "create_document document_id first_version =
     mk_document \<lparr>do_id = document_id, do_versions = [first_version]\<rparr>"

definition latest_version :: "document \<Rightarrow> document_version" where
  "latest_version d = last (do_versions d)"

definition append_version :: "document \<Rightarrow> document_version \<Rightarrow> exn + document" where
  "append_version d version =
     mk_document \<lparr>do_id = do_id d, do_versions = do_versions d @ [version]\<rparr>"

section \<open>What a history is\<close>

text \<open>Versions of one document, numbered from \<open>n\<close> on, without a repeated hash.\<close>

definition history_from :: "int \<Rightarrow> uuid \<Rightarrow> document_version list \<Rightarrow> bool" where
  "history_from n i vs \<longleftrightarrow> (\<forall>v\<in>set vs. dv_document_id v = i)
     \<and> map dv_version vs = map (\<lambda>k. n + int k) [0..<length vs]
     \<and> distinct (map dv_file_hash vs)"

abbreviation history :: "uuid \<Rightarrow> document_version list \<Rightarrow> bool" where
  "history \<equiv> history_from 1"

lemma history_from_Nil [simp]: "history_from n i []"
  by (simp add: history_from_def)

lemma history_from_Cons:
  "history_from n i (v # vs) \<longleftrightarrow> dv_document_id v = i \<and> dv_version v = n
     \<and> dv_file_hash v \<notin> dv_file_hash ` set vs \<and> history_from (n + 1) i vs"
proof -
  have "map (\<lambda>k. n + int k) [0..<length (v # vs)] = n # map (\<lambda>k. n + 1 + int k) [0..<length vs]"
    by (simp only: list.size add_0_right upt_conv_Cons)
      (simp add: map_Suc_upt [symmetric] del: upt_Suc map_Suc_upt)
  then show ?thesis by (auto simp: history_from_def simp del: upt_Suc)
qed

lemma check_versions_Inr [py_bind]:
  "check_versions i n hs vs = Inr u \<longleftrightarrow>
     history_from n i vs \<and> dv_file_hash ` set vs \<inter> hs = {}"
  by (induction i n hs vs rule: check_versions.induct) (auto simp: history_from_Cons)

lemma mk_document_Inr [py_bind]:
  "mk_document d = Inr e \<longleftrightarrow> e = d \<and> do_versions d \<noteq> [] \<and> history (do_id d) (do_versions d)"
  by (auto simp: mk_document_def py_bind)

lemma history_snoc:
  "history_from n i (vs @ [v]) \<longleftrightarrow> history_from n i vs \<and> dv_document_id v = i
     \<and> dv_version v = n + int (length vs) \<and> dv_file_hash v \<notin> dv_file_hash ` set vs"
  by (induction vs arbitrary: n) (auto simp: history_from_Cons)

lemma history_take: "history_from n i vs \<Longrightarrow> history_from n i (take k vs)"
  by (induction vs arbitrary: n k) (auto simp: history_from_Cons take_Cons' dest: in_set_takeD)

lemma history_version_nth:
  "history_from n i vs \<Longrightarrow> k < length vs \<Longrightarrow> dv_version (vs ! k) = n + int k"
  by (induction vs arbitrary: n k) (auto simp: history_from_Cons nth_Cons')

lemma history_last:
  "history_from n i vs \<Longrightarrow> vs \<noteq> [] \<Longrightarrow> dv_version (last vs) = n + int (length vs) - 1"
  by (cases vs rule: rev_cases) (auto simp: history_snoc)

lemma history_Max:
  assumes "history_from n i vs" "vs \<noteq> []"
  shows "Max (dv_version ` set vs) = n + int (length vs) - 1"
proof (rule Max_eqI)
  fix y assume "y \<in> dv_version ` set vs"
  then obtain k where "k < length vs" "y = dv_version (vs ! k)" by (auto simp: in_set_conv_nth)
  then show "y \<le> n + int (length vs) - 1" using history_version_nth [OF assms(1)] by auto
next
  have "dv_version (last vs) = n + int (length vs) - 1" using assms by (rule history_last)
  then show "n + int (length vs) - 1 \<in> dv_version ` set vs"
    using assms(2) by (metis image_eqI last_in_set)
qed simp

text \<open>A logical document is accepted exactly when it has at least one version, all of them its
  own, numbered 1, 2, \<open>\<dots>\<close> without a gap, and no two with the same source hash.\<close>

theorem document_valid_iff:
  "mk_document d = Inr e \<longleftrightarrow> e = d \<and> do_versions d \<noteq> []
     \<and> (\<forall>v\<in>set (do_versions d). dv_document_id v = do_id d)
     \<and> map dv_version (do_versions d) = map (\<lambda>k. 1 + int k) [0..<length (do_versions d)]
     \<and> distinct (map dv_file_hash (do_versions d))"
  by (simp add: mk_document_Inr history_from_def)

definition demo_version :: "uuid \<Rightarrow> int \<Rightarrow> nat \<Rightarrow> document_version" where
  "demo_version i n h =
     \<lparr>dv_id = 100 + nat n, dv_document_id = i, dv_name = lit ''plan.pdf'',
      dv_file_url = lit ''minio://b/k'', dv_normalized_pdf_url = lit ''minio://b/k'',
      dv_file_format = PDF, dv_file_hash = replicate 64 h, dv_normalized_pdf_hash = replicate 64 h,
      dv_version = n, dv_uploaded_at = Aware 0 0, dv_expires_at = None, dv_page_count = 3,
      dv_parser_version = lit ''document-metadata-v1'', dv_parse_duration_ms = 5\<rparr>"

lemma document_valid_iff_witness:
  "mk_document \<lparr>do_id = 9, do_versions = [demo_version 9 1 48, demo_version 9 2 49]\<rparr>
     = Inr \<lparr>do_id = 9, do_versions = [demo_version 9 1 48, demo_version 9 2 49]\<rparr>
   \<and> mk_document \<lparr>do_id = 9, do_versions = [demo_version 9 1 48, demo_version 9 3 49]\<rparr>
     \<noteq> Inr \<lparr>do_id = 9, do_versions = [demo_version 9 1 48, demo_version 9 3 49]\<rparr>"
  by (simp add: document_valid_iff demo_version_def numeral_2_eq_2)

text \<open>Appending to a document accepts exactly the next version, of this document and with a new
  hash; the result is a document again, the version is its latest, and the history before it is
  unchanged.\<close>

theorem append_version_correct:
  assumes "mk_document d = Inr d"
  shows "(append_version d v = Inr d' \<longleftrightarrow>
      d' = \<lparr>do_id = do_id d, do_versions = do_versions d @ [v]\<rparr>
      \<and> dv_document_id v = do_id d \<and> dv_version v = dv_version (latest_version d) + 1
      \<and> dv_file_hash v \<notin> dv_file_hash ` set (do_versions d))
    \<and> (append_version d v = Inr d' \<longrightarrow> mk_document d' = Inr d' \<and> latest_version d' = v
        \<and> take (length (do_versions d)) (do_versions d') = do_versions d)"
proof -
  have h: "do_versions d \<noteq> []" "history (do_id d) (do_versions d)"
    using assms by (auto simp: py_bind)
  have "dv_version (latest_version d) = int (length (do_versions d))"
    using history_last [OF h(2,1)] by (simp add: latest_version_def)
  then show ?thesis
    using h by (auto simp: append_version_def mk_document_Inr history_snoc latest_version_def)
qed

lemma append_version_correct_witness:
  "append_version \<lparr>do_id = 9, do_versions = [demo_version 9 1 48]\<rparr> (demo_version 9 2 49)
     = Inr \<lparr>do_id = 9, do_versions = [demo_version 9 1 48, demo_version 9 2 49]\<rparr>"
proof -
  have "mk_document \<lparr>do_id = 9, do_versions = [demo_version 9 1 48]\<rparr>
      = Inr \<lparr>do_id = 9, do_versions = [demo_version 9 1 48]\<rparr>"
    by (simp add: mk_document_Inr history_from_Cons demo_version_def)
  from append_version_correct [OF this, of "demo_version 9 2 49"]
  show ?thesis by (simp add: latest_version_def demo_version_def)
qed

end
