(* ===== verification/DocFiles.thy ===== *)
theory DocFiles
  imports DocVersions "HOL-Library.Word" "HOL-Library.Sublist"
begin

text \<open>
  Upload files (\<open>modules/documents/infrastructure/file_processing.py\<close>): bounded staging,
  detection of the format from the content, and the metadata of the canonical PDF.  A workspace
  maps the names in the temporary directory to files and directories.  SHA-256, Unicode
  normalisation, the ZIP and XML readers and pypdf are parameters, collected in \<open>file_lib\<close>;
  \<open>file_lib_law\<close> states their documented behaviour.
\<close>

type_synonym bytes = "8 word list"

definition ascii :: "string \<Rightarrow> bytes" where
  "ascii s = map of_char s"

datatype node = File bytes | Directory

type_synonym workspace = "pystr \<Rightarrow> node option"

text \<open>\<open>path.open("rb")\<close> and reading to the end.\<close>

definition read_file :: "workspace \<Rightarrow> pystr \<Rightarrow> exn + bytes" where
  "read_file ws path =
     (case ws path of None \<Rightarrow> Inl FileNotFoundError | Some Directory \<Rightarrow> Inl OSError
      | Some (File bs) \<Rightarrow> Inr bs)"

text \<open>\<open>while chunk := stream.read(n)\<close>: the chunks of a file.\<close>

function read_chunks :: "nat \<Rightarrow> 'a list \<Rightarrow> 'a list list" where
  "read_chunks n xs = (if n = 0 \<or> xs = [] then [] else take n xs # read_chunks n (drop n xs))"
  by pat_completeness auto
termination by (relation "measure (\<lambda>(n, xs). length xs)") auto

declare read_chunks.simps [simp del]

lemma read_chunks_Nil [simp]: "read_chunks n [] = []"
  by (simp add: read_chunks.simps)

lemma read_chunks_step:
  "0 < n \<Longrightarrow> xs \<noteq> [] \<Longrightarrow> read_chunks n xs = take n xs # read_chunks n (drop n xs)"
  by (simp add: read_chunks.simps)

lemma concat_read_chunks [simp]: "0 < n \<Longrightarrow> concat (read_chunks n xs) = xs"
proof (induction n xs rule: read_chunks.induct)
  case (1 n xs)
  then show ?case by (cases "xs = []") (simp_all add: read_chunks_step)
qed

lemma read_chunks_lengths: "c \<in> set (read_chunks n xs) \<Longrightarrow> c \<noteq> [] \<and> length c \<le> n"
proof (induction n xs rule: read_chunks.induct)
  case (1 n xs)
  then show ?case by (cases "n = 0 \<or> xs = []") (auto simp: read_chunks.simps [of n xs])
qed

section \<open>What the code takes from elsewhere\<close>

record zip_entry =
  ze_filename :: pystr
  ze_file_size :: nat
  ze_compress_size :: nat

record zip_archive =
  zi_entries :: "zip_entry list"
  zi_read :: "zip_entry \<Rightarrow> exn + bytes"

record xml_element =
  xe_tag :: pystr
  xe_part_name :: "pystr option"
  xe_content_type :: "pystr option"

record pdf_reader =
  pr_encrypted :: bool
  pr_pages :: "exn + nat"

record file_lib =
  sha256_hex :: "bytes \<Rightarrow> pystr"
  nfc :: "pystr \<Rightarrow> pystr"
  open_zip :: "bytes \<Rightarrow> exn + zip_archive"
  parse_xml :: "bytes \<Rightarrow> exn + xml_element list"
  open_pdf :: "bytes \<Rightarrow> exn + pdf_reader"

definition is_pdf_error :: "exn \<Rightarrow> bool" where
  "is_pdf_error e \<longleftrightarrow> is_os_error e \<or> e = PdfReadError \<or> is_value_error e"

definition file_lib_law :: "file_lib \<Rightarrow> bool" where
  "file_lib_law L \<longleftrightarrow>
     (\<forall>bs. length (sha256_hex L bs) = 64
        \<and> list_all (\<lambda>c. 48 \<le> c \<and> c \<le> 57 \<or> 97 \<le> c \<and> c \<le> 102) (sha256_hex L bs))
     \<and> (\<forall>bs e. open_zip L bs = Inl e \<longrightarrow> e = OSError \<or> e = BadZipFile \<or> e = LargeZipFile)
     \<and> (\<forall>bs e. parse_xml L bs = Inl e \<longrightarrow> e = ParseError)
     \<and> (\<forall>bs e. open_pdf L bs = Inl e \<longrightarrow> is_pdf_error e)
     \<and> (\<forall>bs r e. open_pdf L bs = Inr r \<longrightarrow> pr_pages r = Inl e \<longrightarrow> is_pdf_error e)"

section \<open>Constants\<close>

definition UPLOAD_READ_CHUNK_BYTES :: nat where "UPLOAD_READ_CHUNK_BYTES = 1024 * 1024"
definition MAX_UPLOAD_FILE_BYTES :: nat where "MAX_UPLOAD_FILE_BYTES = 200 * 1024 * 1024"
definition MAX_ARCHIVE_ENTRIES :: nat where "MAX_ARCHIVE_ENTRIES = 20000"
definition MAX_ARCHIVE_UNCOMPRESSED_BYTES :: nat where
  "MAX_ARCHIVE_UNCOMPRESSED_BYTES = 2 * 1024 * 1024 * 1024"
definition MAX_ARCHIVE_COMPRESSION_RATIO :: nat where "MAX_ARCHIVE_COMPRESSION_RATIO = 1000"
definition MAX_DOCUMENT_NAME_LENGTH :: nat where "MAX_DOCUMENT_NAME_LENGTH = 255"
definition MAX_CONTENT_TYPES_BYTES :: nat where "MAX_CONTENT_TYPES_BYTES = 1024 * 1024"
definition PDF_SIGNATURE :: bytes where "PDF_SIGNATURE = ascii ''%PDF-''"
definition ZIP_SIGNATURES :: "bytes list" where
  "ZIP_SIGNATURES = [[0x50, 0x4B, 3, 4], [0x50, 0x4B, 5, 6], [0x50, 0x4B, 7, 8]]"
definition COMPOUND_FILE_SIGNATURE :: bytes where
  "COMPOUND_FILE_SIGNATURE = [0xD0, 0xCF, 0x11, 0xE0, 0xA1, 0xB1, 0x1A, 0xE1]"
definition OOXML_CONTENT_TYPES_PATH :: pystr where
  "OOXML_CONTENT_TYPES_PATH = lit ''[Content_Types].xml''"
definition DOCX_MARKER_PATH :: pystr where "DOCX_MARKER_PATH = lit ''word/document.xml''"
definition PPTX_MARKER_PATH :: pystr where "PPTX_MARKER_PATH = lit ''ppt/presentation.xml''"
definition DOCX_MAIN_CONTENT_TYPE :: pystr where
  "DOCX_MAIN_CONTENT_TYPE =
     lit ''application/vnd.openxmlformats-officedocument.wordprocessingml.document.main+xml''"
definition PPTX_MAIN_CONTENT_TYPE :: pystr where
  "PPTX_MAIN_CONTENT_TYPE =
     lit ''application/vnd.openxmlformats-officedocument.presentationml.presentation.main+xml''"
definition PARSER_VERSION :: pystr where "PARSER_VERSION = lit ''document-metadata-v1''"

section \<open>POSIX paths\<close>

fun split_on :: "nat \<Rightarrow> pystr \<Rightarrow> pystr list" where
  "split_on c [] = [[]]"
| "split_on c (x # xs) =
     (if x = c then [] # split_on c xs
      else case split_on c xs of [] \<Rightarrow> [[x]] | w # ws \<Rightarrow> (x # w) # ws)"

text \<open>\<open>value.replace("\\", "/")\<close>\<close>

definition to_slashes :: "pystr \<Rightarrow> pystr" where
  "to_slashes s = map (\<lambda>c. if c = 92 then 47 else c) s"

text \<open>The parts of \<open>PurePosixPath(s)\<close> after its root, and its \<open>name\<close>.\<close>

definition path_parts :: "pystr \<Rightarrow> pystr list" where
  "path_parts s = filter (\<lambda>p. p \<noteq> [] \<and> p \<noteq> lit ''.'') (split_on 47 s)"

definition path_name :: "pystr \<Rightarrow> pystr" where
  "path_name s = (case path_parts s of [] \<Rightarrow> [] | p # ps \<Rightarrow> last (p # ps))"

lemma split_on_separator: "w \<in> set (split_on c s) \<Longrightarrow> c \<notin> set w"
  by (induction s arbitrary: w) (auto split: if_splits list.splits)

lemma split_on_set: "w \<in> set (split_on c s) \<Longrightarrow> set w \<subseteq> set s"
proof (induction s arbitrary: w)
  case (Cons x xs)
  then show ?case by (fastforce split: if_splits list.splits)
qed simp

lemma path_name_safe: "47 \<notin> set (path_name s) \<and> set (path_name s) \<subseteq> set s"
proof (cases "path_parts s")
  case (Cons p ps)
  then have "path_name s \<in> set (path_parts s)"
    using last_in_set [of "path_parts s"] by (simp add: path_name_def)
  then show ?thesis
    using split_on_separator split_on_set by (fastforce simp: path_parts_def)
qed (simp add: path_name_def)

section \<open>Staging\<close>

record upload_source =
  us_filename :: pystr
  us_read :: "nat \<Rightarrow> nat \<Rightarrow> exn + bytes"

record stager =
  st_max_file_bytes :: nat
  st_read_chunk_bytes :: nat

record staged_upload =
  sg_path :: pystr
  sg_normalized_name :: pystr
  sg_size_bytes :: nat
  sg_sha256 :: pystr

definition mk_stager :: "int \<Rightarrow> int \<Rightarrow> exn + stager" where
  "mk_stager max_file_bytes read_chunk_bytes =
     raise_if (max_file_bytes < 1 \<or> read_chunk_bytes < 1)
       (ValueError ''staging limits must be positive'')
     (raise_if (read_chunk_bytes > int UPLOAD_READ_CHUNK_BYTES)
       (ValueError ''upload read chunks cannot exceed 1 MiB'')
     (Inr \<lparr>st_max_file_bytes = nat max_file_bytes, st_read_chunk_bytes = nat read_chunk_bytes\<rparr>))"

definition normalize_name :: "file_lib \<Rightarrow> pystr \<Rightarrow> exn + pystr" where
  "normalize_name L filename =
     (let basename = strip (path_name (to_slashes (nfc L filename)))
      in raise_if (basename = [] \<or> length basename > MAX_DOCUMENT_NAME_LENGTH)
           (BidError InvalidDocumentError (Some Msg_bad_filename)) (Inr basename))"

text \<open>
  The copying loop: call \<open>i\<close> of \<open>read\<close>, the bytes counted so far and the bytes written so
  far.  The source is arbitrary: it may return chunks of any size for ever, or raise.
\<close>

function stage_loop ::
  "nat \<Rightarrow> (nat \<Rightarrow> exn + bytes) \<Rightarrow> nat \<Rightarrow> nat \<Rightarrow> bytes \<Rightarrow> (exn + nat) \<times> bytes" where
  "stage_loop limit read i count written =
     (case read i of
        Inl e \<Rightarrow> (Inl e, written)
      | Inr chunk \<Rightarrow>
          if chunk = [] then (Inr count, written)
          else if count + length chunk > limit
            then (raise_class FileSizeLimitExceededError, written)
          else stage_loop limit read (Suc i) (count + length chunk) (written @ chunk))"
  by pat_completeness auto
termination
  by (relation "measure (\<lambda>(limit, read, i, count, written). limit - count)")
    (auto simp: length_greater_0_conv [symmetric] simp del: length_greater_0_conv)

declare stage_loop.simps [simp del]

definition stage ::
  "file_lib \<Rightarrow> stager \<Rightarrow> upload_source \<Rightarrow> (workspace, staged_upload) stateful" where
  "stage L cfg source ws =
     (case normalize_name L (us_filename source) of
        Inl e \<Rightarrow> (Inl e, ws)
      | Inr normalized_name \<Rightarrow>
          let target = lit ''source.upload'';
              (copied, written) =
                stage_loop (st_max_file_bytes cfg) (us_read source (st_read_chunk_bytes cfg)) 0 0 [];
              ws' = ws(target \<mapsto> File written)
          in (case copied of
                Inl e \<Rightarrow> (Inl e, ws')
              | Inr total_bytes \<Rightarrow>
                  (raise_if (total_bytes = 0) (BidError InvalidDocumentError (Some Msg_empty_file))
                    (Inr \<lparr>sg_path = target, sg_normalized_name = normalized_name,
                          sg_size_bytes = total_bytes, sg_sha256 = sha256_hex L written\<rparr>), ws')))"

section \<open>Detection of the format\<close>

definition contains :: "'a list \<Rightarrow> 'a list \<Rightarrow> bool" where
  "contains s p \<longleftrightarrow> list_ex (\<lambda>n. startswith (drop n s) p) [0..<Suc (length s)]"

text \<open>
  The check of one entry.  The source divides in floating point; with the total size bounded by
  2 GiB before, a quotient above the limit is above it by more than \<open>2\<^sup>-\<^sup>32\<close>, so that the
  rounded comparison is the exact one.
\<close>

definition check_entry :: "zip_entry \<Rightarrow> exn + unit" where
  "check_entry entry =
     raise_if (startswith (to_slashes (ze_filename entry)) [47]
               \<or> lit ''..'' \<in> set (path_parts (to_slashes (ze_filename entry))))
       (BidError InvalidDocumentError (Some Msg_archive_path))
     (raise_if (ze_file_size entry \<noteq> 0
                \<and> ze_file_size entry > MAX_ARCHIVE_COMPRESSION_RATIO * max (ze_compress_size entry) 1)
       (BidError InvalidDocumentError (Some Msg_archive_ratio))
     (Inr ()))"

definition validate_archive_limits :: "zip_archive \<Rightarrow> exn + unit" where
  "validate_archive_limits archive =
     raise_if (length (zi_entries archive) > MAX_ARCHIVE_ENTRIES)
       (BidError InvalidDocumentError (Some Msg_archive_entries))
     (raise_if (sum_list (map ze_file_size (zi_entries archive)) > MAX_ARCHIVE_UNCOMPRESSED_BYTES)
       (BidError InvalidDocumentError (Some Msg_archive_size))
     (forE check_entry (zi_entries archive)))"

text \<open>\<open>archive.getinfo(name)\<close>: the last entry of that name.\<close>

definition getinfo :: "zip_archive \<Rightarrow> pystr \<Rightarrow> exn + zip_entry" where
  "getinfo archive name =
     (case find (\<lambda>e. ze_filename e = name) (rev (zi_entries archive)) of
        None \<Rightarrow> Inl KeyError | Some e \<Rightarrow> Inr e)"

definition or_empty :: "pystr option \<Rightarrow> pystr" where
  "or_empty x = (case x of None \<Rightarrow> [] | Some s \<Rightarrow> s)"

definition read_content_types :: "file_lib \<Rightarrow> zip_archive \<Rightarrow> exn + (pystr \<times> pystr) list" where
  "read_content_types L archive =
     map_sum (\<lambda>e. case e of
          KeyError \<Rightarrow> BidError UnsupportedDocumentTypeError None
        | ParseError \<Rightarrow> BidError UnsupportedDocumentTypeError None
        | RuntimeError m \<Rightarrow> BidError UnsupportedDocumentTypeError None
        | _ \<Rightarrow> e) id
     (bindE (getinfo archive OOXML_CONTENT_TYPES_PATH) (\<lambda>manifest_info.
      raise_if (ze_file_size manifest_info > MAX_CONTENT_TYPES_BYTES)
        (BidError InvalidDocumentError (Some Msg_manifest_too_large))
      (bindE (zi_read archive manifest_info) (\<lambda>manifest.
       bindE (parse_xml L manifest) (\<lambda>root.
       Inr (map (\<lambda>e. (or_empty (xe_part_name e), or_empty (xe_content_type e)))
              (filter (\<lambda>e. endswith (xe_tag e) (lit ''Override'')) root)))))))"

definition ooxml_format :: "pystr list \<Rightarrow> (pystr \<times> pystr) list \<Rightarrow> exn + document_format" where
  "ooxml_format names content_types =
     (let is_docx = DOCX_MARKER_PATH \<in> set names; is_pptx = PPTX_MARKER_PATH \<in> set names
      in if OOXML_CONTENT_TYPES_PATH \<notin> set names then raise_class UnsupportedDocumentTypeError
         else if is_docx = is_pptx then raise_class UnsupportedDocumentTypeError
         else if is_docx \<and> (47 # DOCX_MARKER_PATH, DOCX_MAIN_CONTENT_TYPE) \<in> set content_types
           then Inr DOCX
         else if is_pptx \<and> (47 # PPTX_MARKER_PATH, PPTX_MAIN_CONTENT_TYPE) \<in> set content_types
           then Inr PPTX
         else raise_class UnsupportedDocumentTypeError)"

definition detect :: "file_lib \<Rightarrow> bytes \<Rightarrow> exn + document_format" where
  "detect L content =
     (let header = take (length COMPOUND_FILE_SIGNATURE) content in
      if startswith header PDF_SIGNATURE then Inr PDF
      else if header = COMPOUND_FILE_SIGNATURE then
        (let probe = take UPLOAD_READ_CHUNK_BYTES content in
         if contains probe (ascii ''EncryptionInfo'') \<and> contains probe (ascii ''EncryptedPackage'')
         then raise_class EncryptedDocumentError else raise_class UnsupportedDocumentTypeError)
      else if \<not> list_ex (startswith header) ZIP_SIGNATURES
        then raise_class UnsupportedDocumentTypeError
      else
        bindE (map_sum (\<lambda>e. if is_os_error e \<or> e = BadZipFile \<or> e = LargeZipFile
                              then BidError UnsupportedDocumentTypeError None else e) id
          (bindE (open_zip L content) (\<lambda>archive.
           bindE (validate_archive_limits archive) (\<lambda>_.
           bindE (read_content_types L archive) (\<lambda>content_types.
           Inr (map ze_filename (zi_entries archive), content_types))))))
        (\<lambda>(names, content_types). ooxml_format names content_types))"

section \<open>Metadata of the canonical PDF\<close>

record parsed_document =
  pa_normalized_pdf_path :: pystr
  pa_normalized_pdf_hash :: pystr
  pa_page_count :: int
  pa_parser_version :: pystr
  pa_parse_duration_ms :: int

definition read_pdf_metadata :: "file_lib \<Rightarrow> bytes \<Rightarrow> exn + int \<times> pystr" where
  "read_pdf_metadata L content =
     bindE (map_sum (\<lambda>e. if is_pdf_error e then BidError InvalidDocumentError None else e) id
       (bindE (open_pdf L content) (\<lambda>reader.
        raise_if (pr_encrypted reader) (BidError EncryptedDocumentError None) (pr_pages reader))))
     (\<lambda>page_count.
        Inr (int page_count, sha256_hex L (concat (read_chunks UPLOAD_READ_CHUNK_BYTES content))))"

definition parse_metadata ::
  "file_lib \<Rightarrow> (pystr \<Rightarrow> document_format \<Rightarrow> (workspace, pystr) stateful) \<Rightarrow> int \<Rightarrow> int
   \<Rightarrow> pystr \<Rightarrow> document_format \<Rightarrow> (workspace, parsed_document) stateful" where
  "parse_metadata L convert started_ns finished_ns source_path file_format =
     bindS (if file_format \<noteq> PDF then convert source_path file_format else retS source_path)
       (\<lambda>normalized_path ws.
          (bindE (map_sum (\<lambda>e. if is_os_error e then BidError InvalidDocumentError None else e) id
                    (read_file ws normalized_path)) (\<lambda>content.
           bindE (read_pdf_metadata L content) (\<lambda>(page_count, normalized_hash).
           Inr \<lparr>pa_normalized_pdf_path = normalized_path, pa_normalized_pdf_hash = normalized_hash,
                pa_page_count = page_count, pa_parser_version = PARSER_VERSION,
                pa_parse_duration_ms = max 0 ((finished_ns - started_ns) div 1000000)\<rparr>)), ws))"

section \<open>Guarantees\<close>

lemma normalize_name_safe:
  assumes "normalize_name L filename = Inr name"
  shows "name \<noteq> []" "length name \<le> 255" "47 \<notin> set name" "92 \<notin> set name"
proof -
  let ?p = "path_name (to_slashes (nfc L filename))"
  have name: "name = strip ?p" "name \<noteq> []" "length name \<le> 255"
    using assms by (auto simp: normalize_name_def Let_def MAX_DOCUMENT_NAME_LENGTH_def)
  then show "name \<noteq> []" "length name \<le> 255" by blast+
  have "set name \<subseteq> set ?p" unfolding name(1) by (rule set_strip)
  moreover have "92 \<notin> set (to_slashes s)" for s by (auto simp: to_slashes_def)
  ultimately show "47 \<notin> set name" "92 \<notin> set name"
    using path_name_safe [of "to_slashes (nfc L filename)"] by blast+
qed

text \<open>Staging reads a source only as often as the limit allows, and keeps what it read.\<close>

lemma stage_loop_reads:
  assumes "count \<le> limit" and "\<And>j. i \<le> j \<Longrightarrow> j \<le> i + (limit - count) \<Longrightarrow> r1 j = r2 j"
  shows "stage_loop limit r1 i count written = stage_loop limit r2 i count written"
  using assms
proof (induction limit r1 i count written rule: stage_loop.induct)
  case (1 limit r1 i count written)
  have eq: "r1 i = r2 i" using "1.prems" by simp
  show ?case
  proof (cases "\<exists>chunk. r2 i = Inr chunk \<and> chunk \<noteq> [] \<and> count + length chunk \<le> limit")
    case True
    then obtain chunk where c: "r2 i = Inr chunk" "chunk \<noteq> []" "count + length chunk \<le> limit" by blast
    have len: "1 \<le> length chunk" using c(2) by (cases chunk) auto
    have "r1 j = r2 j" if "Suc i \<le> j" "j \<le> Suc i + (limit - (count + length chunk))" for j
      by (rule "1.prems"(2)) (use that len c(3) in linarith)+
    then have "stage_loop limit r1 (Suc i) (count + length chunk) (written @ chunk)
        = stage_loop limit r2 (Suc i) (count + length chunk) (written @ chunk)"
      using "1.IH" [of chunk] eq c by simp
    then show ?thesis using eq c by (simp add: stage_loop.simps [of limit _ i])
  next
    case False
    then show ?thesis
      using eq by (auto simp: stage_loop.simps [of limit _ i] split: sum.splits)
  qed
qed

lemma stage_loop_result:
  assumes "count = length written" "count \<le> limit"
    and "stage_loop limit read i count written = (r, out)"
  shows "length out \<le> limit \<and> prefix written out \<and> (\<forall>n. r = Inr n \<longrightarrow> n = length out)"
  using assms
proof (induction limit read i count written rule: stage_loop.induct)
  case (1 limit read i count written)
  show ?case
  proof (cases "\<exists>chunk. read i = Inr chunk \<and> chunk \<noteq> [] \<and> count + length chunk \<le> limit")
    case True
    then obtain chunk where c: "read i = Inr chunk" "chunk \<noteq> []" "count + length chunk \<le> limit" by blast
    have "length out \<le> limit \<and> prefix (written @ chunk) out \<and> (\<forall>n. r = Inr n \<longrightarrow> n = length out)"
      using "1.IH" [of chunk] "1.prems" c by (simp add: stage_loop.simps [of limit _ i])
    then show ?thesis by (meson append_prefixD)
  next
    case False
    then show ?thesis
      using "1.prems" by (auto simp: stage_loop.simps [of limit _ i] split: sum.splits if_splits)
  qed
qed

definition source_of :: "pystr \<Rightarrow> bytes \<Rightarrow> upload_source" where
  "source_of filename content =
     \<lparr>us_filename = filename, us_read = (\<lambda>sz i. Inr (take sz (drop (i * sz) content)))\<rparr>"

lemma stage_loop_content:
  assumes "0 < sz" "count = length written" "count \<le> limit"
    and "i * sz \<le> length written \<or> written = content"
    and "content = written @ drop (i * sz) content"
  shows "stage_loop limit (us_read (source_of f content) sz) i count written =
    (if length content \<le> limit then (Inr (length content), content)
     else (raise_class FileSizeLimitExceededError,
           snd (stage_loop limit (us_read (source_of f content) sz) i count written)))"
  using assms
proof (induction "length content - i * sz" arbitrary: i count written rule: less_induct)
  case less
  let ?c = "take sz (drop (i * sz) content)"
  show ?case
  proof (cases "?c = []")
    case True
    then have "drop (i * sz) content = []" using less.prems(1) by auto
    with less.prems True show ?thesis by (simp add: stage_loop.simps [of limit _ i] source_of_def)
  next
    case False
    then have pos: "i * sz < length content" "drop (i * sz) content \<noteq> []" by auto
    have split: "drop (i * sz) content = ?c @ drop (Suc i * sz) content"
      by (simp add: add.commute drop_drop [symmetric] del: drop_drop)
    have "length content = length written + length (drop (i * sz) content)"
      using less.prems(5) by (metis length_append)
    moreover have "length ?c \<le> length (drop (i * sz) content)" by simp
    ultimately have le: "count + length ?c \<le> length content" using less.prems(2) by linarith
    show ?thesis
    proof (cases "count + length ?c \<le> limit")
      case fits: True
      have content: "content = (written @ ?c) @ drop (Suc i * sz) content"
        using less.prems(5) split by simp
      have wlen: "length written = i * sz"
        using less.prems(5) pos
        by (metis add_diff_cancel_right' diff_diff_cancel length_append length_drop less_imp_le)
      have "Suc i * sz \<le> length (written @ ?c) \<or> written @ ?c = content"
        using wlen content by (cases "Suc i * sz \<le> length content") auto
      note next_i = this
      have smaller: "length content - Suc i * sz < length content - i * sz"
        using pos(1) less.prems(1) by simp
      have step: "stage_loop limit (us_read (source_of f content) sz) i count written =
          stage_loop limit (us_read (source_of f content) sz) (Suc i) (count + length ?c) (written @ ?c)"
        using False fits by (simp add: stage_loop.simps [of limit _ i] source_of_def)
      have "count + length ?c = length (written @ ?c)" using less.prems(2) by simp
      from less.hyps [OF smaller less.prems(1) this fits next_i content]
      show ?thesis unfolding step .
    next
      case False
      with \<open>?c \<noteq> []\<close> le show ?thesis by (simp add: stage_loop.simps [of limit _ i] source_of_def)
    qed
  qed
qed

lemma stage_Inr:
  assumes run: "stage L cfg src ws = (Inr s, ws')"
  shows "\<exists>content. ws' = ws(sg_path s \<mapsto> File content) \<and> sg_size_bytes s = length content
       \<and> 0 < length content \<and> length content \<le> st_max_file_bytes cfg
       \<and> sg_sha256 s = sha256_hex L content
       \<and> sg_normalized_name s \<noteq> [] \<and> length (sg_normalized_name s) \<le> 255
       \<and> 47 \<notin> set (sg_normalized_name s) \<and> 92 \<notin> set (sg_normalized_name s)"
proof -
  let ?r = "us_read src (st_read_chunk_bytes cfg)"
  obtain r out where loop: "stage_loop (st_max_file_bytes cfg) ?r 0 0 [] = (r, out)" by force
  from stage_loop_result [OF _ _ loop]
  have out: "length out \<le> st_max_file_bytes cfg" "\<forall>n. r = Inr n \<longrightarrow> n = length out" by auto
  obtain name where name: "normalize_name L (us_filename src) = Inr name"
    using run by (cases "normalize_name L (us_filename src)") (simp_all add: stage_def)
  obtain n where "r = Inr n"
    using run by (cases r) (simp_all add: stage_def name loop)
  with out(2) have r: "r = Inr (length out)" by simp
  have s: "out \<noteq> []" "s = \<lparr>sg_path = lit ''source.upload'', sg_normalized_name = name,
              sg_size_bytes = length out, sg_sha256 = sha256_hex L out\<rparr>"
    and ws': "ws' = ws(lit ''source.upload'' \<mapsto> File out)"
    using run by (auto simp: stage_def name loop r Let_def)
  show ?thesis
    using normalize_name_safe [OF name] out(1) s ws' by (intro exI [of _ out]) simp
qed


text \<open>A concrete library: enough of the formats to run the code on small inputs.\<close>

definition demo_hex :: "bytes \<Rightarrow> pystr" where
  "demo_hex bs = replicate 63 48 @ [48 + length bs mod 10]"

definition demo_zip :: "zip_archive" where
  "demo_zip =
     \<lparr>zi_entries = [\<lparr>ze_filename = OOXML_CONTENT_TYPES_PATH, ze_file_size = 100, ze_compress_size = 50\<rparr>,
                    \<lparr>ze_filename = DOCX_MARKER_PATH, ze_file_size = 0, ze_compress_size = 0\<rparr>],
      zi_read = (\<lambda>e. Inr [1])\<rparr>"

definition demo_lib :: file_lib where
  "demo_lib =
     \<lparr>sha256_hex = demo_hex, nfc = (\<lambda>s. s),
      open_zip = (\<lambda>bs. if length bs = 4 then Inr demo_zip
        else if length bs = 5 then Inr (demo_zip\<lparr>zi_read := (\<lambda>e. Inl ZlibError)\<rparr>) else Inl BadZipFile),
      parse_xml = (\<lambda>bs. Inr [\<lparr>xe_tag = lit ''{ns}Override'', xe_part_name = Some (47 # DOCX_MARKER_PATH),
                              xe_content_type = Some DOCX_MAIN_CONTENT_TYPE\<rparr>]),
      open_pdf = (\<lambda>bs. Inr \<lparr>pr_encrypted = False, pr_pages = Inr (length bs)\<rparr>)\<rparr>"

lemma demo_lib_law: "file_lib_law demo_lib"
proof -
  have "n mod 10 \<le> 9" for n :: nat by presburger
  then show ?thesis by (simp add: file_lib_law_def demo_lib_def demo_hex_def list_all_iff)
qed

definition demo_source :: upload_source where
  "demo_source = source_of (lit ''C:'' @ 92 # lit ''dir'' @ 92 # lit ''a.pdf'') (ascii ''%PDF-1.7'')"


lemma startswith_take: "startswith (take n s) p \<Longrightarrow> \<exists>r. s = p @ r"
  unfolding startswith_iff by (metis append.assoc append_take_drop_id)

lemma check_entry_Inr [py_bind]:
  "check_entry e = Inr u \<longleftrightarrow> \<not> startswith (to_slashes (ze_filename e)) [47]
     \<and> lit ''..'' \<notin> set (path_parts (to_slashes (ze_filename e)))
     \<and> ze_file_size e \<le> 1000 * max (ze_compress_size e) 1"
  by (auto simp: check_entry_def MAX_ARCHIVE_COMPRESSION_RATIO_def)

lemma ooxml_format_Inr [py_bind]:
  "ooxml_format names types = Inr f \<longleftrightarrow> OOXML_CONTENT_TYPES_PATH \<in> set names \<and>
     (f = DOCX \<and> DOCX_MARKER_PATH \<in> set names \<and> PPTX_MARKER_PATH \<notin> set names
        \<and> (47 # DOCX_MARKER_PATH, DOCX_MAIN_CONTENT_TYPE) \<in> set types
    \<or> f = PPTX \<and> PPTX_MARKER_PATH \<in> set names \<and> DOCX_MARKER_PATH \<notin> set names
        \<and> (47 # PPTX_MARKER_PATH, PPTX_MAIN_CONTENT_TYPE) \<in> set types)"
  by (auto simp: ooxml_format_def Let_def)

lemma detect_open:
  assumes "detect L content = Inr f" "f \<noteq> PDF"
  shows "\<exists>archive types. open_zip L content = Inr archive \<and> validate_archive_limits archive = Inr ()
     \<and> read_content_types L archive = Inr types
     \<and> ooxml_format (map ze_filename (zi_entries archive)) types = Inr f"
  using assms by (auto simp: detect_def Let_def bindE_Inr split: if_splits)



text \<open>
  A damaged deflate stream of the manifest is reported by \<open>zlib\<close> with its own exception,
  which no handler of \<open>detect\<close> names: it leaves the detector as it is.
\<close>

lemma detect_corrupt_deflate_escapes:
  "detect demo_lib [0x50, 0x4B, 3, 4, 0] = Inl ZlibError"
  by code_simp

lemma read_content_types_error:
  assumes "read_content_types L a = Inl e" "file_lib_law L"
    and "\<And>entry x. zi_read a entry = Inl x \<Longrightarrow> (\<exists>m. x = RuntimeError m) \<or> x = BadZipFile \<or> is_os_error x"
  shows "e = BidError UnsupportedDocumentTypeError None
    \<or> e = BidError InvalidDocumentError (Some Msg_manifest_too_large) \<or> e = BadZipFile \<or> is_os_error e"
proof -
  have xml: "parse_xml L bs = Inl x \<Longrightarrow> x = ParseError" for bs x
    using assms(2) unfolding file_lib_law_def by blast
  let ?e = "\<lambda>x. x = KeyError \<or> x = ParseError \<or> x = BidError InvalidDocumentError (Some Msg_manifest_too_large)
    \<or> (\<exists>m. x = RuntimeError m) \<or> x = BadZipFile \<or> is_os_error x"
  let ?inner = "bindE (getinfo a OOXML_CONTENT_TYPES_PATH) (\<lambda>info.
      raise_if (ze_file_size info > MAX_CONTENT_TYPES_BYTES)
        (BidError InvalidDocumentError (Some Msg_manifest_too_large))
      (bindE (zi_read a info) (\<lambda>manifest. bindE (parse_xml L manifest) (\<lambda>root.
       Inr (map (\<lambda>e. (or_empty (xe_part_name e), or_empty (xe_content_type e)))
              (filter (\<lambda>e. endswith (xe_tag e) (lit ''Override'')) root))))))"
  obtain x where x: "?inner = Inl x" and e: "e = (case x of
          KeyError \<Rightarrow> BidError UnsupportedDocumentTypeError None
        | ParseError \<Rightarrow> BidError UnsupportedDocumentTypeError None
        | RuntimeError m \<Rightarrow> BidError UnsupportedDocumentTypeError None
        | _ \<Rightarrow> x)"
    using assms(1) unfolding read_content_types_def map_sum_id(3) by blast
  have "?e x"
    using x by (auto simp: bindE_Inl raise_if_Inl getinfo_def dest: xml assms(3) split: option.splits)
  then show ?thesis unfolding e by (cases x) auto
qed

text \<open>Every other failure of detection is one of three public document errors.\<close>

lemma detect_error_classes:
  assumes err: "detect L content = Inl e" and law: "file_lib_law L"
    and reads: "\<And>a entry x. open_zip L content = Inr a \<Longrightarrow> zi_read a entry = Inl x \<Longrightarrow>
        (\<exists>m. x = RuntimeError m) \<or> x = BadZipFile \<or> is_os_error x"
  shows "\<exists>c m. e = BidError c m
    \<and> c \<in> {UnsupportedDocumentTypeError, EncryptedDocumentError, InvalidDocumentError}"
proof -
  have zip: "open_zip L content = Inl x \<Longrightarrow> is_os_error x \<or> x = BadZipFile \<or> x = LargeZipFile" for x
    using law unfolding file_lib_law_def by fastforce
  have lim: "validate_archive_limits a = Inl x \<Longrightarrow> \<exists>m. x = BidError InvalidDocumentError m" for a x
  proof -
    have "forE check_entry es = Inl x \<Longrightarrow> \<exists>m. x = BidError InvalidDocumentError m" for es
      by (induction es) (auto simp: check_entry_def bindE_Inl raise_if_Inl)
    then show "validate_archive_limits a = Inl x \<Longrightarrow> \<exists>m. x = BidError InvalidDocumentError m"
      by (auto simp: validate_archive_limits_def raise_if_Inl)
  qed
  have ct: "open_zip L content = Inr a \<Longrightarrow> read_content_types L a = Inl x \<Longrightarrow>
      x = BidError UnsupportedDocumentTypeError None \<or> (\<exists>m. x = BidError InvalidDocumentError m)
      \<or> x = BadZipFile \<or> is_os_error x" for a x
    using read_content_types_error [OF _ law, of a x] reads [of a] by blast
  have fmt: "ooxml_format n ts = Inl x \<Longrightarrow> x = BidError UnsupportedDocumentTypeError None" for n ts x
    by (auto simp: ooxml_format_def Let_def split: if_splits)
  show ?thesis
    using err by (auto simp: detect_def Let_def bindE_Inl bindE_Inr split: if_splits
        dest: zip lim ct fmt)
qed

end
