(* ===== verification/DocSafety.thy ===== *)
theory DocSafety
  imports DocFiles
begin

text \<open>
  The checks and the conversion around an upload: encryption and malware scanning
  (\<open>modules/documents/infrastructure/safety.py\<close>) and LibreOffice
  (\<open>infrastructure/conversion.py\<close>).  The peers are parameters: \<open>clamd\<close> maps the bytes
  sent on one connection to its reply, \<open>spawn\<close> starts a process.  \<open>instream_decode\<close> is the
  server's side of clamd's INSTREAM framing, the specification the framing is checked against.
\<close>

section \<open>Encryption\<close>

definition inspect_pdf :: "file_lib \<Rightarrow> bytes \<Rightarrow> exn + unit" where
  "inspect_pdf L content =
     bindE (map_sum (\<lambda>e. if is_pdf_error e then BidError InvalidDocumentError None else e) id
              (open_pdf L content))
       (\<lambda>reader. raise_if (pr_encrypted reader) (BidError EncryptedDocumentError None) (Inr ()))"

definition ensure_not_encrypted ::
  "file_lib \<Rightarrow> workspace \<Rightarrow> pystr \<Rightarrow> document_format \<Rightarrow> exn + unit" where
  "ensure_not_encrypted L ws path file_format =
     (if file_format \<noteq> PDF then Inr ()
      else bindE (map_sum (\<lambda>e. if is_os_error e then BidError InvalidDocumentError None else e) id
                    (read_file ws path)) (inspect_pdf L))"

section \<open>The malware scanner\<close>

definition CLAMAV_INSTREAM_COMMAND :: bytes where
  "CLAMAV_INSTREAM_COMMAND = ascii ''zINSTREAM'' @ [0]"
definition CLAMAV_PING_COMMAND :: bytes where "CLAMAV_PING_COMMAND = ascii ''zPING'' @ [0]"
definition CLAMAV_OK_SUFFIX :: bytes where "CLAMAV_OK_SUFFIX = ascii '': OK''"
definition CLAMAV_FOUND_SUFFIX :: bytes where "CLAMAV_FOUND_SUFFIX = ascii '' FOUND''"
definition CLAMAV_ERROR_SUFFIX :: bytes where "CLAMAV_ERROR_SUFFIX = ascii '' ERROR''"
definition CLAMAV_PONG_RESPONSE :: bytes where "CLAMAV_PONG_RESPONSE = ascii ''PONG''"

text \<open>\<open>struct.pack("!I", n)\<close>: four bytes, the most significant first.\<close>

definition pack_u32 :: "nat \<Rightarrow> bytes" where
  "pack_u32 n = [word_of_nat (n div 2 ^ 24), word_of_nat (n div 2 ^ 16), word_of_nat (n div 2 ^ 8),
                 word_of_nat n]"

definition CLAMAV_STREAM_END :: bytes where "CLAMAV_STREAM_END = pack_u32 0"

record clamav_scanner =
  cv_host :: pystr
  cv_port :: int
  cv_timeout_seconds :: pyfloat
  cv_chunk_bytes :: nat

definition mk_clamav_scanner :: "pystr \<Rightarrow> int \<Rightarrow> pyfloat \<Rightarrow> int \<Rightarrow> exn + clamav_scanner" where
  "mk_clamav_scanner host port timeout_seconds chunk_bytes =
     raise_if (blank host \<or> \<not> (1 \<le> port \<and> port \<le> 65535) \<or> fl_le timeout_seconds (Fin 0))
       (ValueError ''invalid ClamAV connection settings'')
     (raise_if (\<not> (1 \<le> chunk_bytes \<and> chunk_bytes \<le> int UPLOAD_READ_CHUNK_BYTES))
       (ValueError ''ClamAV chunks must be between 1 byte and 1 MiB'')
     (Inr \<lparr>cv_host = host, cv_port = port, cv_timeout_seconds = timeout_seconds,
           cv_chunk_bytes = nat chunk_bytes\<rparr>))"

text \<open>What \<open>ensure_clean\<close> writes to the connection.\<close>

definition instream_request :: "nat \<Rightarrow> bytes \<Rightarrow> bytes" where
  "instream_request chunk_bytes content =
     CLAMAV_INSTREAM_COMMAND
     @ concat (map (\<lambda>chunk. pack_u32 (length chunk) @ chunk) (read_chunks chunk_bytes content))
     @ CLAMAV_STREAM_END"

definition rstrip_nul :: "bytes \<Rightarrow> bytes" where
  "rstrip_nul response = rev (dropWhile (\<lambda>b. b = 0) (rev response))"

definition interpret_response :: "bytes \<Rightarrow> exn + unit" where
  "interpret_response response =
     (let normalized = rstrip_nul response in
      if endswith normalized CLAMAV_OK_SUFFIX then Inr ()
      else if endswith normalized CLAMAV_FOUND_SUFFIX then raise_class MalwareDetectedError
      else if endswith normalized CLAMAV_ERROR_SUFFIX
        then Inl (BidError ExternalServiceError (Some Msg_scanner_unavailable))
      else Inl (BidError ExternalServiceError (Some Msg_scanner_bad_response)))"

definition scanner_failure :: "exn \<Rightarrow> exn" where
  "scanner_failure e =
     (if is_os_error e \<or> e = IncompleteReadError \<or> e = LimitOverrunError
      then BidError ExternalServiceError (Some Msg_scanner_unavailable) else e)"

definition ensure_clean ::
  "clamav_scanner \<Rightarrow> (bytes \<Rightarrow> exn + bytes) \<Rightarrow> workspace \<Rightarrow> pystr \<Rightarrow> exn + unit" where
  "ensure_clean scanner clamd ws path =
     bindE (map_sum scanner_failure id
             (bindE (read_file ws path)
                (\<lambda>content. clamd (instream_request (cv_chunk_bytes scanner) content))))
       interpret_response"

text \<open>The handler of \<open>probe\<close> does not name \<open>LimitOverrunError\<close>.\<close>

definition probe_clamav :: "(bytes \<Rightarrow> exn + bytes) \<Rightarrow> exn + unit" where
  "probe_clamav clamd =
     bindE (map_sum (\<lambda>e. if is_os_error e \<or> e = IncompleteReadError
                          then BidError ExternalServiceError (Some Msg_scanner_unavailable) else e) id
              (clamd CLAMAV_PING_COMMAND))
       (\<lambda>response. raise_if (rstrip_nul response \<noteq> CLAMAV_PONG_RESPONSE)
          (BidError ExternalServiceError (Some Msg_scanner_unavailable)) (Inr ()))"

text \<open>\<open>DocumentSafetyScanner.ensure_safe\<close>: encryption first, then the scan.\<close>

definition ensure_safe ::
  "file_lib \<Rightarrow> clamav_scanner \<Rightarrow> (bytes \<Rightarrow> exn + bytes) \<Rightarrow> workspace \<Rightarrow> pystr \<Rightarrow> document_format
   \<Rightarrow> exn + unit" where
  "ensure_safe L scanner clamd ws path file_format =
     bindE (ensure_not_encrypted L ws path file_format) (\<lambda>_. ensure_clean scanner clamd ws path)"

section \<open>LibreOffice\<close>

datatype process_event = Spawned | Killed | Reaped

record process =
  pc_communicate :: "exn option"
  pc_returncode :: "int option"

text \<open>\<open>AsyncProcessRunner.run\<close>, with what happened to the process.\<close>

definition run_process ::
  "(pystr list \<Rightarrow> exn + process) \<Rightarrow> pystr list \<Rightarrow> (exn + int) \<times> process_event list" where
  "run_process spawn args =
     (case spawn args of
        Inl FileNotFoundError \<Rightarrow>
          (Inl (BidError ExternalServiceError (Some Msg_conversion_unavailable)), [])
      | Inl TimeoutError \<Rightarrow> (Inl (BidError ExternalServiceError (Some Msg_conversion_timeout)), [])
      | Inl e \<Rightarrow> (Inl e, [])
      | Inr p \<Rightarrow>
          (case pc_communicate p of
             Some FileNotFoundError \<Rightarrow>
               (Inl (BidError ExternalServiceError (Some Msg_conversion_unavailable)), [Spawned])
           | Some TimeoutError \<Rightarrow>
               (Inl (BidError ExternalServiceError (Some Msg_conversion_timeout)),
                [Spawned, Killed, Reaped])
           | Some e \<Rightarrow> (Inl e, [Spawned])
           | None \<Rightarrow>
               (case pc_returncode p of
                  None \<Rightarrow> (Inl (RuntimeError ''subprocess completed without an exit code''), [Spawned])
                | Some code \<Rightarrow> (Inr code, [Spawned]))))"

record pdf_converter =
  lo_executable :: pystr
  lo_timeout_seconds :: pyfloat

definition mk_pdf_converter :: "pystr \<Rightarrow> pyfloat \<Rightarrow> exn + pdf_converter" where
  "mk_pdf_converter executable timeout_seconds =
     raise_if (blank executable \<or> fl_le timeout_seconds (Fin 0))
       (ValueError ''invalid LibreOffice settings'')
     (Inr \<lparr>lo_executable = executable, lo_timeout_seconds = timeout_seconds\<rparr>)"

fun export_filter :: "document_format \<Rightarrow> pystr option" where
  "export_filter DOCX = Some (lit ''pdf:writer_pdf_Export'')"
| "export_filter PPTX = Some (lit ''pdf:impress_pdf_Export'')"
| "export_filter PDF = None"

definition conversion_source :: "document_format \<Rightarrow> pystr" where
  "conversion_source file_format =
     lit ''conversion-source'' @ (if file_format = DOCX then lit ''.docx'' else lit ''.pptx'')"

definition conversion_output :: pystr where
  "conversion_output = lit ''conversion-source.pdf''"

definition profile_directory :: pystr where
  "profile_directory = lit ''libreoffice-profile''"

text \<open>
  \<open>ws_root\<close> is the path of the workspace, \<open>uri\<close> is \<open>resolve().as_uri()\<close>; the converter's
  process may change the workspace, so \<open>run\<close> is stateful.
\<close>

definition converter_args ::
  "pdf_converter \<Rightarrow> pystr \<Rightarrow> (pystr \<Rightarrow> pystr) \<Rightarrow> pystr \<Rightarrow> document_format \<Rightarrow> pystr list" where
  "converter_args cfg ws_root uri filter_name file_format =
     [lo_executable cfg, lit ''--headless'', lit ''--nologo'', lit ''--nodefault'',
      lit ''--nofirststartwizard'',
      lit ''-env:UserInstallation='' @ uri (ws_root @ 47 # profile_directory),
      lit ''--convert-to'', filter_name, lit ''--outdir'', ws_root,
      ws_root @ 47 # conversion_source file_format]"

definition convert ::
  "pdf_converter \<Rightarrow> pystr \<Rightarrow> (pystr \<Rightarrow> pystr) \<Rightarrow> (pystr list \<Rightarrow> (workspace, int) stateful)
   \<Rightarrow> pystr \<Rightarrow> document_format \<Rightarrow> (workspace, pystr) stateful" where
  "convert cfg ws_root uri run source_path file_format ws =
     (case export_filter file_format of
        None \<Rightarrow> (Inl (ValueError ''LibreOffice conversion requires DOCX or PPTX''), ws)
      | Some filter_name \<Rightarrow>
         (case read_file ws source_path of
            Inl e \<Rightarrow> (Inl e, ws)
          | Inr content \<Rightarrow>
              let ws1 = ws(conversion_source file_format \<mapsto> File content)
              in if ws1 profile_directory \<noteq> None then (Inl FileExistsError, ws1)
                 else bindS (run (converter_args cfg ws_root uri filter_name file_format))
                   (\<lambda>exit_code ws2.
                      (raise_if (exit_code \<noteq> 0 \<or> (case ws2 conversion_output of
                            Some (File pdf) \<Rightarrow> pdf = [] | _ \<Rightarrow> True))
                         (BidError InvalidDocumentError (Some Msg_conversion_failed))
                         (Inr conversion_output), ws2))
                   (ws1(profile_directory \<mapsto> Directory))))"

section \<open>Guarantees\<close>

text \<open>The server's side of the framing: lengths and chunks until a length of zero.\<close>

definition unpack_u32 :: "bytes \<Rightarrow> nat" where
  "unpack_u32 bs = foldl (\<lambda>n b. n * 256 + unat b) 0 bs"

function instream_decode :: "bytes \<Rightarrow> bytes option" where
  "instream_decode bs =
     (if length bs < 4 then None
      else let n = unpack_u32 (take 4 bs); rest = drop 4 bs
           in if n = 0 then (if rest = [] then Some [] else None)
              else if length rest < n then None
              else map_option (\<lambda>more. take n rest @ more) (instream_decode (drop n rest)))"
  by pat_completeness auto
termination by (relation "measure length") auto

declare instream_decode.simps [simp del]

lemma unpack_pack_u32:
  assumes "n < 2 ^ 32"
  shows "unpack_u32 (pack_u32 n) = n"
proof -
  have u: "unat (word_of_nat k :: 8 word) = k mod 256" for k
    by (simp add: unat_of_nat)
  define c b a where "c = n div 256" and "b = c div 256" and "a = b div 256"
  have d: "n div 2 ^ 8 = c" "n div 2 ^ 16 = b" "n div 2 ^ 24 = a"
    by (simp_all add: a_def b_def c_def div_mult2_eq [symmetric])
  have "a < 256" using assms by (simp add: d(3) [symmetric] less_mult_imp_div_less)
  then have "a mod 256 = a" by simp
  moreover have "a * 256 + b mod 256 = b" "b * 256 + c mod 256 = c" "c * 256 + n mod 256 = n"
    by (simp_all add: a_def b_def c_def)
  ultimately show ?thesis unfolding unpack_u32_def pack_u32_def d by (simp add: u)
qed

lemma length_pack_u32 [simp]: "length (pack_u32 n) = 4"
  by (simp add: pack_u32_def)

lemma decode_frame:
  assumes "chunk \<noteq> []" "length chunk < 2 ^ 32"
  shows "instream_decode (pack_u32 (length chunk) @ chunk @ rest)
    = map_option (\<lambda>more. chunk @ more) (instream_decode rest)"
  using assms by (subst instream_decode.simps) (simp add: unpack_pack_u32)

lemma decode_frames:
  assumes "\<forall>c\<in>set cs. c \<noteq> [] \<and> length c < 2 ^ 32"
  shows "instream_decode (concat (map (\<lambda>c. pack_u32 (length c) @ c) cs) @ CLAMAV_STREAM_END)
    = Some (concat cs)"
  using assms
proof (induction cs)
  case Nil
  show ?case
    by (subst instream_decode.simps) (simp add: CLAMAV_STREAM_END_def unpack_pack_u32)
next
  case (Cons c cs)
  then show ?case by (simp add: decode_frame)
qed

text \<open>C32: what the scanner streams to clamd decodes, by clamd's framing, to exactly the bytes of the
  file, for every chunk size the scanner accepts and every content.\<close>

theorem instream_roundtrip:
  assumes "mk_clamav_scanner host port timeout chunk_bytes = Inr scanner"
  shows "\<exists>frames. instream_request (cv_chunk_bytes scanner) content = CLAMAV_INSTREAM_COMMAND @ frames
    \<and> instream_decode frames = Some content"
proof -
  have n: "0 < cv_chunk_bytes scanner" "cv_chunk_bytes scanner \<le> 1024 * 1024"
    using assms by (auto simp: mk_clamav_scanner_def UPLOAD_READ_CHUNK_BYTES_def)
  have "c \<noteq> [] \<and> length c < 2 ^ 32" if "c \<in> set (read_chunks (cv_chunk_bytes scanner) content)" for c
    using read_chunks_lengths [OF that] n(2) by simp
  then show ?thesis
    using decode_frames [of "read_chunks (cv_chunk_bytes scanner) content"] n(1)
    by (auto simp: instream_request_def)
qed

definition demo_scanner :: clamav_scanner where
  "demo_scanner = \<lparr>cv_host = lit ''clamav'', cv_port = 3310, cv_timeout_seconds = Fin 30, cv_chunk_bytes = 3\<rparr>"

lemma instream_roundtrip_witness:
  "instream_request 3 (ascii ''ABCDE'')
     = ascii ''zINSTREAM'' @ [0, 0, 0, 0, 3, 65, 66, 67, 0, 0, 0, 2, 68, 69, 0, 0, 0, 0]
   \<and> (\<exists>frames. instream_request 3 (ascii ''ABCDE'') = CLAMAV_INSTREAM_COMMAND @ frames
        \<and> instream_decode frames = Some (ascii ''ABCDE''))"
proof -
  have "mk_clamav_scanner (lit ''clamav'') 3310 (Fin 30) 3 = Inr demo_scanner" by code_simp
  from instream_roundtrip [OF this, of "ascii ''ABCDE''"]
  have "\<exists>frames. instream_request 3 (ascii ''ABCDE'') = CLAMAV_INSTREAM_COMMAND @ frames
        \<and> instream_decode frames = Some (ascii ''ABCDE'')" by (simp add: demo_scanner_def)
  moreover have "instream_request 3 (ascii ''ABCDE'')
     = ascii ''zINSTREAM'' @ [0, 0, 0, 0, 3, 65, 66, 67, 0, 0, 0, 2, 68, 69, 0, 0, 0, 0]"
    by code_simp
  ultimately show ?thesis by blast
qed

lemma ensure_clean_Inr:
  "ensure_clean scanner clamd ws path = Inr () \<longleftrightarrow>
      (\<exists>content response. read_file ws path = Inr content
        \<and> clamd (instream_request (cv_chunk_bytes scanner) content) = Inr response
        \<and> (\<exists>prefix. rstrip_nul response = prefix @ ascii '': OK''))"
  by (auto simp: ensure_clean_def bindE_Inr interpret_response_def Let_def endswith_iff
      CLAMAV_OK_SUFFIX_def split: if_splits)

text \<open>C33: the malware scan fails closed: a file passes only if clamd, given the whole content, answered
  with OK; a reported threat, an error, an unknown answer and every documented failure of the
  connection end in one of two public errors.\<close>

theorem scan_fails_closed:
  shows "(ensure_clean scanner clamd ws path = Inr () \<longleftrightarrow>
      (\<exists>content response. read_file ws path = Inr content
        \<and> clamd (instream_request (cv_chunk_bytes scanner) content) = Inr response
        \<and> (\<exists>prefix. rstrip_nul response = prefix @ ascii '': OK'')))
    \<and> ((\<forall>request e. clamd request = Inl e \<longrightarrow>
           is_os_error e \<or> e = IncompleteReadError \<or> e = LimitOverrunError) \<longrightarrow>
        ensure_clean scanner clamd ws path = Inl err \<longrightarrow>
        err = BidError MalwareDetectedError None \<or> (\<exists>m. err = BidError ExternalServiceError m))"
proof (intro conjI impI)
  show "ensure_clean scanner clamd ws path = Inr () \<longleftrightarrow>
      (\<exists>content response. read_file ws path = Inr content
        \<and> clamd (instream_request (cv_chunk_bytes scanner) content) = Inr response
        \<and> (\<exists>prefix. rstrip_nul response = prefix @ ascii '': OK''))"
    by (rule ensure_clean_Inr)
next
  assume clamd: "\<forall>request e. clamd request = Inl e \<longrightarrow>
      is_os_error e \<or> e = IncompleteReadError \<or> e = LimitOverrunError"
    and err: "ensure_clean scanner clamd ws path = Inl err"
  have io: "read_file ws path = Inl e \<Longrightarrow> is_os_error e" for e
    by (auto simp: read_file_def split: option.splits node.splits)
  have "interpret_response r = Inl err \<Longrightarrow>
      err = BidError MalwareDetectedError None \<or> (\<exists>m. err = BidError ExternalServiceError m)" for r
    by (auto simp: interpret_response_def Let_def split: if_splits)
  then show "err = BidError MalwareDetectedError None \<or> (\<exists>m. err = BidError ExternalServiceError m)"
    using err clamd io
    by (auto simp: ensure_clean_def bindE_Inl bindE_Inr scanner_failure_def split: if_splits)
qed

definition demo_clamd :: "bytes \<Rightarrow> exn + bytes" where
  "demo_clamd request = Inr (ascii ''stream: OK'' @ [0])"

lemma scan_fails_closed_witness:
  "ensure_clean demo_scanner demo_clamd [lit ''f'' \<mapsto> File [1]] (lit ''f'') = Inr ()
   \<and> ensure_clean demo_scanner (\<lambda>_. Inl TimeoutError) [lit ''f'' \<mapsto> File [1]] (lit ''f'')
       = Inl (BidError ExternalServiceError (Some Msg_scanner_unavailable))
   \<and> (\<exists>content response. read_file [lit ''f'' \<mapsto> File [1]] (lit ''f'') = Inr content
        \<and> demo_clamd (instream_request (cv_chunk_bytes demo_scanner) content) = Inr response)"
proof -
  have "ensure_clean demo_scanner demo_clamd [lit ''f'' \<mapsto> File [1]] (lit ''f'') = Inr ()"
    "ensure_clean demo_scanner (\<lambda>_. Inl TimeoutError) [lit ''f'' \<mapsto> File [1]] (lit ''f'')
       = Inl (BidError ExternalServiceError (Some Msg_scanner_unavailable))"
    by code_simp+
  then show ?thesis
    using scan_fails_closed [of demo_scanner demo_clamd "[lit ''f'' \<mapsto> File [1]]" "lit ''f''"] by blast
qed

text \<open>The readiness probe misses one of the exceptions the scan translates.\<close>

lemma probe_overlong_answer_escapes:
  "probe_clamav (\<lambda>_. Inl LimitOverrunError) = Inl LimitOverrunError"
  by (simp add: probe_clamav_def)

lemma run_process_timeout:
  "spawn args = Inr p \<Longrightarrow> pc_communicate p = Some TimeoutError \<Longrightarrow>
     run_process spawn args =
       (Inl (BidError ExternalServiceError (Some Msg_conversion_timeout)), [Spawned, Killed, Reaped])"
  by (simp add: run_process_def)

lemma run_process_ok:
  "fst (run_process spawn args) = Inr code \<longleftrightarrow>
     (\<exists>p. spawn args = Inr p \<and> pc_communicate p = None \<and> pc_returncode p = Some code)"
  by (auto simp: run_process_def split: sum.splits option.splits exn.splits)

lemma convert_Inr:
  assumes "convert cfg ws_root uri run source_path file_format ws = (Inr out, ws')"
  shows "file_format \<noteq> PDF" "out = conversion_output"
    "\<exists>pdf. ws' conversion_output = Some (File pdf) \<and> pdf \<noteq> []"
  using assms
  by (cases file_format;
      auto simp: convert_def Let_def bindS_Inr split: sum.splits if_splits option.splits node.splits)+

end
