(* ===== verification/DocRepository.thy ===== *)
theory DocRepository
  imports DocVersions "HOL-Library.Sublist"
begin

text \<open>
  Document persistence: the boundary records of \<open>application/ports.py\<close> and
  \<open>application/dto.py\<close>, the two tables of \<open>infrastructure/models.py\<close> with their
  constraints, and \<open>SqlAlchemyDocumentRepository\<close> (\<open>infrastructure/repository.py\<close>).
  The port \<open>DocumentVersionRepository\<close> is the locale \<open>version_repository\<close>, whose laws say
  that its operations are those of the aggregate in \<open>DocVersions\<close>; it is interpreted on the
  transactions over the SQL tables.  The row lock of \<open>append\<close> makes concurrent uploads to one
  document sequential; the model runs them so.
\<close>

section \<open>Boundary records\<close>

record prepared_version =
  pd_id :: uuid
  pd_document_id :: uuid
  pd_name :: pystr
  pd_file_url :: pystr
  pd_normalized_pdf_url :: pystr
  pd_file_format :: document_format
  pd_file_hash :: pystr
  pd_normalized_pdf_hash :: pystr
  pd_uploaded_at :: datetime
  pd_expires_at :: "datetime option"
  pd_page_count :: int
  pd_parser_version :: pystr
  pd_parse_duration_ms :: int

definition version_of :: "prepared_version \<Rightarrow> int \<Rightarrow> document_version" where
  "version_of p n =
     \<lparr>dv_id = pd_id p, dv_document_id = pd_document_id p, dv_name = pd_name p,
      dv_file_url = pd_file_url p, dv_normalized_pdf_url = pd_normalized_pdf_url p,
      dv_file_format = pd_file_format p, dv_file_hash = pd_file_hash p,
      dv_normalized_pdf_hash = pd_normalized_pdf_hash p, dv_version = n,
      dv_uploaded_at = pd_uploaded_at p, dv_expires_at = pd_expires_at p,
      dv_page_count = pd_page_count p, dv_parser_version = pd_parser_version p,
      dv_parse_duration_ms = pd_parse_duration_ms p\<rparr>"

definition to_version :: "prepared_version \<Rightarrow> int \<Rightarrow> exn + document_version" where
  "to_version p version = mk_document_version (version_of p version)"

record parse_source =
  ps_document_version_id :: uuid
  ps_normalized_pdf_url :: pystr
  ps_normalized_pdf_hash :: pystr
  ps_page_count :: int
  ps_parser_version :: pystr

section \<open>Tables\<close>

record documents_db =
  dd_documents :: "(uuid \<times> datetime) list"
  dd_versions :: "document_version list"

definition DOCUMENT_NAME_LENGTH :: nat where "DOCUMENT_NAME_LENGTH = 255"
definition HASH_COLUMN_LENGTH :: nat where "HASH_COLUMN_LENGTH = 64"
definition PARSER_VERSION_LENGTH :: nat where "PARSER_VERSION_LENGTH = 100"

definition DUPLICATE_CONTENT_CONSTRAINT :: string where
  "DUPLICATE_CONTENT_CONSTRAINT = ''uq_document_version_document_file_hash''"

definition VERSION_SEQUENCE_CONSTRAINT :: string where
  "VERSION_SEQUENCE_CONSTRAINT = ''uq_document_version_document_version_sequence''"

definition insert_document :: "uuid \<times> datetime \<Rightarrow> documents_db \<Rightarrow> exn + documents_db" where
  "insert_document r db =
     raise_if (fst r \<in> fst ` set (dd_documents db)) (IntegrityError (UniqueViolation ''pk_document''))
     (Inr (db\<lparr>dd_documents := dd_documents db @ [r]\<rparr>))"

text \<open>The widths of the columns: \<open>Integer\<close> is a 32-bit, \<open>BigInteger\<close> a 64-bit signed number.\<close>

definition row_fits :: "document_version \<Rightarrow> bool" where
  "row_fits v \<longleftrightarrow> length (dv_name v) \<le> DOCUMENT_NAME_LENGTH
     \<and> length (dv_file_hash v) \<le> HASH_COLUMN_LENGTH
     \<and> length (dv_normalized_pdf_hash v) \<le> HASH_COLUMN_LENGTH
     \<and> length (dv_parser_version v) \<le> PARSER_VERSION_LENGTH
     \<and> - (2 ^ 31) \<le> dv_version v \<and> dv_version v < 2 ^ 31
     \<and> - (2 ^ 31) \<le> dv_page_count v \<and> dv_page_count v < 2 ^ 31
     \<and> - (2 ^ 63) \<le> dv_parse_duration_ms v \<and> dv_parse_duration_ms v < 2 ^ 63"

definition insert_version :: "document_version \<Rightarrow> documents_db \<Rightarrow> exn + documents_db" where
  "insert_version v db =
     raise_if (\<not> row_fits v) DataError
     (raise_if (dv_version v < 1) (IntegrityError (CheckViolation ''version_positive''))
     (raise_if (\<not> (1 \<le> dv_page_count v \<and> dv_page_count v \<le> 500))
       (IntegrityError (CheckViolation ''page_count_supported''))
     (raise_if (dv_parse_duration_ms v < 0)
       (IntegrityError (CheckViolation ''parse_duration_non_negative''))
     (raise_if (dv_id v \<in> dv_id ` set (dd_versions db))
       (IntegrityError (UniqueViolation ''pk_document_version''))
     (raise_if ((dv_document_id v, dv_file_hash v)
                  \<in> (\<lambda>r. (dv_document_id r, dv_file_hash r)) ` set (dd_versions db))
       (IntegrityError (UniqueViolation DUPLICATE_CONTENT_CONSTRAINT))
     (raise_if ((dv_document_id v, dv_version v)
                  \<in> (\<lambda>r. (dv_document_id r, dv_version r)) ` set (dd_versions db))
       (IntegrityError (UniqueViolation VERSION_SEQUENCE_CONSTRAINT))
     (raise_if (dv_document_id v \<notin> fst ` set (dd_documents db))
       (IntegrityError (ForeignKeyViolation ''fk_document_version_document_id_document''))
     (Inr (db\<lparr>dd_versions := dd_versions db @ [v]\<rparr>)))))))))"

section \<open>The repository\<close>

definition raise_integrity_error :: "exn \<Rightarrow> exn" where
  "raise_integrity_error e =
     (case e of
        IntegrityError (UniqueViolation c) \<Rightarrow>
          if c = DUPLICATE_CONTENT_CONSTRAINT then BidError DuplicateDocumentContentError None
          else if c = VERSION_SEQUENCE_CONSTRAINT
            then BidError BusinessConflictError (Some Msg_version_conflict)
          else BidError BusinessConflictError None
      | _ \<Rightarrow> e)"

definition create_row :: "prepared_version \<Rightarrow> documents_db \<Rightarrow> exn + document_version \<times> documents_db" where
  "create_row p db =
     bindE (to_version p 1) (\<lambda>version.
     bindE (map_sum raise_integrity_error id
              (bindE (insert_document (dv_document_id version, dv_uploaded_at version) db)
                 (insert_version version)))
       (\<lambda>db'. Inr (version, db')))"

definition versions_of :: "documents_db \<Rightarrow> uuid \<Rightarrow> document_version list" where
  "versions_of db i = filter (\<lambda>v. dv_document_id v = i) (dd_versions db)"

definition append_row ::
  "uuid \<Rightarrow> prepared_version \<Rightarrow> documents_db \<Rightarrow> exn + document_version \<times> documents_db" where
  "append_row document_id p db =
     raise_if (pd_document_id p \<noteq> document_id)
       (ValueError ''prepared version does not match requested document'')
     (bindE (scalar_one_or_none (filter (\<lambda>r. fst r = document_id) (dd_documents db)))
       (\<lambda>document. case document of None \<Rightarrow> raise_class ResourceNotFoundError | Some _ \<Rightarrow>
     bindE (scalar_one_or_none
              (take 1 (map dv_id (filter (\<lambda>v. dv_file_hash v = pd_file_hash p)
                 (versions_of db document_id)))))
       (\<lambda>duplicate. case duplicate of Some _ \<Rightarrow> raise_class DuplicateDocumentContentError | None \<Rightarrow>
     (if versions_of db document_id = []
      then Inl (RuntimeError ''logical document has no first version'')
      else bindE (to_version p (Max (dv_version ` set (versions_of db document_id)) + 1)) (\<lambda>version.
           bindE (map_sum raise_integrity_error id (insert_version version db))
             (\<lambda>db'. Inr (version, db')))))))"

definition get_parse_source :: "uuid \<Rightarrow> documents_db \<Rightarrow> exn + parse_source" where
  "get_parse_source document_version_id db =
     bindE (scalar_one_or_none (filter (\<lambda>v. dv_id v = document_version_id) (dd_versions db)))
       (\<lambda>model. case model of None \<Rightarrow> raise_class ResourceNotFoundError
          | Some m \<Rightarrow> Inr \<lparr>ps_document_version_id = dv_id m,
              ps_normalized_pdf_url = dv_normalized_pdf_url m,
              ps_normalized_pdf_hash = dv_normalized_pdf_hash m,
              ps_page_count = dv_page_count m, ps_parser_version = dv_parser_version m\<rparr>)"

text \<open>
  \<open>TransactionalDocumentRepository\<close>: the body in its own transaction, which commits on
  return and rolls back on an exception.
\<close>

definition transactional ::
  "('s \<Rightarrow> exn + 'a \<times> 's) \<Rightarrow> 's \<Rightarrow> (exn + 'a) \<times> 's" where
  "transactional body db =
     (case body db of Inl e \<Rightarrow> (Inl e, db) | Inr (x, db') \<Rightarrow> (Inr x, db'))"

definition repo_create :: "prepared_version \<Rightarrow> (documents_db, document_version) stateful" where
  "repo_create p = transactional (create_row p)"

definition repo_append ::
  "uuid \<Rightarrow> prepared_version \<Rightarrow> (documents_db, document_version) stateful" where
  "repo_append document_id p = transactional (append_row document_id p)"

definition repo_parse_source :: "uuid \<Rightarrow> (documents_db, parse_source) stateful" where
  "repo_parse_source i = transactional (\<lambda>db. map_sum id (\<lambda>s. (s, db)) (get_parse_source i db))"

lemma transactional_Inl: "transactional body db = (Inl e, db') \<longleftrightarrow> body db = Inl e \<and> db' = db"
  by (auto simp: transactional_def split: sum.splits)

lemma transactional_Inr: "transactional body db = (Inr x, db') \<longleftrightarrow> body db = Inr (x, db')"
  by (auto simp: transactional_def split: sum.splits)

section \<open>The stored documents\<close>

definition stored_document :: "documents_db \<Rightarrow> uuid \<Rightarrow> document option" where
  "stored_document db i =
     (if i \<in> fst ` set (dd_documents db)
      then Some \<lparr>do_id = i, do_versions = versions_of db i\<rparr> else None)"

definition doc_store_ok :: "documents_db \<Rightarrow> bool" where
  "doc_store_ok db \<longleftrightarrow> distinct (map fst (dd_documents db))
     \<and> distinct (map dv_id (dd_versions db))
     \<and> (\<forall>v\<in>set (dd_versions db). version_ok v \<and> dv_document_id v \<in> fst ` set (dd_documents db))
     \<and> (\<forall>i\<in>fst ` set (dd_documents db). versions_of db i \<noteq> [] \<and> history i (versions_of db i))"

definition empty_documents_db :: documents_db where
  "empty_documents_db = \<lparr>dd_documents = [], dd_versions = []\<rparr>"

lemma empty_documents_db_ok: "doc_store_ok empty_documents_db"
  by (simp add: doc_store_ok_def empty_documents_db_def)

lemma doc_store_okD:
  assumes "doc_store_ok db"
  shows "distinct (map fst (dd_documents db))" "distinct (map dv_id (dd_versions db))"
    "\<And>v. v \<in> set (dd_versions db) \<Longrightarrow> version_ok v"
    "\<And>v. v \<in> set (dd_versions db) \<Longrightarrow> dv_document_id v \<in> fst ` set (dd_documents db)"
    "\<And>i. i \<in> fst ` set (dd_documents db) \<Longrightarrow> versions_of db i \<noteq> []"
    "\<And>i. i \<in> fst ` set (dd_documents db) \<Longrightarrow> history i (versions_of db i)"
  using assms unfolding doc_store_ok_def by blast+

lemma to_version_Inr [py_bind]:
  "to_version p n = Inr v \<longleftrightarrow> v = version_of p n \<and> version_ok v"
  by (auto simp: to_version_def py_bind)

lemma version_of_simps [simp]:
  "dv_id (version_of p n) = pd_id p" "dv_document_id (version_of p n) = pd_document_id p"
  "dv_file_hash (version_of p n) = pd_file_hash p" "dv_version (version_of p n) = n"
  "dv_uploaded_at (version_of p n) = pd_uploaded_at p"
  by (simp_all add: version_of_def)

lemma insert_document_Inr [py_bind]:
  "insert_document r db = Inr db' \<longleftrightarrow> fst r \<notin> fst ` set (dd_documents db)
     \<and> db' = db\<lparr>dd_documents := dd_documents db @ [r]\<rparr>"
  by (auto simp: insert_document_def)

lemma insert_version_Inr [py_bind]:
  assumes "version_ok v"
  shows "insert_version v db = Inr db' \<longleftrightarrow> db' = db\<lparr>dd_versions := dd_versions db @ [v]\<rparr>
     \<and> row_fits v \<and> dv_id v \<notin> dv_id ` set (dd_versions db)
     \<and> dv_file_hash v \<notin> dv_file_hash ` set (versions_of db (dv_document_id v))
     \<and> dv_version v \<notin> dv_version ` set (versions_of db (dv_document_id v))
     \<and> dv_document_id v \<in> fst ` set (dd_documents db)"
proof -
  have pair: "(dv_document_id v, g v) \<in> (\<lambda>r. (dv_document_id r, g r)) ` set (dd_versions db)
      \<longleftrightarrow> g v \<in> g ` set (versions_of db (dv_document_id v))" for g :: "document_version \<Rightarrow> 'b"
    unfolding versions_of_def by (auto simp: image_iff) metis+
  show ?thesis
    using version_ok_facts [OF assms] pair [of dv_file_hash] pair [of dv_version]
    by (simp add: insert_version_def) blast
qed

lemma versions_of_snoc [simp]:
  "versions_of (db\<lparr>dd_versions := vs @ [v]\<rparr>) i =
     versions_of (db\<lparr>dd_versions := vs\<rparr>) i @ (if dv_document_id v = i then [v] else [])"
  by (simp add: versions_of_def)

lemma versions_of_cong [simp]:
  "versions_of (db\<lparr>dd_documents := ds\<rparr>) = versions_of db"
  "versions_of (db\<lparr>dd_versions := dd_versions db\<rparr>) = versions_of db"
  by (simp_all add: versions_of_def fun_eq_iff)

lemma versions_of_unknown:
  assumes "doc_store_ok db" "i \<notin> fst ` set (dd_documents db)"
  shows "versions_of db i = []"
  using assms unfolding doc_store_ok_def versions_of_def filter_empty_conv by blast

lemma document_lookup:
  assumes "distinct (map fst docs)"
  shows "scalar_one_or_none (filter (\<lambda>r. fst r = i) docs) = Inr (find (\<lambda>r. fst r = i) docs)"
  using assms by (rule scalar_filter_unique)

lemma find_fst_Some: "find (\<lambda>r. fst r = i) docs = Some r \<Longrightarrow> i \<in> fst ` set docs"
  by (auto dest!: find_in_set)

lemma find_fst_None: "find (\<lambda>r. fst r = i) docs = None \<longleftrightarrow> i \<notin> fst ` set docs"
  by (auto simp: find_None_iff image_iff)

lemma scalar_Nil: "scalar_one_or_none [] = Inr None"
  by (simp add: scalar_one_or_none_def)

lemma scalar_single: "scalar_one_or_none [x] = Inr (Some x)"
  by (simp add: scalar_one_or_none_def)

text \<open>What an append does over a consistent store, branch by branch.\<close>

lemma append_row_eq:
  assumes ok: "doc_store_ok db"
  shows "append_row i p db =
    (if pd_document_id p \<noteq> i
       then Inl (ValueError ''prepared version does not match requested document'')
     else if i \<notin> fst ` set (dd_documents db) then raise_class ResourceNotFoundError
     else if pd_file_hash p \<in> dv_file_hash ` set (versions_of db i)
       then raise_class DuplicateDocumentContentError
     else bindE (to_version p (int (length (versions_of db i)) + 1)) (\<lambda>version.
          bindE (map_sum raise_integrity_error id (insert_version version db))
            (\<lambda>db'. Inr (version, db'))))"
proof (cases "pd_document_id p = i \<and> i \<in> fst ` set (dd_documents db)")
  case False
  have d: "distinct (map fst (dd_documents db))" using ok by (simp add: doc_store_ok_def)
  have "i \<notin> fst ` set (dd_documents db) \<Longrightarrow> find (\<lambda>r. fst r = i) (dd_documents db) = None"
    by (simp add: find_fst_None)
  with False show ?thesis
    by (cases "pd_document_id p = i") (simp_all add: append_row_def document_lookup [OF d])
next
  case True
  then have h: "versions_of db i \<noteq> []" "history i (versions_of db i)"
    using doc_store_okD(5,6) [OF ok] by blast+
  have d: "distinct (map fst (dd_documents db))" by (rule doc_store_okD(1) [OF ok])
  obtain r where r: "find (\<lambda>r. fst r = i) (dd_documents db) = Some r"
    using True find_fst_None [of i "dd_documents db"] by (meson not_Some_eq)
  have m: "Max (dv_version ` set (versions_of db i)) = int (length (versions_of db i))"
    using history_Max [OF h(2,1)] by simp
  show ?thesis
  proof (cases "filter (\<lambda>v. dv_file_hash v = pd_file_hash p) (versions_of db i)")
    case Nil
    then have "pd_file_hash p \<notin> dv_file_hash ` set (versions_of db i)"
      by (auto simp: filter_empty_conv)
    with True Nil h m r show ?thesis
      by (simp add: append_row_def document_lookup [OF d] scalar_Nil add.commute)
  next
    case (Cons x xs)
    have "x \<in> set (filter (\<lambda>v. dv_file_hash v = pd_file_hash p) (versions_of db i))"
      by (simp only: Cons list.set_intros)
    then have "pd_file_hash p \<in> dv_file_hash ` set (versions_of db i)" by simp (metis image_eqI)
    with True Cons r show ?thesis
      by (simp add: append_row_def document_lookup [OF d] scalar_single)
  qed
qed

lemma append_row_Inr:
  assumes ok: "doc_store_ok db" and run: "append_row i p db = Inr (v, db')"
  shows "pd_document_id p = i" "i \<in> fst ` set (dd_documents db)"
    "v = version_of p (int (length (versions_of db i)) + 1)" "version_ok v"
    "dv_file_hash v \<notin> dv_file_hash ` set (versions_of db i)"
    "dv_id v \<notin> dv_id ` set (dd_versions db)"
    "db' = db\<lparr>dd_versions := dd_versions db @ [v]\<rparr>"
proof -
  have "pd_document_id p = i \<and> i \<in> fst ` set (dd_documents db)
    \<and> v = version_of p (int (length (versions_of db i)) + 1) \<and> version_ok v
    \<and> pd_file_hash p \<notin> dv_file_hash ` set (versions_of db i)
    \<and> insert_version v db = Inr db'"
    using run unfolding append_row_eq [OF ok] by (auto simp: py_bind split: if_splits)
  then show "pd_document_id p = i" "i \<in> fst ` set (dd_documents db)"
    "v = version_of p (int (length (versions_of db i)) + 1)" "version_ok v"
    "dv_file_hash v \<notin> dv_file_hash ` set (versions_of db i)"
    "dv_id v \<notin> dv_id ` set (dd_versions db)"
    "db' = db\<lparr>dd_versions := dd_versions db @ [v]\<rparr>"
    by (auto simp: insert_version_Inr)
qed

lemma create_row_Inr:
  assumes "create_row p db = Inr (v, db')"
  shows "pd_document_id p \<notin> fst ` set (dd_documents db)" "v = version_of p 1" "version_ok v"
    "dv_id v \<notin> dv_id ` set (dd_versions db)"
    "db' = \<lparr>dd_documents = dd_documents db @ [(pd_document_id p, pd_uploaded_at p)],
            dd_versions = dd_versions db @ [v]\<rparr>"
  using assms by (auto simp: create_row_def py_bind insert_version_Inr)

lemma append_row_ok:
  assumes ok: "doc_store_ok db" and run: "append_row i p db = Inr (v, db')"
  shows "doc_store_ok db'"
proof -
  note r = append_row_Inr [OF ok run] and o = doc_store_okD [OF ok]
  have "versions_of db' j \<noteq> [] \<and> history j (versions_of db' j)"
    if "j \<in> fst ` set (dd_documents db)" for j
    using that r(1,3,5,7) o(5,6) [of j] by (auto simp: history_snoc)
  then show ?thesis
    using r o(1-4) by (auto simp: doc_store_ok_def)
qed

lemma create_row_ok:
  assumes ok: "doc_store_ok db" and run: "create_row p db = Inr (v, db')"
  shows "doc_store_ok db'"
proof -
  note r = create_row_Inr [OF run] and o = doc_store_okD [OF ok]
  have vs: "versions_of db' j = versions_of db j @ (if pd_document_id p = j then [v] else [])" for j
    by (simp add: r(2,5) versions_of_def)
  have new: "versions_of db (pd_document_id p) = []"
    using versions_of_unknown [OF ok r(1)] .
  have "versions_of db' j \<noteq> [] \<and> history j (versions_of db' j)"
    if "j \<in> insert (pd_document_id p) (fst ` set (dd_documents db))" for j
  proof (cases "pd_document_id p = j")
    case True
    then show ?thesis using new r(2) by (simp add: vs history_from_Cons)
  next
    case False
    then show ?thesis using that o(5,6) [of j] by (simp add: vs)
  qed
  then show ?thesis
    using r o(1-4) by (auto simp: doc_store_ok_def)
qed

section \<open>The repository refines the aggregate\<close>

text \<open>
  The port: over consistent stores (\<open>ok\<close>) an operation either fails and changes nothing,
  or does to the stored documents what the aggregate operation does.
\<close>

datatype repo_command = Create prepared_version | Append uuid prepared_version

fun run_repository ::
  "(prepared_version \<Rightarrow> ('s, document_version) stateful)
   \<Rightarrow> (uuid \<Rightarrow> prepared_version \<Rightarrow> ('s, document_version) stateful)
   \<Rightarrow> repo_command list \<Rightarrow> 's \<Rightarrow> 's" where
  "run_repository create_op append_op [] s = s"
| "run_repository create_op append_op (Create p # cs) s =
     run_repository create_op append_op cs (snd (create_op p s))"
| "run_repository create_op append_op (Append i p # cs) s =
     run_repository create_op append_op cs (snd (append_op i p s))"

locale version_repository =
  fixes ok :: "'s \<Rightarrow> bool"
    and stored :: "'s \<Rightarrow> uuid \<Rightarrow> document option"
    and create_op :: "prepared_version \<Rightarrow> ('s, document_version) stateful"
    and append_op :: "uuid \<Rightarrow> prepared_version \<Rightarrow> ('s, document_version) stateful"
  assumes stored_valid: "ok s \<Longrightarrow> stored s i = Some d \<Longrightarrow> do_id d = i \<and> mk_document d = Inr d"
    and create_law: "ok s \<Longrightarrow> create_op p s = (Inr v, s') \<Longrightarrow> ok s' \<and> to_version p 1 = Inr v
      \<and> stored s (pd_document_id p) = None
      \<and> (\<exists>d. create_document (pd_document_id p) v = Inr d
           \<and> stored s' = (stored s)(pd_document_id p := Some d))"
    and append_law: "ok s \<Longrightarrow> append_op i p s = (Inr v, s') \<Longrightarrow> ok s' \<and> pd_document_id p = i
      \<and> (\<exists>d d'. stored s i = Some d \<and> to_version p (dv_version (latest_version d) + 1) = Inr v
           \<and> append_version d v = Inr d' \<and> stored s' = (stored s)(i := Some d'))"
    and error_law: "create_op p s = (Inl e, s') \<or> append_op i p s = (Inl e, s') \<Longrightarrow> s' = s"
begin

abbreviation grows :: "'s \<Rightarrow> 's \<Rightarrow> bool" where
  "grows s s' \<equiv> \<forall>i d. stored s i = Some d \<longrightarrow>
     (\<exists>d'. stored s' i = Some d' \<and> prefix (do_versions d) (do_versions d'))"

lemma grows_trans:
  assumes "grows a b" "grows b c"
  shows "grows a c"
proof (intro allI impI)
  fix i d assume "stored a i = Some d"
  then obtain d1 where "stored b i = Some d1" and p: "prefix (do_versions d) (do_versions d1)"
    using assms(1) by blast
  then obtain d2 where "stored c i = Some d2" "prefix (do_versions d1) (do_versions d2)"
    using assms(2) by blast
  then show "\<exists>d2. stored c i = Some d2 \<and> prefix (do_versions d) (do_versions d2)"
    using prefix_order.trans [OF p] by blast
qed

lemma create_grows:
  assumes "ok s"
  shows "ok (snd (create_op p s)) \<and> grows s (snd (create_op p s))"
proof (cases "create_op p s")
  case (Pair r s')
  then show ?thesis
    using assms create_law [of s p _ s'] error_law [of p s _ s']
    by (cases r) fastforce+
qed

lemma append_grows:
  assumes "ok s"
  shows "ok (snd (append_op i p s)) \<and> grows s (snd (append_op i p s))"
proof (cases "append_op i p s")
  case (Pair r s')
  show ?thesis
  proof (cases r)
    case (Inl e)
    then show ?thesis using assms error_law [of p s e s' i] Pair by auto
  next
    case (Inr v)
    then obtain d d' where "ok s'" "stored s i = Some d" "append_version d v = Inr d'"
        "stored s' = (stored s)(i := Some d')"
      using append_law [OF assms, of i p v s'] Pair by blast
    moreover have "do_versions d' = do_versions d @ [v]"
      using calculation(3) by (auto simp: append_version_def py_bind)
    ultimately show ?thesis using Pair by auto
  qed
qed

lemma run_grows:
  "ok s \<Longrightarrow> ok (run_repository create_op append_op cs s) \<and> grows s (run_repository create_op append_op cs s)"
proof (induction cs arbitrary: s)
  case Nil
  then show ?case by auto
next
  case (Cons c cs)
  let ?s' = "case c of Create p \<Rightarrow> snd (create_op p s) | Append i p \<Rightarrow> snd (append_op i p s)"
  let ?r = "run_repository create_op append_op cs ?s'"
  have s': "ok ?s' \<and> grows s ?s'"
    using create_grows [OF Cons.prems] append_grows [OF Cons.prems] by (cases c) simp_all
  have r: "ok ?r \<and> grows ?s' ?r" using s' by (intro Cons.IH) (rule conjunct1)
  have res: "ok ?r \<and> grows s ?r"
    by (rule conjI [OF conjunct1 [OF r] grows_trans [OF conjunct2 [OF s'] conjunct2 [OF r]]])
  have run: "run_repository create_op append_op (c # cs) s = ?r" by (cases c) simp_all
  show ?case unfolding run by (rule res)
qed

end

text \<open>The laws, for the transactions over the SQL tables.\<close>

lemma stored_document_Some:
  "stored_document db i = Some d \<longleftrightarrow>
     i \<in> fst ` set (dd_documents db) \<and> d = \<lparr>do_id = i, do_versions = versions_of db i\<rparr>"
  by (auto simp: stored_document_def)

lemma stored_document_valid:
  assumes "doc_store_ok db" "stored_document db i = Some d"
  shows "do_id d = i \<and> mk_document d = Inr d"
  using assms doc_store_okD(5,6) [OF assms(1), of i]
  by (auto simp: stored_document_Some mk_document_Inr)

lemma repo_create_law:
  assumes ok: "doc_store_ok db" and run: "repo_create p db = (Inr v, db')"
  shows "doc_store_ok db' \<and> to_version p 1 = Inr v
    \<and> stored_document db (pd_document_id p) = None
    \<and> (\<exists>d. create_document (pd_document_id p) v = Inr d
         \<and> stored_document db' = (stored_document db)(pd_document_id p := Some d))"
proof -
  have row: "create_row p db = Inr (v, db')" using run by (simp add: repo_create_def transactional_Inr)
  note r = create_row_Inr [OF row]
  have new: "versions_of db (pd_document_id p) = []" by (rule versions_of_unknown [OF ok r(1)])
  let ?d = "\<lparr>do_id = pd_document_id p, do_versions = [v]\<rparr>"
  have "stored_document db' j = ((stored_document db)(pd_document_id p := Some ?d)) j" for j
    using r(1,2,5) new by (auto simp: stored_document_def versions_of_def)
  then have "stored_document db' = (stored_document db)(pd_document_id p := Some ?d)" ..
  moreover have "create_document (pd_document_id p) v = Inr ?d"
    using r(2) by (simp add: create_document_def mk_document_Inr history_from_Cons)
  ultimately show ?thesis
    using r(1-3) create_row_ok [OF ok row] by (simp add: to_version_Inr stored_document_def)
qed

lemma repo_append_law:
  assumes ok: "doc_store_ok db" and run: "repo_append i p db = (Inr v, db')"
  shows "doc_store_ok db' \<and> pd_document_id p = i
    \<and> (\<exists>d d'. stored_document db i = Some d
         \<and> to_version p (dv_version (latest_version d) + 1) = Inr v
         \<and> append_version d v = Inr d' \<and> stored_document db' = (stored_document db)(i := Some d'))"
proof -
  have row: "append_row i p db = Inr (v, db')" using run by (simp add: repo_append_def transactional_Inr)
  note r = append_row_Inr [OF ok row]
  have h: "versions_of db i \<noteq> []" "history i (versions_of db i)"
    using doc_store_okD(5,6) [OF ok r(2)] by blast+
  let ?d = "\<lparr>do_id = i, do_versions = versions_of db i\<rparr>"
  let ?d' = "\<lparr>do_id = i, do_versions = versions_of db i @ [v]\<rparr>"
  have "stored_document db' j = ((stored_document db)(i := Some ?d')) j" for j
    using r(1-3,7) by (auto simp: stored_document_def)
  then have "stored_document db' = (stored_document db)(i := Some ?d')" ..
  moreover have "append_version ?d v = Inr ?d'"
    using h r(1,3,5) by (simp add: append_version_def mk_document_Inr history_snoc)
  moreover have "to_version p (dv_version (latest_version ?d) + 1) = Inr v"
    using history_last [OF h(2,1)] r(3,4) by (simp add: to_version_Inr latest_version_def)
  moreover have "stored_document db i = Some ?d" using r(2) by (simp add: stored_document_def)
  ultimately show ?thesis using r(1) append_row_ok [OF ok row] by blast
qed

interpretation sql_documents: version_repository doc_store_ok stored_document repo_create repo_append
proof unfold_locales
  fix db i d assume "doc_store_ok db" "stored_document db i = Some d"
  then show "do_id d = i \<and> mk_document d = Inr d" by (rule stored_document_valid)
next
  fix p db e db' i
  assume "repo_create p db = (Inl e, db') \<or> repo_append i p db = (Inl e, db')"
  then show "db' = db" by (auto simp: repo_create_def repo_append_def transactional_Inl)
qed (fact repo_create_law, fact repo_append_law)

section \<open>Guarantees\<close>

lemma version_ok_renumber: "1 \<le> n \<Longrightarrow> version_ok (version_of p n) \<longleftrightarrow> version_ok (version_of p 1)"
  by (simp add: version_ok_def mk_document_version_def version_of_def)

lemma row_fits_renumber:
  "1 \<le> n \<Longrightarrow> n < 2 ^ 31 \<Longrightarrow> row_fits (version_of p n) \<longleftrightarrow> row_fits (version_of p 1)"
  by (simp add: row_fits_def version_of_def)

text \<open>C35: over a consistent store, appending a well-formed upload with a fresh identifier does what the
  aggregate does: an unknown document and a repeated content are refused with their own errors and
  change nothing; otherwise exactly the next version is stored and returned, and the stored document
  is the aggregate after \<open>append\<close>.\<close>

theorem repository_append_refines:
  assumes ok: "doc_store_ok db" and wf: "version_ok (version_of p 1)" "row_fits (version_of p 1)"
    and fresh: "pd_id p \<notin> dv_id ` set (dd_versions db)" and i: "pd_document_id p = i"
    and few: "int (length (versions_of db i)) + 1 < 2 ^ 31"
  shows "case stored_document db i of
      None \<Rightarrow> repo_append i p db = (raise_class ResourceNotFoundError, db)
    | Some d \<Rightarrow>
        if pd_file_hash p \<in> dv_file_hash ` set (do_versions d)
        then repo_append i p db = (raise_class DuplicateDocumentContentError, db)
          \<and> (\<forall>n d'. append_version d (version_of p n) \<noteq> Inr d')
        else \<exists>d' db'. append_version d (version_of p (dv_version (latest_version d) + 1)) = Inr d'
          \<and> repo_append i p db = (Inr (latest_version d'), db')
          \<and> stored_document db' = (stored_document db)(i := Some d')"
proof (cases "stored_document db i")
  case None
  then show ?thesis
    using i append_row_eq [OF ok, of i p]
    by (simp add: stored_document_def repo_append_def transactional_def split: if_splits)
next
  case (Some d)
  then have d: "i \<in> fst ` set (dd_documents db)" "do_id d = i" "do_versions d = versions_of db i"
    by (auto simp: stored_document_Some)
  have h: "versions_of db i \<noteq> []" "history i (versions_of db i)"
    using doc_store_okD(5,6) [OF ok d(1)] by blast+
  show ?thesis
  proof (cases "pd_file_hash p \<in> dv_file_hash ` set (versions_of db i)")
    case True
    have "append_row i p db = raise_class DuplicateDocumentContentError"
      unfolding append_row_eq [OF ok] using i d(1) True by simp
    then have "repo_append i p db = (raise_class DuplicateDocumentContentError, db)"
      by (simp add: repo_append_def transactional_def)
    moreover have "append_version d (version_of p n) \<noteq> Inr d'" for n d'
      using True by (simp add: append_version_def mk_document_Inr history_snoc d(3))
    ultimately show ?thesis unfolding Some option.case d(3) using True by simp
  next
    case False
    let ?n = "int (length (versions_of db i)) + 1" and ?v = "version_of p (int (length (versions_of db i)) + 1)"
    have v: "version_ok ?v" "row_fits ?v"
      using wf few version_ok_renumber [of ?n p] row_fits_renumber [of ?n p] by simp_all
    have new: "?n \<notin> dv_version ` set (versions_of db i)"
      using history_version_nth [OF h(2)] by (auto simp: in_set_conv_nth)
    have "insert_version ?v db = Inr (db\<lparr>dd_versions := dd_versions db @ [?v]\<rparr>)"
      using v fresh False new d(1) i by (simp add: insert_version_Inr [OF v(1)])
    then have run: "repo_append i p db = (Inr ?v, db\<lparr>dd_versions := dd_versions db @ [?v]\<rparr>)"
      unfolding repo_append_def transactional_def append_row_eq [OF ok]
      using i d(1) False v(1) [unfolded version_ok_def] by (simp add: to_version_def)
    have ver: "dv_version (latest_version d) + 1 = ?n"
      using history_last [OF h(2,1)] d(3) by (simp add: latest_version_def)
    obtain d' where "append_version d ?v = Inr d'"
      "stored_document (db\<lparr>dd_versions := dd_versions db @ [?v]\<rparr>) = (stored_document db)(i := Some d')"
      using repo_append_law [OF ok run] Some by auto
    moreover from this(1) have "latest_version d' = ?v"
      by (auto simp: append_version_def mk_document_Inr latest_version_def)
    ultimately show ?thesis unfolding Some option.case ver d(3) if_not_P [OF False] using run by metis
  qed
qed

definition demo_prepared :: "nat \<Rightarrow> nat \<Rightarrow> prepared_version" where
  "demo_prepared n h =
     \<lparr>pd_id = n, pd_document_id = 9, pd_name = lit ''plan.pdf'', pd_file_url = lit ''minio://b/k'',
      pd_normalized_pdf_url = lit ''minio://b/k'', pd_file_format = PDF,
      pd_file_hash = replicate 64 h, pd_normalized_pdf_hash = replicate 64 h,
      pd_uploaded_at = Aware 0 0, pd_expires_at = None, pd_page_count = 3,
      pd_parser_version = lit ''document-metadata-v1'', pd_parse_duration_ms = 5\<rparr>"

definition demo_documents :: documents_db where
  "demo_documents = run_repository repo_create repo_append
     [Create (demo_prepared 1 48), Append 9 (demo_prepared 2 49)] empty_documents_db"

text \<open>Whatever uploads are attempted, in whatever order and with whatever failures, the store
  stays consistent, and the version history of a document is only ever extended: every version
  stored once keeps its place and its facts.\<close>

theorem document_history_append_only:
  assumes "doc_store_ok db"
  shows "doc_store_ok (run_repository repo_create repo_append cs db)
    \<and> (\<forall>i d. stored_document db i = Some d \<longrightarrow>
        (\<exists>d'. stored_document (run_repository repo_create repo_append cs db) i = Some d'
          \<and> prefix (do_versions d) (do_versions d') \<and> mk_document d' = Inr d'))"
  using sql_documents.run_grows [OF assms, of cs] sql_documents.stored_valid by blast

lemma demo_documents_ok: "doc_store_ok demo_documents"
  unfolding demo_documents_def by (rule conjunct1 [OF sql_documents.run_grows [OF empty_documents_db_ok]])

lemma document_history_append_only_witness:
  "doc_store_ok empty_documents_db
   \<and> doc_store_ok (run_repository repo_create repo_append
       [Create (demo_prepared 1 48), Append 9 (demo_prepared 2 49)] empty_documents_db)
   \<and> map dv_version (dd_versions demo_documents) = [1, 2]"
proof -
  have "map dv_version (dd_versions demo_documents) = [1, 2]" by code_simp
  then show ?thesis using document_history_append_only [OF empty_documents_db_ok] empty_documents_db_ok
    by blast
qed

lemma repository_append_refines_witness:
  "(\<exists>d' db'. repo_append 9 (demo_prepared 3 50) demo_documents = (Inr (latest_version d'), db'))
   \<and> map_sum id dv_version (fst (repo_append 9 (demo_prepared 3 50) demo_documents)) = Inr 3"
proof -
  let ?p = "demo_prepared 3 50"
  have wf: "version_ok (version_of ?p 1)" "row_fits (version_of ?p 1)"
    "pd_id ?p \<notin> dv_id ` set (dd_versions demo_documents)" "pd_document_id ?p = 9"
    "int (length (versions_of demo_documents 9)) + 1 < 2 ^ 31"
    unfolding version_ok_def by code_simp+
  have "map_option (map dv_file_hash \<circ> do_versions) (stored_document demo_documents 9)
      = Some [replicate 64 48, replicate 64 49]" by code_simp
  then obtain d where d: "stored_document demo_documents 9 = Some d"
    "map dv_file_hash (do_versions d) = [replicate 64 48, replicate 64 49]" by auto
  have "pd_file_hash ?p \<notin> set (map dv_file_hash (do_versions d))"
    unfolding d(2) by (simp add: demo_prepared_def)
  then have "\<exists>d' db'. repo_append 9 ?p demo_documents = (Inr (latest_version d'), db')"
    using repository_append_refines [OF demo_documents_ok wf] unfolding d(1) by auto
  moreover have "map_sum id dv_version (fst (repo_append 9 ?p demo_documents)) = Inr 3" by code_simp
  ultimately show ?thesis ..
qed

text \<open>A version the repository returned can be resolved to its normalised PDF for ever: whatever
  uploads follow, \<open>get_parse_source\<close> answers with the facts of that version.\<close>

theorem parse_source_stable:
  assumes ok: "doc_store_ok db" and d: "stored_document db i = Some d" and v: "v \<in> set (do_versions d)"
  shows "fst (repo_parse_source (dv_id v) (run_repository repo_create repo_append cs db)) =
    Inr \<lparr>ps_document_version_id = dv_id v, ps_normalized_pdf_url = dv_normalized_pdf_url v,
         ps_normalized_pdf_hash = dv_normalized_pdf_hash v, ps_page_count = dv_page_count v,
         ps_parser_version = dv_parser_version v\<rparr>"
proof -
  let ?db = "run_repository repo_create repo_append cs db"
  have r: "doc_store_ok ?db" "\<exists>d'. stored_document ?db i = Some d' \<and> prefix (do_versions d) (do_versions d')"
    using sql_documents.run_grows [OF ok, of cs] d by blast+
  then have "v \<in> set (dd_versions ?db)"
    using v by (auto simp: stored_document_Some versions_of_def dest!: set_mono_prefix)
  then have "find (\<lambda>w. dv_id w = dv_id v) (dd_versions ?db) = Some v"
    by (rule find_unique_key [OF doc_store_okD(2) [OF r(1)]]) simp
  then show ?thesis
    by (simp add: repo_parse_source_def transactional_def get_parse_source_def
        scalar_filter_unique [OF doc_store_okD(2) [OF r(1)]])
qed

lemma parse_source_stable_witness:
  "fst (repo_parse_source 1 (run_repository repo_create repo_append
       [Append 9 (demo_prepared 4 51)] demo_documents))
     = Inr \<lparr>ps_document_version_id = 1, ps_normalized_pdf_url = lit ''minio://b/k'',
         ps_normalized_pdf_hash = replicate 64 48, ps_page_count = 3,
         ps_parser_version = lit ''document-metadata-v1''\<rparr>"
proof -
  let ?v = "version_of (demo_prepared 1 48) 1"
  have d: "stored_document demo_documents 9
      = Some \<lparr>do_id = 9, do_versions = [?v, version_of (demo_prepared 2 49) 2]\<rparr>" by code_simp
  from parse_source_stable [OF demo_documents_ok d, of ?v "[Append 9 (demo_prepared 4 51)]"]
  show ?thesis by (simp add: version_of_def demo_prepared_def)
qed

end
