(* ===== verification/DocUpload.thy ===== *)
theory DocUpload
  imports DocSafety DocRepository
begin

text \<open>
  The upload use case: the content-addressed object store
  (\<open>modules/documents/infrastructure/object_store.py\<close> over
  \<open>platform/object_store/client.py\<close>), the temporary workspace (\<open>infrastructure/system.py\<close>)
  and \<open>UploadDocumentHandler.handle\<close> (\<open>application/upload.py\<close>).  MinIO is a map from keys
  to objects that may fail on each call; the clock, the identifiers and the converter process are
  parameters of \<open>upload_env\<close>.
\<close>

section \<open>MinIO\<close>

record stored_object =
  so_bytes :: bytes
  so_content_type :: pystr
  so_sha256 :: pystr

type_synonym objects = "pystr \<Rightarrow> stored_object option"

record minio =
  mn_bucket :: pystr
  mn_stat_fault :: "pystr \<Rightarrow> exn option"
  mn_put_fault :: "pystr \<Rightarrow> exn option"

definition MISSING_OBJECT_ERROR_CODES :: "string list" where
  "MISSING_OBJECT_ERROR_CODES = [''NoSuchKey'', ''NoSuchObject'', ''NotFound'']"

text \<open>\<open>stat_object\<close>: MinIO reports a missing key as an \<open>S3Error\<close>.\<close>

definition stat_object :: "minio \<Rightarrow> pystr \<Rightarrow> objects \<Rightarrow> exn + nat" where
  "stat_object m object_key objs =
     (case mn_stat_fault m object_key of Some e \<Rightarrow> Inl e
      | None \<Rightarrow> (case objs object_key of None \<Rightarrow> Inl (S3Error ''NoSuchKey'')
          | Some o' \<Rightarrow> Inr (length (so_bytes o'))))"

definition stat_size :: "minio \<Rightarrow> pystr \<Rightarrow> objects \<Rightarrow> exn + nat option" where
  "stat_size m object_key objs =
     (case stat_object m object_key objs of
        Inl (S3Error code) \<Rightarrow>
          if code \<in> set MISSING_OBJECT_ERROR_CODES then Inr None else Inl (S3Error code)
      | Inl e \<Rightarrow> Inl e
      | Inr n \<Rightarrow> Inr (Some n))"

definition put_file ::
  "minio \<Rightarrow> pystr \<Rightarrow> bytes \<Rightarrow> pystr \<Rightarrow> pystr \<Rightarrow> (objects, unit) stateful" where
  "put_file m object_key content content_type sha256 objs =
     (case mn_put_fault m object_key of
        Some e \<Rightarrow> (Inl e, objs)
      | None \<Rightarrow> (Inr (), objs(object_key \<mapsto>
          \<lparr>so_bytes = content, so_content_type = content_type, so_sha256 = sha256\<rparr>)))"

definition object_uri :: "minio \<Rightarrow> pystr \<Rightarrow> pystr" where
  "object_uri m object_key = lit ''minio://'' @ mn_bucket m @ 47 # object_key"

definition probe_minio :: "bool \<Rightarrow> exn + unit" where
  "probe_minio bucket_exists =
     raise_if (\<not> bucket_exists) (RuntimeError ''Configured MinIO bucket does not exist'') (Inr ())"

section \<open>Content-addressed storage\<close>

definition object_key :: "pystr \<Rightarrow> pystr" where
  "object_key sha256 =
     lit ''documents/sha256/'' @ take 2 sha256 @ 47 # map ascii_lower sha256"

definition storage_failure :: "exn \<Rightarrow> exn" where
  "storage_failure e =
     (case e of
        S3Error code \<Rightarrow> BidError ExternalServiceError (Some Msg_storage_unavailable)
      | PoolHTTPError \<Rightarrow> BidError ExternalServiceError (Some Msg_storage_unavailable)
      | _ \<Rightarrow> if is_os_error e then BidError ExternalServiceError (Some Msg_storage_unavailable)
             else e)"

definition blob_put ::
  "minio \<Rightarrow> workspace \<Rightarrow> pystr \<Rightarrow> pystr \<Rightarrow> pystr \<Rightarrow> (objects, pystr) stateful" where
  "blob_put m ws sha256 path content_type objs =
     (if blank content_type
        then (Inl (ValueError ''object content type must not be blank''), objs)
      else if length sha256 \<noteq> 64 \<or> \<not> list_all is_hexdigit sha256
        then (Inl (ValueError ''object digest must be SHA-256''), objs)
      else case read_file ws path of
        Inl e \<Rightarrow> (Inl e, objs)
      | Inr content \<Rightarrow>
          (case stat_size m (object_key sha256) objs of
             Inl e \<Rightarrow> (Inl (storage_failure e), objs)
           | Inr (Some existing_size) \<Rightarrow>
               if existing_size \<noteq> length content
               then (Inl (BidError ExternalServiceError (Some Msg_object_integrity)), objs)
               else (Inr (object_uri m (object_key sha256)), objs)
           | Inr None \<Rightarrow>
               (case put_file m (object_key sha256) content content_type (map ascii_lower sha256) objs of
                  (Inl e, objs') \<Rightarrow> (Inl (storage_failure e), objs')
                | (Inr u, objs') \<Rightarrow> (Inr (object_uri m (object_key sha256)), objs'))))"

text \<open>A failing call is not reported as a missing object.\<close>

definition minio_law :: "minio \<Rightarrow> bool" where
  "minio_law m \<longleftrightarrow> (\<forall>k code. mn_stat_fault m k = Some (S3Error code) \<longrightarrow>
     code \<notin> set MISSING_OBJECT_ERROR_CODES)"

lemma stat_size_eq:
  assumes "minio_law m"
  shows "stat_size m k objs = (case mn_stat_fault m k of Some e \<Rightarrow> Inl e
     | None \<Rightarrow> Inr (map_option (\<lambda>ob. length (so_bytes ob)) (objs k)))"
proof (cases "mn_stat_fault m k")
  case None
  then show ?thesis
    by (cases "objs k") (simp_all add: stat_size_def stat_object_def MISSING_OBJECT_ERROR_CODES_def)
next
  case (Some e)
  then have "code \<notin> set MISSING_OBJECT_ERROR_CODES" if "e = S3Error code" for code
    using assms that unfolding minio_law_def by blast
  with Some show ?thesis by (cases e) (simp_all add: stat_size_def stat_object_def)
qed

section \<open>The upload handler\<close>

fun canonical_mime_type :: "document_format \<Rightarrow> pystr" where
  "canonical_mime_type PDF = lit ''application/pdf''"
| "canonical_mime_type DOCX =
     lit ''application/vnd.openxmlformats-officedocument.wordprocessingml.document''"
| "canonical_mime_type PPTX =
     lit ''application/vnd.openxmlformats-officedocument.presentationml.presentation''"

record upload_command =
  uc_source :: upload_source
  uc_expires_at :: "datetime option"
  uc_document_id :: "uuid option"

record upload_env =
  ue_lib :: file_lib
  ue_stager :: stager
  ue_scanner :: clamav_scanner
  ue_clamd :: "bytes \<Rightarrow> exn + bytes"
  ue_converter :: pdf_converter
  ue_ws_root :: pystr
  ue_uri :: "pystr \<Rightarrow> pystr"
  ue_run :: "pystr list \<Rightarrow> (workspace, int) stateful"
  ue_started_ns :: int
  ue_finished_ns :: int
  ue_minio :: minio
  ue_now :: datetime
  ue_new_id :: "nat \<Rightarrow> uuid"

record ingest_state =
  in_open_workspaces :: nat
  in_objects :: objects
  in_ids :: nat
  in_db :: documents_db

definition new_id :: "upload_env \<Rightarrow> (ingest_state, uuid) stateful" where
  "new_id E s = (Inr (ue_new_id E (in_ids s)), s\<lparr>in_ids := Suc (in_ids s)\<rparr>)"

definition on_objects :: "(objects, 'a) stateful \<Rightarrow> (ingest_state, 'a) stateful" where
  "on_objects f s = (case f (in_objects s) of (r, objs) \<Rightarrow> (r, s\<lparr>in_objects := objs\<rparr>))"

definition on_db :: "(documents_db, 'a) stateful \<Rightarrow> (ingest_state, 'a) stateful" where
  "on_db f s = (case f (in_db s) of (r, db) \<Rightarrow> (r, s\<lparr>in_db := db\<rparr>))"

text \<open>\<open>LocalWorkspaceFactory.open\<close>: an empty directory that is removed however the body ends.\<close>

definition with_workspace ::
  "(workspace \<Rightarrow> (ingest_state, 'a) stateful) \<Rightarrow> (ingest_state, 'a) stateful" where
  "with_workspace body s =
     (case body Map.empty (s\<lparr>in_open_workspaces := Suc (in_open_workspaces s)\<rparr>) of
        (r, s') \<Rightarrow> (r, s'\<lparr>in_open_workspaces := in_open_workspaces s' - 1\<rparr>))"

text \<open>Continue after a step on the workspace, or raise what it raised.\<close>

definition after_step :: "(exn + 'a) \<times> 's \<Rightarrow> ('a \<Rightarrow> 's \<Rightarrow> exn + 'b) \<Rightarrow> exn + 'b" where
  "after_step r f = (case r of (Inl e, s) \<Rightarrow> Inl e | (Inr x, s) \<Rightarrow> f x s)"

lemma after_step_Inr [py_bind]:
  "after_step r f = Inr y \<longleftrightarrow> (\<exists>x s. r = (Inr x, s) \<and> f x s = Inr y)"
  by (cases r; cases "fst r") (auto simp: after_step_def)

text \<open>The first half of the handler: stage, detect, scan, parse, and the two page limits.\<close>

definition inspect_upload ::
  "upload_env \<Rightarrow> upload_source \<Rightarrow> workspace
   \<Rightarrow> exn + staged_upload \<times> document_format \<times> parsed_document \<times> workspace" where
  "inspect_upload E src ws0 =
     after_step (stage (ue_lib E) (ue_stager E) src ws0) (\<lambda>staged ws.
     bindE (bindE (read_file ws (sg_path staged)) (detect (ue_lib E))) (\<lambda>file_format.
     bindE (ensure_safe (ue_lib E) (ue_scanner E) (ue_clamd E) ws (sg_path staged) file_format) (\<lambda>_.
     after_step
       (parse_metadata (ue_lib E) (convert (ue_converter E) (ue_ws_root E) (ue_uri E) (ue_run E))
          (ue_started_ns E) (ue_finished_ns E) (sg_path staged) file_format ws) (\<lambda>parsed ws'.
     raise_if (pa_page_count parsed > MAX_DOCUMENT_PAGES) (BidError PageLimitExceededError None)
     (raise_if (pa_page_count parsed < 1) (BidError InvalidDocumentError (Some Msg_no_parsable_pages))
     (Inr (staged, file_format, parsed, ws')))))))"

definition prepare_version ::
  "upload_env \<Rightarrow> upload_command \<Rightarrow> staged_upload \<Rightarrow> document_format \<Rightarrow> parsed_document \<Rightarrow> pystr
   \<Rightarrow> pystr \<Rightarrow> uuid \<Rightarrow> uuid \<Rightarrow> prepared_version" where
  "prepare_version E command staged file_format parsed source_url normalized_pdf_url document_id i =
     \<lparr>pd_id = i, pd_document_id = document_id, pd_name = sg_normalized_name staged,
      pd_file_url = source_url, pd_normalized_pdf_url = normalized_pdf_url,
      pd_file_format = file_format, pd_file_hash = sg_sha256 staged,
      pd_normalized_pdf_hash = pa_normalized_pdf_hash parsed, pd_uploaded_at = ue_now E,
      pd_expires_at = uc_expires_at command, pd_page_count = pa_page_count parsed,
      pd_parser_version = pa_parser_version parsed,
      pd_parse_duration_ms = pa_parse_duration_ms parsed\<rparr>"

text \<open>The second half: the objects first, then the identifiers and one short transaction.\<close>

definition persist_version ::
  "upload_env \<Rightarrow> upload_command \<Rightarrow> staged_upload \<Rightarrow> document_format \<Rightarrow> parsed_document \<Rightarrow> pystr
   \<Rightarrow> pystr \<Rightarrow> (ingest_state, document_version) stateful" where
  "persist_version E command staged file_format parsed source_url normalized_pdf_url =
     bindS (case uc_document_id command of Some i \<Rightarrow> retS i | None \<Rightarrow> new_id E) (\<lambda>document_id.
     bindS (new_id E) (\<lambda>i.
       let prepared = prepare_version E command staged file_format parsed source_url
             normalized_pdf_url document_id i
       in on_db (case uc_document_id command of None \<Rightarrow> repo_create prepared
                 | Some d \<Rightarrow> repo_append d prepared)))"

definition store_upload ::
  "upload_env \<Rightarrow> upload_command \<Rightarrow> staged_upload \<Rightarrow> document_format \<Rightarrow> parsed_document \<Rightarrow> workspace
   \<Rightarrow> (ingest_state, document_version) stateful" where
  "store_upload E command staged file_format parsed ws =
     bindS (on_objects (blob_put (ue_minio E) ws (sg_sha256 staged) (sg_path staged)
              (canonical_mime_type file_format))) (\<lambda>source_url.
     bindS (if file_format = PDF then retS source_url
            else on_objects (blob_put (ue_minio E) ws (pa_normalized_pdf_hash parsed)
              (pa_normalized_pdf_path parsed) (canonical_mime_type PDF))) (\<lambda>normalized_pdf_url.
     persist_version E command staged file_format parsed source_url normalized_pdf_url))"

definition handle_upload ::
  "upload_env \<Rightarrow> upload_command \<Rightarrow> (ingest_state, document_version) stateful" where
  "handle_upload E command =
     with_workspace (\<lambda>ws s.
       case inspect_upload E (uc_source command) ws of
         Inl e \<Rightarrow> (Inl e, s)
       | Inr (staged, file_format, parsed, ws') \<Rightarrow>
           store_upload E command staged file_format parsed ws' s)"

section \<open>The object store keeps what it has\<close>

text \<open>Every object lies under the key of its own digest.\<close>

definition objects_ok :: "file_lib \<Rightarrow> objects \<Rightarrow> bool" where
  "objects_ok L objs \<longleftrightarrow>
     (\<forall>k ob. objs k = Some ob \<longrightarrow> k = object_key (sha256_hex L (so_bytes ob)))"

definition lower_hex :: "pystr \<Rightarrow> bool" where
  "lower_hex s \<longleftrightarrow> length s = 64 \<and> list_all (\<lambda>c. 48 \<le> c \<and> c \<le> 57 \<or> 97 \<le> c \<and> c \<le> 102) s"

lemma sha256_lower_hex: "file_lib_law L \<Longrightarrow> lower_hex (sha256_hex L bs)"
  by (simp add: file_lib_law_def lower_hex_def)

lemma map_lower_hex: "lower_hex s \<Longrightarrow> map ascii_lower s = s"
  unfolding lower_hex_def list_all_iff by (rule map_idI) (auto simp: ascii_lower_def)

lemma object_key_inject:
  assumes "lower_hex a" "lower_hex b" "object_key a = object_key b"
  shows "a = b"
proof -
  have "length (take 2 a) = length (take 2 b)" using assms(1,2) by (simp add: lower_hex_def)
  then have "map ascii_lower a = map ascii_lower b"
    using assms(3) by (simp add: object_key_def)
  then show ?thesis using map_lower_hex assms(1,2) by metis
qed

lemma blob_put_Inr:
  assumes law: "file_lib_law L" and minio: "minio_law m" and ok: "objects_ok L objs"
    and content: "read_file ws path = Inr content" and sha: "sha = sha256_hex L content"
    and run: "blob_put m ws sha path mime objs = (Inr url, objs')"
  shows "url = object_uri m (object_key sha)" "objects_ok L objs'" "objs \<subseteq>\<^sub>m objs'"
    "\<exists>ob. objs' (object_key sha) = Some ob \<and> sha256_hex L (so_bytes ob) = sha"
proof -
  have fault: "mn_stat_fault m (object_key sha) = None"
    using run content unfolding blob_put_def stat_size_eq [OF minio]
    by (auto split: if_splits option.splits)
  have "url = object_uri m (object_key sha) \<and> objects_ok L objs' \<and> objs \<subseteq>\<^sub>m objs'
    \<and> (\<exists>ob. objs' (object_key sha) = Some ob \<and> sha256_hex L (so_bytes ob) = sha)"
  proof (cases "objs (object_key sha)")
    case None
    let ?ob = "\<lparr>so_bytes = content, so_content_type = mime, so_sha256 = map ascii_lower sha\<rparr>"
    have "url = object_uri m (object_key sha) \<and> objs' = objs(object_key sha \<mapsto> ?ob)"
      using run content None fault unfolding blob_put_def stat_size_eq [OF minio]
      by (auto simp: put_file_def split: if_splits option.splits)
    moreover have "objects_ok L (objs(object_key sha \<mapsto> ?ob))"
      using ok sha by (simp add: objects_ok_def)
    ultimately show ?thesis using None sha by (auto simp: map_le_def)
  next
    case (Some ob)
    then have "object_key sha = object_key (sha256_hex L (so_bytes ob))"
      using ok unfolding objects_ok_def by blast
    then have "sha = sha256_hex L (so_bytes ob)"
      by (rule object_key_inject [rotated 2]) (simp_all add: sha sha256_lower_hex [OF law])
    moreover have "url = object_uri m (object_key sha) \<and> objs' = objs"
      using run content Some fault unfolding blob_put_def stat_size_eq [OF minio]
      by (auto split: if_splits)
    ultimately show ?thesis using ok Some by auto
  qed
  then show "url = object_uri m (object_key sha)" "objects_ok L objs'" "objs \<subseteq>\<^sub>m objs'"
    "\<exists>ob. objs' (object_key sha) = Some ob \<and> sha256_hex L (so_bytes ob) = sha" by blast+
qed

section \<open>What an accepted upload has passed\<close>

text \<open>LibreOffice works on its own copy: the staged source is as before when it is done.\<close>

definition converter_law :: "upload_env \<Rightarrow> bool" where
  "converter_law E \<longleftrightarrow> (\<forall>args ws r ws'. ue_run E args ws = (r, ws') \<longrightarrow>
     ws' (lit ''source.upload'') = ws (lit ''source.upload''))"

lemma convert_source_kept:
  assumes law: "converter_law E" and run: "convert cfg r u (ue_run E) path fmt ws = (Inr out, ws')"
  shows "ws' (lit ''source.upload'') = ws (lit ''source.upload'')"
proof -
  have names: "lit ''source.upload'' \<noteq> conversion_source fmt" "lit ''source.upload'' \<noteq> profile_directory"
    by (simp_all add: conversion_source_def profile_directory_def lit_def)
  obtain f content where f: "export_filter fmt = Some f" "read_file ws path = Inr content"
    using run by (auto simp: convert_def split: option.splits sum.splits)
  let ?ws1 = "ws(conversion_source fmt \<mapsto> File content, profile_directory \<mapsto> Directory)"
  obtain code where "ue_run E (converter_args cfg r u f fmt) ?ws1 = (Inr code, ws')"
    using run f by (auto simp: convert_def Let_def bindS_Inr split: if_splits)
  then have "ws' (lit ''source.upload'') = ?ws1 (lit ''source.upload'')"
    using law unfolding converter_law_def by blast
  then show ?thesis using names by simp
qed

lemma parse_metadata_Inr:
  assumes "parse_metadata L conv t0 t1 path fmt ws = (Inr parsed, ws')"
  shows "\<exists>pdf reader n. read_file ws' (pa_normalized_pdf_path parsed) = Inr pdf
    \<and> pa_normalized_pdf_hash parsed = sha256_hex L pdf \<and> open_pdf L pdf = Inr reader
    \<and> \<not> pr_encrypted reader \<and> pr_pages reader = Inr n \<and> pa_page_count parsed = int n
    \<and> pa_parser_version parsed = PARSER_VERSION \<and> 0 \<le> pa_parse_duration_ms parsed
    \<and> (if fmt = PDF then ws' = ws \<and> pa_normalized_pdf_path parsed = path
       else conv path fmt ws = (Inr (pa_normalized_pdf_path parsed), ws'))"
proof -
  have "0 < UPLOAD_READ_CHUNK_BYTES" by (simp add: UPLOAD_READ_CHUNK_BYTES_def)
  then show ?thesis
    using assms
    by (cases "fmt = PDF") (auto simp: parse_metadata_def bindS_Inr bindE_Inr read_pdf_metadata_def)
qed

lemma inspect_upload_Inr:
  assumes law: "converter_law E"
    and run: "inspect_upload E src Map.empty = Inr (staged, fmt, parsed, ws')"
  shows "\<exists>content pdf reader n. read_file ws' (sg_path staged) = Inr content
    \<and> sg_sha256 staged = sha256_hex (ue_lib E) content
    \<and> 0 < length content \<and> length content \<le> st_max_file_bytes (ue_stager E)
    \<and> detect (ue_lib E) content = Inr fmt
    \<and> (\<exists>reply prefix. ue_clamd E (instream_request (cv_chunk_bytes (ue_scanner E)) content) = Inr reply
         \<and> rstrip_nul reply = prefix @ ascii '': OK'')
    \<and> read_file ws' (pa_normalized_pdf_path parsed) = Inr pdf
    \<and> pa_normalized_pdf_hash parsed = sha256_hex (ue_lib E) pdf
    \<and> open_pdf (ue_lib E) pdf = Inr reader \<and> \<not> pr_encrypted reader \<and> pr_pages reader = Inr n
    \<and> pa_page_count parsed = int n \<and> 1 \<le> n \<and> n \<le> 500
    \<and> 0 \<le> pa_parse_duration_ms parsed \<and> pa_parser_version parsed = PARSER_VERSION
    \<and> (fmt = PDF \<longrightarrow> pa_normalized_pdf_path parsed = sg_path staged \<and> pdf = content)"
proof -
  obtain ws c0 where st: "stage (ue_lib E) (ue_stager E) src Map.empty = (Inr staged, ws)"
    and rd0: "read_file ws (sg_path staged) = Inr c0" and det0: "detect (ue_lib E) c0 = Inr fmt"
    and safe0: "ensure_safe (ue_lib E) (ue_scanner E) (ue_clamd E) ws (sg_path staged) fmt = Inr ()"
    and pm: "parse_metadata (ue_lib E) (convert (ue_converter E) (ue_ws_root E) (ue_uri E) (ue_run E))
       (ue_started_ns E) (ue_finished_ns E) (sg_path staged) fmt ws = (Inr parsed, ws')"
    and pages: "1 \<le> pa_page_count parsed" "pa_page_count parsed \<le> 500"
    using run unfolding inspect_upload_def
    by (auto simp: after_step_Inr bindE_Inr MAX_DOCUMENT_PAGES_def not_less)
  obtain content where c: "ws = [sg_path staged \<mapsto> File content]" "0 < length content"
    "length content \<le> st_max_file_bytes (ue_stager E)" "sg_sha256 staged = sha256_hex (ue_lib E) content"
    using stage_Inr [OF st] by blast
  have path: "sg_path staged = lit ''source.upload''"
    using st by (auto simp: stage_def Let_def split: sum.splits prod.splits)
  have rd: "read_file ws (sg_path staged) = Inr content" by (simp add: c(1) read_file_def)
  have det: "detect (ue_lib E) content = Inr fmt" using rd rd0 det0 by simp
  have safe: "ensure_clean (ue_scanner E) (ue_clamd E) ws (sg_path staged) = Inr ()"
    using safe0 by (simp add: ensure_safe_def bindE_Inr)
  have kept: "read_file ws' (sg_path staged) = Inr content"
  proof (cases "fmt = PDF")
    case False
    then have "ws' (lit ''source.upload'') = ws (lit ''source.upload'')"
      using parse_metadata_Inr [OF pm] convert_source_kept [OF law] by fastforce
    then show ?thesis using rd by (simp add: read_file_def path)
  qed (use parse_metadata_Inr [OF pm] rd in auto)
  have ok: "\<exists>reply prefix. ue_clamd E (instream_request (cv_chunk_bytes (ue_scanner E)) content) = Inr reply
      \<and> rstrip_nul reply = prefix @ ascii '': OK''"
    using safe rd unfolding ensure_clean_Inr by auto
  from parse_metadata_Inr [OF pm] obtain pdf reader n where q:
    "read_file ws' (pa_normalized_pdf_path parsed) = Inr pdf"
    "pa_normalized_pdf_hash parsed = sha256_hex (ue_lib E) pdf" "open_pdf (ue_lib E) pdf = Inr reader"
    "\<not> pr_encrypted reader" "pr_pages reader = Inr n" "pa_page_count parsed = int n"
    "pa_parser_version parsed = PARSER_VERSION" "0 \<le> pa_parse_duration_ms parsed"
    "fmt = PDF \<longrightarrow> pa_normalized_pdf_path parsed = sg_path staged" by (auto split: if_splits)
  have "fmt = PDF \<longrightarrow> pdf = content" using q(1,9) kept by auto
  then show ?thesis using kept c(2-4) det ok q pages by (intro exI [of _ content] exI [of _ pdf]
      exI [of _ reader] exI [of _ n]) auto
qed

section \<open>What an upload does to the stores\<close>

lemma bindS_run:
  "bindS m f s = (r, s') \<longleftrightarrow>
     (\<exists>e. m s = (Inl e, s') \<and> r = Inl e) \<or> (\<exists>x t. m s = (Inr x, t) \<and> f x t = (r, s'))"
  by (cases r) (auto simp: bindS_Inl bindS_Inr)

lemma on_objects_run:
  "on_objects f s = (r, s') \<longleftrightarrow>
     (\<exists>objs. f (in_objects s) = (r, objs) \<and> s' = s\<lparr>in_objects := objs\<rparr>)"
  by (auto simp: on_objects_def split: prod.splits)

lemma on_db_run:
  "on_db f s = (r, s') \<longleftrightarrow> (\<exists>db. f (in_db s) = (r, db) \<and> s' = s\<lparr>in_db := db\<rparr>)"
  by (auto simp: on_db_def split: prod.splits)

lemma blob_put_Inl: "minio_law m \<Longrightarrow> blob_put m ws sha path mime objs = (Inl e, objs') \<Longrightarrow> objs' = objs"
  unfolding blob_put_def stat_size_eq
  by (auto simp: put_file_def split: if_splits sum.splits option.splits)

text \<open>The laws of the surroundings, and stores that are in order.\<close>

definition upload_ok :: "upload_env \<Rightarrow> ingest_state \<Rightarrow> bool" where
  "upload_ok E s \<longleftrightarrow> file_lib_law (ue_lib E) \<and> minio_law (ue_minio E) \<and> converter_law E
     \<and> objects_ok (ue_lib E) (in_objects s) \<and> doc_store_ok (in_db s)"

definition later :: "ingest_state \<Rightarrow> ingest_state \<Rightarrow> bool" where
  "later s s' \<longleftrightarrow> in_open_workspaces s' = in_open_workspaces s \<and> in_objects s \<subseteq>\<^sub>m in_objects s'"

lemma later_refl: "later s s"
  by (simp add: later_def)

lemma later_trans: "later a b \<Longrightarrow> later b c \<Longrightarrow> later a c"
  unfolding later_def using map_le_trans by metis

lemma put_step:
  assumes ok: "upload_ok E s" and content: "read_file ws path = Inr content"
    and run: "on_objects (blob_put (ue_minio E) ws (sha256_hex (ue_lib E) content) path mime) s = (r, s')"
  shows "upload_ok E s' \<and> later s s' \<and> in_db s' = in_db s
    \<and> (\<forall>url. r = Inr url \<longrightarrow> url = object_uri (ue_minio E) (object_key (sha256_hex (ue_lib E) content))
         \<and> (\<exists>ob. in_objects s' (object_key (sha256_hex (ue_lib E) content)) = Some ob
              \<and> sha256_hex (ue_lib E) (so_bytes ob) = sha256_hex (ue_lib E) content))"
proof -
  obtain objs where p: "blob_put (ue_minio E) ws (sha256_hex (ue_lib E) content) path mime (in_objects s)
      = (r, objs)" "s' = s\<lparr>in_objects := objs\<rparr>"
    using run by (auto simp: on_objects_run)
  note laws = ok [unfolded upload_ok_def]
  show ?thesis
  proof (cases r)
    case (Inl e)
    then have "objs = in_objects s" using blob_put_Inl p(1) laws by blast
    then show ?thesis using Inl p(2) ok by (simp add: later_refl)
  next
    case (Inr url)
    note b = blob_put_Inr [OF _ _ _ content refl p(1) [unfolded Inr]]
    show ?thesis
      using b laws Inr p(2) by (auto simp: upload_ok_def later_def)
  qed
qed

lemma repo_op_run:
  assumes store: "doc_store_ok db"
    and run: "(case target of None \<Rightarrow> repo_create p | Some d \<Rightarrow> repo_append d p) db = (r, db')"
  shows "case r of Inl e \<Rightarrow> db' = db
    | Inr v \<Rightarrow> doc_store_ok db' \<and> (\<exists>n. v = version_of p n)
        \<and> (\<exists>d. stored_document db' (pd_document_id p) = Some d \<and> latest_version d = v)
        \<and> (\<forall>i. target = Some i \<longrightarrow> pd_document_id p = i)"
proof (cases r)
  case (Inl e)
  then have "db' = db" using run sql_documents.error_law by (cases target) (simp, blast)+
  then show ?thesis using Inl by simp
next
  case (Inr v)
  show ?thesis
  proof (cases target)
    case None
    then show ?thesis
      using run Inr sql_documents.create_law [OF store, of p v db']
      by (auto simp: to_version_Inr create_document_def mk_document_Inr latest_version_def)
  next
    case (Some i)
    then show ?thesis
      using run Inr sql_documents.append_law [OF store, of i p v db']
      by (auto simp: to_version_Inr append_version_def mk_document_Inr latest_version_def)
  qed
qed

lemma persist_version_run:
  assumes ok: "upload_ok E s" and run: "persist_version E cmd staged fmt parsed u1 u2 s = (r, s')"
  shows "upload_ok E s' \<and> later s s' \<and> in_objects s' = in_objects s \<and>
    (case r of Inl e \<Rightarrow> in_db s' = in_db s
     | Inr v \<Rightarrow> (\<exists>i n. v = version_of (prepare_version E cmd staged fmt parsed u1 u2 (dv_document_id v) i) n)
        \<and> (\<exists>d. stored_document (in_db s') (dv_document_id v) = Some d \<and> latest_version d = v)
        \<and> (\<forall>i. uc_document_id cmd = Some i \<longrightarrow> dv_document_id v = i))"
proof -
  obtain di x i where x: "in_db x = in_db s" "in_objects x = in_objects s"
      "in_open_workspaces x = in_open_workspaces s"
    and db: "on_db (case uc_document_id cmd of
          None \<Rightarrow> repo_create (prepare_version E cmd staged fmt parsed u1 u2 di i)
        | Some d \<Rightarrow> repo_append d (prepare_version E cmd staged fmt parsed u1 u2 di i)) x = (r, s')"
  proof (cases "uc_document_id cmd")
    case None
    show thesis
      by (rule that [of "s\<lparr>in_ids := Suc (Suc (in_ids s))\<rparr>" "ue_new_id E (in_ids s)"
            "ue_new_id E (Suc (in_ids s))"])
        (use run None in \<open>auto simp: persist_version_def bindS_run new_id_def Let_def\<close>)
  next
    case (Some d)
    show thesis
      by (rule that [of "s\<lparr>in_ids := Suc (in_ids s)\<rparr>" d "ue_new_id E (in_ids s)"])
        (use run Some in \<open>auto simp: persist_version_def bindS_run new_id_def Let_def\<close>)
  qed
  let ?p = "prepare_version E cmd staged fmt parsed u1 u2 di i"
  have pd: "pd_document_id ?p = di" by (simp add: prepare_version_def)
  obtain db' where op: "(case uc_document_id cmd of None \<Rightarrow> repo_create ?p
        | Some d \<Rightarrow> repo_append d ?p) (in_db s) = (r, db')" and s': "s' = x\<lparr>in_db := db'\<rparr>"
    using db x by (auto simp: on_db_run)
  have store: "doc_store_ok (in_db s)" using ok by (simp add: upload_ok_def)
  note res = repo_op_run [OF store op]
  show ?thesis
  proof (cases r)
    case (Inl e)
    then show ?thesis using res ok x s' by (auto simp: upload_ok_def later_def)
  next
    case (Inr v)
    then obtain n where v: "v = version_of ?p n" using res by auto
    then have di: "dv_document_id v = di" using pd by simp
    have "\<exists>i n. v = version_of (prepare_version E cmd staged fmt parsed u1 u2 (dv_document_id v) i) n"
      unfolding di using v by blast
    then show ?thesis using res ok x s' Inr di pd by (auto simp: upload_ok_def later_def)
  qed
qed

lemma second_put:
  assumes ok: "upload_ok E s" and u1: "u1 = object_uri (ue_minio E) (object_key (sha256_hex (ue_lib E) content))"
    and there: "\<exists>ob. in_objects s (object_key (sha256_hex (ue_lib E) content)) = Some ob
      \<and> sha256_hex (ue_lib E) (so_bytes ob) = sha256_hex (ue_lib E) content"
    and pdf: "read_file ws path = Inr pdf" and same: "fmt = PDF \<longrightarrow> pdf = content"
    and run: "(if fmt = PDF then retS u1 else on_objects (blob_put (ue_minio E) ws
        (sha256_hex (ue_lib E) pdf) path mime)) s = (q, w)"
  shows "upload_ok E w \<and> later s w \<and> in_db w = in_db s \<and> (\<forall>u2. q = Inr u2 \<longrightarrow>
     u2 = object_uri (ue_minio E) (object_key (sha256_hex (ue_lib E) pdf)) \<and>
     (\<exists>ob. in_objects w (object_key (sha256_hex (ue_lib E) pdf)) = Some ob
        \<and> sha256_hex (ue_lib E) (so_bytes ob) = sha256_hex (ue_lib E) pdf))"
proof (cases "fmt = PDF")
  case True
  then show ?thesis using run ok u1 there same by (auto simp: later_refl)
next
  case False
  then show ?thesis using put_step [OF ok pdf, of mime q w] run by simp
qed

lemma store_upload_run:
  assumes ok: "upload_ok E s"
    and src: "read_file ws (sg_path staged) = Inr content" "sg_sha256 staged = sha256_hex (ue_lib E) content"
    and pdf: "read_file ws (pa_normalized_pdf_path parsed) = Inr pdf"
      "pa_normalized_pdf_hash parsed = sha256_hex (ue_lib E) pdf"
    and same: "fmt = PDF \<longrightarrow> pdf = content"
    and run: "store_upload E cmd staged fmt parsed ws s = (r, s')"
  shows "upload_ok E s' \<and> later s s' \<and>
    (case r of Inl e \<Rightarrow> in_db s' = in_db s
     | Inr v \<Rightarrow> (\<exists>i n. v = version_of (prepare_version E cmd staged fmt parsed
            (object_uri (ue_minio E) (object_key (sg_sha256 staged)))
            (object_uri (ue_minio E) (object_key (pa_normalized_pdf_hash parsed))) (dv_document_id v) i) n)
        \<and> (\<forall>h\<in>{sg_sha256 staged, pa_normalized_pdf_hash parsed}.
             \<exists>ob. in_objects s' (object_key h) = Some ob \<and> sha256_hex (ue_lib E) (so_bytes ob) = h)
        \<and> (\<exists>d. stored_document (in_db s') (dv_document_id v) = Some d \<and> latest_version d = v)
        \<and> (\<forall>d. uc_document_id cmd = Some d \<longrightarrow> dv_document_id v = d))"
proof -
  let ?m = "ue_minio E" and ?h = "sha256_hex (ue_lib E) content" and ?h' = "sha256_hex (ue_lib E) pdf"
  let ?put1 = "on_objects (blob_put ?m ws ?h (sg_path staged) (canonical_mime_type fmt))"
  let ?put2 = "\<lambda>url. if fmt = PDF then retS url
     else on_objects (blob_put ?m ws ?h' (pa_normalized_pdf_path parsed) (canonical_mime_type PDF))"
  have "bindS ?put1 (\<lambda>u1. bindS (?put2 u1) (persist_version E cmd staged fmt parsed u1)) s = (r, s')"
    using run unfolding store_upload_def src(2) pdf(2) .
  then consider
    e where "?put1 s = (Inl e, s')" "r = Inl e"
  | u1 t e where "?put1 s = (Inr u1, t)" "?put2 u1 t = (Inl e, s')" "r = Inl e"
  | u1 t u2 w where "?put1 s = (Inr u1, t)" "?put2 u1 t = (Inr u2, w)"
      "persist_version E cmd staged fmt parsed u1 u2 w = (r, s')"
    unfolding bindS_run by blast
  then show ?thesis
  proof cases
    case (1 e)
    then show ?thesis using put_step [OF ok src(1) 1(1)] by simp
  next
    case (2 u1 t e)
    note t = put_step [OF ok src(1) 2(1), simplified]
    note w = second_put [OF _ _ _ pdf(1) same 2(2), simplified]
    show ?thesis using t w 2(3) later_trans [of s t s'] by simp
  next
    case (3 u1 t u2 w)
    note t = put_step [OF ok src(1) 3(1), simplified]
    note w = second_put [OF _ _ _ pdf(1) same 3(2), simplified]
    have w': "upload_ok E w" "later s w" "later t w" "in_db w = in_db s"
      "u2 = object_uri ?m (object_key ?h')"
      "\<exists>ob. in_objects w (object_key ?h') = Some ob \<and> sha256_hex (ue_lib E) (so_bytes ob) = ?h'"
      using t w later_trans [of s t w] by simp_all
    note p = persist_version_run [OF w'(1) 3(3)]
    have "in_objects w (object_key ?h) = in_objects t (object_key ?h)"
      using t w'(3) by (auto simp: later_def map_le_def dom_def)
    with p show ?thesis
      using t w' later_trans [of s w s'] unfolding src(2) pdf(2) by (cases r) auto
  qed
qed

section \<open>Guarantees\<close>

lemma upload_ok_workspaces [simp]:
  "upload_ok E (s\<lparr>in_open_workspaces := n\<rparr>) \<longleftrightarrow> upload_ok E s"
  by (simp add: upload_ok_def)

lemma handle_upload_stored:
  assumes ok: "upload_ok E s" and run: "handle_upload E cmd s = (Inr v, s')"
  shows "(\<exists>d. stored_document (in_db s') (dv_document_id v) = Some d \<and> latest_version d = v)
    \<and> (\<forall>i. uc_document_id cmd = Some i \<longrightarrow> dv_document_id v = i)"
proof -
  let ?s = "s\<lparr>in_open_workspaces := Suc (in_open_workspaces s)\<rparr>"
  have law: "converter_law E" and ok1: "upload_ok E ?s" using ok by (simp_all add: upload_ok_def)
  obtain staged fmt parsed ws s2 where insp:
      "inspect_upload E (uc_source cmd) Map.empty = Inr (staged, fmt, parsed, ws)"
    and store: "store_upload E cmd staged fmt parsed ws ?s = (Inr v, s2)" and s': "in_db s' = in_db s2"
    using run unfolding handle_upload_def with_workspace_def by (auto split: prod.splits sum.splits)
  from inspect_upload_Inr [OF law insp] obtain content pdf where c:
    "read_file ws (sg_path staged) = Inr content" "sg_sha256 staged = sha256_hex (ue_lib E) content"
    "read_file ws (pa_normalized_pdf_path parsed) = Inr pdf"
    "pa_normalized_pdf_hash parsed = sha256_hex (ue_lib E) pdf" "fmt = PDF \<longrightarrow> pdf = content" by blast
  from store_upload_run [OF ok1 c store] show ?thesis using s' by auto
qed


definition demo_upload_env :: upload_env where
  "demo_upload_env =
     \<lparr>ue_lib = demo_lib, ue_stager = \<lparr>st_max_file_bytes = 100, st_read_chunk_bytes = 3\<rparr>,
      ue_scanner = demo_scanner, ue_clamd = demo_clamd,
      ue_converter = \<lparr>lo_executable = lit ''soffice'', lo_timeout_seconds = Fin 60\<rparr>,
      ue_ws_root = lit ''/tmp/w'', ue_uri = (\<lambda>p. lit ''file://'' @ p),
      ue_run = (\<lambda>args ws. (Inr 0, ws(conversion_output \<mapsto> File (ascii ''%PDF-x'')))),
      ue_started_ns = 0, ue_finished_ns = 7000000,
      ue_minio = \<lparr>mn_bucket = lit ''bid'', mn_stat_fault = (\<lambda>_. None), mn_put_fault = (\<lambda>_. None)\<rparr>,
      ue_now = Aware 0 0, ue_new_id = (\<lambda>n. 40 + n)\<rparr>"

definition demo_ingest :: ingest_state where
  "demo_ingest = \<lparr>in_open_workspaces = 0, in_objects = Map.empty, in_ids = 0, in_db = empty_documents_db\<rparr>"

definition demo_upload :: "datetime option \<Rightarrow> upload_command" where
  "demo_upload expires_at =
     \<lparr>uc_source = demo_source, uc_expires_at = expires_at, uc_document_id = None\<rparr>"

lemma demo_upload_ok: "upload_ok demo_upload_env demo_ingest"
proof -
  have "lit ''source.upload'' \<noteq> conversion_output" by (simp add: conversion_output_def)
  then show ?thesis
    by (simp add: upload_ok_def demo_upload_env_def demo_ingest_def demo_lib_law minio_law_def
        converter_law_def objects_ok_def empty_documents_db_ok)
qed


text \<open>C5: whatever happens to an upload, the temporary workspace is gone afterwards, the objects stored
  before are still there unchanged and every object has the digest of its key; the documents are
  consistent and, after an error, as before; and a file that is refused by a check leaves no object
  behind.\<close>

theorem upload_effects:
  assumes ok: "upload_ok E s" and run: "handle_upload E cmd s = (r, s')"
  shows "upload_ok E s' \<and> in_open_workspaces s' = in_open_workspaces s
    \<and> in_objects s \<subseteq>\<^sub>m in_objects s' \<and> objects_ok (ue_lib E) (in_objects s')
    \<and> (\<forall>e. r = Inl e \<longrightarrow> in_db s' = in_db s)
    \<and> (\<forall>e. inspect_upload E (uc_source cmd) Map.empty = Inl e \<longrightarrow> r = Inl e \<and> s' = s)"
proof -
  let ?s = "s\<lparr>in_open_workspaces := Suc (in_open_workspaces s)\<rparr>"
  have law: "converter_law E" and ok1: "upload_ok E ?s" using ok by (simp_all add: upload_ok_def)
  show ?thesis
  proof (cases "inspect_upload E (uc_source cmd) Map.empty")
    case (Inl e)
    then have "r = Inl e" "s' = s"
      using run by (auto simp: handle_upload_def with_workspace_def)
    then show ?thesis using ok Inl by (simp add: upload_ok_def)
  next
    case (Inr q)
    then obtain staged fmt parsed ws where insp:
      "inspect_upload E (uc_source cmd) Map.empty = Inr (staged, fmt, parsed, ws)"
      by (cases q) auto
    obtain s2 where store: "store_upload E cmd staged fmt parsed ws ?s = (r, s2)"
      and s': "s' = s2\<lparr>in_open_workspaces := in_open_workspaces s2 - 1\<rparr>"
      using run insp unfolding handle_upload_def with_workspace_def by (auto split: prod.splits)
    from inspect_upload_Inr [OF law insp] obtain content pdf where c:
      "read_file ws (sg_path staged) = Inr content" "sg_sha256 staged = sha256_hex (ue_lib E) content"
      "read_file ws (pa_normalized_pdf_path parsed) = Inr pdf"
      "pa_normalized_pdf_hash parsed = sha256_hex (ue_lib E) pdf" "fmt = PDF \<longrightarrow> pdf = content" by blast
    from store_upload_run [OF ok1 c store]
    have "upload_ok E s2" "later ?s s2" "\<forall>e. r = Inl e \<longrightarrow> in_db s2 = in_db s" by (auto split: sum.splits)
    then show ?thesis using s' Inr by (auto simp: later_def upload_ok_def)
  qed
qed

lemma upload_effects_witness:
  "\<exists>r s'. handle_upload demo_upload_env (demo_upload (Some (Naive 5))) demo_ingest = (r, s')
     \<and> in_open_workspaces s' = 0 \<and> objects_ok demo_lib (in_objects s') \<and> in_db s' = in_db demo_ingest"
proof -
  have err: "map_sum id dv_version
      (fst (handle_upload demo_upload_env (demo_upload (Some (Naive 5))) demo_ingest))
      = Inl (ValueError ''expiration time must be timezone-aware'')" by code_simp
  obtain r s' where run: "handle_upload demo_upload_env (demo_upload (Some (Naive 5))) demo_ingest = (r, s')"
    by force
  with err have "r = Inl (ValueError ''expiration time must be timezone-aware'')" by (cases r) auto
  with upload_effects [OF demo_upload_ok run] run show ?thesis
    by (auto simp: demo_ingest_def demo_upload_env_def)
qed

text \<open>
  A request whose expiration time has no time zone passes every check, has its object stored,
  and only then fails, with an exception that is no public error.
\<close>

lemma naive_expiry_fails_late:
  "(case handle_upload demo_upload_env (demo_upload (Some (Naive 5))) demo_ingest of
      (r, s') \<Rightarrow> (map_sum id dv_version r, in_objects s' (object_key (demo_hex (ascii ''%PDF-1.7''))) \<noteq> None))
   = (Inl (ValueError ''expiration time must be timezone-aware''), True)"
  by code_simp

text \<open>The shard prefix of a key is not lower-cased, the digest is: one digest, two keys.\<close>

lemma object_key_prefix_case:
  "object_key (replicate 64 65) \<noteq> object_key (map ascii_lower (replicate 64 65))"
  by code_simp

end
