(* ===== verification/DocRoutes.thy ===== *)
theory DocRoutes
  imports DocUpload AccessControl
begin

text \<open>
  The upload endpoints (\<open>modules/documents/interfaces/http.py\<close>): the check of the multipart
  form, the permission and the two routes.  Parsing the form and authenticating the request are
  FastAPI's and \<open>AuthRoutes\<close>' business: their results, or what they raised, are arguments.
\<close>

datatype form_value = FormFile "pystr option" "nat \<Rightarrow> nat \<Rightarrow> exn + bytes" | FormText pystr

type_synonym form = "(pystr \<times> form_value) list"

definition ALLOWED_MULTIPART_FIELDS :: "pystr set" where
  "ALLOWED_MULTIPART_FIELDS = {lit ''file'', lit ''expires_at''}"

fun is_upload :: "form_value \<Rightarrow> bool" where
  "is_upload (FormFile f r) = True"
| "is_upload (FormText s) = False"

definition enforce_single_upload_file :: "exn + form \<Rightarrow> exn + unit" where
  "enforce_single_upload_file parsed =
     (case parsed of
        Inl e \<Rightarrow> Inl (if is_exception e then BidError InvalidDocumentUploadRequestError None else e)
      | Inr items \<Rightarrow>
          raise_if (length (filter (\<lambda>(name, v). is_upload v) items) \<noteq> 1
                    \<or> \<not> fst ` set items \<subseteq> ALLOWED_MULTIPART_FIELDS)
            (BidError InvalidDocumentUploadRequestError None)
          (raise_if (length (filter (\<lambda>(name, v). name = lit ''file'') items) \<noteq> 1)
            (BidError InvalidDocumentUploadRequestError None)
          (raise_if (length (filter (\<lambda>(name, v). name = lit ''expires_at'') items) > 1)
            (BidError InvalidDocumentUploadRequestError None)
          (Inr ()))))"

text \<open>\<open>FastApiUploadSource\<close>\<close>

definition fastapi_upload_source ::
  "pystr option \<Rightarrow> (nat \<Rightarrow> nat \<Rightarrow> exn + bytes) \<Rightarrow> exn + upload_source" where
  "fastapi_upload_source filename read =
     (case filename of
        None \<Rightarrow> Inl (BidError InvalidDocumentUploadRequestError (Some Msg_missing_filename))
      | Some f \<Rightarrow> Inr \<lparr>us_filename = f, us_read = read\<rparr>)"

definition require_upload_permission ::
  "authenticated_principal \<Rightarrow> permission_code \<Rightarrow> exn + unit" where
  "require_upload_permission prin permission =
     require_permission (evaluate_permission prin {permission_value permission} (ap_tenant_id prin))"

definition upload_endpoint ::
  "upload_env \<Rightarrow> permission_code \<Rightarrow> uuid option \<Rightarrow> authenticated_principal \<Rightarrow> form_value
   \<Rightarrow> datetime option \<Rightarrow> (ingest_state, document_version) stateful" where
  "upload_endpoint E permission document_id prin upload expires_at =
     bindS (liftS (require_upload_permission prin permission)) (\<lambda>_.
     case upload of
       FormText t \<Rightarrow> raiseS RequestValidationError
     | FormFile filename read \<Rightarrow>
         bindS (liftS (fastapi_upload_source filename read)) (\<lambda>src.
         handle_upload E \<lparr>uc_source = src, uc_expires_at = expires_at,
                           uc_document_id = document_id\<rparr>))"

text \<open>
  A request: the principal first, on which the router that includes these routes depends
  (\<open>create_api_router\<close>), then the route's own dependency, then the parameters taken from the form,
  then the endpoint.
\<close>

record upload_request =
  ur_form :: "exn + form"
  ur_principal :: "exn + authenticated_principal"
  ur_expires_at :: "exn + datetime option"

definition form_field :: "pystr \<Rightarrow> form \<Rightarrow> exn + form_value" where
  "form_field name items =
     (case find (\<lambda>(n, v). n = name) (rev items) of
        Some (n, v) \<Rightarrow> if is_upload v then Inr v else Inl RequestValidationError
      | None \<Rightarrow> Inl RequestValidationError)"

definition upload_route ::
  "upload_env \<Rightarrow> permission_code \<Rightarrow> uuid option \<Rightarrow> upload_request
   \<Rightarrow> (ingest_state, document_version) stateful" where
  "upload_route E permission document_id req =
     bindS (liftS (ur_principal req)) (\<lambda>prin.
     bindS (liftS (enforce_single_upload_file (ur_form req))) (\<lambda>_.
     bindS (liftS (bindE (ur_form req) (form_field (lit ''file'')))) (\<lambda>upload.
     bindS (liftS (ur_expires_at req)) (\<lambda>expires_at.
     upload_endpoint E permission document_id prin upload expires_at))))"

definition create_document_route ::
  "upload_env \<Rightarrow> upload_request \<Rightarrow> (ingest_state, document_version) stateful" where
  "create_document_route E = upload_route E CONTENT_UPLOAD None"

definition create_document_version_route ::
  "upload_env \<Rightarrow> uuid \<Rightarrow> upload_request \<Rightarrow> (ingest_state, document_version) stateful" where
  "create_document_version_route E document_id = upload_route E CONTENT_MODIFY (Some document_id)"

lemma upload_endpoint_run:
  assumes "upload_endpoint E permission document_id prin upload t s = (r, s')"
    and "s' \<noteq> s \<or> (\<exists>v. r = Inr v)"
  shows "ap_active prin \<and> permission_value permission \<in> ap_permissions prin
    \<and> (\<exists>src. handle_upload E \<lparr>uc_source = src, uc_expires_at = t, uc_document_id = document_id\<rparr> s = (r, s'))"
  using assms
  by (cases upload)
    (auto simp: upload_endpoint_def bindS_run require_upload_permission_def require_permission_Inr
      fastapi_upload_source_def split: option.splits)

lemma upload_route_run:
  assumes "upload_route E permission document_id req s = (r, s')"
    and "s' \<noteq> s \<or> (\<exists>v. r = Inr v)"
  shows "\<exists>items prin src expires_at. ur_form req = Inr items \<and> ur_principal req = Inr prin
    \<and> length (filter (\<lambda>(name, v). is_upload v) items) = 1
    \<and> ap_active prin \<and> permission_value permission \<in> ap_permissions prin
    \<and> handle_upload E \<lparr>uc_source = src, uc_expires_at = expires_at, uc_document_id = document_id\<rparr> s
        = (r, s')"
proof -
  obtain prin upload t where "enforce_single_upload_file (ur_form req) = Inr ()"
    "ur_principal req = Inr prin"
    and e: "upload_endpoint E permission document_id prin upload t s = (r, s')"
    using assms by (auto simp: upload_route_def bindS_run)
  moreover from this(1) obtain items where "ur_form req = Inr items"
    "length (filter (\<lambda>(name, v). is_upload v) items) = 1"
    by (auto simp: enforce_single_upload_file_def split: sum.splits)
  ultimately show ?thesis using upload_endpoint_run [OF e assms(2)] by blast
qed

text \<open>C6: an upload request changes the stores, or is answered with a version, only for an active
  principal holding the permission of the route - upload for a new document, modify for a new
  version - and only with a form of exactly one file; what it then does is what the upload handler
  does, for the document in the path.\<close>

theorem upload_routes_guarded:
  assumes ok: "upload_ok E s" and effect: "s' \<noteq> s \<or> (\<exists>v. r = Inr v)"
  shows "(create_document_route E req s = (r, s') \<longrightarrow>
      (\<exists>items prin. ur_form req = Inr items \<and> ur_principal req = Inr prin
        \<and> length (filter (\<lambda>(name, v). is_upload v) items) = 1
        \<and> ap_active prin \<and> permission_value CONTENT_UPLOAD \<in> ap_permissions prin))
    \<and> (create_document_version_route E i req s = (r, s') \<longrightarrow>
      (\<exists>items prin. ur_form req = Inr items \<and> ur_principal req = Inr prin
        \<and> length (filter (\<lambda>(name, v). is_upload v) items) = 1
        \<and> ap_active prin \<and> permission_value CONTENT_MODIFY \<in> ap_permissions prin)
      \<and> (\<forall>v. r = Inr v \<longrightarrow> dv_document_id v = i
          \<and> (\<exists>d. stored_document (in_db s') i = Some d \<and> latest_version d = v)))"
proof (intro conjI impI)
  assume "create_document_route E req s = (r, s')"
  from upload_route_run [OF this [unfolded create_document_route_def] effect]
  show "\<exists>items prin. ur_form req = Inr items \<and> ur_principal req = Inr prin
      \<and> length (filter (\<lambda>(name, v). is_upload v) items) = 1
      \<and> ap_active prin \<and> permission_value CONTENT_UPLOAD \<in> ap_permissions prin" by blast
next
  assume "create_document_version_route E i req s = (r, s')"
  note run = upload_route_run [OF this [unfolded create_document_version_route_def] effect]
  then show "\<exists>items prin. ur_form req = Inr items \<and> ur_principal req = Inr prin
      \<and> length (filter (\<lambda>(name, v). is_upload v) items) = 1
      \<and> ap_active prin \<and> permission_value CONTENT_MODIFY \<in> ap_permissions prin" by blast
  from run obtain src t where h: "handle_upload E
      \<lparr>uc_source = src, uc_expires_at = t, uc_document_id = Some i\<rparr> s = (r, s')" by blast
  show "\<forall>v. r = Inr v \<longrightarrow> dv_document_id v = i
      \<and> (\<exists>d. stored_document (in_db s') i = Some d \<and> latest_version d = v)"
  proof (intro allI impI)
    fix v assume "r = Inr v"
    from handle_upload_stored [OF ok h [unfolded this]]
    show "dv_document_id v = i \<and> (\<exists>d. stored_document (in_db s') i = Some d \<and> latest_version d = v)"
      by auto
  qed
qed

definition demo_upload_principal :: authenticated_principal where
  "demo_upload_principal =
     \<lparr>ap_user_id = lit ''u'', ap_tenant_id = lit ''t'', ap_session_id = lit ''s'',
      ap_roles = {lit ''manager''}, ap_permissions = {permission_value CONTENT_UPLOAD}, ap_active = True\<rparr>"

definition demo_upload_request :: upload_request where
  "demo_upload_request =
     \<lparr>ur_form = Inr [(lit ''file'', FormFile (Some (us_filename demo_source)) (us_read demo_source))],
      ur_principal = Inr demo_upload_principal, ur_expires_at = Inr None\<rparr>"

lemma upload_routes_guarded_witness:
  "\<exists>r s'. create_document_route demo_upload_env demo_upload_request demo_ingest = (r, s')
     \<and> map_sum id dv_version r = Inr 1
     \<and> (\<exists>prin. ur_principal demo_upload_request = Inr prin \<and> ap_active prin
          \<and> permission_value CONTENT_UPLOAD \<in> ap_permissions prin)"
proof -
  obtain r s' where run: "create_document_route demo_upload_env demo_upload_request demo_ingest = (r, s')"
    by force
  have one: "map_sum id dv_version (fst (create_document_route demo_upload_env demo_upload_request demo_ingest))
      = Inr 1" by code_simp
  with run have r: "map_sum id dv_version r = Inr 1" by simp
  then have "\<exists>v. r = Inr v" by (cases r) auto
  with upload_routes_guarded [OF demo_upload_ok, of s' r demo_upload_request 0] run r show ?thesis
    by blast
qed

end
