(* ===== verification/Redaction.thy ===== *)
theory Redaction
  imports PyPrelude
begin

text \<open>
  Redaction of telemetry values (\<open>platform/telemetry/redaction.py\<close>).  The regular expressions
  are translated into matching functions on the text that remains: every class in them is
  disjoint from what follows it, so a greedy match is the only one, apart from the optional
  \<open>Bearer\<close>, whose fallback is written out.  \<open>[_-]?\<close> stands for its three readings.
\<close>

definition REDACTED :: pystr where "REDACTED = [42, 42, 42]"

text \<open>
  Equality under \<open>re.IGNORECASE\<close> with a lower-case ASCII letter: besides the capital, the long
  s, the Kelvin sign, and the dotted capital and dotless small i.
\<close>

definition ci_eq :: "nat \<Rightarrow> nat \<Rightarrow> bool" where
  "ci_eq c p \<longleftrightarrow> ascii_lower c = p \<or> p = 115 \<and> c = 383 \<or> p = 107 \<and> c = 8490
     \<or> p = 105 \<and> (c = 304 \<or> c = 305)"

fun match_literal :: "pystr \<Rightarrow> pystr \<Rightarrow> pystr option" where
  "match_literal [] s = Some s"
| "match_literal (p # ps) [] = None"
| "match_literal (p # ps) (c # s) = (if ci_eq c p then match_literal ps s else None)"

definition separated :: "string \<Rightarrow> string \<Rightarrow> pystr list" where
  "separated a b = [lit a @ lit b, lit a @ 95 # lit b, lit a @ 45 # lit b]"

definition sensitive_keys :: "pystr list" where
  "sensitive_keys =
     [lit ''authorization'', lit ''cookie''] @ separated ''api'' ''key'' @ separated ''access'' ''key''
     @ [lit ''password'', lit ''secret'', lit ''token''] @ separated ''signing'' ''key''
     @ separated ''private'' ''key'' @ [lit ''database_url'', lit ''redis_url'', lit ''broker_url'']"

text \<open>The first alternative that matches here; \<open>first_match\<close> is the ordered choice.\<close>

fun first_match :: "pystr list \<Rightarrow> pystr \<Rightarrow> pystr option" where
  "first_match [] s = None"
| "first_match (p # ps) s = (case match_literal p s of None \<Rightarrow> first_match ps s | Some r \<Rightarrow> Some r)"

definition match_sensitive_key :: "pystr \<Rightarrow> pystr option" where
  "match_sensitive_key s = first_match sensitive_keys s"

text \<open>\<open>SENSITIVE_KEY_PATTERN.search(s)\<close> finds something.\<close>

fun has_sensitive_key :: "pystr \<Rightarrow> bool" where
  "has_sensitive_key [] \<longleftrightarrow> match_sensitive_key [] \<noteq> None"
| "has_sensitive_key (c # s) \<longleftrightarrow> match_sensitive_key (c # s) \<noteq> None \<or> has_sensitive_key s"

definition value_char :: "nat \<Rightarrow> bool" where
  "value_char c \<longleftrightarrow> \<not> is_space c \<and> c \<noteq> 44 \<and> c \<noteq> 59"

definition match_word :: "pystr \<Rightarrow> pystr option" where
  "match_word s = (if takeWhile value_char s = [] then None else Some (dropWhile value_char s))"

definition match_bearer :: "pystr \<Rightarrow> pystr option" where
  "match_bearer s =
     (case match_literal (lit ''bearer'') s of
        Some r \<Rightarrow> if takeWhile is_space r = [] then None else match_word (dropWhile is_space r)
      | None \<Rightarrow> None)"

text \<open>\<open>\s*[:=]\s*(?:Bearer\s+)?[^\s,;]+\<close>\<close>

definition match_value :: "pystr \<Rightarrow> pystr option" where
  "match_value s =
     (case dropWhile is_space s of
        [] \<Rightarrow> None
      | c # s1 \<Rightarrow>
          if c = 58 \<or> c = 61 then
            let s2 = dropWhile is_space s1
            in (case match_bearer s2 of Some r \<Rightarrow> Some r | None \<Rightarrow> match_word s2)
          else None)"

definition match_sensitive_text :: "pystr \<Rightarrow> pystr option" where
  "match_sensitive_text s =
     (case match_sensitive_key s of None \<Rightarrow> None
      | Some r \<Rightarrow> Some (case match_value r of None \<Rightarrow> r | Some r' \<Rightarrow> r'))"

lemma match_literal_length: "match_literal p s = Some r \<Longrightarrow> length s = length p + length r"
  by (induction p s rule: match_literal.induct) (auto split: if_splits)

lemma first_match_shorter:
  "[] \<notin> set ps \<Longrightarrow> first_match ps s = Some r \<Longrightarrow> length r < length s"
  by (induction ps s rule: first_match.induct)
    (auto dest!: match_literal_length split: option.splits)

lemma sensitive_keys_nonempty: "[] \<notin> set sensitive_keys"
  by (simp add: sensitive_keys_def separated_def lit_def)

lemma match_word_length: "match_word s = Some r \<Longrightarrow> length r \<le> length s"
  by (auto simp: match_word_def length_dropWhile_le split: if_splits)

lemma match_value_length: "match_value s = Some r \<Longrightarrow> length r \<le> length s"
proof -
  assume m: "match_value s = Some r"
  then obtain c s1 where s1: "dropWhile is_space s = c # s1"
    and r: "match_bearer (dropWhile is_space s1) = Some r \<or> match_word (dropWhile is_space s1) = Some r"
    by (auto simp: match_value_def Let_def split: list.splits if_splits option.splits)
  have "length (dropWhile is_space s) \<le> length s" by (rule length_dropWhile_le)
  moreover have "length (dropWhile is_space s1) \<le> length s1" by (rule length_dropWhile_le)
  moreover have "length r \<le> length (dropWhile is_space s1)"
  proof (cases "match_word (dropWhile is_space s1) = Some r")
    case False
    then obtain q where q: "match_literal (lit ''bearer'') (dropWhile is_space s1) = Some q"
      "match_word (dropWhile is_space q) = Some r"
      using r by (auto simp: match_bearer_def split: option.splits if_splits)
    then have "length r \<le> length (dropWhile is_space q)" by (rule_tac match_word_length)
    also have "\<dots> \<le> length q" by (rule length_dropWhile_le)
    finally show ?thesis using match_literal_length [OF q(1)] by simp
  qed (rule match_word_length)
  ultimately show ?thesis using s1 by simp
qed

lemma match_sensitive_text_shorter: "match_sensitive_text s = Some r \<Longrightarrow> length r < length s"
proof -
  assume "match_sensitive_text s = Some r"
  then obtain q where q: "match_sensitive_key s = Some q" "length r \<le> length q"
    by (auto simp: match_sensitive_text_def split: option.splits dest: match_value_length)
  have "length q < length s"
    using first_match_shorter [OF sensitive_keys_nonempty] q(1) by (simp add: match_sensitive_key_def)
  with q(2) show ?thesis by simp
qed

text \<open>\<open>SENSITIVE_TEXT_PATTERN.sub(REDACTED, s)\<close>\<close>

function redact_keys :: "pystr \<Rightarrow> pystr" where
  "redact_keys [] = []"
| "redact_keys (c # s) =
     (case match_sensitive_text (c # s) of
        Some r \<Rightarrow> REDACTED @ redact_keys r | None \<Rightarrow> c # redact_keys s)"
  by pat_completeness auto
termination by (relation "measure length") (auto dest: match_sensitive_text_shorter)

text \<open>\<open>(?P<prefix>://[^:/\s]+:)[^@\s]+@\<close>: the prefix and what follows the match.\<close>

definition match_url_credential :: "pystr \<Rightarrow> (pystr \<times> pystr) option" where
  "match_url_credential s =
     (if startswith s (lit ''://'') then
        let r = drop 3 s;
            user = takeWhile (\<lambda>c. c \<noteq> 58 \<and> c \<noteq> 47 \<and> \<not> is_space c) r;
            r1 = drop (length user) r
        in (case r1 of
              [] \<Rightarrow> None
            | c # r2 \<Rightarrow>
                let password = takeWhile (\<lambda>c. c \<noteq> 64 \<and> \<not> is_space c) r2;
                    r3 = drop (length password) r2
                in if user \<noteq> [] \<and> c = 58 \<and> password \<noteq> [] \<and> r3 \<noteq> [] \<and> hd r3 = 64
                   then Some (lit ''://'' @ user @ [58], tl r3) else None)
      else None)"

lemma match_url_shorter: "match_url_credential s = Some (p, r) \<Longrightarrow> length r < length s"
proof -
  assume "match_url_credential s = Some (p, r)"
  then obtain n c r2 m where "drop n (drop 3 s) = c # r2" "r = tl (drop m r2)" "drop m r2 \<noteq> []"
    by (auto simp: match_url_credential_def Let_def split: if_splits list.splits)
  then show ?thesis
    by (metis Cons_nth_drop_Suc drop_eq_Nil drop_drop length_Cons length_drop length_tl
        diff_le_self le_less_trans less_imp_diff_less lessI linorder_not_le list.sel(3) length_greater_0_conv
        list.discI order_less_le_trans)
qed

function redact_urls :: "pystr \<Rightarrow> pystr" where
  "redact_urls [] = []"
| "redact_urls (c # s) =
     (case match_url_credential (c # s) of
        Some (prefix, r) \<Rightarrow> prefix @ REDACTED @ 64 # redact_urls r
      | None \<Rightarrow> c # redact_urls s)"
  by pat_completeness auto
termination by (relation "measure length") (auto dest: match_url_shorter)

definition redact_text :: "pystr \<Rightarrow> pystr" where
  "redact_text value = redact_keys (redact_urls value)"

text \<open>Nested values; numbers, booleans and \<open>None\<close> are \<open>RScalar\<close>.\<close>

datatype redactable = RText pystr | RMapping "(pystr \<times> redactable) list" | RSequence "redactable list"
  | RScalar int

fun redact_value :: "redactable \<Rightarrow> redactable" where
  "redact_value (RText s) = RText (redact_text s)"
| "redact_value (RMapping kvs) =
     RMapping (map (\<lambda>(k, v). (k, if has_sensitive_key k then RText REDACTED else redact_value v)) kvs)"
| "redact_value (RSequence vs) = RSequence (map redact_value vs)"
| "redact_value (RScalar n) = RScalar n"

definition redact_mapping :: "(pystr \<times> redactable) list \<Rightarrow> (pystr \<times> redactable) list" where
  "redact_mapping kvs =
     map (\<lambda>(k, v). (k, if has_sensitive_key k then RText REDACTED else redact_value v)) kvs"

section \<open>Guarantees\<close>

lemma no_star_key: "p \<in> set sensitive_keys \<Longrightarrow> x \<in> set p \<Longrightarrow> \<not> ci_eq 42 x"
  by (auto simp: sensitive_keys_def separated_def lit_def ci_eq_def ascii_lower_def)

lemma match_literal_redacted:
  assumes "\<forall>x\<in>set p. \<not> ci_eq 42 x" "match_literal p (redact_keys s) = Some r"
  shows "\<exists>r'. match_literal p s = Some r'"
  using assms
proof (induction p arbitrary: s)
  case (Cons x p)
  then obtain c t where s: "s = c # t" by (cases s) auto
  have "match_sensitive_text s = None"
    using Cons.prems s by (auto simp: REDACTED_def split: option.splits)
  then show ?case using Cons s by (auto split: if_splits)
qed simp

lemma first_match_None: "first_match ps s = None \<longleftrightarrow> (\<forall>p\<in>set ps. match_literal p s = None)"
  by (induction ps) (auto split: option.splits)

lemma match_sensitive_key_redacted:
  "match_sensitive_key s = None \<Longrightarrow> match_sensitive_key (redact_keys s) = None"
  unfolding match_sensitive_key_def first_match_None
  using match_literal_redacted no_star_key by (metis not_Some_eq)

lemma match_key_star: "match_sensitive_key (42 # s) = None"
  unfolding match_sensitive_key_def first_match_None
proof
  fix p assume p: "p \<in> set sensitive_keys"
  have "p \<noteq> []" using sensitive_keys_nonempty p by metis
  then obtain x q where "p = x # q" by (cases p) auto
  then show "match_literal p (42 # s) = None" using no_star_key [OF p, of x] by simp
qed

lemma redact_keys_clean: "\<not> has_sensitive_key (redact_keys s)"
proof (induction s rule: redact_keys.induct)
  case 1
  show ?case by code_simp
next
  case (2 c s)
  show ?case
  proof (cases "match_sensitive_text (c # s)")
    case None
    then have "match_sensitive_key (c # s) = None"
      by (auto simp: match_sensitive_text_def split: option.splits)
    then have "match_sensitive_key (c # redact_keys s) = None"
      using match_sensitive_key_redacted [of "c # s"] None by simp
    then show ?thesis using 2 None by simp
  next
    case (Some r)
    then show ?thesis using 2 by (simp add: REDACTED_def match_key_star)
  qed
qed

fun texts_of :: "redactable \<Rightarrow> pystr list" where
  "texts_of (RText s) = [s]"
| "texts_of (RMapping kvs) = concat (map (\<lambda>(k, v). texts_of v) kvs)"
| "texts_of (RSequence vs) = concat (map texts_of vs)"
| "texts_of (RScalar n) = []"

fun sensitive_entries :: "redactable \<Rightarrow> redactable list" where
  "sensitive_entries (RText s) = []"
| "sensitive_entries (RMapping kvs) =
     concat (map (\<lambda>(k, v). if has_sensitive_key k then [v] else sensitive_entries v) kvs)"
| "sensitive_entries (RSequence vs) = concat (map sensitive_entries vs)"
| "sensitive_entries (RScalar n) = []"



text \<open>What the value pattern does not reach: the credential of another scheme than Bearer.\<close>

lemma basic_credential_survives:
  "redact_text (lit ''Authorization: Basic dXNlcjpwdw'') = lit ''*** dXNlcjpwdw''"
  by code_simp

end
