(* ===== verification/Outbox.thy ===== *)
theory Outbox
  imports Redaction "HOL-Library.Product_Lexorder"
begin

text \<open>
  The transactional outbox (\<open>platform/database/outbox.py\<close>): the event row, its claim by a
  publisher under a lease, the confirmation and the failure with backoff.  A method that mutates an
  event is stateful in it.  \<open>outbox_step\<close> runs one operation in its transaction; the tokens of
  \<open>uuid4\<close> are a counter, which makes them fresh.  \<open>SKIP LOCKED\<close> leaves out the rows whose
  identifiers are in \<open>locked\<close>.
\<close>

section \<open>Rows\<close>

datatype outbox_status = PENDING | PROCESSING | PUBLISHED | DEAD_LETTER

datatype json = JNull | JBoolean bool | JInteger int | JFloat pyfloat | JString pystr
  | JArray "json list" | JObject "(pystr \<times> json) list"

definition MAX_EVENT_TYPE_LENGTH :: nat where "MAX_EVENT_TYPE_LENGTH = 200"
definition MAX_AGGREGATE_TYPE_LENGTH :: nat where "MAX_AGGREGATE_TYPE_LENGTH = 100"
definition MAX_AGGREGATE_ID_LENGTH :: nat where "MAX_AGGREGATE_ID_LENGTH = 200"
definition MAX_ERROR_LENGTH :: nat where "MAX_ERROR_LENGTH = 2000"

record retry_policy =
  rp_max_attempts :: int
  rp_base_delay_seconds :: pyfloat
  rp_max_delay_seconds :: pyfloat

definition mk_retry_policy :: "retry_policy \<Rightarrow> exn + retry_policy" where
  "mk_retry_policy p =
     raise_if (rp_max_attempts p < 1) (ValueError ''max_attempts must be at least one'')
     (raise_if (fl_le (rp_base_delay_seconds p) (Fin 0))
       (ValueError ''base_delay_seconds must be positive'')
     (raise_if (fl_lt (rp_max_delay_seconds p) (rp_base_delay_seconds p))
       (ValueError ''max_delay_seconds must not be below base_delay_seconds'')
     (Inr p)))"

record outbox_event =
  ev_id :: nat
  ev_type :: pystr
  ev_aggregate_type :: pystr
  ev_aggregate_id :: pystr
  ev_aggregate_version :: "int option"
  ev_payload :: json
  ev_metadata :: json
  ev_status :: outbox_status
  ev_attempt_count :: int
  ev_available_at :: datetime
  ev_claimed_at :: "datetime option"
  ev_claimed_until :: "datetime option"
  ev_claim_token :: "nat option"
  ev_published_at :: "datetime option"
  ev_last_error :: "pystr option"
  ev_created_at :: datetime

record event_draft =
  ed_type :: pystr
  ed_aggregate_type :: pystr
  ed_aggregate_id :: pystr
  ed_aggregate_version :: "int option"
  ed_payload :: json
  ed_metadata :: json
  ed_occurred_at :: "datetime option"
  ed_id :: "nat option"

definition validate_required_text :: "string \<Rightarrow> pystr \<Rightarrow> nat \<Rightarrow> string \<Rightarrow> exn + unit" where
  "validate_required_text name value max_length shown =
     raise_if (blank value) (ValueError (name @ '' must not be blank''))
     (raise_if (length value > max_length)
       (ValueError (name @ '' exceeds maximum length '' @ shown)) (Inr ()))"

definition create_event :: "datetime \<Rightarrow> nat \<Rightarrow> event_draft \<Rightarrow> exn + outbox_event" where
  "create_event now new_id d =
     (let created_at = (case ed_occurred_at d of None \<Rightarrow> now | Some t \<Rightarrow> t) in
      raise_if (\<not> is_aware created_at) (ValueError ''occurred_at must include a timezone'')
      (bindE (validate_required_text ''event_type'' (ed_type d) MAX_EVENT_TYPE_LENGTH ''200'') (\<lambda>_.
       bindE (validate_required_text ''aggregate_type'' (ed_aggregate_type d)
                MAX_AGGREGATE_TYPE_LENGTH ''100'') (\<lambda>_.
       bindE (validate_required_text ''aggregate_id'' (ed_aggregate_id d)
                MAX_AGGREGATE_ID_LENGTH ''200'') (\<lambda>_.
       raise_if (case ed_aggregate_version d of None \<Rightarrow> False | Some v \<Rightarrow> v < 0)
         (ValueError ''aggregate_version must not be negative'')
       (Inr \<lparr>ev_id = (case ed_id d of None \<Rightarrow> new_id | Some i \<Rightarrow> i), ev_type = ed_type d,
             ev_aggregate_type = ed_aggregate_type d, ev_aggregate_id = ed_aggregate_id d,
             ev_aggregate_version = ed_aggregate_version d, ev_payload = ed_payload d,
             ev_metadata = ed_metadata d, ev_status = PENDING, ev_attempt_count = 0,
             ev_available_at = created_at, ev_claimed_at = None, ev_claimed_until = None,
             ev_claim_token = None, ev_published_at = None, ev_last_error = None,
             ev_created_at = created_at\<rparr>))))))"

section \<open>Claiming\<close>

definition claimable :: "datetime \<Rightarrow> outbox_event \<Rightarrow> bool" where
  "claimable now e \<longleftrightarrow> ev_status e = PENDING \<and> instant (ev_available_at e) \<le> instant now
     \<or> ev_status e = PROCESSING
       \<and> (case ev_claimed_until e of None \<Rightarrow> False | Some t \<Rightarrow> instant t \<le> instant now)"

definition claim_event :: "datetime \<Rightarrow> datetime \<Rightarrow> nat \<Rightarrow> outbox_event \<Rightarrow> outbox_event" where
  "claim_event now until token e =
     e\<lparr>ev_status := PROCESSING, ev_attempt_count := ev_attempt_count e + 1,
       ev_claimed_at := Some now, ev_claimed_until := Some until, ev_claim_token := Some token\<rparr>"

definition select_claimable :: "nat \<Rightarrow> datetime \<Rightarrow> nat set \<Rightarrow> outbox_event list \<Rightarrow> outbox_event list" where
  "select_claimable limit now locked table =
     take limit (filter (\<lambda>e. ev_id e \<notin> locked)
       (sort_key (\<lambda>e. (instant (ev_available_at e), instant (ev_created_at e)))
          (filter (claimable now) table)))"

fun claim_all :: "datetime \<Rightarrow> timedelta \<Rightarrow> nat \<Rightarrow> outbox_event list \<Rightarrow> exn + outbox_event list" where
  "claim_all now lease token [] = Inr []"
| "claim_all now lease token (e # es) =
     bindE (dt_add now lease) (\<lambda>until.
     bindE (claim_all now lease (Suc token) es) (\<lambda>rest.
     Inr (claim_event now until token e # rest)))"

text \<open>The modified objects reach the table at the commit.\<close>

definition write_back :: "outbox_event list \<Rightarrow> outbox_event list \<Rightarrow> outbox_event list" where
  "write_back changed table =
     map (\<lambda>e. case find (\<lambda>c. ev_id c = ev_id e) changed of None \<Rightarrow> e | Some c \<Rightarrow> c) table"

definition claim_batch ::
  "int \<Rightarrow> datetime \<Rightarrow> timedelta \<Rightarrow> nat set \<Rightarrow> nat \<Rightarrow> outbox_event list
   \<Rightarrow> exn + outbox_event list" where
  "claim_batch limit now lease_duration locked token table =
     raise_if (limit < 1) (ValueError ''limit must be at least one'')
     (raise_if (lease_duration \<le> 0) (ValueError ''lease_duration must be positive'')
     (claim_all now lease_duration token (select_claimable (nat limit) now locked table)))"

section \<open>Confirmation and failure\<close>

definition mark_published :: "nat \<Rightarrow> datetime \<Rightarrow> (outbox_event, unit) stateful" where
  "mark_published claim_token now e =
     (if ev_status e \<noteq> PROCESSING \<or> ev_claim_token e \<noteq> Some claim_token
      then (Inl (ValueError ''Only a claimed event can be marked as published''), e)
      else (Inr (), e\<lparr>ev_status := PUBLISHED, ev_published_at := Some now, ev_claimed_until := None,
                       ev_claim_token := None, ev_last_error := None\<rparr>))"

text \<open>\<open>value.replace("\r", " ").replace("\n", " ")\<close>\<close>

definition one_line :: "pystr \<Rightarrow> pystr" where
  "one_line s = map (\<lambda>c. if c = 13 \<or> c = 10 then 32 else c) s"

text \<open>
  \<open>base * (2 ** (attempt_count - 1))\<close>: the power is an integer, which a float product converts
  first and which does not fit from \<open>2\<^sup>1\<^sup>0\<^sup>2\<^sup>4\<close> on; a negative exponent gives a float.
\<close>

definition backoff_product :: "pyfloat \<Rightarrow> int \<Rightarrow> exn + pyfloat" where
  "backoff_product base attempt_count =
     (if attempt_count - 1 \<ge> 1024 then Inl OverflowError
      else if attempt_count \<ge> 1 then Inr (fl_scale base (nat (attempt_count - 1)))
      else Inr (case base of Fin a \<Rightarrow> Fin (a / 2 ^ nat (1 - attempt_count)) | x \<Rightarrow> x))"

text \<open>\<open>timedelta(seconds=x)\<close>: whole microseconds, half to even, at most 999999999 days.\<close>

definition rat_round_half_even :: "rat \<Rightarrow> int" where
  "rat_round_half_even q =
     (let f = \<lfloor>q\<rfloor>; r = q - of_int f
      in if r < 1 / 2 then f else if 1 / 2 < r then f + 1 else if even f then f else f + 1)"

definition day_us :: int where "day_us = 86400 * 1000000"

fun timedelta_seconds :: "pyfloat \<Rightarrow> exn + timedelta" where
  "timedelta_seconds NaN = Inl (ValueError ''cannot convert float NaN to integer'')"
| "timedelta_seconds PInf = Inl OverflowError"
| "timedelta_seconds NInf = Inl OverflowError"
| "timedelta_seconds (Fin q) =
     (let us = rat_round_half_even (q * 1000000)
      in if - 999999999 \<le> us div day_us \<and> us div day_us \<le> 999999999 then Inr us else Inl OverflowError)"

definition apply_failure ::
  "nat \<Rightarrow> datetime \<Rightarrow> pystr \<Rightarrow> retry_policy \<Rightarrow> (outbox_event, unit) stateful" where
  "apply_failure claim_token now error policy e =
     (if ev_status e \<noteq> PROCESSING \<or> ev_claim_token e \<noteq> Some claim_token
      then (Inl (ValueError ''Only a claimed event can fail publication''), e)
      else
        let e1 = e\<lparr>ev_last_error := Some (take MAX_ERROR_LENGTH (one_line (redact_text error))),
                   ev_claimed_at := None, ev_claimed_until := None, ev_claim_token := None\<rparr>
        in if ev_attempt_count e1 \<ge> rp_max_attempts policy
           then (Inr (), e1\<lparr>ev_status := DEAD_LETTER\<rparr>)
           else
             case backoff_product (rp_base_delay_seconds policy) (ev_attempt_count e1) of
               Inl x \<Rightarrow> (Inl x, e1)
             | Inr product \<Rightarrow>
                 let e2 = e1\<lparr>ev_status := PENDING\<rparr>
                 in (case bindE (timedelta_seconds (fl_min product (rp_max_delay_seconds policy)))
                            (dt_add now) of
                       Inl x \<Rightarrow> (Inl x, e2)
                     | Inr t \<Rightarrow> (Inr (), e2\<lparr>ev_available_at := t\<rparr>)))"

section \<open>One operation in its transaction\<close>

record outbox_state =
  ob_events :: "outbox_event list"
  ob_tokens :: nat

datatype outbox_command =
    AppendEvent datetime nat event_draft
  | ClaimBatch int datetime timedelta "nat set"
  | MarkPublished nat nat datetime
  | ApplyFailure nat nat datetime pystr retry_policy

definition on_event ::
  "nat \<Rightarrow> (outbox_event, unit) stateful \<Rightarrow> (outbox_state, outbox_event list) stateful" where
  "on_event i f s =
     (case find (\<lambda>e. ev_id e = i) (ob_events s) of
        None \<Rightarrow> (Inl KeyError, s)
      | Some e \<Rightarrow>
          (case f e of
             (Inl x, e') \<Rightarrow> (Inl x, s)
           | (Inr u, e') \<Rightarrow> (Inr [e'], s\<lparr>ob_events := write_back [e'] (ob_events s)\<rparr>)))"

fun outbox_step :: "outbox_command \<Rightarrow> (outbox_state, outbox_event list) stateful" where
  "outbox_step (AppendEvent now new_id draft) s =
     (case create_event now new_id draft of
        Inl x \<Rightarrow> (Inl x, s)
      | Inr e \<Rightarrow>
          if ev_id e \<in> ev_id ` set (ob_events s)
          then (Inl (IntegrityError (UniqueViolation ''pk_outbox_event'')), s)
          else (Inr [e], s\<lparr>ob_events := ob_events s @ [e]\<rparr>))"
| "outbox_step (ClaimBatch limit now lease_duration locked) s =
     (case claim_batch limit now lease_duration locked (ob_tokens s) (ob_events s) of
        Inl x \<Rightarrow> (Inl x, s)
      | Inr claimed \<Rightarrow>
          (Inr claimed, \<lparr>ob_events = write_back claimed (ob_events s),
                         ob_tokens = ob_tokens s + length claimed\<rparr>))"
| "outbox_step (MarkPublished i claim_token now) s = on_event i (mark_published claim_token now) s"
| "outbox_step (ApplyFailure i claim_token now error policy) s =
     on_event i (apply_failure claim_token now error policy) s"

fun run_outbox :: "outbox_command list \<Rightarrow> outbox_state \<Rightarrow> outbox_state" where
  "run_outbox [] s = s"
| "run_outbox (c # cs) s = run_outbox cs (snd (outbox_step c s))"

inductive outbox_reachable :: "outbox_state \<Rightarrow> bool" where
  start: "outbox_reachable \<lparr>ob_events = [], ob_tokens = 0\<rparr>"
| step: "outbox_reachable s \<Longrightarrow> outbox_step c s = (r, s') \<Longrightarrow> outbox_reachable s'"

section \<open>Invariant\<close>

definition error_text_ok :: "pystr \<Rightarrow> bool" where
  "error_text_ok m \<longleftrightarrow> length m \<le> 2000 \<and> \<not> has_sensitive_key m \<and> 10 \<notin> set m \<and> 13 \<notin> set m"

definition event_ok :: "outbox_event \<Rightarrow> bool" where
  "event_ok e \<longleftrightarrow> 0 \<le> ev_attempt_count e
     \<and> (case ev_last_error e of None \<Rightarrow> True | Some m \<Rightarrow> error_text_ok m)
     \<and> (case ev_status e of
          PENDING \<Rightarrow> ev_claim_token e = None \<and> ev_claimed_until e = None
        | PROCESSING \<Rightarrow> 1 \<le> ev_attempt_count e \<and> ev_claim_token e \<noteq> None
            \<and> (\<exists>now until. ev_claimed_at e = Some now \<and> ev_claimed_until e = Some until
                 \<and> instant now < instant until)
        | PUBLISHED \<Rightarrow> 1 \<le> ev_attempt_count e \<and> ev_claim_token e = None \<and> ev_published_at e \<noteq> None
        | DEAD_LETTER \<Rightarrow> 1 \<le> ev_attempt_count e \<and> ev_claim_token e = None \<and> ev_last_error e \<noteq> None)"

definition outbox_ok :: "outbox_state \<Rightarrow> bool" where
  "outbox_ok s \<longleftrightarrow> distinct (map ev_id (ob_events s)) \<and> (\<forall>e\<in>set (ob_events s). event_ok e)
     \<and> (\<forall>e\<in>set (ob_events s). \<forall>k. ev_claim_token e = Some k \<longrightarrow> k < ob_tokens s)
     \<and> (\<forall>e\<in>set (ob_events s). \<forall>e'\<in>set (ob_events s).
          ev_claim_token e \<noteq> None \<and> ev_claim_token e = ev_claim_token e' \<longrightarrow> e = e')"

lemma outbox_okD:
  assumes "outbox_ok s"
  shows "distinct (map ev_id (ob_events s))" "\<And>e. e \<in> set (ob_events s) \<Longrightarrow> event_ok e"
    "\<And>e k. e \<in> set (ob_events s) \<Longrightarrow> ev_claim_token e = Some k \<Longrightarrow> k < ob_tokens s"
    "\<And>e e' k. e \<in> set (ob_events s) \<Longrightarrow> e' \<in> set (ob_events s) \<Longrightarrow> ev_claim_token e = Some k \<Longrightarrow>
       ev_claim_token e' = Some k \<Longrightarrow> e = e'"
  using assms unfolding outbox_ok_def by (blast, blast, blast, metis option.distinct(1))

lemma same_id:
  "distinct (map ev_id es) \<Longrightarrow> e \<in> set es \<Longrightarrow> e' \<in> set es \<Longrightarrow> ev_id e = ev_id e' \<Longrightarrow> e = e'"
  by (metis distinct_map inj_onD)

lemma write_back_member:
  assumes "e \<in> set (write_back changed table)"
  shows "e \<in> set changed \<or> e \<in> set table \<and> ev_id e \<notin> ev_id ` set changed"
proof -
  obtain x where x: "x \<in> set table"
    "e = (case find (\<lambda>c. ev_id c = ev_id x) changed of None \<Rightarrow> x | Some c \<Rightarrow> c)"
    using assms by (auto simp: write_back_def)
  show ?thesis
  proof (cases "find (\<lambda>c. ev_id c = ev_id x) changed")
    case None
    then have "ev_id x \<notin> ev_id ` set changed" by (auto simp: find_None_iff)
    then show ?thesis using x None by simp
  next
    case (Some c)
    then show ?thesis using x by (simp add: find_in_set)
  qed
qed

lemma write_back_unchanged: "e \<in> set table \<Longrightarrow> ev_id e \<notin> ev_id ` set changed \<Longrightarrow> e \<in> set (write_back changed table)"
proof -
  assume e: "e \<in> set table" "ev_id e \<notin> ev_id ` set changed"
  then have "find (\<lambda>c. ev_id c = ev_id e) changed = None"
    by (auto simp: find_None_iff image_iff)
  then show "e \<in> set (write_back changed table)" using e(1) by (force simp: write_back_def)
qed

lemma write_back_changed:
  assumes "distinct (map ev_id changed)" "c \<in> set changed" "ev_id c \<in> ev_id ` set table"
  shows "c \<in> set (write_back changed table)"
proof -
  obtain x where x: "x \<in> set table" "ev_id x = ev_id c" using assms(3) by auto
  have "find (\<lambda>d. ev_id d = ev_id x) changed = Some c"
    using find_unique_key [OF assms(1,2)] x(2) by simp
  then show ?thesis using x(1) by (force simp: write_back_def)
qed

lemma write_back_ids: "map ev_id (write_back changed table) = map ev_id table"
  by (induction table) (auto simp: write_back_def split: option.splits dest: find_in_set)

lemma claim_event_simps [simp]:
  "ev_id (claim_event now until k e) = ev_id e" "ev_status (claim_event now until k e) = PROCESSING"
  "ev_claim_token (claim_event now until k e) = Some k"
  "ev_attempt_count (claim_event now until k e) = ev_attempt_count e + 1"
  "ev_claimed_at (claim_event now until k e) = Some now"
  "ev_claimed_until (claim_event now until k e) = Some until"
  "ev_last_error (claim_event now until k e) = ev_last_error e"
  by (simp_all add: claim_event_def)

lemma claim_all_eq:
  "claim_all now lease k es = (if es = [] then Inr [] else bindE (dt_add now lease) (\<lambda>until.
     Inr (map2 (\<lambda>i e. claim_event now until i e) [k..<k + length es] es)))"
proof (induction es arbitrary: k)
  case (Cons e es)
  show ?case
    using Cons [of "Suc k"]
    by (cases "dt_add now lease"; cases es) (simp_all add: upt_conv_Cons del: upt_Suc)
qed simp

lemma claim_all_member:
  assumes "claim_all now lease k es = Inr cs"
  shows "length cs = length es"
    "\<And>c. c \<in> set cs \<Longrightarrow> \<exists>i e. i < length es \<and> e = es ! i \<and> c = cs ! i \<and>
       c = claim_event now (dt_shift now lease) (k + i) e"
    "map ev_id cs = map ev_id es"
proof -
  have cs: "cs = map2 (claim_event now (dt_shift now lease)) [k..<k + length es] es"
    using assms by (cases "es = []") (auto simp: claim_all_eq bindE_Inr dt_add_Inr)
  then show "length cs = length es" by simp
  show "map ev_id cs = map ev_id es" unfolding cs by (rule nth_equalityI) simp_all
  fix c assume "c \<in> set cs"
  then obtain i where "i < length cs" "c = cs ! i" by (auto simp: in_set_conv_nth)
  then show "\<exists>i e. i < length es \<and> e = es ! i \<and> c = cs ! i \<and>
       c = claim_event now (dt_shift now lease) (k + i) e"
    unfolding cs by (intro exI [of _ i]) simp
qed

lemma select_claimable_member:
  "e \<in> set (select_claimable n now locked table) \<Longrightarrow>
     e \<in> set table \<and> claimable now e \<and> ev_id e \<notin> locked"
  by (auto simp: select_claimable_def dest!: in_set_takeD)

lemma select_claimable_distinct:
  "distinct (map ev_id table) \<Longrightarrow> distinct (map ev_id (select_claimable n now locked table))"
proof -
  assume d: "distinct (map ev_id table)"
  then have i: "inj_on ev_id (set table)" and "distinct table" by (simp_all add: distinct_map)
  then have "distinct (select_claimable n now locked table)"
    by (simp add: select_claimable_def distinct_take distinct_filter)
  moreover have "inj_on ev_id (set (select_claimable n now locked table))"
    using i by (rule inj_on_subset) (auto dest: select_claimable_member)
  ultimately show ?thesis by (simp add: distinct_map)
qed

section \<open>Preservation\<close>

lemma create_event_ok: "create_event now i d = Inr e \<Longrightarrow> event_ok e \<and> ev_claim_token e = None"
  by (auto simp: create_event_def Let_def bindE_Inr event_ok_def)

lemma has_sensitive_key_iff: "has_sensitive_key s \<longleftrightarrow> (\<exists>i. match_sensitive_key (drop i s) \<noteq> None)"
proof (induction s)
  case (Cons c s)
  have "(\<exists>i. match_sensitive_key (drop i (c # s)) \<noteq> None) \<longleftrightarrow>
      match_sensitive_key (c # s) \<noteq> None \<or> (\<exists>i. match_sensitive_key (drop i s) \<noteq> None)"
    by (metis drop0 drop_Suc_Cons not0_implies_Suc)
  then show ?case using Cons by simp
qed simp

lemma match_literal_take: "match_literal p (take n s) = Some r \<Longrightarrow> \<exists>r'. match_literal p s = Some r'"
proof (induction p s arbitrary: n rule: match_literal.induct)
  case (3 p ps c s)
  then show ?case by (cases n) (auto split: if_splits)
qed auto

lemma match_literal_one_line:
  "\<forall>x\<in>set p. \<not> ci_eq 32 x \<Longrightarrow> match_literal p (one_line s) = Some r \<Longrightarrow>
     \<exists>r'. match_literal p s = Some r'"
proof (induction p s arbitrary: r rule: match_literal.induct)
  case (3 p ps c s)
  then show ?case by (auto simp: one_line_def split: if_splits)
qed (auto simp: one_line_def)

lemma no_space_key: "p \<in> set sensitive_keys \<Longrightarrow> x \<in> set p \<Longrightarrow> \<not> ci_eq 32 x"
  by (auto simp: sensitive_keys_def separated_def lit_def ci_eq_def ascii_lower_def)

lemma error_text: "error_text_ok (take MAX_ERROR_LENGTH (one_line (redact_text m)))"
proof -
  have "match_sensitive_key (drop i (take n (one_line s))) \<noteq> None \<Longrightarrow>
      match_sensitive_key (drop i s) \<noteq> None" for i n s
    unfolding match_sensitive_key_def first_match_None not_None_eq [symmetric]
    using match_literal_take match_literal_one_line no_space_key
    by (simp add: drop_take one_line_def drop_map) (metis not_None_eq one_line_def)
  then have "has_sensitive_key (take n (one_line s)) \<Longrightarrow> has_sensitive_key s" for n s
    unfolding has_sensitive_key_iff by blast
  then have "\<not> has_sensitive_key (take MAX_ERROR_LENGTH (one_line (redact_text m)))"
    using redact_keys_clean redact_text_def by metis
  then show ?thesis
    by (auto simp: error_text_ok_def MAX_ERROR_LENGTH_def one_line_def dest!: in_set_takeD)
qed


lemma mark_published_Inr:
  "mark_published k now e = (Inr u, e') \<longleftrightarrow>
     ev_status e = PROCESSING \<and> ev_claim_token e = Some k
     \<and> e' = e\<lparr>ev_status := PUBLISHED, ev_published_at := Some now, ev_claimed_until := None,
              ev_claim_token := None, ev_last_error := None\<rparr>"
  by (auto simp: mark_published_def)

lemma apply_failure_Inr:
  assumes "apply_failure k now m policy e = (Inr u, e')"
  shows "ev_status e = PROCESSING" "ev_claim_token e = Some k" "ev_id e' = ev_id e"
    "ev_status e' = PENDING \<or> ev_status e' = DEAD_LETTER" "ev_claim_token e' = None"
    "ev_claimed_until e' = None" "ev_attempt_count e' = ev_attempt_count e"
    "ev_last_error e' = Some (take MAX_ERROR_LENGTH (one_line (redact_text m)))"
  using assms by (auto simp: apply_failure_def Let_def split: if_splits sum.splits)

lemma settle_ok:
  assumes "event_ok e"
  shows "mark_published k now e = (Inr u, e') \<Longrightarrow> event_ok e'"
    "apply_failure k now m policy e = (Inr u, e') \<Longrightarrow> event_ok e'"
proof -
  assume "mark_published k now e = (Inr u, e')"
  then show "event_ok e'" using assms by (auto simp: mark_published_Inr event_ok_def)
next
  assume a: "apply_failure k now m policy e = (Inr u, e')"
  show "event_ok e'"
    using apply_failure_Inr [OF a] assms error_text [of m] by (auto simp: event_ok_def)
qed

lemma claim_event_ok:
  "event_ok e \<Longrightarrow> 0 < lease \<Longrightarrow> event_ok (claim_event now (dt_shift now lease) k e)"
  by (auto simp: event_ok_def split: option.splits)

lemma on_event_Inr:
  assumes "on_event i f s = (Inr r, s')"
  obtains e u e' where "e \<in> set (ob_events s)" "ev_id e = i" "f e = (Inr u, e')" "r = [e']"
    "s' = s\<lparr>ob_events := write_back [e'] (ob_events s)\<rparr>"
  using assms by (auto simp: on_event_def split: option.splits prod.splits sum.splits dest!: find_in_set)

lemma on_event_Inl: "on_event i f s = (Inl x, s') \<Longrightarrow> s' = s"
  by (auto simp: on_event_def split: option.splits prod.splits sum.splits)

text \<open>Replacing a claimed row by its settled form.\<close>

lemma settle_row_ok:
  assumes ok: "outbox_ok s" and e: "e \<in> set (ob_events s)"
    and e': "ev_id e' = ev_id e" "event_ok e'" "ev_claim_token e' = None"
  shows "outbox_ok (s\<lparr>ob_events := write_back [e'] (ob_events s)\<rparr>)"
proof -
  have mem: "x = e' \<or> x \<in> set (ob_events s)" if "x \<in> set (write_back [e'] (ob_events s))" for x
    using write_back_member [OF that] by auto
  show ?thesis
    unfolding outbox_ok_def
    using outbox_okD [OF ok] mem e' by (simp add: write_back_ids) (metis option.distinct(1) option.exhaust)
qed

text \<open>Replacing rows by their claimed form.\<close>

lemma claim_rows_ok:
  assumes ok: "outbox_ok s" and lease: "0 < lease"
    and cs: "claim_all now lease (ob_tokens s) es = Inr cs" and es: "set es \<subseteq> set (ob_events s)"
  shows "outbox_ok \<lparr>ob_events = write_back cs (ob_events s), ob_tokens = ob_tokens s + length cs\<rparr>"
proof -
  let ?k = "ob_tokens s"
  note c = claim_all_member [OF cs] and D = outbox_okD [OF ok]
  have mem: "(\<exists>i<length es. x = cs ! i \<and> x = claim_event now (dt_shift now lease) (?k + i) (es ! i))
      \<or> x \<in> set (ob_events s)" if "x \<in> set (write_back cs (ob_events s))" for x
    using write_back_member [OF that] c(2) by blast
  have ev: "event_ok x" if x: "x \<in> set (write_back cs (ob_events s))" for x
  proof -
    consider i where "i < length es" "x = claim_event now (dt_shift now lease) (?k + i) (es ! i)"
      | "x \<in> set (ob_events s)" using mem [OF x] by blast
    then show ?thesis
    proof cases
      case 1
      then have "event_ok (es ! i)" using es D(2) nth_mem by blast
      then show ?thesis using claim_event_ok [OF _ lease] 1(2) by blast
    qed (rule D(2))
  qed
  have tok: "k < ?k + length cs" if x: "x \<in> set (write_back cs (ob_events s))" "ev_claim_token x = Some k" for x k
    using mem [OF x(1)] x(2) D(3) [of x k] c(1) by fastforce
  have uniq: "x = y" if x: "x \<in> set (write_back cs (ob_events s))" "ev_claim_token x = Some k"
    and y: "y \<in> set (write_back cs (ob_events s))" "ev_claim_token y = Some k" for x y k
    using mem [OF x(1)] mem [OF y(1)] x(2) y(2) D(3) [of x k] D(3) [of y k] D(4) [of x y k] by fastforce
  show ?thesis
    unfolding outbox_ok_def using ev tok uniq D(1)
    by (simp add: write_back_ids) (metis option.exhaust)
qed

lemma outbox_append_ok:
  assumes ok: "outbox_ok s" and new: "ev_id e \<notin> ev_id ` set (ob_events s)"
    and e: "event_ok e \<and> ev_claim_token e = None"
  shows "outbox_ok (s\<lparr>ob_events := ob_events s @ [e]\<rparr>)"
proof -
  have "x = y" if "x \<in> set (ob_events s @ [e])" "y \<in> set (ob_events s @ [e])" "ev_claim_token x = Some k"
    "ev_claim_token y = Some k" for x y k
    using that e outbox_okD(4) [OF ok, of x y k] by auto
  then show ?thesis
    unfolding outbox_ok_def using outbox_okD(1-3) [OF ok] new e
    by simp (metis option.exhaust)
qed

lemma step_ok:
  assumes ok: "outbox_ok s" and run: "outbox_step c s = (r, s')"
  shows "outbox_ok s'"
proof (cases c)
  case (AppendEvent now i d)
  show ?thesis
  proof (cases "create_event now i d")
    case (Inr e)
    show ?thesis
    proof (cases "ev_id e \<in> ev_id ` set (ob_events s)")
      case True
      then have "s' = s" using run AppendEvent Inr by (simp split: if_splits)
      then show ?thesis using ok by simp
    next
      case False
      then have "s' = s\<lparr>ob_events := ob_events s @ [e]\<rparr>" using run AppendEvent Inr by simp
      then show ?thesis using outbox_append_ok [OF ok False] create_event_ok [OF Inr] by blast
    qed
  qed (use ok run AppendEvent in simp)
next
  case (ClaimBatch limit now lease locked)
  show ?thesis
  proof (cases "claim_batch limit now lease locked (ob_tokens s) (ob_events s)")
    case (Inr cs)
    then have cl: "0 < lease"
      "claim_all now lease (ob_tokens s) (select_claimable (nat limit) now locked (ob_events s)) = Inr cs"
      by (auto simp: claim_batch_def)
    have "s' = \<lparr>ob_events = write_back cs (ob_events s), ob_tokens = ob_tokens s + length cs\<rparr>"
      using run ClaimBatch Inr by simp
    then show ?thesis
      using claim_rows_ok [OF ok cl] select_claimable_member by blast
  qed (use ok run ClaimBatch in simp)
next
  case (MarkPublished i k now)
  show ?thesis
  proof (cases r)
    case (Inr es)
    with run MarkPublished have "on_event i (mark_published k now) s = (Inr es, s')" by simp
    then show ?thesis
    proof (rule on_event_Inr)
      fix e u e' assume e: "e \<in> set (ob_events s)" "mark_published k now e = (Inr u, e')"
        "s' = s\<lparr>ob_events := write_back [e'] (ob_events s)\<rparr>"
      have "ev_id e' = ev_id e" "ev_claim_token e' = None" using e(2) by (simp_all add: mark_published_Inr)
      then show ?thesis
        using settle_row_ok [OF ok e(1)] settle_ok(1) [OF _ e(2)] outbox_okD(2) [OF ok e(1)] e(3) by blast
    qed
  qed (use run MarkPublished ok on_event_Inl in fastforce)
next
  case (ApplyFailure i k now m policy)
  show ?thesis
  proof (cases r)
    case (Inr es)
    with run ApplyFailure have "on_event i (apply_failure k now m policy) s = (Inr es, s')" by simp
    then show ?thesis
    proof (rule on_event_Inr)
      fix e u e' assume e: "e \<in> set (ob_events s)" "apply_failure k now m policy e = (Inr u, e')"
        "s' = s\<lparr>ob_events := write_back [e'] (ob_events s)\<rparr>"
      show ?thesis
        using settle_row_ok [OF ok e(1)] apply_failure_Inr [OF e(2)] settle_ok(2) [OF _ e(2)]
          outbox_okD(2) [OF ok e(1)] e(3) by blast
    qed
  qed (use run ApplyFailure ok on_event_Inl in fastforce)
qed

lemma reachable_ok: "outbox_reachable s \<Longrightarrow> outbox_ok s"
proof (induction rule: outbox_reachable.induct)
  case start
  then show ?case by (simp add: outbox_ok_def)
next
  case (step s c r s')
  then show ?case using step_ok by blast
qed


text \<open>C7: in every state of the outbox the identifiers are distinct, a row is leased exactly when it
  is PROCESSING (its lease ends after its claim, under a token no other row holds), a PUBLISHED row
  has its publication time, a DEAD_LETTER row its error, and every stored error is one line of at
  most 2000 characters without a sensitive key.\<close>

theorem outbox_invariant: "outbox_reachable s \<Longrightarrow> outbox_ok s"
  by (rule reachable_ok)

definition demo_draft :: event_draft where
  "demo_draft = \<lparr>ed_type = lit ''document.uploaded'', ed_aggregate_type = lit ''document'',
     ed_aggregate_id = lit ''d1'', ed_aggregate_version = Some 1, ed_payload = JObject [],
     ed_metadata = JObject [], ed_occurred_at = Some (Aware 1000 0), ed_id = None\<rparr>"

definition demo_policy :: retry_policy where
  "demo_policy = \<lparr>rp_max_attempts = 2, rp_base_delay_seconds = Fin 1, rp_max_delay_seconds = Fin 60\<rparr>"

definition demo_outbox_commands :: "outbox_command list" where
  "demo_outbox_commands =
     [AppendEvent (Aware 1000 0) 1 demo_draft,
      ClaimBatch 10 (Aware 1000 0) 5000 {},
      ApplyFailure 1 0 (Aware 2000 0) (lit ''password=x'' @ [10] @ lit ''broken'') demo_policy,
      ClaimBatch 10 (Aware 1002000 0) 5000 {}]"

definition demo_outbox :: outbox_state where
  "demo_outbox = run_outbox demo_outbox_commands \<lparr>ob_events = [], ob_tokens = 0\<rparr>"

lemma run_reachable: "outbox_reachable s \<Longrightarrow> outbox_reachable (run_outbox cs s)"
proof (induction cs arbitrary: s)
  case (Cons c cs)
  then have "outbox_reachable (snd (outbox_step c s))"
    using outbox_reachable.step [of s c "fst (outbox_step c s)"] by simp
  then show ?case using Cons.IH by simp
qed simp

lemma demo_outbox_reachable: "outbox_reachable demo_outbox"
  unfolding demo_outbox_def by (rule run_reachable) (rule outbox_reachable.start)

lemma demo_outbox_value:
  "demo_outbox = \<lparr>ob_events = [\<lparr>ev_id = 1, ev_type = lit ''document.uploaded'',
       ev_aggregate_type = lit ''document'', ev_aggregate_id = lit ''d1'',
       ev_aggregate_version = Some 1, ev_payload = JObject [], ev_metadata = JObject [],
       ev_status = PROCESSING, ev_attempt_count = 2, ev_available_at = Aware 1002000 0,
       ev_claimed_at = Some (Aware 1002000 0), ev_claimed_until = Some (Aware 1007000 0),
       ev_claim_token = Some 1, ev_published_at = None, ev_last_error = Some (lit ''*** broken''),
       ev_created_at = Aware 1000 0\<rparr>], ob_tokens = 2\<rparr>"
  by code_simp

lemma outbox_invariant_witness:
  "outbox_ok demo_outbox
   \<and> map (\<lambda>e. (ev_status e, ev_attempt_count e, ev_claim_token e, ev_last_error e)) (ob_events demo_outbox)
     = [(PROCESSING, 2, Some 1, Some (lit ''*** broken''))]"
proof -
  have "map (\<lambda>e. (ev_status e, ev_attempt_count e, ev_claim_token e, ev_last_error e)) (ob_events demo_outbox)
     = [(PROCESSING, 2, Some 1, Some (lit ''*** broken''))]" unfolding demo_outbox_value by simp
  then show ?thesis using outbox_invariant [OF demo_outbox_reachable] by blast
qed


section \<open>Leases\<close>

fun command_token :: "outbox_command \<Rightarrow> nat option" where
  "command_token (MarkPublished i k now) = Some k"
| "command_token (ApplyFailure i k now m policy) = Some k"
| "command_token (AppendEvent now i d) = None"
| "command_token (ClaimBatch limit now lease locked) = None"

definition token_dead :: "nat \<Rightarrow> outbox_state \<Rightarrow> bool" where
  "token_dead k s \<longleftrightarrow> k < ob_tokens s \<and> (\<forall>e\<in>set (ob_events s). ev_claim_token e \<noteq> Some k)"

lemma token_command_Inr:
  assumes "outbox_step c s = (Inr es, s')" "command_token c = Some k"
  obtains e e' where "e \<in> set (ob_events s)" "ev_claim_token e = Some k" "ev_status e = PROCESSING"
    "ev_id e' = ev_id e" "ev_claim_token e' = None" "es = [e']"
    "s' = s\<lparr>ob_events := write_back [e'] (ob_events s)\<rparr>"
proof (cases c)
  case (MarkPublished i k' now)
  then have "on_event i (mark_published k now) s = (Inr es, s')" using assms by simp
  then show ?thesis by (rule on_event_Inr) (rule that; auto simp: mark_published_Inr)
next
  case (ApplyFailure i k' now m policy)
  then have "on_event i (apply_failure k now m policy) s = (Inr es, s')" using assms by simp
  then show ?thesis
  proof (rule on_event_Inr)
    fix e u e' assume e: "e \<in> set (ob_events s)" "apply_failure k now m policy e = (Inr u, e')" "es = [e']"
      "s' = s\<lparr>ob_events := write_back [e'] (ob_events s)\<rparr>"
    show ?thesis
      using that [OF e(1) _ _ _ _ e(3,4)] apply_failure_Inr [OF e(2)] by blast
  qed
qed (use assms in simp_all)

lemma step_success:
  "\<not> isl (fst (outbox_step c s)) \<Longrightarrow> \<exists>es. outbox_step c s = (Inr es, snd (outbox_step c s))"
  by (cases "outbox_step c s"; cases "fst (outbox_step c s)") auto

lemma token_command_Inl:
  "outbox_step c s = (Inl x, s') \<Longrightarrow> s' = s"
  by (cases c) (auto dest: on_event_Inl split: sum.splits if_splits)

lemma append_Inr:
  assumes "outbox_step (AppendEvent now i d) s = (Inr es, s')"
  obtains e where "event_ok e" "ev_claim_token e = None" "ev_id e \<notin> ev_id ` set (ob_events s)"
    "s' = s\<lparr>ob_events := ob_events s @ [e]\<rparr>"
  using assms create_event_ok [of now i d] by (auto split: sum.splits if_splits)

lemma claim_Inr:
  assumes "outbox_step (ClaimBatch limit now lease locked) s = (Inr cs, s')"
  shows "0 < limit" "0 < lease" "s' = \<lparr>ob_events = write_back cs (ob_events s), ob_tokens = ob_tokens s + length cs\<rparr>"
    "claim_all now lease (ob_tokens s) (select_claimable (nat limit) now locked (ob_events s)) = Inr cs"
  using assms by (auto simp: claim_batch_def split: sum.splits)

lemma token_dead_step:
  assumes dead: "token_dead k s" and run: "outbox_step c s = (r, s')"
  shows "token_dead k s'"
proof (cases r)
  case (Inl x)
  then show ?thesis using token_command_Inl run dead by blast
next
  case (Inr es)
  show ?thesis
  proof (cases "command_token c")
    case (Some k')
    have "outbox_step c s = (Inr es, s')" using run Inr by simp
    then show ?thesis using Some
    proof (rule token_command_Inr)
      fix e e' assume "ev_claim_token e' = None" "s' = s\<lparr>ob_events := write_back [e'] (ob_events s)\<rparr>"
      then show ?thesis using dead by (auto simp: token_dead_def dest!: write_back_member)
    qed
  next
    case None
    then consider now i d where "c = AppendEvent now i d"
      | limit now lease locked where "c = ClaimBatch limit now lease locked" by (cases c) auto
    then show ?thesis
    proof cases
      case 1
      then have "outbox_step (AppendEvent now i d) s = (Inr es, s')" using run Inr by simp
      then show ?thesis by (rule append_Inr) (use dead in \<open>auto simp: token_dead_def\<close>)
    next
      case 2
      then have "outbox_step (ClaimBatch limit now lease locked) s = (Inr es, s')" using run Inr by simp
      note c = claim_Inr [OF this]
      have "ev_claim_token x \<noteq> Some k" if "x \<in> set (write_back es (ob_events s))" for x
        using write_back_member [OF that] claim_all_member(2) [OF c(4), of x] dead
        by (auto simp: token_dead_def)
      then show ?thesis using dead c(3) by (simp add: token_dead_def)
    qed
  qed
qed

lemma token_dead_run: "token_dead k s \<Longrightarrow> token_dead k (run_outbox cs s)"
proof (induction cs arbitrary: s)
  case (Cons c cs)
  then show ?case using token_dead_step [of k s c "fst (outbox_step c s)"] by simp
qed simp

lemma token_dead_rejects:
  assumes "token_dead k s" "command_token c = Some k"
  shows "\<exists>x. outbox_step c s = (Inl x, s)"
proof (cases "fst (outbox_step c s)")
  case (Inl x)
  then show ?thesis using token_command_Inl [of c s x "snd (outbox_step c s)"]
    by (metis prod.collapse)
next
  case (Inr es)
  then have "outbox_step c s = (Inr es, snd (outbox_step c s))" by (metis prod.collapse)
  then show ?thesis using assms(2) by (rule token_command_Inr) (use assms(1) in \<open>auto simp: token_dead_def\<close>)
qed

lemma settle_kills_token:
  assumes ok: "outbox_ok s" and run: "outbox_step c s = (Inr es, s')" and k: "command_token c = Some k"
  shows "token_dead k s'"
  using run k
proof (rule token_command_Inr)
  fix e e' assume e: "e \<in> set (ob_events s)" "ev_claim_token e = Some k" "ev_id e' = ev_id e"
    "ev_claim_token e' = None" "s' = s\<lparr>ob_events := write_back [e'] (ob_events s)\<rparr>"
  have "ev_claim_token x \<noteq> Some k" if "x \<in> set (write_back [e'] (ob_events s))" for x
    using write_back_member [OF that] e outbox_okD(4) [OF ok, of e x k] by auto
  then show ?thesis using outbox_okD(3) [OF ok e(1,2)] e(5) by (simp add: token_dead_def)
qed

lemma takeover_kills_token:
  assumes ok: "outbox_ok s" and run: "outbox_step (ClaimBatch limit now lease locked) s = (Inr cs, s')"
    and e: "e \<in> set (ob_events s)" "ev_claim_token e = Some k" "ev_id e \<in> ev_id ` set cs"
  shows "token_dead k s'"
proof -
  note c = claim_Inr [OF run]
  have less: "k < ob_tokens s" using outbox_okD(3) [OF ok e(1,2)] .
  have "ev_claim_token x \<noteq> Some k" if "x \<in> set (write_back cs (ob_events s))" for x
    using write_back_member [OF that] claim_all_member(2) [OF c(4), of x] less e(2,3)
      outbox_okD(4) [OF ok e(1), of x k] by auto
  then show ?thesis using less c(3) by (simp add: token_dead_def)
qed

text \<open>C8: a lease settles its event at most once.  After a successful confirmation or failure under
  a token, and after another publisher took over a row leased under it, every later operation that
  presents that token is refused without an effect, whatever ran in between.\<close>

theorem lease_settles_once:
  assumes "outbox_reachable s" "outbox_step c s = (Inr es, s1)"
    "command_token c = Some k
     \<or> (\<exists>limit now lease locked e. c = ClaimBatch limit now lease locked \<and> e \<in> set (ob_events s)
          \<and> ev_claim_token e = Some k \<and> ev_id e \<in> ev_id ` set es)"
    "command_token c' = Some k"
  shows "\<exists>x. outbox_step c' (run_outbox cs s1) = (Inl x, run_outbox cs s1)"
proof -
  have "token_dead k s1"
    using assms(2,3) settle_kills_token takeover_kills_token reachable_ok [OF assms(1)] by blast
  then show ?thesis using token_dead_run token_dead_rejects assms(4) by blast
qed

lemma lease_settles_once_witness:
  "\<exists>x. outbox_step (MarkPublished 1 1 (Aware 9000000 0))
         (run_outbox [ClaimBatch 10 (Aware 2000000 0) 5000 {}]
           (snd (outbox_step (ApplyFailure 1 1 (Aware 1003000 0) (lit ''no broker'')
                    (demo_policy\<lparr>rp_max_attempts := 3\<rparr>)) demo_outbox)))
       = (Inl x, run_outbox [ClaimBatch 10 (Aware 2000000 0) 5000 {}]
           (snd (outbox_step (ApplyFailure 1 1 (Aware 1003000 0) (lit ''no broker'')
                    (demo_policy\<lparr>rp_max_attempts := 3\<rparr>)) demo_outbox)))"
proof -
  let ?c = "ApplyFailure 1 1 (Aware 1003000 0) (lit ''no broker'') (demo_policy\<lparr>rp_max_attempts := 3\<rparr>)"
  have "\<not> isl (fst (outbox_step ?c demo_outbox))" unfolding demo_outbox_value by code_simp
  then obtain es where "outbox_step ?c demo_outbox = (Inr es, snd (outbox_step ?c demo_outbox))"
    using step_success by blast
  then show ?thesis by (rule lease_settles_once [OF demo_outbox_reachable]) simp_all
qed

section \<open>Settled rows\<close>

lemma settled_step:
  assumes ok: "outbox_ok s" and run: "outbox_step c s = (r, s')" and e: "e \<in> set (ob_events s)"
    and st: "ev_status e = PUBLISHED \<or> ev_status e = DEAD_LETTER"
  shows "e \<in> set (ob_events s')"
proof (cases r)
  case (Inl x)
  then show ?thesis using token_command_Inl run e by blast
next
  case (Inr es)
  note D = outbox_okD(1) [OF ok]
  show ?thesis
  proof (cases "command_token c")
    case (Some k)
    have "outbox_step c s = (Inr es, s')" using run Inr by simp
    then show ?thesis using Some
    proof (rule token_command_Inr)
      fix d d' assume d: "d \<in> set (ob_events s)" "ev_status d = PROCESSING" "ev_id d' = ev_id d"
        "s' = s\<lparr>ob_events := write_back [d'] (ob_events s)\<rparr>"
      have "ev_id e \<noteq> ev_id d" using same_id [OF D e d(1)] st d(2) by auto
      then show ?thesis using write_back_unchanged [OF e, of "[d']"] d(3,4) by simp
    qed
  next
    case None
    then consider now i d where "c = AppendEvent now i d"
      | limit now lease locked where "c = ClaimBatch limit now lease locked" by (cases c) auto
    then show ?thesis
    proof cases
      case 1
      then have "outbox_step (AppendEvent now i d) s = (Inr es, s')" using run Inr by simp
      then show ?thesis by (rule append_Inr) (use e in auto)
    next
      case 2
      then have "outbox_step (ClaimBatch limit now lease locked) s = (Inr es, s')" using run Inr by simp
      note c = claim_Inr [OF this]
      have "ev_id e \<notin> ev_id ` set es"
      proof
        assume "ev_id e \<in> ev_id ` set es"
        then obtain d where d: "d \<in> set (select_claimable (nat limit) now locked (ob_events s))"
          "ev_id e = ev_id d" using claim_all_member(3) [OF c(4)] by (metis imageE image_eqI list.set_map)
        then have "e = d" using same_id [OF D e] select_claimable_member by blast
        then show False using select_claimable_member [OF d(1)] st by (auto simp: claimable_def)
      qed
      then show ?thesis using write_back_unchanged [OF e] c(3) by simp
    qed
  qed
qed

text \<open>An event that was published or dead-lettered is never delivered, changed or removed again,
  by any sequence of operations.\<close>

theorem settled_rows_frozen:
  "outbox_reachable s \<Longrightarrow> e \<in> set (ob_events s) \<Longrightarrow> ev_status e = PUBLISHED \<or> ev_status e = DEAD_LETTER
     \<Longrightarrow> e \<in> set (ob_events (run_outbox cs s))"
proof (induction cs arbitrary: s)
  case (Cons c cs)
  have "outbox_reachable (snd (outbox_step c s))"
    using outbox_reachable.step [OF Cons.prems(1), of c "fst (outbox_step c s)"] by simp
  moreover have "e \<in> set (ob_events (snd (outbox_step c s)))"
    using settled_step [OF reachable_ok [OF Cons.prems(1)] _ Cons.prems(2,3), of c "fst (outbox_step c s)"]
    by simp
  ultimately show ?case using Cons.IH Cons.prems(3) by simp
qed simp

lemma settled_rows_frozen_witness:
  "\<exists>e. e \<in> set (ob_events (run_outbox [ClaimBatch 10 (Aware 90000000 0) 5000 {}]
      (run_outbox [MarkPublished 1 1 (Aware 1003000 0)] demo_outbox)))
    \<and> ev_status e = PUBLISHED"
proof -
  let ?s = "run_outbox [MarkPublished 1 1 (Aware 1003000 0)] demo_outbox"
  have "map ev_status (ob_events ?s) = [PUBLISHED]" unfolding demo_outbox_value by code_simp
  then obtain e where "e \<in> set (ob_events ?s)" "ev_status e = PUBLISHED" by (cases "ob_events ?s") auto
  with settled_rows_frozen [OF run_reachable [OF demo_outbox_reachable], of e "[MarkPublished 1 1 (Aware 1003000 0)]"]
  show ?thesis by blast
qed


section \<open>What a claim serves\<close>

abbreviation delivery_key :: "outbox_event \<Rightarrow> int \<times> int" where
  "delivery_key e \<equiv> (instant (ev_available_at e), instant (ev_created_at e))"

lemma claim_event_key [simp]: "delivery_key (claim_event now until k e) = delivery_key e"
  by (simp add: claim_event_def)

lemma select_claimable_split:
  "\<exists>rest. sorted (map delivery_key (select_claimable n now locked table @ rest))
     \<and> set (select_claimable n now locked table @ rest)
       = {e \<in> set table. claimable now e \<and> ev_id e \<notin> locked}
     \<and> (rest \<noteq> [] \<longrightarrow> length (select_claimable n now locked table) = n)"
proof (intro exI conjI)
  let ?due = "filter (\<lambda>e. ev_id e \<notin> locked) (sort_key delivery_key (filter (claimable now) table))"
  have split: "select_claimable n now locked table @ drop n ?due = ?due"
    by (simp add: select_claimable_def)
  show "sorted (map delivery_key (select_claimable n now locked table @ drop n ?due))"
    unfolding split by (rule sorted_filter) simp
  show "set (select_claimable n now locked table @ drop n ?due)
       = {e \<in> set table. claimable now e \<and> ev_id e \<notin> locked}"
    unfolding split by auto
  show "drop n ?due \<noteq> [] \<longrightarrow> length (select_claimable n now locked table) = n"
    by (simp add: select_claimable_def min_def)
qed

lemma claim_all_fields:
  assumes "claim_all now lease k es = Inr cs"
  shows "map ev_claim_token cs = map Some [k..<k + length cs]"
    "map delivery_key cs = map delivery_key es"
    "\<And>c. c \<in> set cs \<Longrightarrow> ev_status c = PROCESSING \<and> ev_claimed_until c = Some (dt_shift now lease)"
    "map ev_attempt_count cs = map (\<lambda>e. ev_attempt_count e + 1) es"
proof -
  have cs: "cs = map2 (claim_event now (dt_shift now lease)) [k..<k + length es] es"
    using assms by (cases "es = []") (auto simp: claim_all_eq bindE_Inr dt_add_Inr)
  then show "map ev_claim_token cs = map Some [k..<k + length cs]"
    by (intro nth_equalityI) simp_all
  show "map delivery_key cs = map delivery_key es"
    unfolding cs by (intro nth_equalityI) (simp_all add: claim_event_def)
  show "map ev_attempt_count cs = map (\<lambda>e. ev_attempt_count e + 1) es"
    unfolding cs by (intro nth_equalityI) simp_all
  show "ev_status c = PROCESSING \<and> ev_claimed_until c = Some (dt_shift now lease)" if "c \<in> set cs" for c
    using claim_all_member(2) [OF assms that] by auto
qed

text \<open>C10: a successful claim leases at most \<open>limit\<close> rows, each until \<open>now + lease\<close> under its own new
  token, oldest first; it takes only rows that are due and unlocked, and a due unlocked row it does
  not take means that the batch is full of rows that are not younger.\<close>

theorem claim_serves_oldest_due:
  assumes "outbox_reachable s"
    "outbox_step (ClaimBatch limit now lease locked) s = (Inr cs, s')"
  shows "length cs \<le> nat limit \<and> sorted (map delivery_key cs)
    \<and> map ev_claim_token cs = map Some [ob_tokens s..<ob_tokens s']
    \<and> list_all (\<lambda>c. ev_status c = PROCESSING \<and> ev_claimed_until c = Some (dt_shift now lease)
                  \<and> c \<in> set (ob_events s')) cs
    \<and> (\<forall>e\<in>set (ob_events s).
         (ev_id e \<in> ev_id ` set cs \<longrightarrow> claimable now e \<and> ev_id e \<notin> locked)
         \<and> (claimable now e \<and> ev_id e \<notin> locked \<and> ev_id e \<notin> ev_id ` set cs
            \<longrightarrow> length cs = nat limit \<and> (\<forall>c\<in>set cs. delivery_key c \<le> delivery_key e)))"
proof -
  let ?sel = "select_claimable (nat limit) now locked (ob_events s)"
  note c = claim_Inr [OF assms(2)] and m = claim_all_member [OF claim_Inr(4) [OF assms(2)]]
  note f = claim_all_fields [OF c(4)] and D = outbox_okD(1) [OF reachable_ok [OF assms(1)]]
  have ids: "ev_id ` set cs = ev_id ` set ?sel" using m(3) by (metis list.set_map)
  have dist: "distinct (map ev_id cs)" using m(3) select_claimable_distinct [OF D] by simp
  obtain rest where rest: "sorted (map delivery_key (?sel @ rest))"
      "set (?sel @ rest) = {e \<in> set (ob_events s). claimable now e \<and> ev_id e \<notin> locked}"
      "rest \<noteq> [] \<longrightarrow> length ?sel = nat limit"
    using select_claimable_split [of "nat limit" now locked "ob_events s"] by (elim exE conjE)
  have taken: "claimable now e \<and> ev_id e \<notin> locked" if e: "e \<in> set (ob_events s)" "ev_id e \<in> ev_id ` set cs" for e
  proof -
    obtain d where d: "d \<in> set ?sel" "ev_id e = ev_id d" using e(2) ids by auto
    then have "e = d" using same_id [OF D e(1)] select_claimable_member by blast
    then show ?thesis using select_claimable_member [OF d(1)] by blast
  qed
  have left: "length cs = nat limit \<and> (\<forall>c\<in>set cs. delivery_key c \<le> delivery_key e)"
    if "e \<in> set (ob_events s)" "claimable now e" "ev_id e \<notin> locked" "ev_id e \<notin> ev_id ` set cs" for e
  proof -
    have "e \<in> set (?sel @ rest)" using rest(2) that by simp
    then have e: "e \<in> set rest" using that(4) ids by auto
    then have "length cs = nat limit" using rest(3) m(1) by auto
    moreover have "delivery_key c \<le> delivery_key e" if "c \<in> set cs" for c
    proof -
      have "delivery_key c \<in> set (map delivery_key ?sel)"
        unfolding f(2) [symmetric] using that by simp
      moreover have "sorted (map delivery_key ?sel @ map delivery_key rest)" using rest(1) by simp
      then have "\<forall>x\<in>set (map delivery_key ?sel). \<forall>y\<in>set (map delivery_key rest). x \<le> y"
        unfolding sorted_append by blast
      moreover have "delivery_key e \<in> set (map delivery_key rest)" using e by simp
      ultimately show ?thesis by blast
    qed
    ultimately show ?thesis by blast
  qed
  have placed: "x \<in> set (ob_events s')" if "x \<in> set cs" for x
  proof -
    have "ev_id x \<in> ev_id ` set (ob_events s)" using that ids select_claimable_member by blast
    then show ?thesis using write_back_changed [OF dist that] c(3) by simp
  qed
  have "length cs \<le> nat limit" using m(1) by (simp add: select_claimable_def)
  moreover have "sorted (map delivery_key cs)" using rest(1) f(2) by (simp add: sorted_append)
  moreover have "map ev_claim_token cs = map Some [ob_tokens s..<ob_tokens s']" using f(1) c(3) by simp
  moreover have "list_all (\<lambda>c. ev_status c = PROCESSING \<and> ev_claimed_until c = Some (dt_shift now lease)
                  \<and> c \<in> set (ob_events s')) cs"
    unfolding list_all_iff using f(3) placed by blast
  ultimately show ?thesis using taken left by (intro conjI ballI impI) blast+
qed

lemma claim_serves_oldest_due_witness:
  "\<exists>cs s'. outbox_step (ClaimBatch 1 (Aware 1009000 0) 5000 {}) demo_outbox = (Inr cs, s')
     \<and> map ev_id cs = [1] \<and> map ev_claim_token cs = [Some 2] \<and> ob_tokens s' = 3"
proof -
  let ?c = "ClaimBatch 1 (Aware 1009000 0) 5000 {}" and ?s = "snd (outbox_step (ClaimBatch 1 (Aware 1009000 0) 5000 {}) demo_outbox)"
  have "\<not> isl (fst (outbox_step ?c demo_outbox))" unfolding demo_outbox_value by code_simp
  from step_success [OF this] obtain cs where cs: "outbox_step ?c demo_outbox = (Inr cs, ?s)" by (elim exE)
  have tok: "ob_tokens ?s = 3" "ob_tokens demo_outbox = 2" unfolding demo_outbox_value by code_simp+
  have "map ev_id (projr (fst (outbox_step ?c demo_outbox))) = [1]" unfolding demo_outbox_value by code_simp
  moreover have "fst (outbox_step ?c demo_outbox) = Inr cs" by (subst cs) (rule fst_conv)
  ultimately have "map ev_id cs = [1]" by (simp only: sum.sel)
  moreover have "map ev_claim_token cs = [Some 2]"
    using claim_serves_oldest_due [OF demo_outbox_reachable cs] unfolding tok by (simp add: upt_rec)
  ultimately show ?thesis using cs tok(1) \<open>map ev_id cs = [1]\<close>
    by (intro exI [of _ cs] exI [of _ ?s] conjI)
qed


section \<open>Backoff\<close>

lemma wall_clock_shift [simp]: "wall_clock (dt_shift a d) = wall_clock a + d"
  by (cases a) auto

lemma round_bounds:
  assumes "0 < q" "q \<le> M"
  shows "0 \<le> rat_round_half_even q" "rat_round_half_even q \<le> \<lceil>M\<rceil>"
proof -
  show "0 \<le> rat_round_half_even q" using assms(1) by (simp add: rat_round_half_even_def Let_def)
  have "\<lfloor>q\<rfloor> + 1 \<le> \<lceil>q\<rceil>" if "q - of_int \<lfloor>q\<rfloor> \<noteq> 0"
    using that by (metis add.commute ceiling_altdef diff_self linorder_le_less_linear of_int_floor_cancel less_imp_le order_refl)
  moreover have "\<lceil>q\<rceil> \<le> \<lceil>M\<rceil>" using assms(2) by (rule ceiling_mono)
  moreover have "\<lfloor>q\<rfloor> \<le> \<lceil>M\<rceil>" using assms(2) by linarith
  ultimately show "rat_round_half_even q \<le> \<lceil>M\<rceil>"
    by (auto simp: rat_round_half_even_def Let_def)
qed

text \<open>Policies whose delays are finite and fit a \<open>timedelta\<close>, with at most 1025 attempts.\<close>

definition policy_ok :: "retry_policy \<Rightarrow> bool" where
  "policy_ok p \<longleftrightarrow> 1 \<le> rp_max_attempts p \<and> rp_max_attempts p \<le> 1025
     \<and> (case (rp_base_delay_seconds p, rp_max_delay_seconds p) of
          (Fin b, Fin m) \<Rightarrow> 0 < b \<and> b \<le> m \<and> m \<le> 999999999 * 86400
        | _ \<Rightarrow> False)"

fun max_delay_us :: "pyfloat \<Rightarrow> int" where
  "max_delay_us (Fin m) = \<lceil>m * 1000000\<rceil>"
| "max_delay_us _ = 0"

lemma policy_ok_accepted: "policy_ok p \<Longrightarrow> mk_retry_policy p = Inr p"
  by (auto simp: policy_ok_def mk_retry_policy_def split: pyfloat.splits)

lemma backoff_bounds:
  assumes p: "policy_ok p" and a: "1 \<le> a" "a < rp_max_attempts p"
  shows "\<exists>product d. backoff_product (rp_base_delay_seconds p) a = Inr product
    \<and> timedelta_seconds (fl_min product (rp_max_delay_seconds p)) = Inr d
    \<and> 0 \<le> d \<and> d \<le> max_delay_us (rp_max_delay_seconds p)"
proof -
  obtain b m where bm: "rp_base_delay_seconds p = Fin b" "rp_max_delay_seconds p = Fin m"
      "0 < b" "b \<le> m" "m \<le> 999999999 * 86400" "rp_max_attempts p \<le> 1025"
    using p by (auto simp: policy_ok_def split: pyfloat.splits)
  let ?product = "fl_scale (Fin b) (nat (a - 1))"
  have product: "backoff_product (rp_base_delay_seconds p) a = Inr ?product"
    using a bm(1,6) by (simp add: backoff_product_def)
  have "0 < b * 2 ^ nat (a - 1)" using bm(3) by simp
  moreover have "0 < fl_huge" by (simp add: fl_huge_def)
  ultimately have "?product = PInf \<or> ?product = Fin (b * 2 ^ nat (a - 1))"
    by (auto simp: fl_of_rat_def)
  then have "\<exists>q. fl_min ?product (Fin m) = Fin q \<and> 0 < q \<and> q \<le> m"
  proof
    assume "?product = PInf"
    then show ?thesis using bm(3,4) by (simp add: fl_min_def fl_lt_def del: fl_scale.simps)
  next
    assume "?product = Fin (b * 2 ^ nat (a - 1))"
    then show ?thesis using bm(3,4) \<open>0 < b * 2 ^ nat (a - 1)\<close>
      by (simp add: fl_min_def del: fl_scale.simps)
  qed
  then obtain q where q: "fl_min ?product (Fin m) = Fin q" "0 < q" "q \<le> m" by blast
  let ?d = "rat_round_half_even (q * 1000000)"
  have d: "0 \<le> ?d" "?d \<le> \<lceil>m * 1000000\<rceil>" using round_bounds [of "q * 1000000" "m * 1000000"] q by simp_all
  have "\<lceil>m * 1000000\<rceil> \<le> 999999999 * day_us" using bm(5) by (simp add: ceiling_le_iff day_us_def)
  then have "?d \<le> 999999999 * day_us" using d(2) by (rule order_trans [rotated])
  then have "0 \<le> ?d div day_us" "?d div day_us \<le> 999999999"
    using d(1) zdiv_mono1 [of ?d "999999999 * day_us" day_us] by (simp_all add: day_us_def)
  then have "timedelta_seconds (Fin q) = Inr ?d" by (simp add: Let_def)
  then show ?thesis using product q(1) d bm(2) by auto
qed

section \<open>Persistent failure\<close>

text \<open>A publisher that claims the row and fails, once at each of the given times.\<close>

fun failing_commands :: "retry_policy \<Rightarrow> timedelta \<Rightarrow> nat \<Rightarrow> nat \<Rightarrow> (datetime \<times> pystr) list \<Rightarrow> outbox_command list" where
  "failing_commands p lease i k [] = []"
| "failing_commands p lease i k ((now, m) # ts) =
     ClaimBatch 1 now lease {} # ApplyFailure i k now m p # failing_commands p lease i (Suc k) ts"

text \<open>The times are at least the maximal delay apart, and the lease and the delay stay in range.\<close>

fun spaced :: "int \<Rightarrow> int \<Rightarrow> int \<Rightarrow> (datetime \<times> pystr) list \<Rightarrow> bool" where
  "spaced gap lease from [] = True"
| "spaced gap lease from ((now, m) # ts) =
     (from \<le> instant now \<and> dt_min_us \<le> wall_clock now \<and> wall_clock now + max gap lease \<le> dt_max_us
      \<and> spaced gap lease (instant now + gap) ts)"

lemma spaced_mono: "spaced gap lease b ts \<Longrightarrow> a \<le> b \<Longrightarrow> spaced gap lease a ts"
  by (cases ts) auto

lemma fail_once:
  assumes p: "policy_ok p" and lease: "0 < lease" and s: "ob_events s = [e]"
    and e: "ev_status e = PENDING" "0 \<le> ev_attempt_count e" "ev_attempt_count e < rp_max_attempts p"
    and sp: "spaced (max_delay_us (rp_max_delay_seconds p)) lease (instant (ev_available_at e)) ((now, m) # ts)"
  shows "\<exists>e'. run_outbox [ClaimBatch 1 now lease {}, ApplyFailure (ev_id e) (ob_tokens s) now m p] s
      = \<lparr>ob_events = [e'], ob_tokens = Suc (ob_tokens s)\<rparr>
    \<and> ev_id e' = ev_id e \<and> ev_attempt_count e' = ev_attempt_count e + 1
    \<and> (if ev_attempt_count e' = rp_max_attempts p then ev_status e' = DEAD_LETTER
       else ev_status e' = PENDING
         \<and> instant (ev_available_at e') \<le> instant now + max_delay_us (rp_max_delay_seconds p))"
proof -
  let ?gap = "max_delay_us (rp_max_delay_seconds p)" and ?k = "ob_tokens s"
  let ?c = "claim_event now (dt_shift now lease) ?k e"
  have lease_ok: "dt_add now lease = Inr (dt_shift now lease)"
    using sp lease by (auto simp: dt_add_Inr max_def split: if_splits)
  have "claimable now e" using e(1) sp by (simp add: claimable_def)
  then have "select_claimable (Suc 0) now {} [e] = [e]" by (simp add: select_claimable_def)
  then have claimed: "outbox_step (ClaimBatch 1 now lease {}) s = (Inr [?c], \<lparr>ob_events = [?c], ob_tokens = Suc ?k\<rparr>)"
    using s lease lease_ok by (simp add: claim_batch_def write_back_def)
  obtain e' where f: "apply_failure ?k now m p ?c = (Inr (), e')" and
      r: "if ev_attempt_count e + 1 = rp_max_attempts p then ev_status e' = DEAD_LETTER
       else ev_status e' = PENDING \<and> instant (ev_available_at e') \<le> instant now + ?gap"
  proof (cases "ev_attempt_count e + 1 = rp_max_attempts p")
    case True
    then show ?thesis using that by (simp add: apply_failure_def Let_def)
  next
    case False
    then obtain product d where d: "backoff_product (rp_base_delay_seconds p) (ev_attempt_count e + 1) = Inr product"
        "timedelta_seconds (fl_min product (rp_max_delay_seconds p)) = Inr d" "0 \<le> d" "d \<le> ?gap"
      using backoff_bounds [OF p, of "ev_attempt_count e + 1"] e by auto
    then have "dt_add now d = Inr (dt_shift now d)"
      using sp by (auto simp: dt_add_Inr max_def split: if_splits)
    then show ?thesis using that False e(3) d by (simp add: apply_failure_def Let_def)
  qed
  have "outbox_step (ApplyFailure (ev_id e) ?k now m p) \<lparr>ob_events = [?c], ob_tokens = Suc ?k\<rparr>
      = (Inr [e'], \<lparr>ob_events = [e'], ob_tokens = Suc ?k\<rparr>)"
    using f apply_failure_Inr(3) [OF f] by (simp add: on_event_def write_back_def)
  then show ?thesis
    using claimed r apply_failure_Inr(3,7) [OF f] by (intro exI [of _ e']) (simp del: outbox_step.simps)
qed

lemma run_outbox_append: "run_outbox (cs @ ds) s = run_outbox ds (run_outbox cs s)"
  by (induction cs arbitrary: s) auto

lemma failing_run:
  assumes "policy_ok p" "0 < lease" "ob_events s = [e]" "ev_status e = PENDING" "0 \<le> ev_attempt_count e"
    "ev_attempt_count e + int (length ts) \<le> rp_max_attempts p" "ev_attempt_count e < rp_max_attempts p"
    "spaced (max_delay_us (rp_max_delay_seconds p)) lease (instant (ev_available_at e)) ts"
  shows "\<exists>e'. ob_events (run_outbox (failing_commands p lease (ev_id e) (ob_tokens s) ts) s) = [e']
    \<and> ev_id e' = ev_id e \<and> ev_attempt_count e' = ev_attempt_count e + int (length ts)
    \<and> ev_status e' = (if ev_attempt_count e + int (length ts) = rp_max_attempts p then DEAD_LETTER else PENDING)"
  using assms
proof (induction ts arbitrary: s e)
  case (Cons t ts)
  obtain now m where t: "t = (now, m)" by (cases t)
  let ?cs = "[ClaimBatch 1 now lease {}, ApplyFailure (ev_id e) (ob_tokens s) now m p]"
  obtain e1 where e1: "run_outbox ?cs s = \<lparr>ob_events = [e1], ob_tokens = Suc (ob_tokens s)\<rparr>"
      "ev_id e1 = ev_id e" "ev_attempt_count e1 = ev_attempt_count e + 1"
      "if ev_attempt_count e1 = rp_max_attempts p then ev_status e1 = DEAD_LETTER
       else ev_status e1 = PENDING
         \<and> instant (ev_available_at e1) \<le> instant now + max_delay_us (rp_max_delay_seconds p)"
    using fail_once [OF Cons.prems(1,2,3,4,5,7), of now m ts] Cons.prems(8) t by blast
  have run: "run_outbox (failing_commands p lease (ev_id e) (ob_tokens s) (t # ts)) s
      = run_outbox (failing_commands p lease (ev_id e) (Suc (ob_tokens s)) ts) (run_outbox ?cs s)"
    using run_outbox_append [of ?cs "failing_commands p lease (ev_id e) (Suc (ob_tokens s)) ts" s]
    by (simp add: t del: outbox_step.simps)
  show ?case
  proof (cases "ev_attempt_count e1 = rp_max_attempts p")
    case True
    then have "int (length ts) \<le> 0" using Cons.prems(6) e1(3) True unfolding length_Cons of_nat_Suc by linarith
    then have "ts = []" by simp
    then show ?thesis using run e1 True by (simp del: outbox_step.simps run_outbox.simps(2))
  next
    case False
    have "spaced (max_delay_us (rp_max_delay_seconds p)) lease (instant (ev_available_at e1)) ts"
      using spaced_mono e1(4) False Cons.prems(8) t by auto
    then have "\<exists>e'. ob_events (run_outbox (failing_commands p lease (ev_id e1) (Suc (ob_tokens s)) ts)
        \<lparr>ob_events = [e1], ob_tokens = Suc (ob_tokens s)\<rparr>) = [e']
      \<and> ev_id e' = ev_id e1 \<and> ev_attempt_count e' = ev_attempt_count e1 + int (length ts)
      \<and> ev_status e' = (if ev_attempt_count e1 + int (length ts) = rp_max_attempts p then DEAD_LETTER else PENDING)"
      using Cons.IH [of "\<lparr>ob_events = [e1], ob_tokens = Suc (ob_tokens s)\<rparr>" e1] Cons.prems e1(3,4) False by simp
    then show ?thesis unfolding run e1(1) using e1(2,3) by (simp add: algebra_simps)
  qed
qed auto

text \<open>C9: an event whose publication keeps failing is retried exactly \<open>max_attempts\<close> times: under a
  policy with finite delays and at most 1025 attempts, a publisher that claims the pending row and
  fails at times no closer than the maximal delay finds it due every time; the row is PENDING after
  fewer failures and a DEAD_LETTER after the last, so it never blocks the outbox for ever.\<close>

theorem persistent_failure_dead_letters:
  assumes "policy_ok p" "0 < lease" "ob_events s = [e]" "ev_status e = PENDING" "ev_attempt_count e = 0"
    "spaced (max_delay_us (rp_max_delay_seconds p)) lease (instant (ev_available_at e)) ts"
    "int (length ts) \<le> rp_max_attempts p"
  shows "map (\<lambda>e. (ev_id e, ev_status e, ev_attempt_count e))
      (ob_events (run_outbox (failing_commands p lease (ev_id e) (ob_tokens s) ts) s))
    = [(ev_id e, if int (length ts) = rp_max_attempts p then DEAD_LETTER else PENDING, int (length ts))]"
  using failing_run [of p lease s e ts] assms by (auto simp: policy_ok_def)

lemma persistent_failure_dead_letters_witness:
  "map (\<lambda>e. (ev_id e, ev_status e, ev_attempt_count e))
      (ob_events (run_outbox
        (failing_commands demo_policy 5000 1 0 [(Aware 1000 0, lit ''a''), (Aware 60001000 0, lit ''b'')])
        (run_outbox [AppendEvent (Aware 1000 0) 1 demo_draft] \<lparr>ob_events = [], ob_tokens = 0\<rparr>)))
    = [(1, DEAD_LETTER, 2)]"
proof -
  let ?s = "run_outbox [AppendEvent (Aware 1000 0) 1 demo_draft] \<lparr>ob_events = [], ob_tokens = 0\<rparr>"
  have "ob_events ?s = [hd (ob_events ?s)] \<and> ob_tokens ?s = 0" by code_simp
  moreover have "ev_id (hd (ob_events ?s)) = 1 \<and> ev_status (hd (ob_events ?s)) = PENDING
      \<and> ev_attempt_count (hd (ob_events ?s)) = 0 \<and> instant (ev_available_at (hd (ob_events ?s))) = 1000" by code_simp
  moreover have "policy_ok demo_policy" by code_simp
  moreover have "spaced (max_delay_us (rp_max_delay_seconds demo_policy)) 5000 1000
      [(Aware 1000 0, lit ''a''), (Aware 60001000 0, lit ''b'')]" by code_simp
  moreover have "rp_max_attempts demo_policy = 2" by code_simp
  ultimately show ?thesis
    using persistent_failure_dead_letters [of demo_policy 5000 ?s "hd (ob_events ?s)"
      "[(Aware 1000 0, lit ''a''), (Aware 60001000 0, lit ''b'')]"]
    by (simp del: run_outbox.simps failing_commands.simps)
qed


text \<open>
  Outside those policies: from the 1025th attempt on the power of two does not fit a float and
  \<open>apply_failure\<close> raises, having already cleared the lease of a row that stays PROCESSING, which
  no claim takes; and a policy whose base delay is not a number is accepted, but its first failure
  raises.
\<close>

lemma late_failure_overflows:
  assumes "ev_status e = PROCESSING" "ev_claim_token e = Some k" "1025 \<le> ev_attempt_count e"
    "ev_attempt_count e < rp_max_attempts p"
  shows "fst (apply_failure k now m p e) = Inl OverflowError
    \<and> (\<forall>t. \<not> claimable t (snd (apply_failure k now m p e)))"
  using assms by (simp add: apply_failure_def Let_def backoff_product_def claimable_def)

lemma nan_policy_accepted:
  assumes "rp_base_delay_seconds p = NaN" "2 \<le> rp_max_attempts p"
  shows "mk_retry_policy p = Inr p
    \<and> fst (apply_failure k now m p (claim_event now until k (e\<lparr>ev_attempt_count := 0\<rparr>)))
      = Inl (ValueError ''cannot convert float NaN to integer'')"
  using assms
  by (simp add: mk_retry_policy_def apply_failure_def Let_def backoff_product_def fl_min_def)

end
