(* ===== verification/AgentRuntime.thy ===== *)
theory AgentRuntime
  imports PyPrelude "HOL-Library.List_Lexorder"
begin

text \<open>
  The agent runtime (\<open>agent_runtime/\<close>): run contexts and the provenance of a run, the model
  boundary, tool specifications and responses, the registry, the runtime events and the executor
  with its timeout, failure mapping and finite retry.  The world the executor runs in (event
  recorder, tracer, clocks, sleeper, the registered tools) is the parameter \<open>runtime\<close>; each
  operation of it is stateful in a world \<open>'w\<close>.
\<close>

section \<open>Contexts\<close>

definition require_non_blank :: "pystr \<Rightarrow> string \<Rightarrow> exn + unit" where
  "require_non_blank value field_name =
     raise_if (blank value) (ValueError (field_name @ '' must not be blank'')) (Inr ())"

definition validate_optional :: "pystr option \<Rightarrow> string \<Rightarrow> exn + unit" where
  "validate_optional value field_name =
     (case value of None \<Rightarrow> Inr () | Some v \<Rightarrow> require_non_blank v field_name)"

record run_identity =
  ri_run_id :: pystr
  ri_request_id :: pystr
  ri_trace_id :: pystr
  ri_task_id :: "pystr option"
  ri_tenant_id :: "pystr option"
  ri_actor_id :: "pystr option"

definition mk_run_identity :: "run_identity \<Rightarrow> exn + run_identity" where
  "mk_run_identity i =
     bindE (require_non_blank (ri_run_id i) ''run_id'') (\<lambda>_.
     bindE (require_non_blank (ri_request_id i) ''request_id'') (\<lambda>_.
     bindE (require_non_blank (ri_trace_id i) ''trace_id'') (\<lambda>_.
     bindE (validate_optional (ri_task_id i) ''task_id'') (\<lambda>_.
     bindE (validate_optional (ri_tenant_id i) ''tenant_id'') (\<lambda>_.
     bindE (validate_optional (ri_actor_id i) ''actor_id'') (\<lambda>_.
     Inr i))))))"

record skill_version =
  sv_name :: pystr
  sv_version :: pystr

definition mk_skill_version :: "skill_version \<Rightarrow> exn + skill_version" where
  "mk_skill_version s =
     bindE (require_non_blank (sv_name s) ''skill name'') (\<lambda>_.
     bindE (require_non_blank (sv_version s) ''skill version'') (\<lambda>_.
     Inr s))"

record runtime_versions =
  rv_model_name :: pystr
  rv_model_version :: pystr
  rv_prompt_name :: pystr
  rv_prompt_version :: pystr
  rv_skills :: "skill_version list"

definition mk_runtime_versions :: "runtime_versions \<Rightarrow> exn + runtime_versions" where
  "mk_runtime_versions v =
     bindE (require_non_blank (rv_model_name v) ''model_name'') (\<lambda>_.
     bindE (require_non_blank (rv_model_version v) ''model_version'') (\<lambda>_.
     bindE (require_non_blank (rv_prompt_name v) ''prompt_name'') (\<lambda>_.
     bindE (require_non_blank (rv_prompt_version v) ''prompt_version'') (\<lambda>_.
     raise_if (length (remdups (map sv_name (rv_skills v))) \<noteq> length (map sv_name (rv_skills v)))
       (ValueError ''skill names must be unique'')
     (Inr v)))))"

record run_context =
  rc_identity :: run_identity
  rc_versions :: runtime_versions

section \<open>The model boundary\<close>

datatype message_role = Role_SYSTEM | Role_USER | Role_ASSISTANT

record model_message =
  mm_role :: message_role
  mm_content :: pystr

definition mk_model_message :: "model_message \<Rightarrow> exn + model_message" where
  "mk_model_message m = bindE (require_non_blank (mm_content m) ''content'') (\<lambda>_. Inr m)"

text \<open>The output schema is the predicate its instances satisfy.\<close>

record 'o structured_output_request =
  so_messages :: "model_message list"
  so_output_schema :: "'o \<Rightarrow> bool"

definition mk_structured_output_request ::
  "'o structured_output_request \<Rightarrow> exn + 'o structured_output_request" where
  "mk_structured_output_request r =
     raise_if (so_messages r = []) (ValueError ''messages must not be empty'') (Inr r)"

record 'o structured_output_result =
  sr_output :: 'o
  sr_context :: run_context

section \<open>Responses\<close>

datatype tool_error_code =
    Tool_INVALID_INPUT | Tool_PERMISSION_DENIED | Tool_NOT_FOUND | Tool_CONFLICT | Tool_TIMEOUT
  | Tool_UNAVAILABLE | Tool_EXECUTION_FAILED

record tool_error =
  te_code :: tool_error_code
  te_message :: pystr
  te_retryable :: bool

definition mk_tool_error :: "tool_error \<Rightarrow> exn + tool_error" where
  "mk_tool_error e = raise_if (blank (te_message e)) (ValueError ''message must not be blank'') (Inr e)"

record 'o tool_response =
  tr_value :: "'o option"
  tr_error :: "tool_error option"

definition mk_tool_response :: "'o tool_response \<Rightarrow> exn + 'o tool_response" where
  "mk_tool_response r =
     raise_if ((tr_value r = None) = (tr_error r = None))
       (ValueError ''ToolResponse requires exactly one of value or error'') (Inr r)"

definition tool_success :: "'o \<Rightarrow> exn + 'o tool_response" where
  "tool_success v = mk_tool_response \<lparr>tr_value = Some v, tr_error = None\<rparr>"

definition tool_failure :: "tool_error \<Rightarrow> exn + 'o tool_response" where
  "tool_failure e = mk_tool_response \<lparr>tr_value = None, tr_error = Some e\<rparr>"

definition is_success :: "'o tool_response \<Rightarrow> bool" where
  "is_success r \<longleftrightarrow> tr_error r = None"

section \<open>Tools\<close>

text \<open>\<open>^[a-z][a-z0-9_]{0,63}$\<close>, matched against the whole name.\<close>

definition tool_name_matches :: "pystr \<Rightarrow> bool" where
  "tool_name_matches s \<longleftrightarrow> (case s of [] \<Rightarrow> False | c # cs \<Rightarrow> 97 \<le> c \<and> c \<le> 122 \<and> length cs \<le> 63
     \<and> (\<forall>d\<in>set cs. 97 \<le> d \<and> d \<le> 122 \<or> 48 \<le> d \<and> d \<le> 57 \<or> d = 95))"

record tool_spec =
  ts_name :: pystr
  ts_timeout_seconds :: pyfloat
  ts_max_attempts :: int
  ts_retry_base_delay_seconds :: pyfloat
  ts_retry_max_delay_seconds :: pyfloat
  ts_idempotent :: bool

definition default_tool_spec :: "pystr \<Rightarrow> pyfloat \<Rightarrow> tool_spec" where
  "default_tool_spec name timeout =
     \<lparr>ts_name = name, ts_timeout_seconds = timeout, ts_max_attempts = 1,
      ts_retry_base_delay_seconds = Fin (1 / 2), ts_retry_max_delay_seconds = Fin 5,
      ts_idempotent = False\<rparr>"

definition mk_tool_spec :: "tool_spec \<Rightarrow> exn + tool_spec" where
  "mk_tool_spec s =
     raise_if (\<not> tool_name_matches (ts_name s))
       (ValueError ''name must be a lower-snake-case tool identifier'')
     (raise_if (fl_le (ts_timeout_seconds s) (Fin 0))
       (ValueError ''timeout_seconds must be greater than zero'')
     (raise_if (ts_max_attempts s < 1) (ValueError ''max_attempts must be at least one'')
     (raise_if (fl_le (ts_retry_base_delay_seconds s) (Fin 0))
       (ValueError ''retry_base_delay_seconds must be greater than zero'')
     (raise_if (fl_lt (ts_retry_max_delay_seconds s) (ts_retry_base_delay_seconds s))
       (ValueError ''retry_max_delay_seconds must be greater than or equal to retry_base_delay_seconds'')
     (Inr s)))))"

text \<open>The schemas are the classes of the input and output models, as predicates.\<close>

record ('w, 'i, 'o) tool =
  tl_spec :: tool_spec
  tl_input_schema :: "'i \<Rightarrow> bool"
  tl_output_schema :: "'o \<Rightarrow> bool"
  tl_invoke :: "'i \<Rightarrow> run_context \<Rightarrow> ('w, 'o tool_response) stateful"

section \<open>The registry\<close>

text \<open>The dictionary in insertion order.\<close>

type_synonym ('w, 'i, 'o) registry = "(pystr \<times> ('w, 'i, 'o) tool) list"

definition register :: "('w, 'i, 'o) tool \<Rightarrow> (('w, 'i, 'o) registry, unit) stateful" where
  "register tool tools =
     (let name = ts_name (tl_spec tool)
      in if name \<in> fst ` set tools then (Inl DuplicateToolError, tools)
         else (Inr (), tools @ [(name, tool)]))"

definition get_tool :: "('w, 'i, 'o) registry \<Rightarrow> pystr \<Rightarrow> exn + ('w, 'i, 'o) tool" where
  "get_tool tools name =
     (case map_of tools name of Some t \<Rightarrow> Inr t | None \<Rightarrow> Inl UnknownToolError)"

definition list_specs :: "('w, 'i, 'o) registry \<Rightarrow> tool_spec list" where
  "list_specs tools =
     map (\<lambda>name. tl_spec (the (map_of tools name))) (sort (map fst tools))"

fun register_all :: "('w, 'i, 'o) tool list \<Rightarrow> ('w, 'i, 'o) registry \<Rightarrow> ('w, 'i, 'o) registry" where
  "register_all [] tools = tools"
| "register_all (t # ts) tools = register_all ts (snd (register t tools))"

section \<open>Runtime events\<close>

datatype runtime_event_type =
    TOOL_STARTED | TOOL_SUCCEEDED | TOOL_RETRYING | TOOL_FAILED | TOOL_TIMED_OUT

fun event_type_value :: "runtime_event_type \<Rightarrow> pystr" where
  "event_type_value TOOL_STARTED = lit ''tool_started''"
| "event_type_value TOOL_SUCCEEDED = lit ''tool_succeeded''"
| "event_type_value TOOL_RETRYING = lit ''tool_retrying''"
| "event_type_value TOOL_FAILED = lit ''tool_failed''"
| "event_type_value TOOL_TIMED_OUT = lit ''tool_timed_out''"

record runtime_event =
  re_event_type :: runtime_event_type
  re_occurred_at :: datetime
  re_context :: run_context
  re_tool_name :: pystr
  re_attempt :: int
  re_duration_ms :: pyfloat
  re_error_code :: "tool_error_code option"
  re_retry_delay_seconds :: "pyfloat option"

definition mk_runtime_event :: "runtime_event \<Rightarrow> exn + runtime_event" where
  "mk_runtime_event e =
     raise_if (blank (re_tool_name e)) (ValueError ''tool_name must not be blank'')
     (raise_if (re_attempt e < 1) (ValueError ''attempt must be at least one'')
     (raise_if (fl_lt (re_duration_ms e) (Fin 0)) (ValueError ''duration_ms must not be negative'')
     (raise_if (case re_retry_delay_seconds e of None \<Rightarrow> False | Some d \<Rightarrow> fl_lt d (Fin 0))
       (ValueError ''retry_delay_seconds must not be negative'')
     (raise_if (\<not> is_aware (re_occurred_at e)) (ValueError ''occurred_at must be timezone-aware'')
     (Inr e)))))"

text \<open>
  What the adapters in \<open>platform/telemetry/agent_runtime.py\<close> hand to OpenTelemetry and to the
  logger: the attributes of a span and the extra fields of a log record.
\<close>

datatype telemetry_value =
    TelText pystr | TelInt int | TelFloat pyfloat | TelNone | TelCode tool_error_code

fun join_comma :: "pystr list \<Rightarrow> pystr" where
  "join_comma [] = []"
| "join_comma [s] = s"
| "join_comma (s # t # ss) = s @ [44] @ join_comma (t # ss)"

definition skill_versions :: "run_context \<Rightarrow> pystr" where
  "skill_versions context =
     join_comma (map (\<lambda>s. sv_name s @ [64] @ sv_version s) (rv_skills (rc_versions context)))"

definition optional_attribute :: "string \<Rightarrow> pystr option \<Rightarrow> (string \<times> telemetry_value) list" where
  "optional_attribute key value = (case value of None \<Rightarrow> [] | Some v \<Rightarrow> [(key, TelText v)])"

definition tool_span_attributes :: "run_context \<Rightarrow> pystr \<Rightarrow> int \<Rightarrow> (string \<times> telemetry_value) list" where
  "tool_span_attributes context tool_name attempt =
     (let i = rc_identity context; v = rc_versions context in
      [(''agent.run.id'', TelText (ri_run_id i)),
       (''agent.request.id'', TelText (ri_request_id i)),
       (''agent.trace.id'', TelText (ri_trace_id i)),
       (''agent.tool.name'', TelText tool_name),
       (''agent.tool.attempt'', TelInt attempt),
       (''agent.model.name'', TelText (rv_model_name v)),
       (''agent.model.version'', TelText (rv_model_version v)),
       (''agent.prompt.name'', TelText (rv_prompt_name v)),
       (''agent.prompt.version'', TelText (rv_prompt_version v)),
       (''agent.skill.versions'', TelText (skill_versions context))]
      @ optional_attribute ''agent.task.id'' (ri_task_id i)
      @ optional_attribute ''agent.tenant.id'' (ri_tenant_id i)
      @ optional_attribute ''agent.actor.id'' (ri_actor_id i))"

definition text_or_none :: "pystr option \<Rightarrow> telemetry_value" where
  "text_or_none v = (case v of None \<Rightarrow> TelNone | Some s \<Rightarrow> TelText s)"

definition runtime_log_record :: "runtime_event \<Rightarrow> pystr \<times> (string \<times> telemetry_value) list" where
  "runtime_log_record e =
     (let i = rc_identity (re_context e); v = rc_versions (re_context e) in
      (event_type_value (re_event_type e),
       [(''event_name'', TelText (lit ''agent_runtime.'' @ event_type_value (re_event_type e))),
        (''request_id'', TelText (ri_request_id i)),
        (''trace_id'', TelText (ri_trace_id i)),
        (''tenant_id'', text_or_none (ri_tenant_id i)),
        (''actor_id'', text_or_none (ri_actor_id i)),
        (''task_id'', text_or_none (ri_task_id i)),
        (''run_id'', TelText (ri_run_id i)),
        (''tool_name'', TelText (re_tool_name e)),
        (''attempt'', TelInt (re_attempt e)),
        (''duration_ms'', TelFloat (re_duration_ms e)),
        (''retry_delay_seconds'', (case re_retry_delay_seconds e of None \<Rightarrow> TelNone | Some d \<Rightarrow> TelFloat d)),
        (''error_type'', (case re_error_code e of None \<Rightarrow> TelNone | Some c \<Rightarrow> TelCode c)),
        (''model_name'', TelText (rv_model_name v)),
        (''model_version'', TelText (rv_model_version v)),
        (''prompt_name'', TelText (rv_prompt_name v)),
        (''prompt_version'', TelText (rv_prompt_version v)),
        (''skill_versions'', TelText (skill_versions (re_context e)))]))"

section \<open>The executor\<close>

definition tool_timeout_error :: tool_error where
  "tool_timeout_error =
     \<lparr>te_code = Tool_TIMEOUT, te_message = lit ''Tool execution timed out'', te_retryable = True\<rparr>"

definition tool_execution_error :: tool_error where
  "tool_execution_error =
     \<lparr>te_code = Tool_EXECUTION_FAILED, te_message = lit ''Tool execution failed'', te_retryable = False\<rparr>"

definition tool_input_error :: tool_error where
  "tool_input_error =
     \<lparr>te_code = Tool_INVALID_INPUT,
      te_message = lit ''Tool input does not match the registered schema'', te_retryable = False\<rparr>"

definition tool_output_error :: tool_error where
  "tool_output_error =
     \<lparr>te_code = Tool_EXECUTION_FAILED,
      te_message = lit ''Tool output does not match the registered schema'', te_retryable = False\<rparr>"

text \<open>
  \<open>rt_guarded\<close> is the tracer's span and \<open>asyncio.timeout\<close> around one invocation: what it may do
  to the outcome is stated where it matters.
\<close>

record ('w, 'o) runtime =
  rt_record :: "runtime_event \<Rightarrow> ('w, unit) stateful"
  rt_guarded :: "run_context \<Rightarrow> pystr \<Rightarrow> int \<Rightarrow> pyfloat \<Rightarrow> ('w, 'o tool_response) stateful
                  \<Rightarrow> ('w, 'o tool_response) stateful"
  rt_sleep :: "pyfloat \<Rightarrow> ('w, unit) stateful"
  rt_monotonic :: "('w, pyfloat) stateful"
  rt_utc_now :: "('w, datetime) stateful"

fun fl_sub :: "pyfloat \<Rightarrow> pyfloat \<Rightarrow> pyfloat" where
  "fl_sub (Fin a) (Fin b) = fl_of_rat (a - b)"
| "fl_sub NaN _ = NaN"
| "fl_sub _ NaN = NaN"
| "fl_sub PInf PInf = NaN"
| "fl_sub NInf NInf = NaN"
| "fl_sub PInf _ = PInf"
| "fl_sub NInf _ = NInf"
| "fl_sub _ PInf = NInf"
| "fl_sub _ NInf = PInf"

text \<open>\<open>x * 1000.0\<close>\<close>

fun fl_thousandfold :: "pyfloat \<Rightarrow> pyfloat" where
  "fl_thousandfold (Fin a) = fl_of_rat (a * 1000)"
| "fl_thousandfold x = x"

definition record_event ::
  "('w, 'o) runtime \<Rightarrow> runtime_event_type \<Rightarrow> run_context \<Rightarrow> tool_spec \<Rightarrow> int \<Rightarrow> pyfloat
   \<Rightarrow> tool_error_code option \<Rightarrow> pyfloat option \<Rightarrow> ('w, unit) stateful" where
  "record_event rt ty context spec attempt duration_ms error_code retry_delay =
     bindS (rt_utc_now rt) (\<lambda>now.
     bindS (liftS (mk_runtime_event
       \<lparr>re_event_type = ty, re_occurred_at = now, re_context = context, re_tool_name = ts_name spec,
        re_attempt = attempt, re_duration_ms = duration_ms, re_error_code = error_code,
        re_retry_delay_seconds = retry_delay\<rparr>)) (\<lambda>e.
     rt_record rt e))"

definition should_retry :: "tool_spec \<Rightarrow> tool_error \<Rightarrow> int \<Rightarrow> bool" where
  "should_retry spec error attempt \<longleftrightarrow>
     ts_idempotent spec \<and> te_retryable error \<and> attempt < ts_max_attempts spec"

text \<open>\<open>2.0 ** (attempt - 1)\<close> raises from the exponent 1024 on; \<open>attempt\<close> is at least 1.\<close>

definition retry_delay :: "tool_spec \<Rightarrow> int \<Rightarrow> exn + pyfloat" where
  "retry_delay spec attempt =
     (if attempt - 1 \<ge> 1024 then Inl OverflowError
      else Inr (fl_min (fl_scale (ts_retry_base_delay_seconds spec) (nat (attempt - 1)))
             (ts_retry_max_delay_seconds spec)))"

definition classify_response ::
  "('w, 'i, 'o) tool \<Rightarrow> 'o tool_response \<Rightarrow> exn + ('o tool_response \<times> runtime_event_type)" where
  "classify_response tool response =
     (if (case tr_value response of None \<Rightarrow> False | Some v \<Rightarrow> \<not> tl_output_schema tool v)
      then bindE (mk_tool_error tool_output_error) (\<lambda>e.
           bindE (tool_failure e) (\<lambda>r. Inr (r, TOOL_FAILED)))
      else Inr (response, if is_success response then TOOL_SUCCEEDED else TOOL_FAILED))"

definition invoke_attempt ::
  "('w, 'o) runtime \<Rightarrow> ('w, 'i, 'o) tool \<Rightarrow> 'i \<Rightarrow> run_context \<Rightarrow> int
   \<Rightarrow> ('w, 'o tool_response \<times> runtime_event_type) stateful" where
  "invoke_attempt rt tool input_data context attempt w =
     (case rt_guarded rt context (ts_name (tl_spec tool)) attempt (ts_timeout_seconds (tl_spec tool))
             (tl_invoke tool input_data context) w of
        (Inl TimeoutError, w') \<Rightarrow>
          (bindE (mk_tool_error tool_timeout_error) (\<lambda>e.
           bindE (tool_failure e) (\<lambda>r. Inr (r, TOOL_TIMED_OUT))), w')
      | (Inl x, w') \<Rightarrow>
          (if is_exception x
           then bindE (mk_tool_error tool_execution_error) (\<lambda>e.
                bindE (tool_failure e) (\<lambda>r. Inr (r, TOOL_FAILED)))
           else Inl x, w')
      | (Inr response, w') \<Rightarrow> (classify_response tool response, w'))"

fun attempt_loop ::
  "('w, 'o) runtime \<Rightarrow> ('w, 'i, 'o) tool \<Rightarrow> 'i \<Rightarrow> run_context \<Rightarrow> int list
   \<Rightarrow> ('w, 'o tool_response) stateful" where
  "attempt_loop rt tool input_data context [] =
     raiseS (RuntimeError ''Tool execution exhausted an unreachable control path'')"
| "attempt_loop rt tool input_data context (attempt # attempts) =
     bindS (record_event rt TOOL_STARTED context (tl_spec tool) attempt (Fin 0) None None) (\<lambda>_.
     bindS (rt_monotonic rt) (\<lambda>started_at.
     bindS (invoke_attempt rt tool input_data context attempt) (\<lambda>(response, terminal_event).
     bindS (rt_monotonic rt) (\<lambda>finished_at.
     let duration_ms = fl_max (Fin 0) (fl_thousandfold (fl_sub finished_at started_at)) in
     bindS (record_event rt terminal_event context (tl_spec tool) attempt duration_ms
              (map_option te_code (tr_error response)) None) (\<lambda>_.
     case tr_error response of
       None \<Rightarrow> retS response
     | Some error \<Rightarrow>
         if \<not> should_retry (tl_spec tool) error attempt then retS response
         else
           bindS (liftS (retry_delay (tl_spec tool) attempt)) (\<lambda>delay.
           bindS (record_event rt TOOL_RETRYING context (tl_spec tool) attempt duration_ms
                    (Some (te_code error)) (Some delay)) (\<lambda>_.
           bindS (rt_sleep rt delay) (\<lambda>_.
           attempt_loop rt tool input_data context attempts))))))))"

definition execute ::
  "('w, 'o) runtime \<Rightarrow> ('w, 'i, 'o) registry \<Rightarrow> pystr \<Rightarrow> 'i \<Rightarrow> run_context
   \<Rightarrow> ('w, 'o tool_response) stateful" where
  "execute rt tools tool_name input_data context =
     bindS (liftS (get_tool tools tool_name)) (\<lambda>tool.
     if \<not> tl_input_schema tool input_data
     then liftS (bindE (mk_tool_error tool_input_error) tool_failure)
     else attempt_loop rt tool input_data context [1..ts_max_attempts (tl_spec tool)])"


section \<open>The registry lists its tools in name order\<close>

abbreviation tool_name :: "('w, 'i, 'o) tool \<Rightarrow> pystr" where
  "tool_name t \<equiv> ts_name (tl_spec t)"

lemma register_all_distinct:
  assumes "distinct (map tool_name ts)" "set (map tool_name ts) \<inter> fst ` set tools = {}"
  shows "register_all ts tools = tools @ map (\<lambda>t. (tool_name t, t)) ts"
  using assms
proof (induction ts arbitrary: tools)
  case (Cons t ts)
  then have "register t tools = (Inr (), tools @ [(tool_name t, t)])"
    by (auto simp: register_def Let_def)
  moreover have "set (map tool_name ts) \<inter> fst ` set (tools @ [(tool_name t, t)]) = {}"
    using Cons.prems by auto
  ultimately show ?case using Cons by simp
qed simp

lemma register_duplicate:
  "tool_name t \<in> fst ` set tools \<Longrightarrow> register t tools = (Inl DuplicateToolError, tools)"
  by (simp add: register_def)

lemma map_of_tools:
  "distinct (map tool_name ts) \<Longrightarrow> t \<in> set ts \<Longrightarrow> map_of (map (\<lambda>t. (tool_name t, t)) ts) (tool_name t) = Some t"
  by (rule map_of_is_SomeI) (auto simp: o_def)

text \<open>The registry lists the registered tools in name order, whatever the order of registration:
  the listing equals the reference that sorts the tools themselves, and each name resolves to its
  tool.\<close>

theorem registry_listing_sorted:
  assumes "distinct (map (\<lambda>t. ts_name (tl_spec t)) ts)"
  shows "list_specs (register_all ts []) = map tl_spec (sort_key (\<lambda>t. ts_name (tl_spec t)) ts)
    \<and> (\<forall>t\<in>set ts. get_tool (register_all ts []) (ts_name (tl_spec t)) = Inr t)"
proof -
  let ?tools = "map (\<lambda>t. (tool_name t, t)) ts" and ?sorted = "sort_key tool_name ts"
  have reg: "register_all ts [] = ?tools" using register_all_distinct [OF assms, of "[]"] by simp
  have "distinct (map tool_name ?sorted)" using assms by (simp add: distinct_map)
  then have names: "sort (map tool_name ts) = map tool_name ?sorted"
    using assms by (intro sorted_distinct_set_unique) simp_all
  have "list_specs ?tools = map (\<lambda>name. tl_spec (the (map_of ?tools name))) (sort (map tool_name ts))"
    by (simp add: list_specs_def o_def)
  also have "\<dots> = map tl_spec ?sorted"
    unfolding names using map_of_tools [OF assms] by (simp add: o_def)
  finally show ?thesis
    unfolding reg using map_of_tools [OF assms] by (simp add: get_tool_def)
qed

section \<open>Execution\<close>

text \<open>
  The recorder keeps what it is given, the clocks and the sleeper answer, the wall clock is aware, and
  a guarded invocation ends with what the invocation returned or with an exception; none but the
  recorder touches the journal, and nobody cancels the run.
\<close>

definition runtime_ok :: "('w, 'o) runtime \<Rightarrow> ('w \<Rightarrow> runtime_event list) \<Rightarrow> bool" where
  "runtime_ok rt journal \<longleftrightarrow>
     (\<forall>e w. fst (rt_record rt e w) = Inr () \<and> journal (snd (rt_record rt e w)) = journal w @ [e])
   \<and> (\<forall>w. \<not> isl (fst (rt_monotonic rt w)) \<and> journal (snd (rt_monotonic rt w)) = journal w)
   \<and> (\<forall>w. \<not> isl (fst (rt_utc_now rt w)) \<and> is_aware (projr (fst (rt_utc_now rt w)))
          \<and> journal (snd (rt_utc_now rt w)) = journal w)
   \<and> (\<forall>d w. fst (rt_sleep rt d w) = Inr () \<and> journal (snd (rt_sleep rt d w)) = journal w)
   \<and> (\<forall>c n a d m w.
          (\<forall>v. journal (snd (m v)) = journal v \<and> (\<forall>x. fst (m v) = Inl x \<longrightarrow> is_exception x)) \<longrightarrow>
          journal (snd (rt_guarded rt c n a d m w)) = journal w
        \<and> (case fst (rt_guarded rt c n a d m w) of
             Inl x \<Rightarrow> is_exception x | Inr r \<Rightarrow> (\<exists>v. fst (m v) = Inr r)))"

definition tool_ok :: "('w, 'i, 'o) tool \<Rightarrow> ('w \<Rightarrow> runtime_event list) \<Rightarrow> bool" where
  "tool_ok tool journal \<longleftrightarrow> mk_tool_spec (tl_spec tool) = Inr (tl_spec tool)
     \<and> (\<forall>i c w. journal (snd (tl_invoke tool i c w)) = journal w
            \<and> (\<forall>x. fst (tl_invoke tool i c w) = Inl x \<longrightarrow> is_exception x))
     \<and> (\<forall>i c w r. fst (tl_invoke tool i c w) = Inr r \<longrightarrow> mk_tool_response r = Inr r)"

definition response_ok :: "('w, 'i, 'o) tool \<Rightarrow> 'o tool_response \<Rightarrow> bool" where
  "response_ok tool r \<longleftrightarrow> mk_tool_response r = Inr r
     \<and> (case tr_value r of None \<Rightarrow> True | Some v \<Rightarrow> tl_output_schema tool v)"

lemma fixed_errors [simp]:
  "mk_tool_error tool_timeout_error = Inr tool_timeout_error"
  "mk_tool_error tool_execution_error = Inr tool_execution_error"
  "mk_tool_error tool_input_error = Inr tool_input_error"
  "mk_tool_error tool_output_error = Inr tool_output_error"
  by code_simp+

lemma tool_failure_eq [simp]: "tool_failure e = Inr \<lparr>tr_value = None, tr_error = Some e\<rparr>"
  by (simp add: tool_failure_def mk_tool_response_def)

lemma tool_name_not_blank:
  assumes "mk_tool_spec s = Inr s"
  shows "\<not> blank (ts_name s)"
proof -
  have "tool_name_matches (ts_name s)" using assms by (simp add: mk_tool_spec_def)
  then obtain c cs where "ts_name s = c # cs" "97 \<le> c" "c \<le> 122"
    by (auto simp: tool_name_matches_def split: list.splits)
  then show ?thesis by (auto simp: blank_iff is_space_def)
qed

lemma runtime_okD:
  assumes "runtime_ok rt journal"
  shows "\<exists>w'. rt_record rt e w = (Inr (), w') \<and> journal w' = journal w @ [e]"
    "\<exists>t w'. rt_monotonic rt w = (Inr t, w') \<and> journal w' = journal w"
    "\<exists>t w'. rt_utc_now rt w = (Inr t, w') \<and> is_aware t \<and> journal w' = journal w"
    "\<exists>w'. rt_sleep rt d w = (Inr (), w') \<and> journal w' = journal w"
proof -
  note R = assms [unfolded runtime_ok_def]
  show "\<exists>w'. rt_record rt e w = (Inr (), w') \<and> journal w' = journal w @ [e]"
    using conjunct1 [OF R] by (metis prod.collapse)
  show "\<exists>t w'. rt_monotonic rt w = (Inr t, w') \<and> journal w' = journal w"
    using conjunct1 [OF conjunct2 [OF R]] by (metis prod.collapse sum.collapse(2))
  show "\<exists>t w'. rt_utc_now rt w = (Inr t, w') \<and> is_aware t \<and> journal w' = journal w"
    using conjunct1 [OF conjunct2 [OF conjunct2 [OF R]]] by (metis prod.collapse sum.collapse(2))
  show "\<exists>w'. rt_sleep rt d w = (Inr (), w') \<and> journal w' = journal w"
    using conjunct1 [OF conjunct2 [OF conjunct2 [OF conjunct2 [OF R]]]] by (metis prod.collapse)
qed

lemma runtime_ok_guarded:
  assumes rt: "runtime_ok rt journal" and g: "rt_guarded rt c n a d m w = (r, w')"
    and m: "\<forall>v. journal (snd (m v)) = journal v \<and> (\<forall>x. fst (m v) = Inl x \<longrightarrow> is_exception x)"
  shows "journal w' = journal w \<and> (case r of Inl x \<Rightarrow> is_exception x | Inr r \<Rightarrow> (\<exists>v. fst (m v) = Inr r))"
proof -
  note R = conjunct2 [OF conjunct2 [OF conjunct2 [OF conjunct2 [OF rt [unfolded runtime_ok_def]]]]]
  from R [THEN spec [of _ c], THEN spec [of _ n], THEN spec [of _ a], THEN spec [of _ d],
      THEN spec [of _ m], THEN spec [of _ w], THEN mp, OF m]
  show ?thesis by (simp add: g)
qed

lemma record_event_run:
  assumes rt: "runtime_ok rt journal" and s: "mk_tool_spec spec = Inr spec" and a: "1 \<le> attempt"
    and d: "\<not> fl_lt ms (Fin 0)" and y: "\<forall>x. delay = Some x \<longrightarrow> \<not> fl_lt x (Fin 0)"
  shows "\<exists>w' e. record_event rt ty c spec attempt ms code delay w = (Inr (), w') \<and> journal w' = journal w @ [e]
    \<and> re_event_type e = ty \<and> re_attempt e = attempt"
proof -
  obtain now w1 where now: "rt_utc_now rt w = (Inr now, w1)" "is_aware now" "journal w1 = journal w"
    using runtime_okD(3) [OF rt] by blast
  let ?e = "\<lparr>re_event_type = ty, re_occurred_at = now, re_context = c, re_tool_name = ts_name spec,
        re_attempt = attempt, re_duration_ms = ms, re_error_code = code, re_retry_delay_seconds = delay\<rparr>"
  have "mk_runtime_event ?e = Inr ?e"
    using tool_name_not_blank [OF s] a d y now(2) by (auto simp: mk_runtime_event_def split: option.splits)
  moreover obtain w2 where "rt_record rt ?e w1 = (Inr (), w2)" "journal w2 = journal w1 @ [?e]"
    using runtime_okD(1) [OF rt] by blast
  ultimately show ?thesis
    using now(1,3) by (intro exI [of _ w2] exI [of _ ?e]) (simp add: record_event_def bindS_apply)
qed

lemma classify_response_run:
  assumes "mk_tool_response r = Inr r"
  shows "\<exists>resp ev. classify_response tool r = Inr (resp, ev) \<and> response_ok tool resp
    \<and> (ev = TOOL_SUCCEEDED \<longleftrightarrow> is_success resp) \<and> ev \<in> {TOOL_SUCCEEDED, TOOL_FAILED, TOOL_TIMED_OUT}"
  using assms
  by (auto simp: classify_response_def response_ok_def mk_tool_response_def is_success_def
      split: option.splits)

lemma failure_response_ok [simp]: "response_ok tool \<lparr>tr_value = None, tr_error = Some e\<rparr>"
  by (simp add: response_ok_def mk_tool_response_def)

text \<open>A tool that raises is answered with one of two fixed texts.\<close>

lemma invoke_attempt_raise:
  assumes "rt_guarded rt c (ts_name (tl_spec tool)) a (ts_timeout_seconds (tl_spec tool)) (tl_invoke tool i c) w
      = (Inl x, w')" "is_exception x"
  shows "invoke_attempt rt tool i c a w
    = (Inr (\<lparr>tr_value = None, tr_error = Some (if x = TimeoutError then tool_timeout_error else tool_execution_error)\<rparr>,
         if x = TimeoutError then TOOL_TIMED_OUT else TOOL_FAILED), w')"
  using assms by (cases x) (simp_all add: invoke_attempt_def)

lemma invoke_attempt_run:
  assumes rt: "runtime_ok rt journal" and tl: "tool_ok tool journal"
  shows "\<exists>resp ev w'. invoke_attempt rt tool i c a w = (Inr (resp, ev), w') \<and> journal w' = journal w
    \<and> response_ok tool resp \<and> (ev = TOOL_SUCCEEDED \<longleftrightarrow> is_success resp)
    \<and> ev \<in> {TOOL_SUCCEEDED, TOOL_FAILED, TOOL_TIMED_OUT}"
proof -
  let ?m = "tl_invoke tool i c"
  obtain r w' where g: "rt_guarded rt c (tool_name tool) a (ts_timeout_seconds (tl_spec tool)) ?m w = (r, w')"
    by (cases "rt_guarded rt c (tool_name tool) a (ts_timeout_seconds (tl_spec tool)) ?m w")
  have "\<forall>v. journal (snd (?m v)) = journal v \<and> (\<forall>x. fst (?m v) = Inl x \<longrightarrow> is_exception x)"
    using tl by (simp add: tool_ok_def)
  then have G: "journal w' = journal w" "case r of Inl x \<Rightarrow> is_exception x | Inr r \<Rightarrow> (\<exists>v. fst (?m v) = Inr r)"
    using runtime_ok_guarded [OF rt g] by blast+
  show ?thesis
  proof (cases r)
    case (Inl x)
    then have "invoke_attempt rt tool i c a w
      = (Inr (\<lparr>tr_value = None, tr_error = Some (if x = TimeoutError then tool_timeout_error else tool_execution_error)\<rparr>,
           if x = TimeoutError then TOOL_TIMED_OUT else TOOL_FAILED), w')"
      using g G(2) by (intro invoke_attempt_raise) simp_all
    then show ?thesis using G(1) by (simp add: is_success_def)
  next
    case (Inr resp)
    then have "mk_tool_response resp = Inr resp" using G(2) tl by (auto simp: tool_ok_def)
    from classify_response_run [OF this, of tool] show ?thesis
      using g G(1) Inr by (auto simp: invoke_attempt_def)
  qed
qed


lemma duration_nonneg: "\<not> fl_lt (fl_max (Fin 0) x) (Fin 0)"
  by (cases x) (auto simp: fl_max_def fl_lt_def)

lemma fl_scale_positive:
  assumes "\<not> fl_le b (Fin 0)"
  shows "\<not> fl_le (fl_scale b k) (Fin 0)"
proof (cases b)
  case (Fin q)
  then have "0 < q * 2 ^ k" using assms by simp
  moreover have "(0 :: rat) < fl_huge" by (simp add: fl_huge_def)
  ultimately show ?thesis using Fin by (auto simp: fl_of_rat_def)
qed (use assms in simp_all)

lemma retry_delay_run:
  assumes s: "mk_tool_spec s = Inr s" and a: "1 \<le> a" "a \<le> 1024"
  shows "\<exists>d. retry_delay s a = Inr d \<and> \<not> fl_lt d (Fin 0)"
proof -
  let ?b = "ts_retry_base_delay_seconds s" and ?m = "ts_retry_max_delay_seconds s"
  let ?x = "fl_scale ?b (nat (a - 1))"
  have b: "\<not> fl_le ?b (Fin 0)" "\<not> fl_lt ?m ?b" using s by (auto simp: mk_tool_spec_def)
  then have x: "\<not> fl_le ?x (Fin 0)" by (simp add: fl_scale_positive)
  have "\<not> fl_lt ?m (Fin 0)" if "fl_lt ?m ?x"
    using b that by (cases ?m; cases ?b) (auto simp: fl_lt_def)
  then have "\<not> fl_lt (fl_min ?x ?m) (Fin 0)" using x by (auto simp: fl_min_def fl_lt_def)
  then show ?thesis using a by (simp add: retry_delay_def)
qed

text \<open>The event types and attempts a run records for the given outcomes.\<close>

fun attempts_trace :: "int \<Rightarrow> runtime_event_type list \<Rightarrow> (runtime_event_type \<times> int) list" where
  "attempts_trace a [] = []"
| "attempts_trace a [t] = [(TOOL_STARTED, a), (t, a)]"
| "attempts_trace a (t # u # ts) =
     [(TOOL_STARTED, a), (t, a), (TOOL_RETRYING, a)] @ attempts_trace (a + 1) (u # ts)"

text \<open>What the outcomes of the attempts have to do with the tool's policy and the answer.\<close>

definition outcomes_ok :: "tool_spec \<Rightarrow> int \<Rightarrow> runtime_event_type list \<Rightarrow> 'o tool_response \<Rightarrow> bool" where
  "outcomes_ok spec left outcomes resp \<longleftrightarrow> outcomes \<noteq> [] \<and> int (length outcomes) \<le> left
     \<and> (\<forall>t\<in>set (butlast outcomes). t = TOOL_FAILED \<or> t = TOOL_TIMED_OUT)
     \<and> (last outcomes = TOOL_SUCCEEDED \<longleftrightarrow> is_success resp)
     \<and> (1 < length outcomes \<longrightarrow> ts_idempotent spec)
     \<and> (case tr_error resp of None \<Rightarrow> True
        | Some e \<Rightarrow> ts_idempotent spec \<and> te_retryable e \<longrightarrow> int (length outcomes) = left)"

lemma outcomes_ok_final:
  assumes "a \<le> ts_max_attempts spec" "ev = TOOL_SUCCEEDED \<longleftrightarrow> is_success resp"
    "\<And>e. tr_error resp = Some e \<Longrightarrow> \<not> should_retry spec e a"
  shows "outcomes_ok spec (ts_max_attempts spec - a + 1) [ev] resp"
  using assms by (auto simp: outcomes_ok_def should_retry_def split: option.splits)

lemma outcomes_ok_retry:
  assumes "outcomes_ok spec (ts_max_attempts spec - (a + 1) + 1) os resp" "ev = TOOL_FAILED \<or> ev = TOOL_TIMED_OUT"
    "ts_idempotent spec"
  shows "outcomes_ok spec (ts_max_attempts spec - a + 1) (ev # os) resp"
  using assms by (auto simp: outcomes_ok_def split: option.splits)

lemma attempts_trace_Cons: "os \<noteq> [] \<Longrightarrow>
    attempts_trace a (ev # os) = [(TOOL_STARTED, a), (ev, a), (TOOL_RETRYING, a)] @ attempts_trace (a + 1) os"
  by (cases os) simp_all

lemma attempt_loop_run:
  assumes rt: "runtime_ok rt journal" and tl: "tool_ok tool journal"
    and m: "ts_max_attempts (tl_spec tool) \<le> 1025"
  shows "1 \<le> a \<Longrightarrow> a \<le> ts_max_attempts (tl_spec tool) \<Longrightarrow>
    \<exists>resp w' os es. attempt_loop rt tool i c [a..ts_max_attempts (tl_spec tool)] w = (Inr resp, w')
      \<and> response_ok tool resp \<and> outcomes_ok (tl_spec tool) (ts_max_attempts (tl_spec tool) - a + 1) os resp
      \<and> journal w' = journal w @ es
      \<and> map (\<lambda>e. (re_event_type e, re_attempt e)) es = attempts_trace a os"
proof (induction "nat (ts_max_attempts (tl_spec tool) - a)" arbitrary: a w rule: less_induct)
  case less
  let ?s = "tl_spec tool" and ?M = "ts_max_attempts (tl_spec tool)"
  have s: "mk_tool_spec ?s = Inr ?s" using tl by (simp add: tool_ok_def)
  note rec = record_event_run [OF rt s less.prems(1)]
  obtain w1 e1 where 1: "record_event rt TOOL_STARTED c ?s a (Fin 0) None None w = (Inr (), w1)"
      "journal w1 = journal w @ [e1]" "re_event_type e1 = TOOL_STARTED" "re_attempt e1 = a"
    using rec [of "Fin 0" None TOOL_STARTED c None w] by (auto simp: fl_lt_def)
  obtain t1 w2 where 2: "rt_monotonic rt w1 = (Inr t1, w2)" "journal w2 = journal w1"
    using runtime_okD(2) [OF rt] by blast
  obtain resp ev w3 where 3: "invoke_attempt rt tool i c a w2 = (Inr (resp, ev), w3)" "journal w3 = journal w2"
      "response_ok tool resp" "ev = TOOL_SUCCEEDED \<longleftrightarrow> is_success resp"
      "ev \<in> {TOOL_SUCCEEDED, TOOL_FAILED, TOOL_TIMED_OUT}"
    using invoke_attempt_run [OF rt tl, of i c a w2] by blast
  obtain t2 w4 where 4: "rt_monotonic rt w3 = (Inr t2, w4)" "journal w4 = journal w3"
    using runtime_okD(2) [OF rt] by blast
  let ?ms = "fl_max (Fin 0) (fl_thousandfold (fl_sub t2 t1))"
  obtain w5 e5 where 5: "record_event rt ev c ?s a ?ms (map_option te_code (tr_error resp)) None w4 = (Inr (), w5)"
      "journal w5 = journal w4 @ [e5]" "re_event_type e5 = ev" "re_attempt e5 = a"
    using rec [of ?ms None ev c "map_option te_code (tr_error resp)" w4] duration_nonneg by auto
  note steps = 1 2 3(1,2) 4 5
  have unroll: "[a..?M] = a # [a + 1..?M]" using less.prems(2) by (rule upto_rec1)
  show ?case
  proof (cases "\<exists>e. tr_error resp = Some e \<and> should_retry ?s e a")
    case False
    then have "attempt_loop rt tool i c [a..?M] w = (Inr resp, w5)"
      unfolding unroll using steps by (auto simp: bindS_apply Let_def split: option.splits)
    moreover have "outcomes_ok ?s (?M - a + 1) [ev] resp"
      using outcomes_ok_final [OF less.prems(2) 3(4)] False by blast
    ultimately show ?thesis
      using 3(3) steps by (intro exI [of _ resp] exI [of _ w5] exI [of _ "[ev]"] exI [of _ "[e1, e5]"]) simp
  next
    case True
    then obtain e where e: "tr_error resp = Some e" "should_retry ?s e a" by blast
    then have a: "a < ?M" "ts_idempotent ?s" by (simp_all add: should_retry_def)
    obtain d where d: "retry_delay ?s a = Inr d" "\<not> fl_lt d (Fin 0)"
      using retry_delay_run [OF s less.prems(1)] a(1) m by auto
    obtain w6 e6 where 6: "record_event rt TOOL_RETRYING c ?s a ?ms (Some (te_code e)) (Some d) w5 = (Inr (), w6)"
        "journal w6 = journal w5 @ [e6]" "re_event_type e6 = TOOL_RETRYING" "re_attempt e6 = a"
      using rec [of ?ms "Some d" TOOL_RETRYING c "Some (te_code e)" w5] duration_nonneg d(2) by auto
    obtain w7 where 7: "rt_sleep rt d w6 = (Inr (), w7)" "journal w7 = journal w6"
      using runtime_okD(4) [OF rt] by blast
    have step: "attempt_loop rt tool i c [a..?M] w = attempt_loop rt tool i c [a + 1..?M] w7"
      unfolding unroll using steps 6 7 e d by (simp add: bindS_apply Let_def)
    have "nat (?M - (a + 1)) < nat (?M - a)" "1 \<le> a + 1" "a + 1 \<le> ?M" using a(1) less.prems(1) by auto
    from less.hyps [OF this, of w7] obtain resp' w' os es where
      ih: "attempt_loop rt tool i c [a + 1..?M] w7 = (Inr resp', w')" "response_ok tool resp'"
        "outcomes_ok ?s (?M - (a + 1) + 1) os resp'" "journal w' = journal w7 @ es"
        "map (\<lambda>e. (re_event_type e, re_attempt e)) es = attempts_trace (a + 1) os" by blast
    have "ev = TOOL_FAILED \<or> ev = TOOL_TIMED_OUT" using 3(4,5) e(1) by (auto simp: is_success_def)
    then have "outcomes_ok ?s (?M - a + 1) (ev # os) resp'"
      using outcomes_ok_retry [OF ih(3)] a(2) by blast
    moreover have "os \<noteq> []" using ih(3) by (simp add: outcomes_ok_def)
    ultimately show ?thesis
      using ih steps 6 7 step
      by (intro exI [of _ resp'] exI [of _ w'] exI [of _ "ev # os"] exI [of _ "[e1, e5, e6] @ es"])
        (simp add: attempts_trace_Cons)
  qed
qed



text \<open>A tool that fails twice and then answers, in a world of the events and a call counter.\<close>

definition demo_runtime :: "(runtime_event list \<times> nat, nat) runtime" where
  "demo_runtime =
     \<lparr>rt_record = (\<lambda>e (es, n). (Inr (), (es @ [e], n))), rt_guarded = (\<lambda>c n a d m. m),
      rt_sleep = (\<lambda>d w. (Inr (), w)), rt_monotonic = (\<lambda>w. (Inr (Fin 0), w)),
      rt_utc_now = (\<lambda>w. (Inr (Aware 0 0), w))\<rparr>"

definition demo_tool :: "(runtime_event list \<times> nat, nat, nat) tool" where
  "demo_tool =
     \<lparr>tl_spec = (default_tool_spec (lit ''count'') (Fin 1))\<lparr>ts_max_attempts := 3, ts_idempotent := True\<rparr>,
      tl_input_schema = (\<lambda>i. i < 10), tl_output_schema = (\<lambda>v. v < 10),
      tl_invoke = (\<lambda>i c (es, n).
        (Inr (if n < 2 then \<lparr>tr_value = None, tr_error = Some \<lparr>te_code = Tool_UNAVAILABLE,
                    te_message = lit ''busy'', te_retryable = True\<rparr>\<rparr>
              else \<lparr>tr_value = Some i, tr_error = None\<rparr>), (es, Suc n)))\<rparr>"

definition demo_context :: run_context where
  "demo_context =
     \<lparr>rc_identity = \<lparr>ri_run_id = lit ''r'', ri_request_id = lit ''q'', ri_trace_id = lit ''t'',
        ri_task_id = None, ri_tenant_id = None, ri_actor_id = None\<rparr>,
      rc_versions = \<lparr>rv_model_name = lit ''m'', rv_model_version = lit ''1'', rv_prompt_name = lit ''p'',
        rv_prompt_version = lit ''1'', rv_skills = []\<rparr>\<rparr>"

lemma demo_runtime_ok: "runtime_ok demo_runtime fst"
  by (auto simp: runtime_ok_def demo_runtime_def split: sum.split)

lemma demo_tool_ok: "tool_ok demo_tool fst"
proof -
  have "mk_tool_spec (tl_spec demo_tool) = Inr (tl_spec demo_tool)" by code_simp
  then show ?thesis by (auto simp: tool_ok_def demo_tool_def mk_tool_response_def)
qed


lemma registry_listing_sorted_witness:
  "list_specs (register_all [demo_tool\<lparr>tl_spec := default_tool_spec (lit ''zip'') (Fin 1)\<rparr>, demo_tool] [])
     = [tl_spec demo_tool, default_tool_spec (lit ''zip'') (Fin 1)]"
proof -
  let ?ts = "[demo_tool\<lparr>tl_spec := default_tool_spec (lit ''zip'') (Fin 1)\<rparr>, demo_tool]"
  have "distinct (map (\<lambda>t. ts_name (tl_spec t)) ?ts)"
    by (simp add: demo_tool_def default_tool_spec_def)
  from registry_listing_sorted [OF this] show ?thesis
    by (simp add: demo_tool_def default_tool_spec_def lit_def)
qed

text \<open>
  Beyond: with more attempts the delay of the 1025th retry does not fit a float and the executor
  raises instead of answering.
\<close>

lemma retry_delay_overflows:
  "1025 \<le> a \<Longrightarrow> retry_delay s a = Inl OverflowError"
  by (simp add: retry_delay_def)

end
