(* ===== verification/ConfigModels.thy ===== *)
theory ConfigModels
  imports AuthTokens
begin

text \<open>
  The validated settings views of \<open>platform/config/models.py\<close> up to \<open>ApiSettings\<close>.  A pydantic
  model is a record; \<open>mk_<model>\<close> is its construction from keyword arguments: the constraints
  declared with \<open>Field\<close>, then the field validators, then the model validator, with every failing
  field reported.  \<open>SecretStr\<close> is its text.  \<open>urlsplit\<close> is translated from the standard library;
  its tests of bracketed and of non-ASCII hosts are the parameter \<open>url_lib\<close>, with the Unicode upper
  case mapping.
\<close>

named_theorems config \<open>construction of validated settings\<close>

section \<open>Validation results\<close>

text \<open>One entry of \<open>ValidationError.errors()\<close>: its location and its error type.\<close>

datatype loc_part = LName string | LIndex nat

datatype issue = Issue "loc_part list" string

fun issue_loc :: "issue \<Rightarrow> loc_part list" where
  "issue_loc (Issue l c) = l"

fun issue_code :: "issue \<Rightarrow> string" where
  "issue_code (Issue l c) = c"

type_synonym 'a validated = "issue list + 'a"

definition faults :: "'a validated \<Rightarrow> issue list" where
  "faults r = (case r of Inl es \<Rightarrow> es | Inr _ \<Rightarrow> [])"

definition all_valid :: "issue list \<Rightarrow> 'a validated \<Rightarrow> 'a validated" where
  "all_valid es r = (if es = [] then r else Inl es)"

lemma faults_simps [simp]: "faults (Inl es) = es" "faults (Inr x) = []"
  by (simp_all add: faults_def)

lemma all_valid_Inr [config]: "all_valid es r = Inr x \<longleftrightarrow> es = [] \<and> r = Inr x"
  by (simp add: all_valid_def)

text \<open>A declared constraint: a test and the error type pydantic reports when it fails.\<close>

type_synonym 'a field_constraint = "('a \<Rightarrow> bool) \<times> string"

definition ge :: "int \<Rightarrow> int field_constraint" where
  "ge n = ((\<lambda>v. n \<le> v), ''greater_than_equal'')"

definition gt :: "int \<Rightarrow> int field_constraint" where
  "gt n = ((\<lambda>v. n < v), ''greater_than'')"

definition le :: "int \<Rightarrow> int field_constraint" where
  "le n = ((\<lambda>v. v \<le> n), ''less_than_equal'')"

definition positive :: "pyfloat field_constraint" where
  "positive = ((\<lambda>v. fl_lt (Fin 0) v), ''greater_than'')"

definition min_length :: "nat \<Rightarrow> pystr field_constraint" where
  "min_length n = ((\<lambda>v. n \<le> length v), ''string_too_short'')"

definition max_length :: "nat \<Rightarrow> pystr field_constraint" where
  "max_length n = ((\<lambda>v. length v \<le> n), ''string_too_long'')"

definition min_items :: "nat \<Rightarrow> 'a list field_constraint" where
  "min_items n = ((\<lambda>v. n \<le> length v), ''too_short'')"

definition matches :: "(pystr \<Rightarrow> bool) \<Rightarrow> pystr field_constraint" where
  "matches p = (p, ''string_pattern_mismatch'')"

definition check :: "loc_part list \<Rightarrow> 'a field_constraint list \<Rightarrow> 'a \<Rightarrow> 'a validated" where
  "check loc cs v =
     (case find (\<lambda>c. \<not> fst c v) cs of
        None \<Rightarrow> Inr v
      | Some c \<Rightarrow> Inl [Issue loc (snd c)])"

lemma find_None_all: "find P xs = None \<longleftrightarrow> list_all (\<lambda>x. \<not> P x) xs"
  by (induction xs) auto

lemma check_Inr [config]: "check loc cs v = Inr x \<longleftrightarrow> x = v \<and> list_all (\<lambda>c. fst c v) cs"
proof -
  have "find (\<lambda>c. \<not> fst c v) cs = None \<longleftrightarrow> list_all (\<lambda>c. fst c v) cs"
    by (simp add: find_None_all)
  then show ?thesis by (auto simp: check_def split: option.splits)
qed

lemma check_faults [config]: "faults (check loc cs v) = [] \<longleftrightarrow> list_all (\<lambda>c. fst c v) cs"
proof (cases "check loc cs v")
  case (Inl es)
  then have "es \<noteq> []" by (auto simp: check_def split: option.splits)
  moreover have "\<not> list_all (\<lambda>c. fst c v) cs"
    using Inl check_Inr [of loc cs v v] by auto
  ultimately show ?thesis using Inl by simp
next
  case (Inr x)
  then show ?thesis using check_Inr [of loc cs v x] by simp
qed

lemma constraint_tests [config]:
  "fst (ge n) i \<longleftrightarrow> n \<le> i" "fst (gt n) i \<longleftrightarrow> n < i" "fst (le n) i \<longleftrightarrow> i \<le> n"
  "fst positive x \<longleftrightarrow> fl_lt (Fin 0) x"
  "fst (min_length k) s \<longleftrightarrow> k \<le> length s" "fst (max_length k) s \<longleftrightarrow> length s \<le> k"
  "fst (min_items k) l \<longleftrightarrow> k \<le> length l" "fst (matches p) s \<longleftrightarrow> p s"
  by (simp_all add: ge_def gt_def le_def positive_def min_length_def max_length_def
      min_items_def matches_def)

text \<open>
  A validator that raises \<open>ValueError\<close> (a \<open>ValidationError\<close> of a nested model is one) becomes one
  issue at its location.
\<close>

definition value_error_at :: "loc_part list \<Rightarrow> exn + 'a \<Rightarrow> 'a validated" where
  "value_error_at loc r = (case r of Inl _ \<Rightarrow> Inl [Issue loc ''value_error''] | Inr x \<Rightarrow> Inr x)"

lemma value_error_at_Inr [config]: "value_error_at loc r = Inr x \<longleftrightarrow> r = Inr x"
  by (auto simp: value_error_at_def split: sum.splits)

lemma value_error_at_faults [config]: "faults (value_error_at loc r) = [] \<longleftrightarrow> (\<exists>x. r = Inr x)"
  by (auto simp: value_error_at_def split: sum.splits)

definition or_raise :: "'a validated \<Rightarrow> exn + 'a" where
  "or_raise r = (case r of Inl _ \<Rightarrow> Inl (ValueError ''ValidationError'') | Inr x \<Rightarrow> Inr x)"

lemma or_raise_Inr [config]: "or_raise r = Inr x \<longleftrightarrow> r = Inr x"
  by (auto simp: or_raise_def split: sum.splits)

section \<open>\<open>urllib.parse.urlsplit\<close>\<close>

record url_lib =
  bracketed_ok :: "pystr \<Rightarrow> bool"
  nfkc_ok :: "pystr \<Rightarrow> bool"
  upper_cp :: "nat \<Rightarrow> pystr"

record split_result =
  us_scheme :: pystr
  us_netloc :: pystr
  us_path :: pystr
  us_query :: pystr
  us_fragment :: pystr

text \<open>\<open>partition\<close> and \<open>rpartition\<close> on one character: before, whether it occurs, after.\<close>

definition partition_at :: "nat \<Rightarrow> pystr \<Rightarrow> pystr \<times> bool \<times> pystr" where
  "partition_at c s = (takeWhile (\<lambda>d. d \<noteq> c) s, c \<in> set s, tl (dropWhile (\<lambda>d. d \<noteq> c) s))"

definition rpartition_at :: "nat \<Rightarrow> pystr \<Rightarrow> pystr \<times> bool \<times> pystr" where
  "rpartition_at c s =
     (if c \<in> set s
      then (rev (tl (dropWhile (\<lambda>d. d \<noteq> c) (rev s))), True, rev (takeWhile (\<lambda>d. d \<noteq> c) (rev s)))
      else ([], False, s))"

definition is_ascii_alpha :: "nat \<Rightarrow> bool" where
  "is_ascii_alpha c \<longleftrightarrow> 65 \<le> c \<and> c \<le> 90 \<or> 97 \<le> c \<and> c \<le> 122"

definition is_ascii_digit :: "nat \<Rightarrow> bool" where
  "is_ascii_digit c \<longleftrightarrow> 48 \<le> c \<and> c \<le> 57"

definition is_scheme_char :: "nat \<Rightarrow> bool" where
  "is_scheme_char c \<longleftrightarrow> is_ascii_alpha c \<or> is_ascii_digit c \<or> c = 43 \<or> c = 45 \<or> c = 46"

definition split_scheme :: "pystr \<Rightarrow> pystr \<times> pystr" where
  "split_scheme url =
     (case partition_at 58 url of (before, found, after) \<Rightarrow>
        if found \<and> before \<noteq> [] \<and> is_ascii_alpha (hd url) \<and> list_all is_scheme_char before
        then (map ascii_lower before, after) else ([], url))"

definition split_netloc :: "pystr \<Rightarrow> pystr \<times> pystr" where
  "split_netloc url =
     (let delimiter = (\<lambda>c. c = 47 \<or> c = 63 \<or> c = 35) in
      (takeWhile (\<lambda>c. \<not> delimiter c) url, dropWhile (\<lambda>c. \<not> delimiter c) url))"

definition urlsplit :: "url_lib \<Rightarrow> pystr \<Rightarrow> exn + split_result" where
  "urlsplit L url =
     (let cleaned = filter (\<lambda>c. c \<notin> {9, 10, 13}) (dropWhile (\<lambda>c. c \<le> 32) url);
          (scheme, rest) = split_scheme cleaned;
          (netloc, rest) = (if startswith rest (lit ''//'') then split_netloc (drop 2 rest) else ([], rest));
          (rest, _, fragment) = partition_at 35 rest;
          (path, _, query) = partition_at 63 rest
      in raise_if ((91 \<in> set netloc) \<noteq> (93 \<in> set netloc)) (ValueError ''Invalid IPv6 URL'') (
         raise_if (91 \<in> set netloc \<and> \<not> bracketed_ok L netloc) (ValueError ''Invalid IPv6 URL'') (
         raise_if (\<not> is_ascii netloc \<and> \<not> nfkc_ok L netloc)
           (ValueError ''netloc contains invalid characters under NFKC normalization'') (
         Inr \<lparr>us_scheme = scheme, us_netloc = netloc, us_path = path, us_query = query,
              us_fragment = fragment\<rparr>))))"

text \<open>
  The properties of the result.  \<open>hostname\<close> is lower-cased in the source; the settings only ask
  whether it is empty.
\<close>

definition us_username :: "split_result \<Rightarrow> pystr option" where
  "us_username r =
     (case rpartition_at 64 (us_netloc r) of (userinfo, have_info, _) \<Rightarrow>
        if have_info then Some (fst (partition_at 58 userinfo)) else None)"

definition us_password :: "split_result \<Rightarrow> pystr option" where
  "us_password r =
     (case rpartition_at 64 (us_netloc r) of (userinfo, have_info, _) \<Rightarrow>
        (case partition_at 58 userinfo of (_, have_password, password) \<Rightarrow>
           if have_info \<and> have_password then Some password else None))"

definition us_hostname :: "split_result \<Rightarrow> pystr option" where
  "us_hostname r =
     (case rpartition_at 64 (us_netloc r) of (_, _, hostinfo) \<Rightarrow>
        (case partition_at 91 hostinfo of (_, have_open_br, bracketed) \<Rightarrow>
           let host = (if have_open_br then fst (partition_at 93 bracketed)
                       else fst (partition_at 58 hostinfo))
           in if host = [] then None else Some host))"

text \<open>\<open>not value\<close> for an optional text: missing or empty.\<close>

definition absent :: "pystr option \<Rightarrow> bool" where
  "absent v \<longleftrightarrow> v = None \<or> v = Some []"

definition http_scheme :: "pystr \<Rightarrow> bool" where
  "http_scheme s \<longleftrightarrow> s = lit ''http'' \<or> s = lit ''https''"

text \<open>\<open>needle in value\<close>\<close>

definition has_text :: "pystr \<Rightarrow> pystr \<Rightarrow> bool" where
  "has_text s needle \<longleftrightarrow> list_ex (\<lambda>i. startswith (drop i s) needle) [0..<Suc (length s)]"

definition upper :: "url_lib \<Rightarrow> pystr \<Rightarrow> pystr" where
  "upper L s = concat (map (upper_cp L) s)"

text \<open>The two patterns of the source: \<open>^[A-Za-z0-9._-]+$\<close> and \<open>^/(?:[^/]+(?:/[^/]+)*)?$\<close>.\<close>

definition is_name_char :: "nat \<Rightarrow> bool" where
  "is_name_char c \<longleftrightarrow> is_ascii_alpha c \<or> is_ascii_digit c \<or> c = 46 \<or> c = 95 \<or> c = 45"

definition queue_name_pattern :: "pystr \<Rightarrow> bool" where
  "queue_name_pattern s \<longleftrightarrow> s \<noteq> [] \<and> list_all is_name_char s"

fun segments_ok :: "bool \<Rightarrow> pystr \<Rightarrow> bool" where
  "segments_ok inside [] = inside"
| "segments_ok inside (c # cs) =
     (if c = 47 then inside \<and> segments_ok False cs else segments_ok True cs)"

fun prefix_pattern :: "pystr \<Rightarrow> bool" where
  "prefix_pattern [] = False"
| "prefix_pattern (c # cs) \<longleftrightarrow> c = 47 \<and> (cs = [] \<or> segments_ok False cs)"

section \<open>The settings views\<close>

record database_settings =
  ds_url :: pystr
  ds_pool_size :: int
  ds_max_overflow :: int
  ds_pool_timeout_seconds :: pyfloat

definition mk_database_settings :: "database_settings \<Rightarrow> database_settings validated" where
  "mk_database_settings s =
     all_valid
      (faults (check [LName ''pool_size''] [ge 1] (ds_pool_size s))
       @ faults (check [LName ''max_overflow''] [ge 0] (ds_max_overflow s))
       @ faults (check [LName ''pool_timeout_seconds''] [positive] (ds_pool_timeout_seconds s)))
      (Inr s)"

record redis_settings =
  rs_url :: pystr
  rs_max_connections :: int

definition mk_redis_settings :: "redis_settings \<Rightarrow> redis_settings validated" where
  "mk_redis_settings s =
     all_valid
      (faults (check [LName ''max_connections''] [ge 1] (rs_max_connections s)))
      (Inr s)"

record celery_settings =
  cs_broker_url :: pystr

definition mk_celery_settings :: "celery_settings \<Rightarrow> celery_settings validated" where
  "mk_celery_settings s =
     all_valid
      []
      (Inr s)"

record minio_settings =
  ms_endpoint :: pystr
  ms_access_key :: pystr
  ms_secret_key :: pystr
  ms_bucket :: pystr
  ms_secure :: bool

definition mk_minio_settings :: "minio_settings \<Rightarrow> minio_settings validated" where
  "mk_minio_settings s =
     all_valid
      (faults (check [LName ''endpoint''] [min_length 1] (ms_endpoint s))
       @ faults (check [LName ''bucket''] [min_length 1] (ms_bucket s)))
      (Inr s)"

record document_processing_settings =
  dp_clamav_host :: pystr
  dp_clamav_port :: int
  dp_clamav_timeout_seconds :: pyfloat
  dp_libreoffice_executable :: pystr
  dp_conversion_timeout_seconds :: pyfloat
  dp_max_request_body_bytes :: int

definition mk_document_processing_settings :: "document_processing_settings \<Rightarrow> document_processing_settings validated" where
  "mk_document_processing_settings s =
     all_valid
      (faults (check [LName ''clamav_host''] [min_length 1] (dp_clamav_host s))
       @ faults (check [LName ''clamav_port''] [ge 1, le 65535] (dp_clamav_port s))
       @ faults (check [LName ''clamav_timeout_seconds''] [positive] (dp_clamav_timeout_seconds s))
       @ faults (check [LName ''libreoffice_executable''] [min_length 1] (dp_libreoffice_executable s))
       @ faults (check [LName ''conversion_timeout_seconds''] [positive] (dp_conversion_timeout_seconds s))
       @ faults (check [LName ''max_request_body_bytes''] [gt (200 * 1024 * 1024)] (dp_max_request_body_bytes s)))
      (Inr s)"

record provider_settings =
  ps_enabled :: bool
  ps_base_url :: "pystr option"
  ps_api_key :: "pystr option"
  ps_model :: "pystr option"
  ps_probe_on_startup :: bool

definition mk_provider_settings :: "provider_settings \<Rightarrow> provider_settings validated" where
  "mk_provider_settings s =
     all_valid
      []
      (Inr s)"

record runtime_limits_settings =
  rl_http_timeout_seconds :: pyfloat
  rl_retry_max_attempts :: int
  rl_retry_base_delay_seconds :: pyfloat
  rl_retry_max_delay_seconds :: pyfloat
  rl_llm_max_concurrency :: int
  rl_ocr_max_concurrency :: int

definition validate_retry_delay_range :: "runtime_limits_settings \<Rightarrow> exn + runtime_limits_settings" where
  "validate_retry_delay_range s =
     raise_if (fl_lt (rl_retry_max_delay_seconds s) (rl_retry_base_delay_seconds s))
       (ValueError ''RETRY_MAX_DELAY_SECONDS must be >= RETRY_BASE_DELAY_SECONDS'') (Inr s)"

definition mk_runtime_limits_settings :: "runtime_limits_settings \<Rightarrow> runtime_limits_settings validated" where
  "mk_runtime_limits_settings s =
     all_valid
      (faults (check [LName ''http_timeout_seconds''] [positive] (rl_http_timeout_seconds s))
       @ faults (check [LName ''retry_max_attempts''] [ge 1] (rl_retry_max_attempts s))
       @ faults (check [LName ''retry_base_delay_seconds''] [positive] (rl_retry_base_delay_seconds s))
       @ faults (check [LName ''retry_max_delay_seconds''] [positive] (rl_retry_max_delay_seconds s))
       @ faults (check [LName ''llm_max_concurrency''] [ge 1] (rl_llm_max_concurrency s))
       @ faults (check [LName ''ocr_max_concurrency''] [ge 1] (rl_ocr_max_concurrency s)))
      (value_error_at [] (validate_retry_delay_range s))"

record startup_settings =
  ss_connect_timeout_seconds :: pyfloat
  ss_shutdown_timeout_seconds :: pyfloat

definition mk_startup_settings :: "startup_settings \<Rightarrow> startup_settings validated" where
  "mk_startup_settings s =
     all_valid
      (faults (check [LName ''connect_timeout_seconds''] [positive] (ss_connect_timeout_seconds s))
       @ faults (check [LName ''shutdown_timeout_seconds''] [positive] (ss_shutdown_timeout_seconds s)))
      (Inr s)"

record logging_settings =
  ls_level :: pystr
  ls_json_output :: bool

definition SUPPORTED_LOG_LEVELS :: "pystr list" where
  "SUPPORTED_LOG_LEVELS = [lit ''CRITICAL'', lit ''ERROR'', lit ''WARNING'', lit ''INFO'', lit ''DEBUG'']"

definition validate_level :: "url_lib \<Rightarrow> pystr \<Rightarrow> exn + pystr" where
  "validate_level L value =
     (let normalized = upper L value in
      raise_if (normalized \<notin> set SUPPORTED_LOG_LEVELS) (ValueError ''LOG_LEVEL is unsupported'')
        (Inr normalized))"

definition mk_logging_settings :: "url_lib \<Rightarrow> logging_settings \<Rightarrow> logging_settings validated" where
  "mk_logging_settings L s =
     all_valid
      (faults (value_error_at [LName ''level''] (validate_level L (ls_level s))))
      (Inr (s\<lparr>ls_level := upper L (ls_level s)\<rparr>))"

record tracing_settings =
  ts_enabled :: bool
  ts_service_name :: pystr
  ts_otlp_endpoint :: "pystr option"

definition mk_tracing_settings :: "tracing_settings \<Rightarrow> tracing_settings validated" where
  "mk_tracing_settings s =
     all_valid
      (faults (check [LName ''service_name''] [min_length 1] (ts_service_name s)))
      (Inr s)"

record metrics_settings =
  mt_enabled :: bool
  mt_service_name :: pystr
  mt_otlp_endpoint :: "pystr option"
  mt_export_interval_seconds :: pyfloat

definition mk_metrics_settings :: "metrics_settings \<Rightarrow> metrics_settings validated" where
  "mk_metrics_settings s =
     all_valid
      (faults (check [LName ''service_name''] [min_length 1] (mt_service_name s))
       @ faults (check [LName ''export_interval_seconds''] [positive] (mt_export_interval_seconds s)))
      (Inr s)"

record worker_settings =
  ws_queue_name :: pystr
  ws_concurrency :: int
  ws_soft_time_limit_seconds :: int
  ws_hard_time_limit_seconds :: int
  ws_max_retries :: int
  ws_retry_base_delay_seconds :: int
  ws_retry_max_delay_seconds :: int
  ws_prefetch_multiplier :: int
  ws_dead_letter_queue_name :: pystr
  ws_delivery_limit :: int

definition validate_delivery_windows :: "worker_settings \<Rightarrow> exn + worker_settings" where
  "validate_delivery_windows s =
     raise_if (ws_hard_time_limit_seconds s \<le> ws_soft_time_limit_seconds s)
       (ValueError ''WORKER_HARD_TIME_LIMIT_SECONDS must exceed the soft limit'') (
     raise_if (ws_retry_max_delay_seconds s < ws_retry_base_delay_seconds s)
       (ValueError ''WORKER_RETRY_MAX_DELAY_SECONDS must be >= the base delay'') (
     raise_if (ws_dead_letter_queue_name s = ws_queue_name s)
       (ValueError ''WORKER_DEAD_LETTER_QUEUE_NAME must differ from WORKER_QUEUE_NAME'')
       (Inr s)))"

definition mk_worker_settings :: "worker_settings \<Rightarrow> worker_settings validated" where
  "mk_worker_settings s =
     all_valid
      (faults (check [LName ''queue_name''] [min_length 1, matches queue_name_pattern] (ws_queue_name s))
       @ faults (check [LName ''concurrency''] [ge 1] (ws_concurrency s))
       @ faults (check [LName ''soft_time_limit_seconds''] [ge 1] (ws_soft_time_limit_seconds s))
       @ faults (check [LName ''hard_time_limit_seconds''] [ge 1] (ws_hard_time_limit_seconds s))
       @ faults (check [LName ''max_retries''] [ge 0] (ws_max_retries s))
       @ faults (check [LName ''retry_base_delay_seconds''] [ge 1] (ws_retry_base_delay_seconds s))
       @ faults (check [LName ''retry_max_delay_seconds''] [ge 1] (ws_retry_max_delay_seconds s))
       @ faults (check [LName ''prefetch_multiplier''] [ge 1] (ws_prefetch_multiplier s))
       @ faults (check [LName ''dead_letter_queue_name''] [min_length 1, matches queue_name_pattern] (ws_dead_letter_queue_name s))
       @ faults (check [LName ''delivery_limit''] [ge 1] (ws_delivery_limit s)))
      (value_error_at [] (validate_delivery_windows s))"

record api_settings =
  as_title :: pystr
  as_description :: pystr
  as_prefix :: pystr
  as_docs_enabled :: bool
  as_cors_origins :: "pystr list"
  as_trusted_hosts :: "pystr list"
  as_gzip_minimum_size_bytes :: int
  as_max_request_body_bytes :: int
  as_readiness_timeout_seconds :: pyfloat
  as_hsts_enabled :: bool

definition validate_cors_origin :: "url_lib \<Rightarrow> pystr \<Rightarrow> exn + unit" where
  "validate_cors_origin L value =
     bindE (urlsplit L value) (\<lambda>parsed.
     raise_if (\<not> http_scheme (us_scheme parsed) \<or> us_hostname parsed = None
          \<or> us_username parsed \<noteq> None \<or> us_password parsed \<noteq> None
          \<or> (us_path parsed \<noteq> [] \<and> us_path parsed \<noteq> lit ''/'')
          \<or> us_query parsed \<noteq> [] \<or> us_fragment parsed \<noteq> [])
       (ValueError ''API_CORS_ORIGINS entries must be HTTP origins'') (Inr ()))"

definition validate_cors_origins :: "url_lib \<Rightarrow> pystr list \<Rightarrow> exn + pystr list" where
  "validate_cors_origins L values = bindE (forE (validate_cors_origin L) values) (\<lambda>_. Inr values)"

definition validate_trusted_hosts :: "pystr list \<Rightarrow> exn + pystr list" where
  "validate_trusted_hosts values =
     raise_if (list_ex (\<lambda>v. blank v \<or> has_text v (lit ''://'') \<or> has_text v (lit ''/'')) values)
       (ValueError ''API_TRUSTED_HOSTS entries must be host patterns'') (Inr values)"

definition mk_api_settings :: "url_lib \<Rightarrow> api_settings \<Rightarrow> api_settings validated" where
  "mk_api_settings L s =
     all_valid
      (faults (check [LName ''title''] [min_length 1] (as_title s))
       @ faults (check [LName ''description''] [min_length 1] (as_description s))
       @ faults (check [LName ''prefix''] [matches prefix_pattern] (as_prefix s))
       @ faults (value_error_at [LName ''cors_origins''] (validate_cors_origins L (as_cors_origins s)))
       @ faults (bindE (check [LName ''trusted_hosts''] [min_items 1] (as_trusted_hosts s))
            (\<lambda>v. value_error_at [LName ''trusted_hosts''] (validate_trusted_hosts v)))
       @ faults (check [LName ''gzip_minimum_size_bytes''] [ge 1] (as_gzip_minimum_size_bytes s))
       @ faults (check [LName ''max_request_body_bytes''] [ge 1] (as_max_request_body_bytes s))
       @ faults (check [LName ''readiness_timeout_seconds''] [positive] (as_readiness_timeout_seconds s)))
      (Inr s)"

text \<open>
  \<open>AuthSettings\<close> is the record of \<open>AuthTokens\<close>; a verification key is a pair of its identifier and
  the public key.
\<close>

definition mk_jwt_verification_key :: "pystr \<times> pystr \<Rightarrow> (pystr \<times> pystr) validated" where
  "mk_jwt_verification_key k = all_valid (faults (check [LName ''key_id''] [min_length 1] (fst k))) (Inr k)"

definition DEFAULT_ARGON2_MEMORY_COST_KIB :: int where "DEFAULT_ARGON2_MEMORY_COST_KIB = 19456"
definition DEFAULT_ARGON2_TIME_COST :: int where "DEFAULT_ARGON2_TIME_COST = 2"
definition DEFAULT_ARGON2_PARALLELISM :: int where "DEFAULT_ARGON2_PARALLELISM = 1"

definition mk_auth_settings :: "auth_settings \<Rightarrow> auth_settings validated" where
  "mk_auth_settings s =
     all_valid
      (faults (check [LName ''access_token_ttl_seconds''] [ge 1] (au_access_token_ttl_seconds s))
       @ faults (check [LName ''refresh_token_absolute_ttl_seconds''] [ge 1]
                  (au_refresh_token_absolute_ttl_seconds s))
       @ faults (check [LName ''refresh_token_idle_ttl_seconds''] [ge 1]
                  (au_refresh_token_idle_ttl_seconds s))
       @ faults (check [LName ''argon2_memory_cost_kib''] [ge DEFAULT_ARGON2_MEMORY_COST_KIB]
                  (au_argon2_memory_cost_kib s))
       @ faults (check [LName ''argon2_time_cost''] [ge DEFAULT_ARGON2_TIME_COST]
                  (au_argon2_time_cost s))
       @ faults (check [LName ''argon2_parallelism''] [ge DEFAULT_ARGON2_PARALLELISM]
                  (au_argon2_parallelism s))
       @ faults (check [LName ''default_tenant_id''] [min_length 1, max_length 64]
                  (au_default_tenant_id s)))
      (Inr s)"

end
