(* ===== verification/LegacyConfig.thy ===== *)
theory LegacyConfig
  imports ConfigGuarantees
begin

text \<open>
  The older settings model of \<open>bootstrap/settings.py\<close>: the same aliases, but without the
  validators of log level, origins and hosts, and without the cross-field policy.  Its views have
  the fields of those in \<open>ConfigModels\<close>, whose records are used here.
\<close>

section \<open>The model\<close>

record legacy_settings =
  lg_environment :: environment
  lg_database_url :: pystr
  lg_database_pool_size :: int
  lg_database_max_overflow :: int
  lg_database_pool_timeout_seconds :: pyfloat
  lg_redis_url :: pystr
  lg_redis_max_connections :: int
  lg_minio_endpoint :: pystr
  lg_minio_access_key :: pystr
  lg_minio_secret_key :: pystr
  lg_minio_bucket :: pystr
  lg_minio_secure :: bool
  lg_llm_enabled :: bool
  lg_llm_base_url :: "pystr option"
  lg_llm_api_key :: "pystr option"
  lg_llm_model :: "pystr option"
  lg_llm_probe_on_startup :: bool
  lg_ocr_enabled :: bool
  lg_ocr_base_url :: "pystr option"
  lg_ocr_api_key :: "pystr option"
  lg_ocr_model :: "pystr option"
  lg_ocr_probe_on_startup :: bool
  lg_http_timeout_seconds :: pyfloat
  lg_startup_connect_timeout_seconds :: pyfloat
  lg_shutdown_timeout_seconds :: pyfloat
  lg_log_level :: pystr
  lg_log_json :: bool
  lg_api_title :: pystr
  lg_api_description :: pystr
  lg_api_prefix :: pystr
  lg_api_cors_origins :: "pystr list"
  lg_api_trusted_hosts :: "pystr list"
  lg_api_gzip_minimum_size_bytes :: int
  lg_api_max_request_body_bytes :: int
  lg_api_readiness_timeout_seconds :: pyfloat
  lg_api_hsts_enabled :: bool

definition legacy_validate_database_url :: "pystr \<Rightarrow> exn + pystr" where
  "legacy_validate_database_url value =
     raise_if (\<not> startswith value (lit ''postgresql+psycopg://''))
       (ValueError ''DATABASE_URL must use postgresql+psycopg://'') (Inr value)"

definition legacy_validate_redis_url :: "pystr \<Rightarrow> exn + pystr" where
  "legacy_validate_redis_url value =
     raise_if (\<not> startswith value (lit ''redis://'') \<and> \<not> startswith value (lit ''rediss://''))
       (ValueError ''REDIS_URL must use redis:// or rediss://'') (Inr value)"

definition legacy_field_faults :: "source \<Rightarrow> issue list" where
  "legacy_field_faults S =
     faults (read_value [LName ''APP_ENV''] (Some Dev) [] (src_environment S ''APP_ENV''))
     @ faults (with_validator ''DATABASE_URL'' legacy_validate_database_url (str_field S ''DATABASE_URL'' None []))
     @ faults (int_field S ''DATABASE_POOL_SIZE'' (Some DEFAULT_DATABASE_POOL_SIZE) [ge 1])
     @ faults (int_field S ''DATABASE_MAX_OVERFLOW'' (Some DEFAULT_DATABASE_MAX_OVERFLOW) [ge 0])
     @ faults (float_field S ''DATABASE_POOL_TIMEOUT_SECONDS'' (Some DEFAULT_DATABASE_POOL_TIMEOUT_SECONDS) [positive])
     @ faults (with_validator ''REDIS_URL'' legacy_validate_redis_url (str_field S ''REDIS_URL'' None []))
     @ faults (int_field S ''REDIS_MAX_CONNECTIONS'' (Some DEFAULT_REDIS_MAX_CONNECTIONS) [ge 1])
     @ faults (str_field S ''MINIO_ENDPOINT'' None [min_length 1])
     @ faults (choice_str_field S [''MINIO_ACCESS_KEY'', ''MINIO_ROOT_USER''])
     @ faults (choice_str_field S [''MINIO_SECRET_KEY'', ''MINIO_ROOT_PASSWORD''])
     @ faults (str_field S ''MINIO_BUCKET'' None [min_length 1])
     @ faults (bool_field S ''MINIO_SECURE'' False)
     @ faults (bool_field S ''LLM_ENABLED'' False)
     @ faults (opt_str_field S ''LLM_BASE_URL'')
     @ faults (opt_str_field S ''LLM_API_KEY'')
     @ faults (opt_str_field S ''LLM_MODEL'')
     @ faults (bool_field S ''LLM_PROBE_ON_STARTUP'' False)
     @ faults (bool_field S ''OCR_ENABLED'' False)
     @ faults (opt_str_field S ''OCR_BASE_URL'')
     @ faults (opt_str_field S ''OCR_API_KEY'')
     @ faults (opt_str_field S ''OCR_MODEL'')
     @ faults (bool_field S ''OCR_PROBE_ON_STARTUP'' False)
     @ faults (float_field S ''HTTP_TIMEOUT_SECONDS'' (Some DEFAULT_HTTP_TIMEOUT_SECONDS) [positive])
     @ faults (float_field S ''STARTUP_CONNECT_TIMEOUT_SECONDS'' (Some DEFAULT_STARTUP_CONNECT_TIMEOUT_SECONDS) [positive])
     @ faults (float_field S ''SHUTDOWN_TIMEOUT_SECONDS'' (Some DEFAULT_SHUTDOWN_TIMEOUT_SECONDS) [positive])
     @ faults (str_field S ''LOG_LEVEL'' (Some (lit ''INFO'')) [])
     @ faults (bool_field S ''LOG_JSON'' False)
     @ faults (str_field S ''API_TITLE'' (Some DEFAULT_API_TITLE) [])
     @ faults (str_field S ''API_DESCRIPTION'' (Some DEFAULT_API_DESCRIPTION) [])
     @ faults (str_field S ''API_PREFIX'' (Some DEFAULT_API_PREFIX) [])
     @ faults (strs_field S ''API_CORS_ORIGINS'' [])
     @ faults (strs_field S ''API_TRUSTED_HOSTS'' DEFAULT_TRUSTED_HOSTS)
     @ faults (int_field S ''API_GZIP_MINIMUM_SIZE_BYTES'' (Some DEFAULT_GZIP_MINIMUM_SIZE_BYTES) [ge 1])
     @ faults (int_field S ''API_MAX_REQUEST_BODY_BYTES'' (Some DEFAULT_MAX_REQUEST_BODY_BYTES) [ge 1])
     @ faults (float_field S ''API_READINESS_TIMEOUT_SECONDS'' (Some DEFAULT_READINESS_TIMEOUT_SECONDS) [positive])
     @ faults (bool_field S ''API_HSTS_ENABLED'' False)"

definition legacy_field_values :: "source \<Rightarrow> legacy_settings" where
  "legacy_field_values S =
     \<lparr>lg_environment = projr (read_value [LName ''APP_ENV''] (Some Dev) [] (src_environment S ''APP_ENV'')),
      lg_database_url = projr (with_validator ''DATABASE_URL'' legacy_validate_database_url (str_field S ''DATABASE_URL'' None [])),
      lg_database_pool_size = projr (int_field S ''DATABASE_POOL_SIZE'' (Some DEFAULT_DATABASE_POOL_SIZE) [ge 1]),
      lg_database_max_overflow = projr (int_field S ''DATABASE_MAX_OVERFLOW'' (Some DEFAULT_DATABASE_MAX_OVERFLOW) [ge 0]),
      lg_database_pool_timeout_seconds = projr (float_field S ''DATABASE_POOL_TIMEOUT_SECONDS'' (Some DEFAULT_DATABASE_POOL_TIMEOUT_SECONDS) [positive]),
      lg_redis_url = projr (with_validator ''REDIS_URL'' legacy_validate_redis_url (str_field S ''REDIS_URL'' None [])),
      lg_redis_max_connections = projr (int_field S ''REDIS_MAX_CONNECTIONS'' (Some DEFAULT_REDIS_MAX_CONNECTIONS) [ge 1]),
      lg_minio_endpoint = projr (str_field S ''MINIO_ENDPOINT'' None [min_length 1]),
      lg_minio_access_key = projr (choice_str_field S [''MINIO_ACCESS_KEY'', ''MINIO_ROOT_USER'']),
      lg_minio_secret_key = projr (choice_str_field S [''MINIO_SECRET_KEY'', ''MINIO_ROOT_PASSWORD'']),
      lg_minio_bucket = projr (str_field S ''MINIO_BUCKET'' None [min_length 1]),
      lg_minio_secure = projr (bool_field S ''MINIO_SECURE'' False),
      lg_llm_enabled = projr (bool_field S ''LLM_ENABLED'' False),
      lg_llm_base_url = projr (opt_str_field S ''LLM_BASE_URL''),
      lg_llm_api_key = projr (opt_str_field S ''LLM_API_KEY''),
      lg_llm_model = projr (opt_str_field S ''LLM_MODEL''),
      lg_llm_probe_on_startup = projr (bool_field S ''LLM_PROBE_ON_STARTUP'' False),
      lg_ocr_enabled = projr (bool_field S ''OCR_ENABLED'' False),
      lg_ocr_base_url = projr (opt_str_field S ''OCR_BASE_URL''),
      lg_ocr_api_key = projr (opt_str_field S ''OCR_API_KEY''),
      lg_ocr_model = projr (opt_str_field S ''OCR_MODEL''),
      lg_ocr_probe_on_startup = projr (bool_field S ''OCR_PROBE_ON_STARTUP'' False),
      lg_http_timeout_seconds = projr (float_field S ''HTTP_TIMEOUT_SECONDS'' (Some DEFAULT_HTTP_TIMEOUT_SECONDS) [positive]),
      lg_startup_connect_timeout_seconds = projr (float_field S ''STARTUP_CONNECT_TIMEOUT_SECONDS'' (Some DEFAULT_STARTUP_CONNECT_TIMEOUT_SECONDS) [positive]),
      lg_shutdown_timeout_seconds = projr (float_field S ''SHUTDOWN_TIMEOUT_SECONDS'' (Some DEFAULT_SHUTDOWN_TIMEOUT_SECONDS) [positive]),
      lg_log_level = projr (str_field S ''LOG_LEVEL'' (Some (lit ''INFO'')) []),
      lg_log_json = projr (bool_field S ''LOG_JSON'' False),
      lg_api_title = projr (str_field S ''API_TITLE'' (Some DEFAULT_API_TITLE) []),
      lg_api_description = projr (str_field S ''API_DESCRIPTION'' (Some DEFAULT_API_DESCRIPTION) []),
      lg_api_prefix = projr (str_field S ''API_PREFIX'' (Some DEFAULT_API_PREFIX) []),
      lg_api_cors_origins = projr (strs_field S ''API_CORS_ORIGINS'' []),
      lg_api_trusted_hosts = projr (strs_field S ''API_TRUSTED_HOSTS'' DEFAULT_TRUSTED_HOSTS),
      lg_api_gzip_minimum_size_bytes = projr (int_field S ''API_GZIP_MINIMUM_SIZE_BYTES'' (Some DEFAULT_GZIP_MINIMUM_SIZE_BYTES) [ge 1]),
      lg_api_max_request_body_bytes = projr (int_field S ''API_MAX_REQUEST_BODY_BYTES'' (Some DEFAULT_MAX_REQUEST_BODY_BYTES) [ge 1]),
      lg_api_readiness_timeout_seconds = projr (float_field S ''API_READINESS_TIMEOUT_SECONDS'' (Some DEFAULT_READINESS_TIMEOUT_SECONDS) [positive]),
      lg_api_hsts_enabled = projr (bool_field S ''API_HSTS_ENABLED'' False)\<rparr>"

definition validate_provider_configuration :: "legacy_settings \<Rightarrow> exn + legacy_settings" where
  "validate_provider_configuration s =
     raise_if (lg_llm_enabled s
         \<and> (absent (lg_llm_base_url s) \<or> absent (lg_llm_api_key s) \<or> absent (lg_llm_model s)))
       (ValueError ''LLM_BASE_URL, LLM_API_KEY and LLM_MODEL are required when enabled'') (
     raise_if (lg_ocr_enabled s
         \<and> (absent (lg_ocr_base_url s) \<or> absent (lg_ocr_api_key s) \<or> absent (lg_ocr_model s)))
       (ValueError ''OCR_BASE_URL, OCR_API_KEY and OCR_MODEL are required when enabled'')
       (Inr s))"

definition load_legacy_settings :: "source \<Rightarrow> legacy_settings validated" where
  "load_legacy_settings S =
     all_valid (legacy_field_faults S)
       (value_error_at [] (validate_provider_configuration (legacy_field_values S)))"

section \<open>Its views\<close>

definition mk_legacy_api_settings :: "api_settings \<Rightarrow> api_settings validated" where
  "mk_legacy_api_settings s =
     all_valid
      (faults (check [LName ''title''] [min_length 1] (as_title s))
       @ faults (check [LName ''description''] [min_length 1] (as_description s))
       @ faults (check [LName ''prefix''] [matches prefix_pattern] (as_prefix s))
       @ faults (check [LName ''trusted_hosts''] [min_items 1] (as_trusted_hosts s))
       @ faults (check [LName ''gzip_minimum_size_bytes''] [ge 1] (as_gzip_minimum_size_bytes s))
       @ faults (check [LName ''max_request_body_bytes''] [ge 1] (as_max_request_body_bytes s))
       @ faults (check [LName ''readiness_timeout_seconds''] [positive] (as_readiness_timeout_seconds s)))
      (Inr s)"

definition legacy_database_view :: "legacy_settings \<Rightarrow> database_settings validated" where
  "legacy_database_view s = mk_database_settings
     \<lparr>ds_url = lg_database_url s, ds_pool_size = lg_database_pool_size s,
      ds_max_overflow = lg_database_max_overflow s,
      ds_pool_timeout_seconds = lg_database_pool_timeout_seconds s\<rparr>"

definition legacy_redis_view :: "legacy_settings \<Rightarrow> redis_settings validated" where
  "legacy_redis_view s = mk_redis_settings
     \<lparr>rs_url = lg_redis_url s, rs_max_connections = lg_redis_max_connections s\<rparr>"

definition legacy_minio_view :: "legacy_settings \<Rightarrow> minio_settings validated" where
  "legacy_minio_view s = mk_minio_settings
     \<lparr>ms_endpoint = lg_minio_endpoint s, ms_access_key = lg_minio_access_key s,
      ms_secret_key = lg_minio_secret_key s, ms_bucket = lg_minio_bucket s,
      ms_secure = lg_minio_secure s\<rparr>"

definition legacy_llm_view :: "legacy_settings \<Rightarrow> provider_settings validated" where
  "legacy_llm_view s = mk_provider_settings
     \<lparr>ps_enabled = lg_llm_enabled s, ps_base_url = lg_llm_base_url s, ps_api_key = lg_llm_api_key s,
      ps_model = lg_llm_model s, ps_probe_on_startup = lg_llm_probe_on_startup s\<rparr>"

definition legacy_ocr_view :: "legacy_settings \<Rightarrow> provider_settings validated" where
  "legacy_ocr_view s = mk_provider_settings
     \<lparr>ps_enabled = lg_ocr_enabled s, ps_base_url = lg_ocr_base_url s, ps_api_key = lg_ocr_api_key s,
      ps_model = lg_ocr_model s, ps_probe_on_startup = lg_ocr_probe_on_startup s\<rparr>"

definition legacy_startup_view :: "legacy_settings \<Rightarrow> startup_settings validated" where
  "legacy_startup_view s = mk_startup_settings
     \<lparr>ss_connect_timeout_seconds = lg_startup_connect_timeout_seconds s,
      ss_shutdown_timeout_seconds = lg_shutdown_timeout_seconds s\<rparr>"

definition legacy_logging_view :: "legacy_settings \<Rightarrow> logging_settings validated" where
  "legacy_logging_view s = Inr \<lparr>ls_level = lg_log_level s, ls_json_output = lg_log_json s\<rparr>"

definition legacy_api_view :: "legacy_settings \<Rightarrow> api_settings validated" where
  "legacy_api_view s = mk_legacy_api_settings
     \<lparr>as_title = lg_api_title s, as_description = lg_api_description s, as_prefix = lg_api_prefix s,
      as_docs_enabled = (lg_environment s \<noteq> Prod), as_cors_origins = lg_api_cors_origins s,
      as_trusted_hosts = lg_api_trusted_hosts s,
      as_gzip_minimum_size_bytes = lg_api_gzip_minimum_size_bytes s,
      as_max_request_body_bytes = lg_api_max_request_body_bytes s,
      as_readiness_timeout_seconds = lg_api_readiness_timeout_seconds s,
      as_hsts_enabled = lg_api_hsts_enabled s\<rparr>"

section \<open>The older loader accepts what the newer one accepts\<close>

text \<open>The part of the new settings that the older model has.\<close>

definition legacy_part :: "pystr \<Rightarrow> app_settings \<Rightarrow> legacy_settings" where
  "legacy_part level s =
     \<lparr>lg_environment = environment s,
      lg_database_url = database_url s,
      lg_database_pool_size = database_pool_size s,
      lg_database_max_overflow = database_max_overflow s,
      lg_database_pool_timeout_seconds = database_pool_timeout_seconds s,
      lg_redis_url = redis_url s,
      lg_redis_max_connections = redis_max_connections s,
      lg_minio_endpoint = minio_endpoint s,
      lg_minio_access_key = minio_access_key s,
      lg_minio_secret_key = minio_secret_key s,
      lg_minio_bucket = minio_bucket s,
      lg_minio_secure = minio_secure s,
      lg_llm_enabled = llm_enabled s,
      lg_llm_base_url = llm_base_url s,
      lg_llm_api_key = llm_api_key s,
      lg_llm_model = llm_model s,
      lg_llm_probe_on_startup = llm_probe_on_startup s,
      lg_ocr_enabled = ocr_enabled s,
      lg_ocr_base_url = ocr_base_url s,
      lg_ocr_api_key = ocr_api_key s,
      lg_ocr_model = ocr_model s,
      lg_ocr_probe_on_startup = ocr_probe_on_startup s,
      lg_http_timeout_seconds = http_timeout_seconds s,
      lg_startup_connect_timeout_seconds = startup_connect_timeout_seconds s,
      lg_shutdown_timeout_seconds = shutdown_timeout_seconds s,
      lg_log_level = level,
      lg_log_json = log_json s,
      lg_api_title = api_title s,
      lg_api_description = api_description s,
      lg_api_prefix = api_prefix s,
      lg_api_cors_origins = api_cors_origins s,
      lg_api_trusted_hosts = api_trusted_hosts s,
      lg_api_gzip_minimum_size_bytes = api_gzip_minimum_size_bytes s,
      lg_api_max_request_body_bytes = api_max_request_body_bytes s,
      lg_api_readiness_timeout_seconds = api_readiness_timeout_seconds s,
      lg_api_hsts_enabled = api_hsts_enabled s\<rparr>"

lemma legacy_validators:
  "legacy_validate_database_url = validate_database_url" "legacy_validate_redis_url = validate_redis_url"
  by (simp_all add: fun_eq_iff legacy_validate_database_url_def validate_database_url_def
      legacy_validate_redis_url_def validate_redis_url_def)

lemmas shared_fields =
  f_environment_def
  f_database_url_def
  f_database_pool_size_def
  f_database_max_overflow_def
  f_database_pool_timeout_seconds_def
  f_redis_url_def
  f_redis_max_connections_def
  f_minio_endpoint_def
  f_minio_access_key_def
  f_minio_secret_key_def
  f_minio_bucket_def
  f_minio_secure_def
  f_llm_enabled_def
  f_llm_base_url_def
  f_llm_api_key_def
  f_llm_model_def
  f_llm_probe_on_startup_def
  f_ocr_enabled_def
  f_ocr_base_url_def
  f_ocr_api_key_def
  f_ocr_model_def
  f_ocr_probe_on_startup_def
  f_http_timeout_seconds_def
  f_startup_connect_timeout_seconds_def
  f_shutdown_timeout_seconds_def
  f_log_json_def
  f_api_title_def
  f_api_description_def
  f_api_prefix_def
  f_api_cors_origins_def
  f_api_trusted_hosts_def
  f_api_gzip_minimum_size_bytes_def
  f_api_max_request_body_bytes_def
  f_api_readiness_timeout_seconds_def
  f_api_hsts_enabled_def

lemma log_level_read:
  assumes "faults (f_log_level L S) = []"
  shows "faults (str_field S ''LOG_LEVEL'' (Some (lit ''INFO'')) []) = []
    \<and> upper L (projr (str_field S ''LOG_LEVEL'' (Some (lit ''INFO'')) [])) = projr (f_log_level L S)"
proof -
  obtain x y where r: "str_field S ''LOG_LEVEL'' (Some (lit ''INFO'')) [] = Inr x"
    and v: "validate_log_level L x = Inr y" and w: "f_log_level L S = Inr y"
    using assms unfolding f_log_level_def with_validator_read by blast
  have "y = upper L x"
    using v by (auto simp: validate_log_level_def mk_logging_settings_def or_raise_def all_valid_def
        split: if_splits sum.splits)
  then show ?thesis using r w by simp
qed

lemma legacy_reads_the_same:
  assumes "field_faults L S = []"
  shows "legacy_field_faults S = []"
    and "legacy_field_values S = legacy_part (lg_log_level (legacy_field_values S)) (field_values L S)"
proof -
  have level: "faults (str_field S ''LOG_LEVEL'' (Some (lit ''INFO'')) []) = []"
    using assms log_level_read [of L S] by (simp add: field_faults_def)
  show "legacy_field_faults S = []"
    using assms level
    by (simp only: field_faults_def legacy_field_faults_def legacy_validators shared_fields
        append_is_Nil_conv simp_thms)
  show "legacy_field_values S = legacy_part (lg_log_level (legacy_field_values S)) (field_values L S)"
    by (simp only: legacy_field_values_def legacy_part_def field_values_def app_settings.select_convs
        legacy_settings.select_convs legacy_validators shared_fields)
qed

text \<open>On every environment that the current loader accepts, the legacy loader accepts too and gives the
  same settings: the common views agree, and the log level differs only by letter case.\<close>

theorem legacy_settings_agree:
  assumes "load_settings L S = Inr s"
  shows "\<exists>l. load_legacy_settings S = Inr l \<and> upper L (lg_log_level l) = log_level s
    \<and> l = legacy_part (lg_log_level l) s
    \<and> legacy_database_view l = database_view s \<and> legacy_redis_view l = redis_view s
    \<and> legacy_minio_view l = minio_view s \<and> legacy_llm_view l = llm_view s
    \<and> legacy_ocr_view l = ocr_view s \<and> legacy_startup_view l = startup_view s
    \<and> legacy_api_view l = api_view L s"
proof -
  note acc = assms [unfolded load_settings_Inr]
  note ok = accepted_settings [OF acc]
  have ff: "field_faults L S = []" and s: "s = field_values L S"
    using acc cross_field_returns_argument [of L "field_values L S" s]
    by (simp_all add: mk_app_settings_def config)
  define l where "l = legacy_field_values S"
  have l: "l = legacy_part (lg_log_level l) s"
    unfolding l_def s by (rule legacy_reads_the_same(2) [OF ff])
  have level: "upper L (lg_log_level l) = log_level s"
    using ff log_level_read [of L S] by (simp add: field_faults_def l_def s legacy_field_values_def field_values_def)
  note checks = cross_field_checks [OF ok(2)]
  have "validate_provider_configuration l = Inr l"
    using checks(1,2) by (subst l, subst (2) l)
      (auto simp: validate_provider_configuration_def legacy_part_def validate_provider_def raise_if_def
        split: if_splits)
  then have "load_legacy_settings S = Inr l"
    using legacy_reads_the_same(1) [OF ff] by (simp add: load_legacy_settings_def l_def all_valid_def value_error_at_def)
  moreover have "legacy_api_view l = api_view L s"
  proof -
    obtain a where a: "api_view L s = Inr a" using checks(8) by (cases "api_view L s") auto
    then show ?thesis using origin_policy [OF checks(8)]
      by (subst l) (auto simp: legacy_api_view_def legacy_part_def api_view_def mk_legacy_api_settings_def
          mk_api_settings_def all_valid_def config Suc_le_eq split: if_splits)
  qed
  moreover have "legacy_database_view l = database_view s \<and> legacy_redis_view l = redis_view s
    \<and> legacy_minio_view l = minio_view s \<and> legacy_llm_view l = llm_view s
    \<and> legacy_ocr_view l = ocr_view s \<and> legacy_startup_view l = startup_view s"
    by (subst l, subst l, subst l, subst l, subst l, subst l)
      (simp add: legacy_part_def legacy_database_view_def database_view_def legacy_redis_view_def
        redis_view_def legacy_minio_view_def minio_view_def legacy_llm_view_def llm_view_def
        legacy_ocr_view_def ocr_view_def legacy_startup_view_def startup_view_def)
  ultimately show ?thesis using level l by blast
qed

lemma legacy_settings_agree_witness:
  "\<exists>l. load_legacy_settings demo_source = Inr l \<and> legacy_database_view l = database_view demo_app"
  using legacy_settings_agree [OF demo_accepted] by blast

text \<open>The converse fails: a misspelled log level passes the older loader.\<close>

lemma legacy_accepts_unknown_level:
  "\<not> isl (load_legacy_settings (demo_source\<lparr>src_str := (\<lambda>a. if a = ''LOG_LEVEL''
       then Some (Inr (lit ''LOUD'')) else src_str demo_source a)\<rparr>))
   \<and> isl (load_settings demo_url_lib (demo_source\<lparr>src_str := (\<lambda>a. if a = ''LOG_LEVEL''
       then Some (Inr (lit ''LOUD'')) else src_str demo_source a)\<rparr>))"
  by code_simp

end
