(* ===== verification/HttpBoundary.thy ===== *)
theory HttpBoundary
  imports DocFiles
begin

text \<open>
  The HTTP boundary of the API: the error envelope (\<open>shared/contracts/errors.py\<close>,
  \<open>entrypoints/api/responses.py\<close>), the exception handlers (\<open>exception_handlers.py\<close>), the
  middlewares and the readiness endpoint.  An ASGI application is an interaction tree: it sends and
  receives messages and ends with a return or an exception; a middleware is a function on trees.
  Texts are code points, Chinese ones included.
\<close>

section \<open>The error envelope\<close>

fun default_public_message :: "error_class \<Rightarrow> pystr" where
  "default_public_message BidSystemError = [35831, 27714, 22788, 29702, 22833, 36133]"
| "default_public_message DomainError = [19994, 21153, 35268, 21017, 26657, 39564, 22833, 36133]"
| "default_public_message ApplicationError = [35831, 27714, 22788, 29702, 22833, 36133]"
| "default_public_message ResourceNotFoundError = [36164, 28304, 19981, 23384, 22312]"
| "default_public_message BusinessConflictError = [35831, 27714, 19982, 24403, 21069, 36164, 28304, 29366, 24577, 20914, 31361]"
| "default_public_message StateTransitionError = [24403, 21069, 29366, 24577, 19981, 20801, 35768, 25191, 34892, 35813, 25805, 20316]"
| "default_public_message AuthenticationError = [38656, 35201, 36523, 20221, 35748, 35777]"
| "default_public_message PermissionDeniedError = [27809, 26377, 35775, 38382, 26435, 38480]"
| "default_public_message ExternalServiceError = [22806, 37096, 26381, 21153, 26242, 26102, 19981, 21487, 29992]"
| "default_public_message FileSizeLimitExceededError = [25991, 20214, 22823, 23567, 36229, 36807, 38480, 21046]"
| "default_public_message InvalidDocumentUploadRequestError = [19978, 20256, 35831, 27714, 24517, 39035, 19988, 21482, 33021, 21253, 21547, 19968, 20010, 25991, 20214]"
| "default_public_message PageLimitExceededError = [25991, 20214, 39029, 25968, 36229, 36807, 38480, 21046]"
| "default_public_message DuplicateDocumentContentError = [19978, 20256, 20869, 23481, 19982, 24050, 26377, 25991, 26723, 29256, 26412, 30456, 21516]"
| "default_public_message UnsupportedDocumentTypeError = [25991, 20214, 31867, 22411, 19981, 21463, 25903, 25345]"
| "default_public_message EncryptedDocumentError = [19981, 25903, 25345, 21152, 23494, 25991, 20214]"
| "default_public_message MalwareDetectedError = [25991, 20214, 26410, 36890, 36807, 23433, 20840, 25195, 25551]"
| "default_public_message InvalidDocumentError = [25991, 20214, 24050, 25439, 22351, 25110, 26684, 24335, 19981, 21512, 27861]"

fun msg_text :: "public_msg \<Rightarrow> pystr" where
  "msg_text Msg_no_parsable_pages = [25991, 20214, 19981, 21253, 21547, 21487, 35299, 26512, 39029, 38754]"
| "msg_text Msg_empty_file = [25991, 20214, 19981, 33021, 20026, 31354]"
| "msg_text Msg_bad_filename = [25991, 20214, 21517, 19981, 21512, 27861]"
| "msg_text Msg_missing_filename = [25991, 20214, 21517, 19981, 33021, 20026, 31354]"
| "msg_text Msg_archive_entries = [25991, 26723, 21387, 32553, 21253, 26465, 30446, 36807, 22810]"
| "msg_text Msg_archive_size = [25991, 26723, 35299, 21387, 21518, 20307, 31215, 36229, 36807, 38480, 21046]"
| "msg_text Msg_archive_path = [25991, 26723, 21387, 32553, 21253, 36335, 24452, 19981, 23433, 20840]"
| "msg_text Msg_archive_ratio = [25991, 26723, 21387, 32553, 27604, 24322, 24120]"
| "msg_text Msg_manifest_too_large = [25991, 26723, 20869, 23481, 31867, 22411, 28165, 21333, 36807, 22823]"
| "msg_text Msg_conversion_unavailable = [25991, 26723, 36716, 25442, 26381, 21153, 19981, 21487, 29992]"
| "msg_text Msg_conversion_timeout = [25991, 26723, 36716, 25442, 36229, 26102]"
| "msg_text Msg_conversion_failed = [25991, 26723, 26080, 27861, 36716, 25442, 20026, 80, 68, 70]"
| "msg_text Msg_scanner_unavailable = [25991, 20214, 23433, 20840, 25195, 25551, 26381, 21153, 26242, 26102, 19981, 21487, 29992]"
| "msg_text Msg_scanner_bad_response = [25991, 20214, 23433, 20840, 25195, 25551, 26381, 21153, 36820, 22238, 24322, 24120]"
| "msg_text Msg_object_integrity = [23545, 35937, 23384, 20648, 20013, 30340, 25991, 20214, 23436, 25972, 24615, 26657, 39564, 22833, 36133]"
| "msg_text Msg_storage_unavailable = [25991, 20214, 23384, 20648, 26381, 21153, 26242, 26102, 19981, 21487, 29992]"
| "msg_text Msg_version_conflict = [25991, 26723, 29256, 26412, 21457, 29983, 24182, 21457, 20914, 31361]"

definition public_message :: "error_class \<Rightarrow> public_msg option \<Rightarrow> pystr" where
  "public_message c m = (case m of None \<Rightarrow> default_public_message c | Some x \<Rightarrow> msg_text x)"

definition REQUEST_ID_MAX_LENGTH :: nat where "REQUEST_ID_MAX_LENGTH = 128"

text \<open>\<open>[A-Za-z0-9._:-]\<close>, the class of both the contract's pattern and the middleware's set.\<close>

definition request_id_char :: "nat \<Rightarrow> bool" where
  "request_id_char c \<longleftrightarrow> 65 \<le> c \<and> c \<le> 90 \<or> 97 \<le> c \<and> c \<le> 122 \<or> 48 \<le> c \<and> c \<le> 57
     \<or> c = 46 \<or> c = 95 \<or> c = 58 \<or> c = 45"

definition request_id_ok :: "pystr \<Rightarrow> bool" where
  "request_id_ok s \<longleftrightarrow> 1 \<le> length s \<and> length s \<le> REQUEST_ID_MAX_LENGTH \<and> (\<forall>c\<in>set s. request_id_char c)"

datatype location = LocName pystr | LocIndex int

record error_detail =
  dt_location :: "location list"
  dt_message :: pystr
  dt_error_type :: pystr

definition mk_error_detail :: "error_detail \<Rightarrow> exn + error_detail" where
  "mk_error_detail d =
     raise_if (dt_message d = [] \<or> dt_error_type d = []) (ValueError ''validation error'') (Inr d)"

record error_envelope =
  en_code :: error_code
  en_message :: pystr
  en_details :: "error_detail list"
  en_request_id :: pystr

definition mk_error_envelope :: "error_envelope \<Rightarrow> exn + error_envelope" where
  "mk_error_envelope e =
     raise_if (en_message e = [] \<or> \<not> request_id_ok (en_request_id e))
       (ValueError ''validation error'') (Inr e)"

type_synonym headers = "(pystr \<times> pystr) list"

record json_response =
  js_status :: int
  js_content :: error_envelope
  js_headers :: headers

definition error_response ::
  "int \<Rightarrow> error_code \<Rightarrow> pystr \<Rightarrow> pystr \<Rightarrow> error_detail list \<Rightarrow> headers option \<Rightarrow> exn + json_response" where
  "error_response status_code code message request_id details hs =
     bindE (mk_error_envelope \<lparr>en_code = code, en_message = message, en_details = details,
              en_request_id = request_id\<rparr>) (\<lambda>e.
     Inr \<lparr>js_status = status_code, js_content = e,
          js_headers = (case hs of None \<Rightarrow> [] | Some h \<Rightarrow> h)\<rparr>)"

section \<open>Exception handlers\<close>

definition HTTP_ERROR_CODES :: "(int \<times> error_code) list" where
  "HTTP_ERROR_CODES =
     [(400, BAD_REQUEST), (401, AUTHENTICATION_REQUIRED), (403, PERMISSION_DENIED), (404, NOT_FOUND),
      (405, METHOD_NOT_ALLOWED), (409, CONFLICT), (413, REQUEST_BODY_TOO_LARGE),
      (415, UNSUPPORTED_DOCUMENT_TYPE), (429, RATE_LIMITED), (503, SERVICE_UNAVAILABLE)]"

definition HTTP_ERROR_MESSAGES :: "(int \<times> pystr) list" where
  "HTTP_ERROR_MESSAGES =
     [(400, [35831, 27714, 19981, 21512, 27861]),
      (401, [38656, 35201, 36523, 20221, 35748, 35777]),
      (403, [27809, 26377, 35775, 38382, 26435, 38480]),
      (404, [36164, 28304, 19981, 23384, 22312]),
      (405, [35831, 27714, 26041, 27861, 19981, 21463, 25903, 25345]),
      (409, [35831, 27714, 19982, 24403, 21069, 36164, 28304, 29366, 24577, 20914, 31361]),
      (413, [35831, 27714, 20307, 36229, 36807, 22823, 23567, 38480, 21046]),
      (415, [25991, 20214, 31867, 22411, 19981, 21463, 25903, 25345]),
      (429, [35831, 27714, 36807, 20110, 39057, 32321]),
      (503, [26381, 21153, 26242, 26102, 19981, 21487, 29992])]"

definition DEFAULT_HTTP_ERROR_MESSAGE :: pystr where
  "DEFAULT_HTTP_ERROR_MESSAGE = [35831, 27714, 22833, 36133]"

definition VALIDATION_DETAIL_MESSAGE :: pystr where
  "VALIDATION_DETAIL_MESSAGE = [36755, 20837, 20540, 19981, 21512, 27861]"

definition DATABASE_ERROR_MESSAGE :: pystr where
  "DATABASE_ERROR_MESSAGE = [25968, 25454, 24211, 26381, 21153, 26242, 26102, 19981, 21487, 29992]"

definition SAFE_HTTP_RESPONSE_HEADERS :: "pystr list" where
  "SAFE_HTTP_RESPONSE_HEADERS = [lit ''allow'', lit ''retry-after'', lit ''www-authenticate'']"

record exception_http_mapping =
  xm_status_code :: int
  xm_code :: error_code

definition EXCEPTION_HTTP_MAPPINGS :: "(error_class \<times> exception_http_mapping) list" where
  "EXCEPTION_HTTP_MAPPINGS =
     [(FileSizeLimitExceededError, \<lparr>xm_status_code = 413, xm_code = FILE_TOO_LARGE\<rparr>),
      (UnsupportedDocumentTypeError, \<lparr>xm_status_code = 415, xm_code = UNSUPPORTED_DOCUMENT_TYPE\<rparr>),
      (DuplicateDocumentContentError, \<lparr>xm_status_code = 409, xm_code = DUPLICATE_DOCUMENT_CONTENT\<rparr>),
      (ResourceNotFoundError, \<lparr>xm_status_code = 404, xm_code = NOT_FOUND\<rparr>),
      (BusinessConflictError, \<lparr>xm_status_code = 409, xm_code = CONFLICT\<rparr>),
      (StateTransitionError, \<lparr>xm_status_code = 409, xm_code = INVALID_STATE_TRANSITION\<rparr>),
      (AuthenticationError, \<lparr>xm_status_code = 401, xm_code = AUTHENTICATION_REQUIRED\<rparr>),
      (PermissionDeniedError, \<lparr>xm_status_code = 403, xm_code = PERMISSION_DENIED\<rparr>),
      (ExternalServiceError, \<lparr>xm_status_code = 503, xm_code = EXTERNAL_SERVICE_UNAVAILABLE\<rparr>),
      (ApplicationError, \<lparr>xm_status_code = 400, xm_code = APPLICATION_ERROR\<rparr>),
      (DomainError, \<lparr>xm_status_code = 422, xm_code = DOMAIN_ERROR\<rparr>)]"

definition safe_http_headers :: "headers option \<Rightarrow> headers option" where
  "safe_http_headers hs =
     (case hs of None \<Rightarrow> None
      | Some h \<Rightarrow>
          let safe = filter (\<lambda>(name, _). map ascii_lower name \<in> set SAFE_HTTP_RESPONSE_HEADERS) h
          in if safe = [] then None else Some safe)"

definition business_exception_mapping :: "error_class \<Rightarrow> exception_http_mapping" where
  "business_exception_mapping c =
     (case find (\<lambda>(error_type, _). subclass_of c error_type) EXCEPTION_HTTP_MAPPINGS of
        Some (_, m) \<Rightarrow> m
      | None \<Rightarrow> \<lparr>xm_status_code = 500, xm_code = INTERNAL_SERVER_ERROR\<rparr>)"

text \<open>The handlers; \<open>errors\<close> are the locations and types of the validation error.\<close>

fun validation_details :: "(location list \<times> pystr) list \<Rightarrow> exn + error_detail list" where
  "validation_details [] = Inr []"
| "validation_details ((loc, ty) # es) =
     bindE (mk_error_detail \<lparr>dt_location = loc, dt_message = VALIDATION_DETAIL_MESSAGE, dt_error_type = ty\<rparr>)
       (\<lambda>d. bindE (validation_details es) (\<lambda>ds. Inr (d # ds)))"

definition validation_exception_handler ::
  "pystr \<Rightarrow> (location list \<times> pystr) list \<Rightarrow> exn + json_response" where
  "validation_exception_handler request_id errors =
     bindE (validation_details errors) (\<lambda>details.
     error_response 422 VALIDATION_ERROR [35831, 27714, 21442, 25968, 19981, 21512, 27861] request_id details None)"

definition http_exception_handler :: "pystr \<Rightarrow> int \<Rightarrow> headers option \<Rightarrow> exn + json_response" where
  "http_exception_handler request_id status_code hs =
     error_response status_code
       (case map_of HTTP_ERROR_CODES status_code of Some c \<Rightarrow> c | None \<Rightarrow> HTTP_ERROR)
       (case map_of HTTP_ERROR_MESSAGES status_code of Some m \<Rightarrow> m | None \<Rightarrow> DEFAULT_HTTP_ERROR_MESSAGE)
       request_id [] (safe_http_headers hs)"

definition business_exception_handler ::
  "pystr \<Rightarrow> error_class \<Rightarrow> public_msg option \<Rightarrow> exn + json_response" where
  "business_exception_handler request_id c m =
     error_response (xm_status_code (business_exception_mapping c)) (class_code c) (public_message c m)
       request_id [] None"

definition database_exception_handler :: "pystr \<Rightarrow> exn + json_response" where
  "database_exception_handler request_id =
     error_response 503 DATABASE_UNAVAILABLE DATABASE_ERROR_MESSAGE request_id [] None"

text \<open>
  The registered handler of an exception an endpoint raises, with the attributes of the exception
  object that the value does not carry; \<open>None\<close> where no handler is registered.
\<close>

definition handle_endpoint_exception ::
  "pystr \<Rightarrow> (location list \<times> pystr) list \<Rightarrow> headers option \<Rightarrow> exn \<Rightarrow> (exn + json_response) option" where
  "handle_endpoint_exception request_id errors hs e =
     (case e of
        RequestValidationError \<Rightarrow> Some (validation_exception_handler request_id errors)
      | HTTPException status_code \<Rightarrow> Some (http_exception_handler request_id status_code hs)
      | BidError c m \<Rightarrow> Some (business_exception_handler request_id c m)
      | _ \<Rightarrow> if is_sqlalchemy_error e then Some (database_exception_handler request_id) else None)"

section \<open>Request identifiers\<close>

definition resolve_request_id :: "pystr \<Rightarrow> pystr option \<Rightarrow> pystr" where
  "resolve_request_id uuid supplied =
     (case supplied of
        Some s \<Rightarrow> if 1 \<le> length s \<and> length s \<le> 128 \<and> (\<forall>c\<in>set s. request_id_char c) then s else uuid
      | None \<Rightarrow> uuid)"

section \<open>Readiness\<close>

datatype check_status = UP | DOWN

definition probe_status :: "exn + unit \<Rightarrow> exn + check_status" where
  "probe_status r = (case r of Inr _ \<Rightarrow> Inr UP | Inl e \<Rightarrow> if is_exception e then Inr DOWN else Inl e)"

datatype readiness_answer = Ready "(pystr \<times> check_status) list" | NotReady json_response

fun down_details :: "(pystr \<times> check_status) list \<Rightarrow> exn + error_detail list" where
  "down_details [] = Inr []"
| "down_details ((name, UP) # cs) = down_details cs"
| "down_details ((name, DOWN) # cs) =
     bindE (mk_error_detail \<lparr>dt_location = [LocName (lit ''checks''), LocName name],
              dt_message = [20381, 36182, 19981, 21487, 29992], dt_error_type = lit ''dependency_down''\<rparr>)
       (\<lambda>d. bindE (down_details cs) (\<lambda>ds. Inr (d # ds)))"

definition readiness :: "pystr \<Rightarrow> exn + unit \<Rightarrow> exn + unit \<Rightarrow> exn + unit \<Rightarrow> exn + readiness_answer" where
  "readiness request_id database redis object_store =
     bindE (probe_status database) (\<lambda>d. bindE (probe_status redis) (\<lambda>r. bindE (probe_status object_store) (\<lambda>m.
     let checks = [(lit ''database'', d), (lit ''redis'', r), (lit ''object_store'', m)] in
     if \<forall>c\<in>set checks. snd c = UP then Inr (Ready checks)
     else bindE (down_details checks) (\<lambda>details.
          bindE (error_response 503 SERVICE_UNAVAILABLE [20851, 38190, 20381, 36182, 23578, 26410, 23601, 32490] request_id details None)
            (\<lambda>resp. Inr (NotReady resp))))))"

section \<open>ASGI applications\<close>

datatype response_body = Content error_envelope | Payload bytes

datatype sent = ResponseStart int headers | ResponseBody response_body

datatype received = HttpRequest bytes | HttpDisconnect

datatype asgi = Finish | Fail exn | Send sent asgi | Receive "exn + received \<Rightarrow> asgi"

text \<open>Serving: what was sent, and the exception it ended with; at the end of the input the client has
  gone.\<close>

primrec serve :: "asgi \<Rightarrow> (exn + received) list \<Rightarrow> sent list \<times> exn option" where
  "serve Finish xs = ([], None)"
| "serve (Fail e) xs = ([], Some e)"
| "serve (Send m t) xs = (case serve t xs of (out, r) \<Rightarrow> (m # out, r))"
| "serve (Receive k) xs =
     (case xs of [] \<Rightarrow> serve (k (Inr HttpDisconnect)) [] | x # ys \<Rightarrow> serve (k x) ys)"

fun is_start :: "sent \<Rightarrow> bool" where
  "is_start (ResponseStart s h) = True"
| "is_start (ResponseBody b) = False"

text \<open>A response as an application: its start and its body, or the failure to build it.\<close>

definition respond :: "exn + json_response \<Rightarrow> asgi" where
  "respond r = (case r of Inl e \<Rightarrow> Fail e
     | Inr j \<Rightarrow> Send (ResponseStart (js_status j) (js_headers j)) (Send (ResponseBody (Content (js_content j))) Finish))"

section \<open>Middlewares\<close>

primrec map_sent :: "(sent \<Rightarrow> sent) \<Rightarrow> asgi \<Rightarrow> asgi" where
  "map_sent f Finish = Finish"
| "map_sent f (Fail e) = Fail e"
| "map_sent f (Send m t) = Send (f m) (map_sent f t)"
| "map_sent f (Receive k) = Receive (\<lambda>x. map_sent f (k x))"

text \<open>\<open>MutableHeaders.__setitem__\<close>: the first entry of the name is replaced, the others removed.\<close>

fun replace_header :: "pystr \<Rightarrow> pystr \<Rightarrow> headers \<Rightarrow> headers" where
  "replace_header key value [] = []"
| "replace_header key value ((k, v) # hs) =
     (if map ascii_lower k = key then (key, value) # filter (\<lambda>(k, _). map ascii_lower k \<noteq> key) hs
      else (k, v) # replace_header key value hs)"

definition set_header :: "string \<Rightarrow> pystr \<Rightarrow> headers \<Rightarrow> headers" where
  "set_header name value hs =
     (let key = map ascii_lower (lit name) in
      if \<exists>h\<in>set hs. map ascii_lower (fst h) = key then replace_header key value hs else hs @ [(key, value)])"

fun on_start :: "(headers \<Rightarrow> headers) \<Rightarrow> sent \<Rightarrow> sent" where
  "on_start f (ResponseStart s h) = ResponseStart s (f h)"
| "on_start f (ResponseBody b) = ResponseBody b"

definition with_context :: "pystr \<Rightarrow> pystr \<Rightarrow> sent \<Rightarrow> sent" where
  "with_context request_id trace_id =
     on_start (\<lambda>h. set_header ''X-Trace-ID'' trace_id (set_header ''X-Request-ID'' request_id h))"

definition request_context :: "pystr \<Rightarrow> pystr \<Rightarrow> asgi \<Rightarrow> asgi" where
  "request_context request_id trace_id = map_sent (with_context request_id trace_id)"

definition security_headers :: "pystr \<Rightarrow> bool \<Rightarrow> asgi \<Rightarrow> asgi" where
  "security_headers version hsts_enabled =
     map_sent (on_start (\<lambda>h.
       let h1 = set_header ''Referrer-Policy'' (lit ''no-referrer'')
                  (set_header ''X-Frame-Options'' (lit ''DENY'')
                  (set_header ''X-Content-Type-Options'' (lit ''nosniff'')
                  (set_header ''X-App-Version'' version h)))
       in if hsts_enabled
          then set_header ''Strict-Transport-Security'' (lit ''max-age=31536000; includeSubDomains'') h1
          else h1))"

text \<open>\<open>value\<close> is the formatted duration.\<close>

definition timing :: "pystr \<Rightarrow> asgi \<Rightarrow> asgi" where
  "timing value = map_sent (on_start (set_header ''Server-Timing'' value))"

text \<open>\<open>AccessLogMiddleware\<close> passes the messages on; it logs the status of the last start, or 500.\<close>

fun logged_status :: "int \<Rightarrow> sent list \<Rightarrow> int" where
  "logged_status status_code [] = status_code"
| "logged_status status_code (ResponseStart s h # ms) = logged_status s ms"
| "logged_status status_code (ResponseBody b # ms) = logged_status status_code ms"

definition internal_error :: "pystr \<Rightarrow> exn + json_response" where
  "internal_error request_id =
     error_response 500 INTERNAL_SERVER_ERROR [26381, 21153, 22120, 20869, 37096, 38169, 35823] request_id [] None"

primrec unhandled_exception :: "pystr \<Rightarrow> asgi \<Rightarrow> bool \<Rightarrow> asgi" where
  "unhandled_exception rid Finish started = Finish"
| "unhandled_exception rid (Fail e) started =
     (if \<not> is_exception e \<or> started then Fail e else respond (internal_error rid))"
| "unhandled_exception rid (Send m t) started =
     Send m (unhandled_exception rid t (started \<or> is_start m))"
| "unhandled_exception rid (Receive k) started =
     Receive (\<lambda>x. unhandled_exception rid (k x) started)"

text \<open>\<open>int(text)\<close>: ASCII digits (header values are Latin-1, whose other digits \<open>int\<close> refuses), single
  underscores between digits, a sign, white space around; at most 4300 digits.\<close>

fun digits_value :: "bool \<Rightarrow> int \<Rightarrow> pystr \<Rightarrow> int option" where
  "digits_value after_digit n [] = (if after_digit then Some n else None)"
| "digits_value after_digit n (c # cs) =
     (if 48 \<le> c \<and> c \<le> 57 then digits_value True (10 * n + (int c - 48)) cs
      else if c = 95 \<and> after_digit then digits_value False n cs else None)"

definition python_int :: "pystr \<Rightarrow> int option" where
  "python_int s =
     (let t = strip s;
          (negative, ds) = (case t of [] \<Rightarrow> (False, []) | c # cs \<Rightarrow>
             if c = 45 then (True, cs) else if c = 43 then (False, cs) else (False, t))
      in if length (filter (\<lambda>c. c \<noteq> 95) ds) > 4300 then None
         else map_option (\<lambda>n. if negative then - n else n) (digits_value False 0 ds))"

record body_limits =
  bl_max_body_bytes :: int
  bl_document_upload_path_prefix :: pystr
  bl_document_upload_max_body_bytes :: int

definition limit_for_scope :: "body_limits \<Rightarrow> pystr \<Rightarrow> pystr \<Rightarrow> int" where
  "limit_for_scope L http_method path =
     (if http_method = lit ''POST'' \<and> startswith path (bl_document_upload_path_prefix L)
      then bl_document_upload_max_body_bytes L else bl_max_body_bytes L)"

definition declared_size_exceeds_limit :: "pystr \<Rightarrow> int \<Rightarrow> bool" where
  "declared_size_exceeds_limit content_length max_body_bytes =
     (case python_int content_length of Some n \<Rightarrow> n > max_body_bytes | None \<Rightarrow> True)"

definition body_rejection :: "pystr \<Rightarrow> exn + json_response" where
  "body_rejection request_id =
     error_response 413 REQUEST_BODY_TOO_LARGE [35831, 27714, 20307, 36229, 36807, 22823, 23567, 38480, 21046] request_id [] None"

text \<open>\<open>limited_receive\<close>, and the \<open>except\<close> clause around the application.\<close>

primrec limited :: "int \<Rightarrow> pystr \<Rightarrow> asgi \<Rightarrow> int \<Rightarrow> asgi" where
  "limited max_body_bytes rid Finish n = Finish"
| "limited max_body_bytes rid (Fail e) n =
     (if e = RequestBodyTooLargeError then respond (body_rejection rid) else Fail e)"
| "limited max_body_bytes rid (Send m t) n = Send m (limited max_body_bytes rid t n)"
| "limited max_body_bytes rid (Receive k) n =
     Receive (\<lambda>x. case x of
         Inr (HttpRequest body) \<Rightarrow>
           if n + int (length body) > max_body_bytes
           then limited max_body_bytes rid (k (Inl RequestBodyTooLargeError)) (n + int (length body))
           else limited max_body_bytes rid (k x) (n + int (length body))
       | _ \<Rightarrow> limited max_body_bytes rid (k x) n)"

definition body_limit :: "body_limits \<Rightarrow> pystr \<Rightarrow> pystr \<Rightarrow> pystr \<Rightarrow> pystr option \<Rightarrow> asgi \<Rightarrow> asgi" where
  "body_limit L rid http_method path content_length app =
     (let max_body_bytes = limit_for_scope L http_method path in
      if (case content_length of None \<Rightarrow> False | Some s \<Rightarrow> declared_size_exceeds_limit s max_body_bytes)
      then respond (body_rejection rid)
      else limited max_body_bytes rid app 0)"

record http_scope =
  hs_method :: pystr
  hs_path :: pystr
  hs_content_length :: "pystr option"
  hs_supplied_request_id :: "pystr option"

record http_config =
  hc_limits :: body_limits
  hc_version :: pystr
  hc_hsts_enabled :: bool
  hc_third_party :: "asgi \<Rightarrow> asgi"

text \<open>
  The stack of \<open>_register_middlewares\<close>, outermost first: context, unknown exceptions, access log,
  timing, security headers, then the framework's CORS, trusted-host and gzip middlewares (the
  parameter \<open>hc_third_party\<close>), then the body limit.
\<close>

definition inner_stack :: "http_config \<Rightarrow> http_scope \<Rightarrow> pystr \<Rightarrow> pystr \<Rightarrow> asgi \<Rightarrow> asgi" where
  "inner_stack C scope rid duration app =
     timing duration (security_headers (hc_version C) (hc_hsts_enabled C)
       (hc_third_party C
         (body_limit (hc_limits C) rid (hs_method scope) (hs_path scope) (hs_content_length scope) app)))"

definition http_stack :: "http_config \<Rightarrow> http_scope \<Rightarrow> pystr \<Rightarrow> pystr \<Rightarrow> pystr \<Rightarrow> asgi \<Rightarrow> asgi" where
  "http_stack C scope uuid trace_id duration app =
     (let rid = resolve_request_id uuid (hs_supplied_request_id scope) in
      request_context rid trace_id
        (unhandled_exception rid (inner_stack C scope rid duration app) False))"

section \<open>The mapping of the public errors\<close>

text \<open>The reference: the entry of the class itself, or else of the nearest superclass that has one.\<close>

function nearest_mapping :: "error_class \<Rightarrow> exception_http_mapping" where
  "nearest_mapping c =
     (case map_of EXCEPTION_HTTP_MAPPINGS c of
        Some m \<Rightarrow> m
      | None \<Rightarrow> (case superclass c of
            Some p \<Rightarrow> nearest_mapping p
          | None \<Rightarrow> \<lparr>xm_status_code = 500, xm_code = INTERNAL_SERVER_ERROR\<rparr>))"
  by pat_completeness auto
termination
  by (relation "measure class_depth") (auto dest: superclass_depth)

declare nearest_mapping.simps [simp del]

lemma mapping_eq: "business_exception_mapping c = nearest_mapping c"
  by (cases c)
    (simp_all add: business_exception_mapping_def EXCEPTION_HTTP_MAPPINGS_def nearest_mapping.simps
      subclass_of.simps)

lemma nearest_mapping_facts:
  "400 \<le> xm_status_code (nearest_mapping c) \<and> xm_status_code (nearest_mapping c) \<le> 503
   \<and> (\<forall>m. map_of EXCEPTION_HTTP_MAPPINGS c = Some m \<longrightarrow> xm_code m = class_code c)"
  by (cases c) (simp_all add: EXCEPTION_HTTP_MAPPINGS_def nearest_mapping.simps)

lemma public_message_nonempty: "public_message c m \<noteq> []"
  by (cases m; cases c; cases "the m") (auto simp: public_message_def)

lemma error_response_Inr:
  "message \<noteq> [] \<Longrightarrow> request_id_ok rid \<Longrightarrow> error_response s c message rid ds hs =
     Inr \<lparr>js_status = s, js_content = \<lparr>en_code = c, en_message = message, en_details = ds, en_request_id = rid\<rparr>,
          js_headers = (case hs of None \<Rightarrow> [] | Some h \<Rightarrow> h)\<rparr>"
  by (simp add: error_response_def mk_error_envelope_def)

lemma resolve_request_id_ok:
  "request_id_ok uuid \<Longrightarrow> request_id_ok (resolve_request_id uuid supplied)"
  by (auto simp: resolve_request_id_def request_id_ok_def REQUEST_ID_MAX_LENGTH_def split: option.splits)

text \<open>C26: every public error is answered, whatever request identifier the client supplied: with the
  status of the nearest class of its hierarchy that has an entry (which is what the ordered search of
  the table finds), the stable code of its own class, its public message and a valid request
  identifier; the status is a client or server error, and the table's codes are those of the classes.\<close>

theorem business_error_answer:
  assumes "request_id_ok uuid"
  shows "\<exists>status. business_exception_handler (resolve_request_id uuid supplied) c m =
      Inr \<lparr>js_status = status, js_content = \<lparr>en_code = class_code c, en_message = public_message c m,
             en_details = [], en_request_id = resolve_request_id uuid supplied\<rparr>, js_headers = []\<rparr>
    \<and> status = xm_status_code (nearest_mapping c) \<and> 400 \<le> status \<and> status \<le> 503
    \<and> business_exception_mapping c = nearest_mapping c
    \<and> (\<forall>x. map_of EXCEPTION_HTTP_MAPPINGS c = Some x \<longrightarrow> xm_code x = class_code c)"
  using error_response_Inr [OF public_message_nonempty resolve_request_id_ok [OF assms]]
    nearest_mapping_facts [of c]
  by (simp add: business_exception_handler_def mapping_eq)

lemma business_error_answer_witness:
  "map_sum id js_status (business_exception_handler (resolve_request_id (lit ''0-f'') (Some (lit ''a b'')))
       MalwareDetectedError None) = Inr 422
   \<and> (\<exists>r. business_exception_handler (resolve_request_id (lit ''0-f'') (Some (lit ''a b'')))
        MalwareDetectedError None = Inr r)"
proof -
  have "request_id_ok (lit ''0-f'')" by code_simp
  from business_error_answer [OF this, of "Some (lit ''a b'')" MalwareDetectedError None]
  have "\<exists>r. business_exception_handler (resolve_request_id (lit ''0-f'') (Some (lit ''a b'')))
        MalwareDetectedError None = Inr r" by blast
  moreover have "map_sum id js_status (business_exception_handler
      (resolve_request_id (lit ''0-f'') (Some (lit ''a b''))) MalwareDetectedError None) = Inr 422" by code_simp
  ultimately show ?thesis by blast
qed

section \<open>The body limit\<close>

text \<open>What the application is given: the messages up to the limit, then the exception.\<close>

fun limit_inputs :: "int \<Rightarrow> int \<Rightarrow> (exn + received) list \<Rightarrow> (exn + received) list" where
  "limit_inputs M n [] = []"
| "limit_inputs M n (Inr (HttpRequest body) # xs) =
     (if n + int (length body) > M then Inl RequestBodyTooLargeError else Inr (HttpRequest body))
     # limit_inputs M (n + int (length body)) xs"
| "limit_inputs M n (x # xs) = x # limit_inputs M n xs"

fun body_bytes :: "(exn + received) list \<Rightarrow> int" where
  "body_bytes [] = 0"
| "body_bytes (Inr (HttpRequest body) # xs) = int (length body) + body_bytes xs"
| "body_bytes (x # xs) = body_bytes xs"

lemma body_bytes_nonneg: "0 \<le> body_bytes xs"
  by (induction xs rule: body_bytes.induct) auto

lemma limit_inputs_bytes: "body_bytes (limit_inputs M n xs) \<le> max 0 (M - n)"
  by (induction M n xs rule: limit_inputs.induct) auto

lemma limit_inputs_within: "n + body_bytes xs \<le> M \<Longrightarrow> limit_inputs M n xs = xs"
proof (induction M n xs rule: limit_inputs.induct)
  case (2 M n body xs)
  then show ?case using body_bytes_nonneg [of xs] by auto
qed auto

definition rejected :: "pystr \<Rightarrow> sent list \<times> exn option \<Rightarrow> sent list \<times> exn option" where
  "rejected rid res = (if snd res = Some RequestBodyTooLargeError
     then (fst res @ fst (serve (respond (body_rejection rid)) []), snd (serve (respond (body_rejection rid)) []))
     else res)"

lemma serve_respond: "serve (respond r) xs = serve (respond r) []"
  by (simp add: respond_def split: sum.splits)

lemma rejected_Cons: "rejected rid (m # out, r) = (m # fst (rejected rid (out, r)), snd (rejected rid (out, r)))"
  by (simp add: rejected_def)

lemma serve_limited: "serve (limited M rid t n) xs = rejected rid (serve t (limit_inputs M n xs))"
proof (induction t arbitrary: n xs)
  case (Fail e)
  then show ?case using serve_respond [of "body_rejection rid" xs] by (auto simp: rejected_def)
next
  case (Send m t)
  then show ?case by (cases "serve t (limit_inputs M n xs)") (simp add: rejected_Cons split_beta)
next
  case (Receive k)
  show ?case
  proof (cases xs)
    case Nil
    then show ?thesis using Receive.IH by simp
  next
    case (Cons x ys)
    then show ?thesis
      using Receive.IH by (cases x; cases "projr x") auto
  qed
qed (simp add: rejected_def)

text \<open>C27: the body limit: a request whose declared length is over the limit (or is not a number) is
  rejected before the application runs; otherwise the application runs exactly as on an input whose
  bodies stop at the limit of the route, followed by the exception, and an exception it lets
  through becomes the rejection; a request within the limit is passed on unchanged.\<close>

theorem body_limit_enforced:
  "serve (body_limit L rid http_method path content_length app) xs =
      (if \<exists>s. content_length = Some s
            \<and> (\<forall>n. python_int s = Some n \<longrightarrow> n > limit_for_scope L http_method path)
       then serve (respond (body_rejection rid)) []
       else rejected rid (serve app (limit_inputs (limit_for_scope L http_method path) 0 xs)))
    \<and> body_bytes (limit_inputs (limit_for_scope L http_method path) 0 xs) \<le> max 0 (limit_for_scope L http_method path)
    \<and> (body_bytes xs \<le> limit_for_scope L http_method path \<longrightarrow>
         limit_inputs (limit_for_scope L http_method path) 0 xs = xs)"
proof -
  let ?M = "limit_for_scope L http_method path"
  have decl: "(case content_length of None \<Rightarrow> False | Some s \<Rightarrow> declared_size_exceeds_limit s ?M)
      \<longleftrightarrow> (\<exists>s. content_length = Some s \<and> (\<forall>n. python_int s = Some n \<longrightarrow> n > ?M))"
    by (auto simp: declared_size_exceeds_limit_def split: option.splits)
  show ?thesis
    using limit_inputs_bytes [of ?M 0 xs] limit_inputs_within [of 0 xs ?M] serve_respond [of "body_rejection rid" xs]
    by (auto simp: body_limit_def Let_def decl serve_limited)
qed

definition demo_limits :: body_limits where
  "demo_limits = \<lparr>bl_max_body_bytes = 3, bl_document_upload_path_prefix = lit ''/documents'',
     bl_document_upload_max_body_bytes = 5\<rparr>"

definition demo_app :: asgi where
  "demo_app = Receive (\<lambda>x. case x of Inl e \<Rightarrow> Fail e
     | Inr _ \<Rightarrow> Receive (\<lambda>y. case y of Inl e \<Rightarrow> Fail e
     | Inr _ \<Rightarrow> Send (ResponseStart 200 []) (Send (ResponseBody (Payload [1])) Finish)))"

lemma body_limit_enforced_witness:
  "map is_start (fst (serve (body_limit demo_limits (lit ''r'') (lit ''POST'') (lit ''/x'') None demo_app)
      [Inr (HttpRequest [1, 2]), Inr (HttpRequest [3, 4])])) = [True, False]
   \<and> body_bytes (limit_inputs (limit_for_scope demo_limits (lit ''POST'') (lit ''/x'')) 0
      [Inr (HttpRequest [1, 2]), Inr (HttpRequest [3, 4])]) \<le> 3"
proof -
  have "limit_for_scope demo_limits (lit ''POST'') (lit ''/x'') = 3" by code_simp
  then have "body_bytes (limit_inputs (limit_for_scope demo_limits (lit ''POST'') (lit ''/x'')) 0
      [Inr (HttpRequest [1, 2]), Inr (HttpRequest [3, 4])]) \<le> 3"
    using body_limit_enforced [of demo_limits "lit ''r''" "lit ''POST''" "lit ''/x''" None demo_app
      "[Inr (HttpRequest [1, 2]), Inr (HttpRequest [3, 4])]"] by simp
  moreover have "map is_start (fst (serve (body_limit demo_limits (lit ''r'') (lit ''POST'') (lit ''/x'') None demo_app)
      [Inr (HttpRequest [1, 2]), Inr (HttpRequest [3, 4])])) = [True, False]" by code_simp
  ultimately show ?thesis by blast
qed

section \<open>The outer middlewares\<close>

definition header_values :: "string \<Rightarrow> headers \<Rightarrow> pystr list" where
  "header_values name hs =
     map snd (filter (\<lambda>h. map ascii_lower (fst h) = map ascii_lower (lit name)) hs)"

lemma ascii_lower_idem [simp]: "ascii_lower (ascii_lower c) = ascii_lower c"
  by (simp add: ascii_lower_def)

lemma ascii_lower_comp [simp]: "ascii_lower \<circ> ascii_lower = ascii_lower"
  by (rule ext) simp

lemma replace_header_values:
  assumes "map ascii_lower key = key"
  shows "\<exists>h\<in>set hs. map ascii_lower (fst h) = key \<Longrightarrow>
    filter (\<lambda>h. map ascii_lower (fst h) = key) (replace_header key v hs) = [(key, v)]"
  using assms by (induction key v hs rule: replace_header.induct) (auto simp: filter_empty_conv)

lemma replace_header_other:
  assumes "map ascii_lower key = key" "other \<noteq> key"
  shows "filter (\<lambda>h. map ascii_lower (fst h) = other) (replace_header key v hs)
    = filter (\<lambda>h. map ascii_lower (fst h) = other) hs"
  using assms
proof (induction key v hs rule: replace_header.induct)
  case (2 key v k v' hs)
  have "filter (\<lambda>h. map ascii_lower (fst h) = other) (filter (\<lambda>(k, _). map ascii_lower k \<noteq> key) hs)
      = filter (\<lambda>h. map ascii_lower (fst h) = other) hs"
    using 2(3) by (induction hs) auto
  then show ?case using 2 by auto
qed simp

lemma header_values_set:
  "header_values name (set_header name v hs) = [v]"
  using replace_header_values [of "map ascii_lower (lit name)" hs v]
  by (auto simp: header_values_def set_header_def Let_def filter_empty_conv)

lemma header_values_set_other:
  "map ascii_lower (lit other) \<noteq> map ascii_lower (lit name) \<Longrightarrow>
     header_values other (set_header name v hs) = header_values other hs"
  using replace_header_other [of "map ascii_lower (lit name)" "map ascii_lower (lit other)" v hs]
  by (auto simp: header_values_def set_header_def Let_def)

lemma serve_map_sent:
  "serve (map_sent f t) xs = (map f (fst (serve t xs)), snd (serve t xs))"
proof (induction t arbitrary: xs)
  case (Receive k)
  then show ?case by (cases xs) auto
qed (auto simp: split_beta)

lemma is_start_on_start [simp]: "is_start (on_start f m) = is_start m"
  by (cases m) simp_all

definition internal_error_messages :: "pystr \<Rightarrow> sent list" where
  "internal_error_messages rid = fst (serve (respond (internal_error rid)) [])"

lemma serve_internal_error:
  assumes "request_id_ok rid"
  shows "serve (respond (internal_error rid)) xs = (internal_error_messages rid, None)"
    "map is_start (internal_error_messages rid) = [True, False]"
  using error_response_Inr [OF _ assms]
  by (simp_all add: internal_error_messages_def internal_error_def respond_def)

lemma serve_unhandled:
  assumes rid: "request_id_ok rid"
  shows "serve (unhandled_exception rid t started) xs =
    (case serve t xs of (out, r) \<Rightarrow>
       if (\<exists>e. r = Some e \<and> is_exception e) \<and> \<not> started \<and> \<not> (\<exists>m\<in>set out. is_start m)
       then (out @ internal_error_messages rid, None) else (out, r))"
proof (induction t arbitrary: started xs)
  case (Receive k)
  then show ?case by (cases xs) auto
next
  case (Send m t)
  then show ?case by (cases "serve t xs") auto
qed (use serve_internal_error [OF rid] in auto)

text \<open>C21: behind the whole stack of middlewares, whatever the framework's own middlewares do: an
  ordinary exception never escapes before a response was started; it is answered by one start and one
  body that do not depend on it; nothing else is added to or taken from what was sent; and every
  response start carries exactly one request identifier, a valid one.\<close>

theorem every_failure_answered:
  assumes "request_id_ok uuid" and "rid = resolve_request_id uuid (hs_supplied_request_id scope)"
    and "serve (inner_stack C scope rid duration app) xs = (out0, r0)"
    and "serve (http_stack C scope uuid trace_id duration app) xs = (out, r)"
  shows "(if (\<exists>e. r0 = Some e \<and> is_exception e) \<and> \<not> (\<exists>m\<in>set out0. is_start m)
          then out = map (with_context rid trace_id) (out0 @ internal_error_messages rid) \<and> r = None
          else out = map (with_context rid trace_id) out0 \<and> r = r0)
    \<and> map is_start (internal_error_messages rid) = [True, False]
    \<and> (\<forall>s h. ResponseStart s h \<in> set out \<longrightarrow> header_values ''X-Request-ID'' h = [rid] \<and> request_id_ok rid)"
proof -
  let ?ctx = "with_context rid trace_id" and ?t = "unhandled_exception rid (inner_stack C scope rid duration app) False"
  have ok: "request_id_ok rid" unfolding assms(2) by (rule resolve_request_id_ok [OF assms(1)])
  have "http_stack C scope uuid trace_id duration app = map_sent ?ctx ?t"
    by (simp add: http_stack_def request_context_def Let_def assms(2))
  then have run: "(out, r) = (map ?ctx (fst (serve ?t xs)), snd (serve ?t xs))"
    using assms(4) serve_map_sent [of ?ctx ?t xs] by simp
  have ids: "header_values ''X-Request-ID'' h = [rid]" if sent: "ResponseStart s h \<in> set (map ?ctx ms)" for s h ms
  proof -
    have "map ascii_lower (lit ''X-Request-ID'') \<noteq> map ascii_lower (lit ''X-Trace-ID'')" by code_simp
    moreover obtain m where "ResponseStart s h = ?ctx m" using sent by auto
    ultimately show ?thesis
      by (cases m) (simp_all add: with_context_def header_values_set_other header_values_set)
  qed
  have "\<exists>ms. out = map ?ctx ms" using run by auto
  then have "\<forall>s h. ResponseStart s h \<in> set out \<longrightarrow> header_values ''X-Request-ID'' h = [rid] \<and> request_id_ok rid"
    using ids ok by blast
  then show ?thesis
    using run serve_internal_error(2) [OF ok] unfolding serve_unhandled [OF ok] assms(3) by auto
qed

definition demo_http :: http_config where
  "demo_http = \<lparr>hc_limits = demo_limits, hc_version = lit ''1'', hc_hsts_enabled = True, hc_third_party = (\<lambda>t. t)\<rparr>"

definition demo_scope :: http_scope where
  "demo_scope = \<lparr>hs_method = lit ''GET'', hs_path = lit ''/x'', hs_content_length = None,
     hs_supplied_request_id = Some (lit ''abc'')\<rparr>"

text \<open>
  The answer to an unknown failure is made outside the security middleware: it does not carry the
  hardening headers that every other response carries.
\<close>

lemma internal_error_without_security_headers:
  "map (\<lambda>m. case m of ResponseStart s h \<Rightarrow> (s, header_values ''X-Frame-Options'' h) | _ \<Rightarrow> (0, []))
     (fst (serve (http_stack demo_http demo_scope (lit ''u'') (lit ''t'') (lit ''app'') (Fail OSError)) []))
   = [(500, []), (0, [])]
   \<and> map (\<lambda>m. case m of ResponseStart s h \<Rightarrow> (s, header_values ''X-Frame-Options'' h) | _ \<Rightarrow> (0, []))
     (fst (serve (http_stack demo_http demo_scope (lit ''u'') (lit ''t'') (lit ''app'')
        (Send (ResponseStart 200 []) Finish)) []))
   = [(200, [lit ''DENY''])]"
  by code_simp

text \<open>
  The body limit does not look whether a response has been started: an application that answers
  while it reads gets a second start.
\<close>

lemma rejection_after_start:
  "map is_start (fst (serve (body_limit demo_limits (lit ''r'') (lit ''POST'') (lit ''/x'') None
     (Send (ResponseStart 200 []) (Receive (\<lambda>x. case x of Inl e \<Rightarrow> Fail e | Inr _ \<Rightarrow> Finish))))
     [Inr (HttpRequest [1, 2, 3, 4])])) = [True, True, False]"
  by code_simp

lemma every_failure_answered_witness:
  "\<exists>out. serve (http_stack demo_http demo_scope (lit ''u'') (lit ''t'') (lit ''app'') (Fail OSError)) [] = (out, None)
     \<and> map is_start out = [True, False]"
proof -
  let ?s = "http_stack demo_http demo_scope (lit ''u'') (lit ''t'') (lit ''app'') (Fail OSError)"
  have u: "request_id_ok (lit ''u'')" by code_simp
  have rid: "lit ''abc'' = resolve_request_id (lit ''u'') (hs_supplied_request_id demo_scope)" by code_simp
  have i: "serve (inner_stack demo_http demo_scope (lit ''abc'') (lit ''app'') (Fail OSError)) [] = ([], Some OSError)"
    by code_simp
  from every_failure_answered [OF u rid i, of "lit ''t''" "fst (serve ?s [])" "snd (serve ?s [])"]
  have "snd (serve ?s []) = None \<and> fst (serve ?s []) = map (with_context (lit ''abc'') (lit ''t'')) (internal_error_messages (lit ''abc''))
      \<and> map is_start (internal_error_messages (lit ''abc'')) = [True, False]" by simp
  then show ?thesis
    by (intro exI [of _ "fst (serve ?s [])"]) (simp add: prod_eq_iff with_context_def o_def)
qed

text \<open>Readiness: 200 exactly when every probe succeeded, else 503 naming exactly the failed ones.\<close>

lemma readiness_answer:
  assumes "request_id_ok rid" and "\<And>p e. p \<in> {d, r, m} \<Longrightarrow> p = Inl e \<Longrightarrow> is_exception e"
  shows "case readiness rid d r m of
      Inl _ \<Rightarrow> False
    | Inr (Ready checks) \<Rightarrow> d = Inr () \<and> r = Inr () \<and> m = Inr ()
    | Inr (NotReady resp) \<Rightarrow> js_status resp = 503
        \<and> map dt_location (en_details (js_content resp))
          = map (\<lambda>n. [LocName (lit ''checks''), LocName n])
              (filter (\<lambda>n. (n = lit ''database'' \<and> isl d) \<or> (n = lit ''redis'' \<and> isl r) \<or> (n = lit ''object_store'' \<and> isl m))
                [lit ''database'', lit ''redis'', lit ''object_store''])"
  using assms
  by (cases d; cases r; cases m)
    (auto simp: readiness_def probe_status_def Let_def error_response_Inr mk_error_detail_def lit_def)

end
