(* ===== verification/Metrics.thy ===== *)
theory Metrics
  imports ConfigGuarantees
begin

text \<open>
  The platform's measurements (\<open>platform/telemetry/metrics.py\<close>): validated measurements, the sink
  that turns them into observations of OpenTelemetry instruments, its configuration and shutdown, and the
  context managers around external calls and worker tasks.  The observations are a journal in the
  order of the calls to the instruments; aggregating and exporting them is the SDK's work.
\<close>

section \<open>Validated measurements\<close>

text \<open>\<open>decimal.Decimal\<close>: ordering a NaN raises.\<close>

datatype pydecimal = Dec_Fin rat | Dec_PInf | Dec_NInf | Dec_NaN

fun decimal_negative :: "pydecimal \<Rightarrow> exn + bool" where
  "decimal_negative (Dec_Fin q) = Inr (q < 0)"
| "decimal_negative Dec_PInf = Inr False"
| "decimal_negative Dec_NInf = Inr True"
| "decimal_negative Dec_NaN = Inl OtherException"

definition SUPPORTED_OUTCOMES :: "pystr list" where
  "SUPPORTED_OUTCOMES = [lit ''success'', lit ''error'', lit ''cancelled'', lit ''retry'']"

definition require_non_empty :: "pystr \<Rightarrow> exn + unit" where
  "require_non_empty v = raise_if (blank v) (ValueError ''must not be empty'') (Inr ())"

definition require_non_negative :: "int \<Rightarrow> exn + unit" where
  "require_non_negative v = raise_if (v < 0) (ValueError ''must be non-negative'') (Inr ())"

definition require_non_negative_float :: "pyfloat \<Rightarrow> exn + unit" where
  "require_non_negative_float v =
     raise_if (fl_lt v (Fin 0)) (ValueError ''must be non-negative'') (Inr ())"

definition require_non_negative_decimal :: "pydecimal \<Rightarrow> exn + unit" where
  "require_non_negative_decimal v =
     bindE (decimal_negative v) (\<lambda>negative.
     raise_if negative (ValueError ''must be non-negative'') (Inr ()))"

definition validate_outcome :: "pystr \<Rightarrow> exn + unit" where
  "validate_outcome v =
     raise_if (v \<notin> set SUPPORTED_OUTCOMES) (ValueError ''outcome is unsupported'') (Inr ())"

record http_request_measurement =
  hm_method :: pystr
  hm_route :: pystr
  hm_status_code :: int
  hm_duration_ms :: pyfloat

definition mk_http_request_measurement :: "http_request_measurement \<Rightarrow> exn + http_request_measurement" where
  "mk_http_request_measurement m =
     bindE (require_non_empty (hm_method m)) (\<lambda>_.
     bindE (require_non_empty (hm_route m)) (\<lambda>_.
     raise_if (\<not> (100 \<le> hm_status_code m \<and> hm_status_code m \<le> 599))
       (ValueError ''status_code is outside the HTTP range'') (
     bindE (require_non_negative_float (hm_duration_ms m)) (\<lambda>_. Inr m))))"

record database_pool_measurement =
  pm_pool_name :: pystr
  pm_size :: int
  pm_checked_out :: int
  pm_overflow :: int

definition mk_database_pool_measurement :: "database_pool_measurement \<Rightarrow> exn + database_pool_measurement" where
  "mk_database_pool_measurement m =
     bindE (require_non_empty (pm_pool_name m)) (\<lambda>_.
     bindE (require_non_negative (pm_size m)) (\<lambda>_.
     bindE (require_non_negative (pm_checked_out m)) (\<lambda>_.
     raise_if (pm_overflow m < - pm_size m) (ValueError ''overflow is below the valid pool range'')
       (Inr m))))"

record external_call_measurement =
  em_provider :: pystr
  em_operation :: pystr
  em_outcome :: pystr
  em_duration_ms :: pyfloat

definition mk_external_call_measurement :: "external_call_measurement \<Rightarrow> exn + external_call_measurement" where
  "mk_external_call_measurement m =
     bindE (require_non_empty (em_provider m)) (\<lambda>_.
     bindE (require_non_empty (em_operation m)) (\<lambda>_.
     bindE (validate_outcome (em_outcome m)) (\<lambda>_.
     bindE (require_non_negative_float (em_duration_ms m)) (\<lambda>_. Inr m))))"

record worker_task_measurement =
  wm_task_name :: pystr
  wm_queue_name :: pystr
  wm_outcome :: pystr
  wm_duration_ms :: pyfloat
  wm_retry_count :: int

definition mk_worker_task_measurement :: "worker_task_measurement \<Rightarrow> exn + worker_task_measurement" where
  "mk_worker_task_measurement m =
     bindE (require_non_empty (wm_task_name m)) (\<lambda>_.
     bindE (require_non_empty (wm_queue_name m)) (\<lambda>_.
     bindE (validate_outcome (wm_outcome m)) (\<lambda>_.
     bindE (require_non_negative_float (wm_duration_ms m)) (\<lambda>_.
     bindE (require_non_negative (wm_retry_count m)) (\<lambda>_. Inr m)))))"

record queue_backlog_measurement =
  qm_queue_name :: pystr
  qm_size :: int

definition mk_queue_backlog_measurement :: "queue_backlog_measurement \<Rightarrow> exn + queue_backlog_measurement" where
  "mk_queue_backlog_measurement m =
     bindE (require_non_empty (qm_queue_name m)) (\<lambda>_.
     bindE (require_non_negative (qm_size m)) (\<lambda>_. Inr m))"

record llm_usage_measurement =
  um_provider :: pystr
  um_model :: pystr
  um_outcome :: pystr
  um_input_tokens :: int
  um_output_tokens :: int
  um_cost :: "pydecimal option"
  um_currency :: "pystr option"

definition mk_llm_usage_measurement :: "llm_usage_measurement \<Rightarrow> exn + llm_usage_measurement" where
  "mk_llm_usage_measurement m =
     bindE (require_non_empty (um_provider m)) (\<lambda>_.
     bindE (require_non_empty (um_model m)) (\<lambda>_.
     bindE (validate_outcome (um_outcome m)) (\<lambda>_.
     bindE (require_non_negative (um_input_tokens m)) (\<lambda>_.
     bindE (require_non_negative (um_output_tokens m)) (\<lambda>_.
     case um_cost m of
       None \<Rightarrow> Inr m
     | Some c \<Rightarrow>
         bindE (require_non_negative_decimal c) (\<lambda>_.
         raise_if (case um_currency m of None \<Rightarrow> True | Some t \<Rightarrow> blank t)
           (ValueError ''currency is required when cost is known'') (Inr m)))))))"

lemma require_Inr [py_bind]:
  "require_non_empty v = Inr u \<longleftrightarrow> \<not> blank v"
  "require_non_negative i = Inr u \<longleftrightarrow> 0 \<le> i"
  "require_non_negative_float x = Inr u \<longleftrightarrow> \<not> fl_lt x (Fin 0)"
  "validate_outcome w = Inr u \<longleftrightarrow> w \<in> set SUPPORTED_OUTCOMES"
  by (auto simp: require_non_empty_def require_non_negative_def require_non_negative_float_def
      validate_outcome_def)

lemma map_sum_Inr [py_bind]: "map_sum id f r = Inr y \<longleftrightarrow> (\<exists>x. r = Inr x \<and> y = f x)"
  by (cases r) auto

text \<open>A valid measurement is returned as it is.\<close>

lemma measurement_returned:
  "mk_http_request_measurement h = Inr h' \<Longrightarrow> h' = h"
  "mk_database_pool_measurement p = Inr p' \<Longrightarrow> p' = p"
  "mk_external_call_measurement e = Inr e' \<Longrightarrow> e' = e"
  "mk_worker_task_measurement w = Inr w' \<Longrightarrow> w' = w"
  "mk_queue_backlog_measurement q = Inr q' \<Longrightarrow> q' = q"
  "mk_llm_usage_measurement u = Inr u' \<Longrightarrow> u' = u"
  by (auto simp: py_bind mk_http_request_measurement_def mk_database_pool_measurement_def
      mk_external_call_measurement_def mk_worker_task_measurement_def mk_queue_backlog_measurement_def
      mk_llm_usage_measurement_def split: option.splits)

section \<open>Recording\<close>

datatype instrument =
    HTTP_REQUESTS | HTTP_DURATION | HTTP_ERRORS
  | POOL_SIZE | POOL_CHECKED_OUT | POOL_OVERFLOW
  | EXTERNAL_REQUESTS | EXTERNAL_DURATION
  | WORKER_TASKS | WORKER_DURATION | WORKER_RETRIES
  | QUEUE_BACKLOG | LLM_REQUESTS | LLM_INPUT_TOKENS | LLM_OUTPUT_TOKENS | LLM_COST

text \<open>The counters among them: their observations are increments, which must not be negative.\<close>

definition is_counter :: "instrument \<Rightarrow> bool" where
  "is_counter i \<longleftrightarrow> i \<in> {HTTP_REQUESTS, HTTP_ERRORS, EXTERNAL_REQUESTS, WORKER_TASKS, WORKER_RETRIES,
     LLM_REQUESTS, LLM_INPUT_TOKENS, LLM_OUTPUT_TOKENS, LLM_COST}"

datatype metric_value = MInt int | MFloat pyfloat

datatype attribute = AStr pystr | AInt int

record observation =
  ob_instrument :: instrument
  ob_value :: metric_value
  ob_attributes :: "(string \<times> attribute) list"

definition obs :: "instrument \<Rightarrow> metric_value \<Rightarrow> (string \<times> attribute) list \<Rightarrow> observation" where
  "obs i v attributes = \<lparr>ob_instrument = i, ob_value = v, ob_attributes = attributes\<rparr>"

text \<open>The sink's methods, as the observations they make.\<close>

definition record_http_request :: "http_request_measurement \<Rightarrow> observation list" where
  "record_http_request m =
     (let attributes = [(''http.request.method'', AStr (hm_method m)), (''http.route'', AStr (hm_route m)),
                        (''http.response.status_code'', AInt (hm_status_code m))]
      in [obs HTTP_REQUESTS (MInt 1) attributes, obs HTTP_DURATION (MFloat (hm_duration_ms m)) attributes]
         @ (if 400 \<le> hm_status_code m then [obs HTTP_ERRORS (MInt 1) attributes] else []))"

definition observe_database_pool :: "database_pool_measurement \<Rightarrow> observation list" where
  "observe_database_pool m =
     (let attributes = [(''db.pool.name'', AStr (pm_pool_name m))]
      in [obs POOL_SIZE (MInt (pm_size m)) attributes,
          obs POOL_CHECKED_OUT (MInt (pm_checked_out m)) attributes,
          obs POOL_OVERFLOW (MInt (pm_overflow m)) attributes])"

definition record_external_call :: "external_call_measurement \<Rightarrow> observation list" where
  "record_external_call m =
     (let attributes = [(''server.address'', AStr (em_provider m)), (''operation.name'', AStr (em_operation m)),
                        (''outcome'', AStr (em_outcome m))]
      in [obs EXTERNAL_REQUESTS (MInt 1) attributes,
          obs EXTERNAL_DURATION (MFloat (em_duration_ms m)) attributes])"

definition record_worker_task :: "worker_task_measurement \<Rightarrow> observation list" where
  "record_worker_task m =
     (let attributes = [(''task.name'', AStr (wm_task_name m)),
                        (''messaging.destination.name'', AStr (wm_queue_name m)),
                        (''outcome'', AStr (wm_outcome m))]
      in [obs WORKER_TASKS (MInt 1) attributes, obs WORKER_DURATION (MFloat (wm_duration_ms m)) attributes]
         @ (if wm_retry_count m \<noteq> 0 then [obs WORKER_RETRIES (MInt (wm_retry_count m)) attributes] else []))"

definition observe_queue_backlog :: "queue_backlog_measurement \<Rightarrow> observation list" where
  "observe_queue_backlog m =
     [obs QUEUE_BACKLOG (MInt (qm_size m)) [(''messaging.destination.name'', AStr (qm_queue_name m))]]"

text \<open>\<open>float(cost)\<close> and \<open>str.upper\<close> are the parameters \<open>to_float\<close> and \<open>L\<close>.\<close>

definition record_llm_usage ::
  "url_lib \<Rightarrow> (pydecimal \<Rightarrow> pyfloat) \<Rightarrow> llm_usage_measurement \<Rightarrow> observation list" where
  "record_llm_usage L to_float m =
     (let attributes = [(''gen_ai.provider.name'', AStr (um_provider m)),
                        (''gen_ai.request.model'', AStr (um_model m)), (''outcome'', AStr (um_outcome m))]
      in [obs LLM_REQUESTS (MInt 1) attributes,
          obs LLM_INPUT_TOKENS (MInt (um_input_tokens m)) attributes,
          obs LLM_OUTPUT_TOKENS (MInt (um_output_tokens m)) attributes]
         @ (case (um_cost m, um_currency m) of
              (Some cost, Some currency) \<Rightarrow>
                [obs LLM_COST (MFloat (to_float cost))
                   (attributes @ [(''currency'', AStr (upper L currency))])]
            | _ \<Rightarrow> []))"

text \<open>A measurement of any kind; building it validates it.\<close>

datatype measurement =
    M_HTTP http_request_measurement
  | M_POOL database_pool_measurement
  | M_EXTERNAL external_call_measurement
  | M_WORKER worker_task_measurement
  | M_BACKLOG queue_backlog_measurement
  | M_LLM llm_usage_measurement

fun mk_measurement :: "measurement \<Rightarrow> exn + measurement" where
  "mk_measurement (M_HTTP m) = map_sum id M_HTTP (mk_http_request_measurement m)"
| "mk_measurement (M_POOL m) = map_sum id M_POOL (mk_database_pool_measurement m)"
| "mk_measurement (M_EXTERNAL m) = map_sum id M_EXTERNAL (mk_external_call_measurement m)"
| "mk_measurement (M_WORKER m) = map_sum id M_WORKER (mk_worker_task_measurement m)"
| "mk_measurement (M_BACKLOG m) = map_sum id M_BACKLOG (mk_queue_backlog_measurement m)"
| "mk_measurement (M_LLM m) = map_sum id M_LLM (mk_llm_usage_measurement m)"

fun observations :: "url_lib \<Rightarrow> (pydecimal \<Rightarrow> pyfloat) \<Rightarrow> measurement \<Rightarrow> observation list" where
  "observations L to_float (M_HTTP m) = record_http_request m"
| "observations L to_float (M_POOL m) = observe_database_pool m"
| "observations L to_float (M_EXTERNAL m) = record_external_call m"
| "observations L to_float (M_WORKER m) = record_worker_task m"
| "observations L to_float (M_BACKLOG m) = observe_queue_backlog m"
| "observations L to_float (M_LLM m) = record_llm_usage L to_float m"

text \<open>The active sink: none, or the instruments with their journal.\<close>

datatype sink = Null_Sink | Meter_Sink "observation list"

fun sink_record :: "url_lib \<Rightarrow> (pydecimal \<Rightarrow> pyfloat) \<Rightarrow> measurement \<Rightarrow> sink \<Rightarrow> sink" where
  "sink_record L to_float m Null_Sink = Null_Sink"
| "sink_record L to_float m (Meter_Sink journal) = Meter_Sink (journal @ observations L to_float m)"

section \<open>What the journal accounts for\<close>

definition total_of :: "instrument \<Rightarrow> observation list \<Rightarrow> int" where
  "total_of i journal =
     sum_list (map (\<lambda>b. case ob_value b of MInt n \<Rightarrow> n | MFloat _ \<Rightarrow> 0)
       (filter (\<lambda>b. ob_instrument b = i) journal))"

definition value_negative :: "metric_value \<Rightarrow> bool" where
  "value_negative v = (case v of MInt n \<Rightarrow> n < 0 | MFloat x \<Rightarrow> fl_lt x (Fin 0))"

lemma total_of_append [simp]: "total_of i (a @ b) = total_of i a + total_of i b"
  by (simp add: total_of_def)

lemma observation_select [simp]:
  "ob_instrument (obs i v a) = i" "ob_value (obs i v a) = v" "ob_attributes (obs i v a) = a"
  by (simp_all add: obs_def)

lemmas record_defs =
  record_http_request_def observe_database_pool_def record_external_call_def record_worker_task_def
  observe_queue_backlog_def record_llm_usage_def

lemma counters_not_negative:
  assumes "mk_measurement m = Inr m'"
    and "\<And>c. decimal_negative c = Inr False \<Longrightarrow> \<not> fl_lt (to_float c) (Fin 0)"
  shows "list_all (\<lambda>b. is_counter (ob_instrument b) \<longrightarrow> \<not> value_negative (ob_value b))
    (observations L to_float m')"
proof (cases m)
  case (M_LLM u)
  then have u: "mk_llm_usage_measurement u = Inr u" "m' = M_LLM u"
    using assms(1) measurement_returned(6) [of u] by (auto simp: py_bind)
  then have "0 \<le> um_input_tokens u" "0 \<le> um_output_tokens u"
    "\<And>c. um_cost u = Some c \<Longrightarrow> decimal_negative c = Inr False"
    by (auto simp: mk_llm_usage_measurement_def require_non_negative_decimal_def py_bind split: option.splits)
  then show ?thesis
    using u(2) assms(2) by (auto simp: record_llm_usage_def Let_def value_negative_def split: option.splits)
qed (use assms(1) in \<open>auto simp: record_defs Let_def value_negative_def is_counter_def py_bind
      mk_http_request_measurement_def mk_database_pool_measurement_def mk_external_call_measurement_def
      mk_worker_task_measurement_def mk_queue_backlog_measurement_def\<close>)

lemma sink_records_all:
  "fold (sink_record L to_float) ms (Meter_Sink journal)
     = Meter_Sink (journal @ concat (map (observations L to_float) ms))"
  by (induction ms arbitrary: journal) simp_all

lemma total_of_concat: "total_of i (concat (map f ms)) = sum_list (map (\<lambda>m. total_of i (f m)) ms)"
  by (induction ms) (simp_all add: total_of_def)

definition http_of :: "measurement list \<Rightarrow> http_request_measurement list" where
  "http_of ms = List.map_filter (\<lambda>m. case m of M_HTTP h \<Rightarrow> Some h | _ \<Rightarrow> None) ms"

definition external_of :: "measurement list \<Rightarrow> external_call_measurement list" where
  "external_of ms = List.map_filter (\<lambda>m. case m of M_EXTERNAL h \<Rightarrow> Some h | _ \<Rightarrow> None) ms"

definition worker_of :: "measurement list \<Rightarrow> worker_task_measurement list" where
  "worker_of ms = List.map_filter (\<lambda>m. case m of M_WORKER h \<Rightarrow> Some h | _ \<Rightarrow> None) ms"

definition llm_of :: "measurement list \<Rightarrow> llm_usage_measurement list" where
  "llm_of ms = List.map_filter (\<lambda>m. case m of M_LLM h \<Rightarrow> Some h | _ \<Rightarrow> None) ms"

lemmas measurements_of = http_of_def external_of_def worker_of_def llm_of_def

lemma totals:
  shows "sum_list (map (\<lambda>m. total_of HTTP_REQUESTS (observations L to_float m)) ms) = int (length (http_of ms))"
    "sum_list (map (\<lambda>m. total_of HTTP_ERRORS (observations L to_float m)) ms) = int (length (filter (\<lambda>h. 400 \<le> hm_status_code h) (http_of ms)))"
    "sum_list (map (\<lambda>m. total_of EXTERNAL_REQUESTS (observations L to_float m)) ms) = int (length (external_of ms))"
    "sum_list (map (\<lambda>m. total_of WORKER_TASKS (observations L to_float m)) ms) = int (length (worker_of ms))"
    "sum_list (map (\<lambda>m. total_of WORKER_RETRIES (observations L to_float m)) ms) = sum_list (map wm_retry_count (worker_of ms))"
    "sum_list (map (\<lambda>m. total_of LLM_INPUT_TOKENS (observations L to_float m)) ms) = sum_list (map um_input_tokens (llm_of ms))"
    "sum_list (map (\<lambda>m. total_of LLM_OUTPUT_TOKENS (observations L to_float m)) ms) = sum_list (map um_output_tokens (llm_of ms))"
  by (induction ms; simp add: measurements_of List.map_filter_simps;
      simp add: record_defs Let_def total_of_def split: measurement.splits option.splits)+

text \<open>The sink accounts exactly for what was measured: for any sequence of valid measurements the
  request, task and call counters equal the numbers of measurements, the error counter the number of
  responses from 400 on, the retry and token counters the sums of their values; no counter is
  ever decremented; and the disabled sink keeps nothing.\<close>

theorem metrics_account_exactly:
  assumes "list_all (\<lambda>m. mk_measurement m = Inr m) ms"
    and "\<And>c. decimal_negative c = Inr False \<Longrightarrow> \<not> fl_lt (to_float c) (Fin 0)"
  shows "\<exists>journal. fold (sink_record L to_float) ms (Meter_Sink []) = Meter_Sink journal
    \<and> total_of HTTP_REQUESTS journal = int (length (http_of ms))
    \<and> total_of HTTP_ERRORS journal = int (length (filter (\<lambda>h. 400 \<le> hm_status_code h) (http_of ms)))
    \<and> total_of EXTERNAL_REQUESTS journal = int (length (external_of ms))
    \<and> total_of WORKER_TASKS journal = int (length (worker_of ms))
    \<and> total_of WORKER_RETRIES journal = sum_list (map wm_retry_count (worker_of ms))
    \<and> total_of LLM_INPUT_TOKENS journal = sum_list (map um_input_tokens (llm_of ms))
    \<and> total_of LLM_OUTPUT_TOKENS journal = sum_list (map um_output_tokens (llm_of ms))
    \<and> list_all (\<lambda>b. is_counter (ob_instrument b) \<longrightarrow> \<not> value_negative (ob_value b)) journal
    \<and> fold (sink_record L to_float) ms Null_Sink = Null_Sink"
proof -
  have "list_all (\<lambda>b. is_counter (ob_instrument b) \<longrightarrow> \<not> value_negative (ob_value b))
      (concat (map (observations L to_float) ms))"
    using assms(1) counters_not_negative [OF _ assms(2)] by (fastforce simp: list_all_iff)
  moreover have "fold (sink_record L to_float) ms Null_Sink = Null_Sink" by (induction ms) simp_all
  ultimately show ?thesis
    by (simp add: sink_records_all total_of_concat totals)
qed

definition demo_measurements :: "measurement list" where
  "demo_measurements =
     [M_HTTP \<lparr>hm_method = lit ''GET'', hm_route = lit ''/x'', hm_status_code = 404, hm_duration_ms = Fin 2\<rparr>,
      M_WORKER \<lparr>wm_task_name = lit ''t'', wm_queue_name = lit ''q'', wm_outcome = lit ''retry'',
        wm_duration_ms = Fin 1, wm_retry_count = 2\<rparr>,
      M_LLM \<lparr>um_provider = lit ''p'', um_model = lit ''m'', um_outcome = lit ''success'', um_input_tokens = 7,
        um_output_tokens = 5, um_cost = Some (Dec_Fin 1), um_currency = Some (lit ''cny'')\<rparr>]"

definition demo_to_float :: "pydecimal \<Rightarrow> pyfloat" where
  "demo_to_float c = (case c of Dec_Fin q \<Rightarrow> fl_of_rat q | Dec_PInf \<Rightarrow> PInf | Dec_NInf \<Rightarrow> NInf | Dec_NaN \<Rightarrow> NaN)"

lemma demo_to_float_law: "decimal_negative c = Inr False \<Longrightarrow> \<not> fl_lt (demo_to_float c) (Fin 0)"
  by (cases c) (auto simp: demo_to_float_def fl_of_rat_def fl_huge_def fl_lt_def)

lemma metrics_account_exactly_witness:
  "\<exists>journal. fold (sink_record demo_url_lib demo_to_float) demo_measurements (Meter_Sink []) = Meter_Sink journal
     \<and> total_of HTTP_ERRORS journal = 1 \<and> total_of WORKER_RETRIES journal = 2
     \<and> total_of LLM_INPUT_TOKENS journal = 7"
proof -
  have "list_all (\<lambda>m. mk_measurement m = Inr m) demo_measurements" by code_simp
  moreover have "length (filter (\<lambda>h. 400 \<le> hm_status_code h) (http_of demo_measurements)) = 1"
    "sum_list (map wm_retry_count (worker_of demo_measurements)) = 2"
    "sum_list (map um_input_tokens (llm_of demo_measurements)) = 7" by code_simp+
  ultimately show ?thesis
    using metrics_account_exactly [where ms = demo_measurements and L = demo_url_lib and to_float = demo_to_float, OF _ demo_to_float_law]
    by auto
qed

section \<open>Observed calls\<close>

text \<open>
  What the context managers use: the clock, the active sink, the log, and the name of an
  exception's type.
\<close>

record call_log =
  cl_event :: pystr
  cl_outcome :: pystr
  cl_error_type :: "pystr option"
  cl_duration_ms :: pyfloat

record 'w telemetry_env =
  te_clock :: "'w \<Rightarrow> int \<times> 'w"
  te_record :: "measurement \<Rightarrow> ('w, unit) stateful"
  te_log :: "call_log \<Rightarrow> ('w, unit) stateful"
  te_type_name :: "exn \<Rightarrow> pystr"

definition outcome_of :: "exn + 'a \<Rightarrow> pystr" where
  "outcome_of r =
     (case r of Inr _ \<Rightarrow> lit ''success''
      | Inl e \<Rightarrow> if e = CancelledError then lit ''cancelled'' else lit ''error'')"

text \<open>
  The shared shape of the two managers: \<open>try: yield except: ...; raise finally: ...\<close>.  An exception in the
  \<open>finally\<close> block replaces the result.
\<close>

definition observed ::
  "'w telemetry_env \<Rightarrow> (pystr \<Rightarrow> pyfloat \<Rightarrow> measurement) \<Rightarrow> pystr \<Rightarrow> ('w, 'a) stateful \<Rightarrow> ('w, 'a) stateful" where
  "observed env build event body w =
     (case te_clock env w of (started_ns, w0) \<Rightarrow>
      case body w0 of (r, w1) \<Rightarrow>
      case te_clock env w1 of (finished_ns, w2) \<Rightarrow>
        let duration_ms = fl_of_rat (of_int (finished_ns - started_ns) / 1000000);
            error_type = (case r of Inl e \<Rightarrow> Some (te_type_name env e) | Inr _ \<Rightarrow> None)
        in case bindS (liftS (mk_measurement (build (outcome_of r) duration_ms))) (\<lambda>m.
                bindS (te_record env m) (\<lambda>_.
                te_log env \<lparr>cl_event = event, cl_outcome = outcome_of r, cl_error_type = error_type,
                            cl_duration_ms = duration_ms\<rparr>)) w2 of
             (Inl y, w3) \<Rightarrow> (Inl y, w3)
           | (Inr _, w3) \<Rightarrow> (r, w3))"

definition observe_external_call ::
  "'w telemetry_env \<Rightarrow> pystr \<Rightarrow> pystr \<Rightarrow> ('w, 'a) stateful \<Rightarrow> ('w, 'a) stateful" where
  "observe_external_call env provider operation =
     observed env
       (\<lambda>outcome ms. M_EXTERNAL \<lparr>em_provider = provider, em_operation = operation, em_outcome = outcome,
                                 em_duration_ms = ms\<rparr>)
       (lit ''external_call_completed'')"

definition observe_worker_task ::
  "'w telemetry_env \<Rightarrow> pystr \<Rightarrow> pystr \<Rightarrow> int \<Rightarrow> ('w, 'a) stateful \<Rightarrow> ('w, 'a) stateful" where
  "observe_worker_task env task_name queue_name retry_count =
     observed env
       (\<lambda>outcome ms. M_WORKER \<lparr>wm_task_name = task_name, wm_queue_name = queue_name, wm_outcome = outcome,
                               wm_duration_ms = ms, wm_retry_count = retry_count\<rparr>)
       (lit ''worker_task_completed'')"

text \<open>A monotonic clock, and a sink and a log that work; \<open>journal\<close> lists the recorded measurements.\<close>

definition telemetry_law :: "'w telemetry_env \<Rightarrow> ('w \<Rightarrow> int) \<Rightarrow> ('w \<Rightarrow> measurement list) \<Rightarrow> bool" where
  "telemetry_law env now journal \<longleftrightarrow>
     (\<forall>w. fst (te_clock env w) = now w \<and> now w \<le> now (snd (te_clock env w))
          \<and> journal (snd (te_clock env w)) = journal w)
   \<and> (\<forall>m w. fst (te_record env m w) = Inr () \<and> journal (snd (te_record env m w)) = journal w @ [m])
   \<and> (\<forall>l w. fst (te_log env l w) = Inr () \<and> journal (snd (te_log env l w)) = journal w)"

lemma outcome_supported: "outcome_of r \<in> set SUPPORTED_OUTCOMES"
  by (auto simp: outcome_of_def SUPPORTED_OUTCOMES_def split: sum.splits)

lemma elapsed_not_negative: "a \<le> b \<Longrightarrow> \<not> fl_lt (fl_of_rat (of_int (b - a) / 1000000)) (Fin 0)"
  by (auto simp: fl_of_rat_def fl_lt_def fl_huge_def)

lemma observed_run:
  fixes body :: "('w, 'a) stateful"
  assumes law: "telemetry_law env now journal"
    and body: "\<And>v. now v \<le> now (snd (body v))"
    and valid: "\<And>r ms. \<not> fl_lt ms (Fin 0) \<Longrightarrow> mk_measurement (build (outcome_of (r :: exn + 'a)) ms)
      = Inr (build (outcome_of r) ms)"
  shows "\<exists>v ms w'. observed env build event body w = (fst (body v), w')
    \<and> journal v = journal w \<and> journal w' = journal (snd (body v)) @ [build (outcome_of (fst (body v))) ms]
    \<and> \<not> fl_lt ms (Fin 0)"
proof -
  obtain t0 w0 where 0: "te_clock env w = (t0, w0)" by force
  obtain r w1 where 1: "body w0 = (r, w1)" by force
  obtain t1 w2 where 2: "te_clock env w1 = (t1, w2)" by force
  let ?ms = "fl_of_rat (of_int (t1 - t0) / 1000000)"
  have t: "t0 = now w" "now w \<le> now w0" "t1 = now w1" "journal w0 = journal w" "journal w2 = journal w1"
    using law 0 2 unfolding telemetry_law_def by (metis fst_conv snd_conv)+
  have "now w0 \<le> now w1" using body [of w0] 1 by simp
  then have ms: "\<not> fl_lt ?ms (Fin 0)" using t by (intro elapsed_not_negative) simp
  obtain u w3 where 3: "te_record env (build (outcome_of r) ?ms) w2 = (u, w3)" by force
  let ?l = "\<lparr>cl_event = event, cl_outcome = outcome_of r,
    cl_error_type = (case r of Inl e \<Rightarrow> Some (te_type_name env e) | Inr _ \<Rightarrow> None), cl_duration_ms = ?ms\<rparr>"
  obtain x w4 where 4: "te_log env ?l w3 = (x, w4)" by force
  have j: "u = Inr ()" "journal w3 = journal w2 @ [build (outcome_of r) ?ms]" "x = Inr ()" "journal w4 = journal w3"
    using law 3 4 unfolding telemetry_law_def by (metis fst_conv snd_conv)+
  have "observed env build event body w = (r, w4)"
    using 0 1 2 3 4 j valid [OF ms, of r] by (simp add: observed_def bindS_apply Let_def)
  then show ?thesis
    using 1 j t ms by (intro exI [of _ w0] exI [of _ ?ms] exI [of _ w4]) simp
qed

text \<open>Observing an external call does not change it: whatever it returns or raises is returned or raised,
  and exactly one valid measurement is recorded, with the outcome the call had (success, error or
  cancelled) and a duration that is not negative.\<close>

theorem external_call_observed_once:
  assumes "telemetry_law env now journal" and "\<And>v. now v \<le> now (snd (body v))"
    and "\<not> blank provider" and "\<not> blank operation"
  shows "\<exists>v ms w'. observe_external_call env provider operation body w = (fst (body v), w')
    \<and> journal v = journal w
    \<and> journal w' = journal (snd (body v))
        @ [M_EXTERNAL \<lparr>em_provider = provider, em_operation = operation,
             em_outcome = outcome_of (fst (body v)), em_duration_ms = ms\<rparr>]
    \<and> \<not> fl_lt ms (Fin 0)"
  unfolding observe_external_call_def
  by (rule observed_run [OF assms(1,2)])
    (use assms(3,4) outcome_supported in \<open>simp add: mk_external_call_measurement_def py_bind require_non_empty_def
      validate_outcome_def require_non_negative_float_def\<close>)

definition demo_env :: "(int \<times> measurement list) telemetry_env" where
  "demo_env =
     \<lparr>te_clock = (\<lambda>(t, j). (t, (t + 5, j))), te_record = (\<lambda>m (t, j). (Inr (), (t, j @ [m]))),
      te_log = (\<lambda>l w. (Inr (), w)), te_type_name = (\<lambda>e. lit ''Error'')\<rparr>"

lemma external_call_observed_once_witness:
  "\<exists>ms w'. observe_external_call demo_env (lit ''p'') (lit ''o'') (raiseS CancelledError :: (_, unit) stateful)
        (7, []) = (Inl CancelledError, w')
     \<and> snd w' = [M_EXTERNAL \<lparr>em_provider = lit ''p'', em_operation = lit ''o'',
                   em_outcome = lit ''cancelled'', em_duration_ms = ms\<rparr>]"
proof -
  have law: "telemetry_law demo_env fst snd" by (auto simp: telemetry_law_def demo_env_def)
  have b: "\<not> blank (lit ''p'')" "\<not> blank (lit ''o'')" by code_simp+
  show ?thesis
    using external_call_observed_once [OF law _ b, of "raiseS CancelledError :: (_, unit) stateful" "(7, [])"]
    by (fastforce simp: outcome_of_def)
qed

text \<open>The same for worker tasks.\<close>

lemma worker_task_observed_once:
  assumes "telemetry_law env now journal" and "\<And>v. now v \<le> now (snd (body v))"
    and "\<not> blank task_name" and "\<not> blank queue_name" and "0 \<le> retry_count"
  shows "\<exists>v ms w'. observe_worker_task env task_name queue_name retry_count body w = (fst (body v), w')
    \<and> journal v = journal w
    \<and> journal w' = journal (snd (body v))
        @ [M_WORKER \<lparr>wm_task_name = task_name, wm_queue_name = queue_name,
             wm_outcome = outcome_of (fst (body v)), wm_duration_ms = ms, wm_retry_count = retry_count\<rparr>]
    \<and> \<not> fl_lt ms (Fin 0)"
  unfolding observe_worker_task_def
  by (rule observed_run [OF assms(1,2)])
    (use assms(3-) outcome_supported in \<open>simp add: mk_worker_task_measurement_def py_bind require_non_empty_def
      validate_outcome_def require_non_negative_float_def require_non_negative_def\<close>)

text \<open>A blank label, though, turns a successful call into an error, and nothing is recorded.\<close>

lemma blank_provider_masks_result:
  assumes "blank provider" and "te_clock env w = (t0, w0)" and "body w0 = (r, w1)" and "te_clock env w1 = (t1, w2)"
  shows "observe_external_call env provider operation body w = (Inl (ValueError ''must not be empty''), w2)"
  using assms by (simp add: observe_external_call_def observed_def Let_def bindS_apply
      mk_external_call_measurement_def require_non_empty_def)

section \<open>Configuration\<close>

record metrics_provider =
  mp_endpoint :: pystr
  mp_export_interval_millis :: int
  mp_service_name :: pystr
  mp_environment :: pystr

text \<open>\<open>int(x)\<close> on a float.\<close>

fun float_to_int :: "pyfloat \<Rightarrow> exn + int" where
  "float_to_int (Fin q) = Inr (if q < 0 then \<lceil>q\<rceil> else \<lfloor>q\<rfloor>)"
| "float_to_int NaN = Inl (ValueError ''cannot convert float NaN to integer'')"
| "float_to_int _ = Inl OverflowError"

fun millis :: "pyfloat \<Rightarrow> pyfloat" where
  "millis (Fin q) = fl_of_rat (q * 1000)"
| "millis x = x"

definition rstrip_slash :: "pystr \<Rightarrow> pystr" where
  "rstrip_slash s = rev (dropWhile (\<lambda>c. c = 47) (rev s))"

definition configure_metrics ::
  "metrics_settings \<Rightarrow> pystr \<Rightarrow> (sink, metrics_provider option) stateful" where
  "configure_metrics s deployment active =
     (if \<not> mt_enabled s then (Inr None, Null_Sink)
      else case mt_otlp_endpoint s of
        None \<Rightarrow> (Inl (ValueError ''Metrics OTLP endpoint is required when metrics are enabled''), active)
      | Some e \<Rightarrow>
          (case float_to_int (millis (mt_export_interval_seconds s)) of
             Inl x \<Rightarrow> (Inl x, active)
           | Inr interval \<Rightarrow>
               (Inr (Some \<lparr>mp_endpoint = rstrip_slash e @ lit ''/v1/metrics'',
                           mp_export_interval_millis = interval, mp_service_name = mt_service_name s,
                           mp_environment = deployment\<rparr>), Meter_Sink [])))"

definition shutdown_metrics ::
  "(metrics_provider \<Rightarrow> exn + unit) \<Rightarrow> metrics_provider option \<Rightarrow> (sink, unit) stateful" where
  "shutdown_metrics shutdown provider active =
     ((case provider of None \<Rightarrow> Inr () | Some p \<Rightarrow> shutdown p), Null_Sink)"

text \<open>An infinite interval is accepted by the settings, but the process then fails to start.\<close>

definition infinite_interval_source :: source where
  "infinite_interval_source = demo_source\<lparr>
     src_float := (\<lambda>a. if a = ''METRICS_EXPORT_INTERVAL_SECONDS'' then Some (Inr PInf) else None),
     src_bool := (\<lambda>a. if a = ''METRICS_ENABLED'' then Some (Inr True) else src_bool demo_source a),
     src_str := (\<lambda>a. if a = ''TRACING_OTLP_ENDPOINT'' then Some (Inr (lit ''http://otel'')) else src_str demo_source a)\<rparr>"

lemma infinite_interval_accepted:
  "\<not> isl (load_settings demo_url_lib infinite_interval_source)"
  by code_simp

lemma infinite_interval_fails_startup:
  assumes "mt_enabled s" and "mt_otlp_endpoint s \<noteq> None" and "mt_export_interval_seconds s = PInf"
  shows "configure_metrics s deployment active = (Inl OverflowError, active)"
  using assms by (auto simp: configure_metrics_def)

end
