(* ===== verification/Tracing.thy ===== *)
theory Tracing
  imports ConfigModels
begin

text \<open>
  Correlation of requests (\<open>platform/telemetry/tracing.py\<close>): the hexadecimal identifiers, the context
  variable that a request binds and restores, the span of a request, the provider's configuration.
  OpenTelemetry (extraction of the parent, the span's context manager) and \<open>secrets.token_hex\<close> are
  parameters; \<open>tracing_law\<close> states what they document.
\<close>

section \<open>Hexadecimal identifiers\<close>

definition hex_digit :: "nat \<Rightarrow> nat" where
  "hex_digit d = (if d < 10 then 48 + d else 87 + d)"

fun hex_of :: "nat \<Rightarrow> pystr" where
  "hex_of n = (if n < 16 then [hex_digit n] else hex_of (n div 16) @ [hex_digit (n mod 16)])"

declare hex_of.simps [simp del]

text \<open>\<open>f"{value:0{width}x}"\<close> of a number that is not negative\<close>

definition format_hex :: "nat \<Rightarrow> nat \<Rightarrow> pystr" where
  "format_hex width value = replicate (width - length (hex_of value)) 48 @ hex_of value"

definition TRACE_ID_HEX_LENGTH :: nat where "TRACE_ID_HEX_LENGTH = 32"
definition SPAN_ID_HEX_LENGTH :: nat where "SPAN_ID_HEX_LENGTH = 16"

definition hex_trace_id :: "nat \<Rightarrow> pystr" where
  "hex_trace_id value = format_hex TRACE_ID_HEX_LENGTH value"

definition hex_span_id :: "nat \<Rightarrow> pystr" where
  "hex_span_id value = format_hex SPAN_ID_HEX_LENGTH value"

text \<open>The reader of such an identifier, \<open>int(text, 16)\<close> on lower-case digits.\<close>

definition hex_value :: "pystr \<Rightarrow> nat" where
  "hex_value t = foldl (\<lambda>n c. 16 * n + (if c < 58 then c - 48 else c - 87)) 0 t"

definition is_lower_hex :: "nat \<Rightarrow> bool" where
  "is_lower_hex c \<longleftrightarrow> 48 \<le> c \<and> c \<le> 57 \<or> 97 \<le> c \<and> c \<le> 102"

definition hex_id :: "nat \<Rightarrow> pystr \<Rightarrow> bool" where
  "hex_id n t \<longleftrightarrow> length t = n \<and> list_all is_lower_hex t"

lemma hex_digit_lower: "d < 16 \<Longrightarrow> is_lower_hex (hex_digit d)"
  by (auto simp: is_lower_hex_def hex_digit_def)

lemma hex_digit_value: "d < 16 \<Longrightarrow> (if hex_digit d < 58 then hex_digit d - 48 else hex_digit d - 87) = d"
  by (auto simp: hex_digit_def)

lemma hex_of_digits: "list_all is_lower_hex (hex_of n)"
proof (induction n rule: hex_of.induct)
  case (1 n)
  then show ?case
    by (subst hex_of.simps) (simp add: hex_digit_lower)
qed

lemma hex_of_length: "0 < k \<Longrightarrow> n < 16 ^ k \<Longrightarrow> length (hex_of n) \<le> k"
proof (induction n arbitrary: k rule: hex_of.induct)
  case (1 n)
  show ?case
  proof (cases "n < 16")
    case False
    then have "1 < k" using "1.prems" by (cases "k = 1") auto
    then obtain j where j: "k = Suc j" "0 < j" by (cases k) auto
    have "n div 16 < 16 ^ j" using "1.prems"(2) j(1) by (simp add: less_mult_imp_div_less mult.commute)
    then show ?thesis using "1.IH" [OF False j(2)] False j(1) by (subst hex_of.simps) simp
  qed (use 1 in \<open>subst hex_of.simps, simp\<close>)
qed

lemma hex_value_zeros: "hex_value (replicate k 48 @ t) = hex_value t"
  by (induction k) (simp_all add: hex_value_def)

lemma hex_value_of: "hex_value (hex_of n) = n"
proof (induction n rule: hex_of.induct)
  case (1 n)
  show ?case
    by (subst hex_of.simps) (use 1 in \<open>auto simp: hex_value_def hex_digit_value [simplified]\<close>)
qed

lemma format_hex_value [simp]: "hex_value (format_hex w n) = n"
  by (simp add: format_hex_def hex_value_zeros hex_value_of)

lemma format_hex_id: "0 < w \<Longrightarrow> n < 16 ^ w \<Longrightarrow> hex_id w (format_hex w n)"
  using hex_of_length [of w n] hex_of_digits [of n]
  by (auto simp: hex_id_def format_hex_def list_all_iff is_lower_hex_def)

text \<open>Distinct numbers have distinct identifiers.\<close>

lemma hex_ids_injective:
  "hex_trace_id a = hex_trace_id b \<Longrightarrow> a = b" "hex_span_id a = hex_span_id b \<Longrightarrow> a = b"
  unfolding hex_trace_id_def hex_span_id_def by (metis format_hex_value)+

section \<open>The correlation context\<close>

record correlation_context =
  co_request_id :: pystr
  co_trace_id :: pystr
  co_span_id :: pystr

text \<open>The state of one execution context: the context variable and the world.\<close>

record 'w context_state =
  cs_correlation :: "correlation_context option"
  cs_world :: 'w

definition current_correlation_context :: "('w context_state, correlation_context option) stateful" where
  "current_correlation_context s = (Inr (cs_correlation s), s)"

definition bind_correlation_context ::
  "correlation_context \<Rightarrow> ('w context_state, 'a) stateful \<Rightarrow> ('w context_state, 'a) stateful" where
  "bind_correlation_context c body s =
     (let (r, s') = body (s\<lparr>cs_correlation := Some c\<rparr>)
      in (r, s'\<lparr>cs_correlation := cs_correlation s\<rparr>))"

lemma bind_restores: "bind_correlation_context c body s = (r, s') \<Longrightarrow> cs_correlation s' = cs_correlation s"
  by (auto simp: bind_correlation_context_def split: prod.splits)

section \<open>The span of a request\<close>

record span_context =
  sc_trace_id :: nat
  sc_span_id :: nat
  sc_is_valid :: bool

text \<open>
  \<open>te_parent headers\<close> is the context of the sp that \<open>extract\<close> finds in the W3C headers, and
  \<open>te_start headers\<close> the context manager \<open>start_as_current_span\<close> below it, with a body.
\<close>

record ('w, 'a) tracing_env =
  te_parent :: "(pystr \<times> pystr) list \<Rightarrow> span_context"
  te_start :: "(pystr \<times> pystr) list \<Rightarrow> (span_context \<Rightarrow> ('w context_state, 'a) stateful) \<Rightarrow> ('w context_state, 'a) stateful"
  te_token_hex :: "nat \<Rightarrow> ('w context_state, pystr) stateful"

definition correlation_of ::
  "('w, 'a) tracing_env \<Rightarrow> pystr \<Rightarrow> (pystr \<times> pystr) list \<Rightarrow> span_context \<Rightarrow> ('w context_state, correlation_context) stateful" where
  "correlation_of T request_id headers sp =
     (let parent_span = te_parent T headers
      in bindS (if sc_is_valid sp then retS (hex_trace_id (sc_trace_id sp))
                else if sc_is_valid parent_span then retS (hex_trace_id (sc_trace_id parent_span))
                else te_token_hex T (TRACE_ID_HEX_LENGTH div 2)) (\<lambda>trace_id.
         bindS (if sc_is_valid sp then retS (hex_span_id (sc_span_id sp))
                else te_token_hex T (SPAN_ID_HEX_LENGTH div 2)) (\<lambda>span_id.
         retS \<lparr>co_request_id = request_id, co_trace_id = trace_id, co_span_id = span_id\<rparr>)))"

definition request_span ::
  "('w, 'a) tracing_env \<Rightarrow> pystr \<Rightarrow> (pystr \<times> pystr) list \<Rightarrow> (correlation_context \<Rightarrow> ('w context_state, 'a) stateful)
   \<Rightarrow> ('w context_state, 'a) stateful" where
  "request_span T request_id headers body =
     te_start T headers (\<lambda>sp.
       bindS (correlation_of T request_id headers sp) (\<lambda>c.
         bind_correlation_context c (body c)))"

text \<open>
  Documented behaviour: trace ids have 128 bits and span ids 64; a span's manager runs its body once,
  from a state and to a state with the same context variable, passing its outcome on;
  \<open>token_hex n\<close> returns \<open>2 n\<close> digits.
\<close>

definition span_ok :: "span_context \<Rightarrow> bool" where
  "span_ok c \<longleftrightarrow> sc_trace_id c < 2 ^ 128 \<and> sc_span_id c < 2 ^ 64"

definition tracing_law :: "('w, 'a) tracing_env \<Rightarrow> bool" where
  "tracing_law T \<longleftrightarrow>
     (\<forall>headers. span_ok (te_parent T headers))
     \<and> (\<forall>headers body s. \<exists>sp w w'. span_ok sp
          \<and> (let (r, s1) = body sp (s\<lparr>cs_world := w\<rparr>)
             in te_start T headers body s = (r, s1\<lparr>cs_world := w' s1\<rparr>)))
     \<and> (\<forall>n s. \<exists>t w. te_token_hex T n s = (Inr t, s\<lparr>cs_world := w\<rparr>) \<and> hex_id (2 * n) t)"

lemma tracing_law_start:
  assumes "tracing_law T"
  obtains sp w w' where "span_ok sp"
    "te_start T headers body s = (fst (body sp (s\<lparr>cs_world := w\<rparr>)),
       (snd (body sp (s\<lparr>cs_world := w\<rparr>)))\<lparr>cs_world := w' (snd (body sp (s\<lparr>cs_world := w\<rparr>)))\<rparr>)"
proof -
  have "\<exists>sp w w'. span_ok sp \<and> (let (r, s1) = body sp (s\<lparr>cs_world := w\<rparr>)
      in te_start T headers body s = (r, s1\<lparr>cs_world := w' s1\<rparr>))"
    using assms unfolding tracing_law_def by blast
  then show thesis using that by (auto simp: case_prod_beta)
qed

lemma tracing_law_token:
  assumes "tracing_law T"
  obtains t w where "te_token_hex T n s = (Inr t, s\<lparr>cs_world := w\<rparr>)" "hex_id (2 * n) t"
  using assms unfolding tracing_law_def by blast

lemma span_ids: "span_ok c \<Longrightarrow> hex_id 32 (hex_trace_id (sc_trace_id c))"
  "span_ok c \<Longrightarrow> hex_id 16 (hex_span_id (sc_span_id c))"
  by (simp_all add: span_ok_def hex_trace_id_def hex_span_id_def TRACE_ID_HEX_LENGTH_def
      SPAN_ID_HEX_LENGTH_def format_hex_id)

lemma correlation_of_run:
  assumes law: "tracing_law T" and "span_ok sp"
  obtains c w where "correlation_of T request_id headers sp s = (Inr c, s\<lparr>cs_world := w\<rparr>)"
    "co_request_id c = request_id" "hex_id 32 (co_trace_id c)" "hex_id 16 (co_span_id c)"
    "sc_is_valid sp \<Longrightarrow> co_trace_id c = hex_trace_id (sc_trace_id sp) \<and> co_span_id c = hex_span_id (sc_span_id sp)"
    "\<not> sc_is_valid sp \<Longrightarrow> sc_is_valid (te_parent T headers) \<Longrightarrow>
       co_trace_id c = hex_trace_id (sc_trace_id (te_parent T headers))"
proof (cases "sc_is_valid sp")
  case True
  then show ?thesis
    using that [of "\<lparr>co_request_id = request_id, co_trace_id = hex_trace_id (sc_trace_id sp),
        co_span_id = hex_span_id (sc_span_id sp)\<rparr>" "cs_world s"] assms(2)
    by (simp add: correlation_of_def bindS_apply retS_def span_ids)
next
  case False
  have p: "span_ok (te_parent T headers)" using law by (simp add: tracing_law_def)
  obtain t w where t: "te_token_hex T 16 s = (Inr t, s\<lparr>cs_world := w\<rparr>)" "hex_id 32 t"
    using tracing_law_token [OF law, of 16 s] by auto
  show ?thesis
  proof (cases "sc_is_valid (te_parent T headers)")
    case True
    obtain u v where "te_token_hex T 8 s = (Inr u, s\<lparr>cs_world := v\<rparr>)" "hex_id 16 u"
      using tracing_law_token [OF law, of 8 s] by auto
    then show ?thesis
      using that [of "\<lparr>co_request_id = request_id, co_trace_id = hex_trace_id (sc_trace_id (te_parent T headers)),
          co_span_id = u\<rparr>" v] False True p
      by (simp add: correlation_of_def bindS_apply retS_def span_ids SPAN_ID_HEX_LENGTH_def)
  next
    case no: False
    obtain u v where "te_token_hex T 8 (s\<lparr>cs_world := w\<rparr>) = (Inr u, s\<lparr>cs_world := w\<rparr>\<lparr>cs_world := v\<rparr>)" "hex_id 16 u"
      using tracing_law_token [OF law, of 8 "s\<lparr>cs_world := w\<rparr>"] by auto
    then show ?thesis
      using that [of "\<lparr>co_request_id = request_id, co_trace_id = t, co_span_id = u\<rparr>" v] False no t
      by (simp add: correlation_of_def bindS_apply retS_def SPAN_ID_HEX_LENGTH_def TRACE_ID_HEX_LENGTH_def)
  qed
qed

text \<open>The span of a request: whatever the body does, it runs once, with a correlation context bound that
  carries the request id, a trace id of 32 and a span id of 16 lower-case hexadecimal digits; its outcome,
  result or exception, is the outcome of the whole; and afterwards the context that was bound before is
  bound again.\<close>

lemma request_span_correlates:
  assumes "tracing_law T" and "request_span T request_id headers body s = (r, s')"
  shows "cs_correlation s' = cs_correlation s
    \<and> (\<exists>c w. co_request_id c = request_id \<and> hex_id 32 (co_trace_id c) \<and> hex_id 16 (co_span_id c)
          \<and> r = fst (body c (s\<lparr>cs_world := w, cs_correlation := Some c\<rparr>)))"
proof -
  let ?b = "\<lambda>sp. bindS (correlation_of T request_id headers sp) (\<lambda>c. bind_correlation_context c (body c))"
  obtain sp w w' where ok: "span_ok sp" and run: "te_start T headers ?b s =
      (fst (?b sp (s\<lparr>cs_world := w\<rparr>)), (snd (?b sp (s\<lparr>cs_world := w\<rparr>)))\<lparr>cs_world := w' (snd (?b sp (s\<lparr>cs_world := w\<rparr>)))\<rparr>)"
    by (rule tracing_law_start [OF assms(1)])
  obtain c v where c: "correlation_of T request_id headers sp (s\<lparr>cs_world := w\<rparr>)
      = (Inr c, s\<lparr>cs_world := w\<rparr>\<lparr>cs_world := v\<rparr>)"
    "co_request_id c = request_id" "hex_id 32 (co_trace_id c)" "hex_id 16 (co_span_id c)"
    by (rule correlation_of_run [OF assms(1) ok])
  have b: "?b sp (s\<lparr>cs_world := w\<rparr>) = bind_correlation_context c (body c) (s\<lparr>cs_world := v\<rparr>)"
    using c(1) by (simp add: bindS_apply)
  obtain r1 s1 where r1: "body c (s\<lparr>cs_world := v, cs_correlation := Some c\<rparr>) = (r1, s1)" by force
  then have "bind_correlation_context c (body c) (s\<lparr>cs_world := v\<rparr>) = (r1, s1\<lparr>cs_correlation := cs_correlation s\<rparr>)"
    by (simp add: bind_correlation_context_def)
  then have "r = r1 \<and> cs_correlation s' = cs_correlation s"
    using run b assms(2) by (auto simp: request_span_def)
  moreover have "r1 = fst (body c (s\<lparr>cs_world := v, cs_correlation := Some c\<rparr>))" using r1 by simp
  ultimately show ?thesis using c by blast
qed

definition demo_tracing :: "(nat, 'a) tracing_env" where
  "demo_tracing =
     \<lparr>te_parent = (\<lambda>h. \<lparr>sc_trace_id = 0, sc_span_id = 0, sc_is_valid = False\<rparr>),
      te_start = (\<lambda>h body. body \<lparr>sc_trace_id = 255, sc_span_id = 1, sc_is_valid = True\<rparr>),
      te_token_hex = (\<lambda>n s. (Inr (replicate (2 * n) 48), s\<lparr>cs_world := Suc (cs_world s)\<rparr>))\<rparr>"

lemma demo_tracing_law: "tracing_law (demo_tracing :: (nat, 'a) tracing_env)"
proof -
  let ?sp = "\<lparr>sc_trace_id = 255, sc_span_id = 1, sc_is_valid = True\<rparr>"
  have "\<exists>sp w w'. span_ok sp \<and> (let (r, s1) = body sp (s\<lparr>cs_world := w\<rparr>)
      in te_start demo_tracing headers body s = (r, s1\<lparr>cs_world := w' s1\<rparr>))"
    for headers and body :: "span_context \<Rightarrow> (nat context_state, 'a) stateful" and s
    by (rule exI [of _ ?sp], rule exI [of _ "cs_world s"], rule exI [of _ cs_world])
      (simp add: demo_tracing_def span_ok_def case_prod_beta)
  moreover have "\<exists>t w. te_token_hex (demo_tracing :: (nat, 'a) tracing_env) n s = (Inr t, s\<lparr>cs_world := w\<rparr>) \<and> hex_id (2 * n) t" for n s
    by (auto simp: demo_tracing_def hex_id_def list_all_iff is_lower_hex_def)
  ultimately show ?thesis
    by (simp add: tracing_law_def) (simp add: demo_tracing_def span_ok_def)
qed

lemma request_span_correlates_witness:
  "fst (request_span demo_tracing (lit ''r1'') [] (\<lambda>c. retS (co_trace_id c)) \<lparr>cs_correlation = None, cs_world = 0\<rparr>)
     = Inr (replicate 30 48 @ lit ''ff'')
   \<and> cs_correlation (snd (request_span demo_tracing (lit ''r1'') [] (\<lambda>c. raiseS (ValueError ''x'') :: (nat context_state, unit) stateful)
       \<lparr>cs_correlation = None, cs_world = 0\<rparr>)) = None"
proof -
  let ?s = "\<lparr>cs_correlation = None, cs_world = 0::nat\<rparr>"
  obtain r s' where run: "request_span demo_tracing (lit ''r1'') [] (\<lambda>c. raiseS (ValueError ''x'') :: (nat context_state, unit) stateful) ?s = (r, s')"
    by force
  have "cs_correlation s' = None"
    using request_span_correlates [OF demo_tracing_law run] by simp
  moreover have "fst (request_span demo_tracing (lit ''r1'') [] (\<lambda>c. retS (co_trace_id c)) ?s)
      = Inr (replicate 30 48 @ lit ''ff'')"
    by code_simp
  ultimately show ?thesis using run by simp
qed

text \<open>The trace of the caller is continued when the process has no valid span of its own (tracing off).\<close>

lemma parent_trace_continued:
  assumes "tracing_law T" and "sc_is_valid (te_parent T headers)"
    and "span_ok sp" and "\<not> sc_is_valid sp"
    and "correlation_of T request_id headers sp s = (Inr c, s')"
  shows "co_trace_id c = hex_trace_id (sc_trace_id (te_parent T headers))"
  using correlation_of_run [OF assms(1,3), of request_id headers s] assms(2,4,5) by (metis Pair_inject sum.inject(2))

section \<open>The provider\<close>

definition signal_endpoint :: "pystr \<Rightarrow> pystr \<Rightarrow> pystr" where
  "signal_endpoint base_endpoint signal_path = rev (dropWhile (\<lambda>c. c = 47) (rev base_endpoint)) @ signal_path"

record tracer_provider =
  tp_service_name :: pystr
  tp_environment :: pystr
  tp_endpoint :: pystr

definition configure_tracing :: "tracing_settings \<Rightarrow> pystr \<Rightarrow> exn + tracer_provider option" where
  "configure_tracing s deployment =
     (if \<not> ts_enabled s then Inr None
      else case ts_otlp_endpoint s of
        None \<Rightarrow> Inl (ValueError ''Tracing OTLP endpoint is required when tracing is enabled'')
      | Some e \<Rightarrow> Inr (Some \<lparr>tp_service_name = ts_service_name s, tp_environment = deployment,
                             tp_endpoint = signal_endpoint e (lit ''/v1/traces'')\<rparr>))"

definition shutdown_tracing :: "(tracer_provider \<Rightarrow> ('w, unit) stateful) \<Rightarrow> tracer_provider option \<Rightarrow> ('w, unit) stateful" where
  "shutdown_tracing shutdown provider = (case provider of None \<Rightarrow> retS () | Some p \<Rightarrow> shutdown p)"

lemma signal_endpoint_slashes:
  "signal_endpoint (b @ replicate n 47) p = signal_endpoint b p"
proof -
  have "dropWhile (\<lambda>c. c = 47) (replicate n 47 @ xs) = dropWhile (\<lambda>c. c = 47) xs" for xs :: pystr
    by (induction n) simp_all
  then show ?thesis by (simp add: signal_endpoint_def)
qed

lemma tracing_starts_iff:
  "isl (configure_tracing s d) \<longleftrightarrow> ts_enabled s \<and> ts_otlp_endpoint s = None"
  by (auto simp: configure_tracing_def split: option.splits)

end
