(* ===== verification/Logging.thy ===== *)
theory Logging
  imports Redaction Tracing
begin

text \<open>
  Logging (\<open>platform/telemetry/logging.py\<close>): the filters and formatters and the two streams, with the
  correlation context of a request (\<open>Tracing\<close>); the string-only redaction of
  \<open>platform/config/secrets.py\<close> and the facade \<open>platform/security/redaction.py\<close>.  Of the standard
  library's \<open>logging\<close> the model has what decides where a record goes: level, propagation, filters.
  The rendering of a message with its arguments and of a traceback is a parameter.
\<close>

section \<open>Records and filters\<close>

datatype log_message = Msg_Text pystr | Msg_Mapping "(pystr \<times> redactable) list" | Msg_Other pystr

datatype log_value =
    Log_Text pystr | Log_Int int | Log_Float pyfloat | Log_Bool bool | Log_None | Log_Other pystr

text \<open>An attribute of the record that is not set is \<open>None\<close> in the map; \<open>Log_None\<close> is the value \<open>None\<close>.\<close>

record log_record =
  lr_name :: pystr
  lr_level :: pystr
  lr_message :: log_message
  lr_attributes :: "string \<Rightarrow> log_value option"
  lr_exception :: "pystr option"

definition AUDIT_LOGGER_NAME :: pystr where "AUDIT_LOGGER_NAME = lit ''bid_system.audit''"
definition RUNTIME_LOGGER_NAME :: pystr where "RUNTIME_LOGGER_NAME = lit ''bid_system.runtime''"

definition LOG_FIELDS :: "string list" where
  "LOG_FIELDS =
     [''event_name'', ''request_id'', ''trace_id'', ''span_id'', ''tenant_id'', ''user_id'', ''task_id'',
      ''task_name'', ''run_id'', ''tool_name'', ''attempt'', ''retry_delay_seconds'', ''model_name'',
      ''model_version'', ''prompt_name'', ''prompt_version'', ''skill_versions'', ''method'', ''route'',
      ''path'', ''client_ip'', ''status_code'', ''duration_ms'', ''outcome'', ''error_type'', ''provider'',
      ''operation'', ''queue_name'', ''action'', ''actor_id'', ''target_type'', ''target_id'']"

text \<open>\<open>if not hasattr(record, name): record.name = value\<close>\<close>

definition set_missing :: "string \<Rightarrow> pystr \<Rightarrow> log_record \<Rightarrow> log_record" where
  "set_missing name v r =
     (if lr_attributes r name = None then r\<lparr>lr_attributes := (lr_attributes r)(name \<mapsto> Log_Text v)\<rparr> else r)"

definition sensitive_data_filter :: "correlation_context option \<Rightarrow> log_record \<Rightarrow> bool \<times> log_record" where
  "sensitive_data_filter correlation r =
     (let r1 = (case correlation of None \<Rightarrow> r
                | Some c \<Rightarrow> set_missing ''span_id'' (co_span_id c)
                             (set_missing ''trace_id'' (co_trace_id c)
                             (set_missing ''request_id'' (co_request_id c) r)))
      in (True, r1\<lparr>lr_message := (case lr_message r1 of
             Msg_Mapping kvs \<Rightarrow> Msg_Mapping (redact_mapping kvs)
           | Msg_Text t \<Rightarrow> Msg_Text (redact_text t)
           | Msg_Other t \<Rightarrow> Msg_Other t)\<rparr>))"

definition exclude_audit_filter :: "log_record \<Rightarrow> bool" where
  "exclude_audit_filter r = (\<not> startswith (lr_name r) AUDIT_LOGGER_NAME)"

section \<open>Formatters\<close>

text \<open>
  The payload of \<open>JsonFormatter\<close>, a dict in insertion order.  \<open>render\<close> is \<open>record.getMessage()\<close>,
  \<open>now\<close> the time stamp; dumping the dict is the \<open>json\<close> module's work.
\<close>

definition log_field :: "log_record \<Rightarrow> string \<Rightarrow> (string \<times> log_value) list" where
  "log_field r name =
     (case lr_attributes r name of
        Some (Log_Text t) \<Rightarrow> [(name, Log_Text (redact_text t))]
      | Some (Log_Other t) \<Rightarrow> []
      | Some v \<Rightarrow> [(name, v)]
      | None \<Rightarrow> [(name, Log_None)])"

definition json_payload ::
  "(log_record \<Rightarrow> pystr) \<Rightarrow> pystr \<Rightarrow> pystr \<Rightarrow> pystr \<Rightarrow> log_record \<Rightarrow> (string \<times> log_value) list" where
  "json_payload render now service_name environment_name r =
     [(''timestamp'', Log_Text now), (''severity'', Log_Text (lr_level r)),
      (''service_name'', Log_Text service_name), (''environment'', Log_Text environment_name),
      (''logger'', Log_Text (lr_name r)), (''message'', Log_Text (redact_text (render r))),
      (''log_type'', Log_Text (if startswith (lr_name r) AUDIT_LOGGER_NAME then lit ''audit'' else lit ''runtime''))]
     @ concat (map (log_field r) LOG_FIELDS)
     @ (case lr_exception r of None \<Rightarrow> [] | Some t \<Rightarrow> [(''exception'', Log_Text (redact_text t))])"

text \<open>The developer's text format: everything that the base formatter renders is redacted.\<close>

definition redacting_text_format :: "(log_record \<Rightarrow> pystr) \<Rightarrow> log_record \<Rightarrow> pystr" where
  "redacting_text_format base_format r = redact_text (base_format r)"

definition envelope_keys :: "string list" where
  "envelope_keys = [''timestamp'', ''severity'', ''service_name'', ''environment'', ''logger'', ''log_type'']"

lemma redact_text_clean: "\<not> has_sensitive_key (redact_text t)"
  by (simp add: redact_text_def redact_keys_clean)

lemma log_field_entries: "(k, v) \<in> set (log_field r name) \<Longrightarrow>
    k = name \<and> (\<forall>t. v \<noteq> Log_Other t) \<and> (\<forall>t. v = Log_Text t \<longrightarrow> \<not> has_sensitive_key t)"
  by (auto simp: log_field_def redact_text_clean split: option.splits log_value.splits)

definition entry_clean :: "string \<times> log_value \<Rightarrow> bool" where
  "entry_clean e \<longleftrightarrow>
     (case e of (k, v) \<Rightarrow> k \<in> set envelope_keys \<and> (\<exists>t. v = Log_Text t)
        \<or> (k = ''message'' \<or> k = ''exception'' \<or> k \<in> set LOG_FIELDS)
          \<and> (\<forall>t. v \<noteq> Log_Other t) \<and> (\<forall>t. v = Log_Text t \<longrightarrow> \<not> has_sensitive_key t))"

lemma entry_clean_envelope: "k \<in> set envelope_keys \<Longrightarrow> entry_clean (k, Log_Text t)"
  by (simp add: entry_clean_def)

lemma entry_clean_text: "k = ''message'' \<or> k = ''exception'' \<Longrightarrow> entry_clean (k, Log_Text (redact_text t))"
  by (auto simp: entry_clean_def redact_text_clean)

lemma entry_clean_field: "name \<in> set LOG_FIELDS \<Longrightarrow> e \<in> set (log_field r name) \<Longrightarrow> entry_clean e"
  using log_field_entries [of "fst e" "snd e" r name] by (cases e) (simp add: entry_clean_def)

lemma payload_clean: "list_all entry_clean (json_payload render now service environment_name r)"
  unfolding json_payload_def list_all_append list.pred_inject
  by (auto simp: envelope_keys_def list_all_iff intro: entry_clean_envelope entry_clean_text entry_clean_field
      split: option.splits)

text \<open>A log line in either format carries no credential key outside its envelope: every entry of the JSON
  payload belongs to the fixed set of keys, is a scalar, and its text, if it is one, contains none of
  the sensitive keys; likewise the whole text line.\<close>

theorem log_output_redacted:
  "list_all entry_clean (json_payload render now service environment_name r)
   \<and> \<not> has_sensitive_key (redacting_text_format base_format r)"
  using payload_clean by (simp add: redacting_text_format_def redact_text_clean)

definition demo_record :: log_record where
  "demo_record =
     \<lparr>lr_name = lit ''bid_system.api'', lr_level = lit ''INFO'', lr_message = Msg_Text (lit ''token=abc''),
      lr_attributes = [''user_id'' \<mapsto> Log_Text (lit ''u1''), ''attempt'' \<mapsto> Log_Int 2], lr_exception = None\<rparr>"

lemma log_output_redacted_witness:
  "(''message'', Log_Text (lit ''***''))
     \<in> set (json_payload (\<lambda>r. lit ''token=abc'') (lit ''now'') (lit ''s'') (lit ''test'') demo_record)
   \<and> (''attempt'', Log_Int 2)
     \<in> set (json_payload (\<lambda>r. lit ''token=abc'') (lit ''now'') (lit ''s'') (lit ''test'') demo_record)
   \<and> \<not> has_sensitive_key (redacting_text_format (\<lambda>r. lit ''cookie: a'') demo_record)"
proof -
  let ?p = "json_payload (\<lambda>r. lit ''token=abc'') (lit ''now'') (lit ''s'') (lit ''test'') demo_record"
  have "(''message'', Log_Text (lit ''***'')) \<in> set ?p" "(''attempt'', Log_Int 2) \<in> set ?p"
    by code_simp+
  then show ?thesis using log_output_redacted by blast
qed

section \<open>Correlated lines\<close>

text \<open>A line written in the current execution context.\<close>

definition log_line ::
  "(log_record \<Rightarrow> pystr) \<Rightarrow> pystr \<Rightarrow> pystr \<Rightarrow> pystr \<Rightarrow> log_record
   \<Rightarrow> ('w context_state, (string \<times> log_value) list) stateful" where
  "log_line render now service_name environment_name r =
     bindS current_correlation_context (\<lambda>correlation.
       retS (json_payload render now service_name environment_name (snd (sensitive_data_filter correlation r))))"

lemma set_missing_other [simp]:
  "lr_attributes (set_missing n v r) m = (if m = n \<and> lr_attributes r n = None then Some (Log_Text v) else lr_attributes r m)"
  by (auto simp: set_missing_def)

lemma payload_request_id:
  assumes "lr_attributes r ''request_id'' = Some (Log_Text t)"
  shows "map_of (json_payload render now service environment_name r) ''request_id'' = Some (Log_Text (redact_text t))"
proof -
  have "map_of (log_field r ''event_name'') ''request_id'' = None"
    by (auto simp: log_field_def split: option.splits log_value.splits)
  moreover have "log_field r ''request_id'' = [(''request_id'', Log_Text (redact_text t))]"
    using assms by (simp add: log_field_def)
  ultimately show ?thesis
    by (simp add: json_payload_def LOG_FIELDS_def map_add_def)
qed



section \<open>Streams\<close>

datatype log_channel = Channel_RUNTIME | Channel_AUDIT

datatype stream = STDERR | STDOUT

definition logger_name :: "log_channel \<Rightarrow> pystr \<Rightarrow> pystr" where
  "logger_name channel component =
     (case channel of Channel_RUNTIME \<Rightarrow> RUNTIME_LOGGER_NAME | Channel_AUDIT \<Rightarrow> AUDIT_LOGGER_NAME)
     @ lit ''.'' @ component"

text \<open>The order of the supported levels.\<close>

fun level_rank :: "pystr list \<Rightarrow> pystr \<Rightarrow> nat" where
  "level_rank [] l = 0"
| "level_rank (x # xs) l = (if x = l then Suc (length xs) else level_rank xs l)"

text \<open>
  Where a record goes after \<open>configure_logging\<close>: the loggers below the audit logger inherit its level
  and its handler and do not propagate; all others end at the root's handler, whose filter drops
  what is named like the audit logger.
\<close>

definition below_audit :: "pystr \<Rightarrow> bool" where
  "below_audit name \<longleftrightarrow> name = AUDIT_LOGGER_NAME \<or> startswith name (AUDIT_LOGGER_NAME @ lit ''.'')"

definition emitted_to :: "logging_settings \<Rightarrow> log_record \<Rightarrow> stream list" where
  "emitted_to s r =
     (if level_rank SUPPORTED_LOG_LEVELS (lr_level r) < level_rank SUPPORTED_LOG_LEVELS (ls_level s) then []
      else if below_audit (lr_name r) then [STDOUT]
      else if exclude_audit_filter r then [STDERR] else [])"

record audit_event =
  ae_event_name :: pystr
  ae_action :: pystr
  ae_actor_id :: "pystr option"
  ae_target_type :: pystr
  ae_target_id :: pystr
  ae_outcome :: pystr

definition emit_audit_event :: "pystr \<Rightarrow> audit_event \<Rightarrow> log_record" where
  "emit_audit_event component e =
     \<lparr>lr_name = logger_name Channel_AUDIT component, lr_level = lit ''INFO'',
      lr_message = Msg_Text (ae_event_name e),
      lr_attributes =
        [''event_name'' \<mapsto> Log_Text (ae_event_name e), ''action'' \<mapsto> Log_Text (ae_action e),
         ''actor_id'' \<mapsto> (case ae_actor_id e of None \<Rightarrow> Log_None | Some a \<Rightarrow> Log_Text a),
         ''target_type'' \<mapsto> Log_Text (ae_target_type e), ''target_id'' \<mapsto> Log_Text (ae_target_id e),
         ''outcome'' \<mapsto> Log_Text (ae_outcome e)],
      lr_exception = None\<rparr>"

lemma channel_names:
  "below_audit (logger_name Channel_AUDIT component)"
  "\<not> below_audit (logger_name Channel_RUNTIME component)"
  "\<not> startswith (logger_name Channel_RUNTIME component) AUDIT_LOGGER_NAME"
  by (simp_all add: below_audit_def logger_name_def AUDIT_LOGGER_NAME_def RUNTIME_LOGGER_NAME_def
      startswith_def lit_def)

text \<open>The channels are separate: a record that is severe enough goes to exactly one stream, that of its
  channel.\<close>

lemma channels_separate:
  assumes "level_rank SUPPORTED_LOG_LEVELS (ls_level s) \<le> level_rank SUPPORTED_LOG_LEVELS (lr_level r)"
  shows "lr_name r = logger_name Channel_AUDIT component \<Longrightarrow> emitted_to s r = [STDOUT]"
    and "lr_name r = logger_name Channel_RUNTIME component \<Longrightarrow> emitted_to s r = [STDERR]"
  using assms channel_names
  by (auto simp: emitted_to_def exclude_audit_filter_def)

text \<open>Audit events are informational records: with a log level above \<open>INFO\<close> the audit stream is empty.\<close>

lemma audit_events_need_info_level:
  "emitted_to \<lparr>ls_level = lit ''WARNING'', ls_json_output = j\<rparr> (emit_audit_event component e) = []"
  by (simp add: emitted_to_def emit_audit_event_def SUPPORTED_LOG_LEVELS_def)

text \<open>A logger named like the audit logger but not below it reaches neither stream.\<close>

lemma audit_lookalike_dropped:
  "lr_name r = lit ''bid_system.auditing'' \<Longrightarrow> emitted_to s r = []"
  by (simp add: emitted_to_def exclude_audit_filter_def below_audit_def AUDIT_LOGGER_NAME_def startswith_def lit_def)

section \<open>The redaction facades\<close>

definition secrets_redact_mapping :: "(pystr \<times> pystr) list \<Rightarrow> (pystr \<times> pystr) list" where
  "secrets_redact_mapping kvs =
     map (\<lambda>(key, item). (key, if has_sensitive_key key then REDACTED else redact_text item)) kvs"

definition redact_response :: "(pystr \<times> redactable) list \<Rightarrow> (pystr \<times> redactable) list" where
  "redact_response kvs = redact_mapping kvs"

text \<open>The string-only contract is the general one on texts.\<close>

lemma secrets_redact_mapping_agrees:
  "map (\<lambda>(k, v). (k, RText v)) (secrets_redact_mapping kvs) = redact_response (map (\<lambda>(k, v). (k, RText v)) kvs)"
  by (auto simp: secrets_redact_mapping_def redact_response_def redact_mapping_def)

end
