(* ===== verification/AccessLog.thy ===== *)
theory AccessLog
  imports HttpBoundary Metrics Logging
begin

text \<open>
  The completion log of a request (\<open>entrypoints/api/middleware/access_log.py\<close>) over the ASGI trees of
  \<open>HttpBoundary\<close>: what it passes on, the line and the measurement it makes in its \<open>finally\<close> block.  The
  two readings of the clock give the duration, a parameter.
\<close>

record http_request_context =
  hx_request_id :: pystr
  hx_trace_id :: pystr
  hx_user_id :: "pystr option"
  hx_tenant_id :: "pystr option"
  hx_method :: pystr
  hx_path :: pystr
  hx_client_ip :: "pystr option"
  hx_started_at :: datetime

definition UNMATCHED_ROUTE :: pystr where "UNMATCHED_ROUTE = lit ''__unmatched__''"

text \<open>The path of the matched route, if there is one and it is a string.\<close>

definition route_template :: "pystr option \<Rightarrow> pystr" where
  "route_template route_path = (case route_path of Some p \<Rightarrow> p | None \<Rightarrow> UNMATCHED_ROUTE)"

definition optional_text :: "pystr option \<Rightarrow> log_value" where
  "optional_text v = (case v of None \<Rightarrow> Log_None | Some t \<Rightarrow> Log_Text t)"

definition request_completed ::
  "(datetime \<Rightarrow> pystr) \<Rightarrow> http_request_context \<Rightarrow> pystr \<Rightarrow> int \<Rightarrow> pyfloat \<Rightarrow> log_record" where
  "request_completed isoformat ctx route status_code duration_ms =
     \<lparr>lr_name = lit ''bid_system.access'', lr_level = lit ''INFO'',
      lr_message = Msg_Text (lit ''request_completed''),
      lr_attributes =
        [''event_name'' \<mapsto> Log_Text (lit ''http.request.completed''),
         ''request_id'' \<mapsto> Log_Text (hx_request_id ctx), ''trace_id'' \<mapsto> Log_Text (hx_trace_id ctx),
         ''user_id'' \<mapsto> optional_text (hx_user_id ctx), ''tenant_id'' \<mapsto> optional_text (hx_tenant_id ctx),
         ''method'' \<mapsto> Log_Text (hx_method ctx), ''path'' \<mapsto> Log_Text (hx_path ctx),
         ''route'' \<mapsto> Log_Text route, ''client_ip'' \<mapsto> optional_text (hx_client_ip ctx),
         ''started_at'' \<mapsto> Log_Text (isoformat (hx_started_at ctx)), ''status_code'' \<mapsto> Log_Int status_code,
         ''duration_ms'' \<mapsto> Log_Float duration_ms,
         ''outcome'' \<mapsto> Log_Text (if status_code \<ge> 500 then lit ''error'' else lit ''success'')],
      lr_exception = None\<rparr>"

text \<open>
  What comes out of one request through the middleware: the messages sent, the exception it ends
  with, the line, and the measurement if it could be made; a failure to make it replaces the
  exception of the application.
\<close>

definition access_log ::
  "(datetime \<Rightarrow> pystr) \<Rightarrow> http_request_context \<Rightarrow> pystr option \<Rightarrow> pyfloat \<Rightarrow> asgi \<Rightarrow> (exn + received) list
   \<Rightarrow> sent list \<times> exn option \<times> log_record \<times> measurement option" where
  "access_log isoformat ctx route_path duration_ms app xs =
     (case serve app xs of (out, r) \<Rightarrow>
       let status_code = logged_status 500 out; route = route_template route_path;
           line = request_completed isoformat ctx route status_code duration_ms
       in case mk_http_request_measurement
                 \<lparr>hm_method = hx_method ctx, hm_route = route, hm_status_code = status_code,
                  hm_duration_ms = duration_ms\<rparr> of
            Inl e \<Rightarrow> (out, Some e, line, None)
          | Inr m \<Rightarrow> (out, r, line, Some (M_HTTP m)))"

lemma logged_status_append: "logged_status d (xs @ ys) = logged_status (logged_status d xs) ys"
  by (induction d xs rule: logged_status.induct) simp_all

lemma logged_status_no_start: "\<not> (\<exists>m\<in>set xs. is_start m) \<Longrightarrow> logged_status d xs = d"
  by (induction d xs rule: logged_status.induct) auto

lemma logged_status_range:
  "(\<And>s h. ResponseStart s h \<in> set xs \<Longrightarrow> 100 \<le> s \<and> s \<le> 599) \<Longrightarrow> 100 \<le> d \<Longrightarrow> d \<le> 599
   \<Longrightarrow> 100 \<le> logged_status d xs \<and> logged_status d xs \<le> 599"
  by (induction d xs rule: logged_status.induct) auto

lemma internal_error_status:
  assumes "request_id_ok rid"
  shows "logged_status d (internal_error_messages rid) = 500"
  using error_response_Inr [OF _ assms]
  by (simp add: internal_error_messages_def internal_error_def respond_def)

text \<open>The handler of unknown exceptions, which runs outside, answers with the status that was logged.\<close>

lemma status_after_unhandled:
  assumes "request_id_ok rid" and "serve app xs = (out, r)"
    and "serve (unhandled_exception rid app False) xs = (out', r')"
  shows "logged_status 500 out' = logged_status 500 out"
  using serve_unhandled [OF assms(1), of app False xs] assms(2,3) internal_error_status [OF assms(1)]
    logged_status_no_start [of out 500]
  by (auto simp: logged_status_append split: if_splits)


definition demo_context :: http_request_context where
  "demo_context =
     \<lparr>hx_request_id = lit ''r1'', hx_trace_id = lit ''t'', hx_user_id = None, hx_tenant_id = None,
      hx_method = lit ''GET'', hx_path = lit ''/health'', hx_client_ip = None, hx_started_at = Aware 0 0\<rparr>"


text \<open>The line goes to the runtime stream (at a level of \<open>INFO\<close> or below), correlated and without credentials.\<close>

lemma access_lines_emitted:
  assumes "level_rank SUPPORTED_LOG_LEVELS (ls_level s) \<le> level_rank SUPPORTED_LOG_LEVELS (lit ''INFO'')"
  shows "emitted_to s (request_completed isoformat ctx route status_code duration_ms) = [STDERR]"
  using assms
  by (simp add: emitted_to_def request_completed_def exclude_audit_filter_def below_audit_def
      AUDIT_LOGGER_NAME_def startswith_def lit_def)

text \<open>The start of the request is passed to the log and dropped by the JSON format.\<close>

lemma payload_keys:
  "(k, v) \<in> set (json_payload render now service environment_name r)
   \<Longrightarrow> k \<in> set envelope_keys \<or> k = ''message'' \<or> k = ''exception'' \<or> k \<in> set LOG_FIELDS"
  using payload_clean [of render now service environment_name r]
  by (auto simp: list_all_iff entry_clean_def)

lemma started_at_not_in_json:
  "map_of (json_payload render now service environment_name
     (request_completed isoformat ctx route status_code duration_ms)) ''started_at'' = None"
proof (rule ccontr)
  assume "map_of (json_payload render now service environment_name
     (request_completed isoformat ctx route status_code duration_ms)) ''started_at'' \<noteq> None"
  then obtain v where "(''started_at'', v) \<in> set (json_payload render now service environment_name
     (request_completed isoformat ctx route status_code duration_ms))" by (auto dest: map_of_SomeD)
  from payload_keys [OF this] show False by (simp add: envelope_keys_def LOG_FIELDS_def)
qed

end
