(* ===== verification/Contracts.thy ===== *)
theory Contracts
  imports HttpBoundary
begin

text \<open>
  The success contracts (\<open>shared/contracts/api.py\<close>, \<open>pagination.py\<close>): the success envelope, batch results
  and page metadata with their validators, the normalisation of datetimes and the JSON form of money.
  A validator's failure is \<open>ValueError\<close>, as pydantic's \<open>ValidationError\<close> is one.
\<close>

section \<open>Envelopes\<close>

definition SUCCESS_MESSAGE :: pystr where "SUCCESS_MESSAGE = lit ''success''"

record 'd success_envelope =
  su_code :: pystr
  su_message :: pystr
  su_data :: 'd
  su_request_id :: pystr

definition mk_success_response :: "'d success_envelope \<Rightarrow> exn + 'd success_envelope" where
  "mk_success_response e =
     raise_if (su_code e \<noteq> lit ''SUCCESS'' \<or> su_message e = [] \<or> \<not> request_id_ok (su_request_id e))
       (ValueError ''validation error'') (Inr e)"

definition success_response :: "'d \<Rightarrow> pystr \<Rightarrow> pystr option \<Rightarrow> exn + 'd success_envelope" where
  "success_response d request_id message =
     mk_success_response \<lparr>su_code = lit ''SUCCESS'',
       su_message = (case message of None \<Rightarrow> SUCCESS_MESSAGE | Some m \<Rightarrow> m), su_data = d, su_request_id = request_id\<rparr>"

text \<open>With an identifier of the middleware and the default message a success answer is always constructed.\<close>

lemma success_response_total:
  "request_id_ok rid \<Longrightarrow> success_response d rid None
     = Inr \<lparr>su_code = lit ''SUCCESS'', su_message = SUCCESS_MESSAGE, su_data = d, su_request_id = rid\<rparr>"
  by (simp add: success_response_def mk_success_response_def SUCCESS_MESSAGE_def raise_if_def lit_def)

text \<open>The liveness and the version endpoint; \<open>__version__\<close> is a constant of the package.\<close>

definition health :: "pystr \<Rightarrow> exn + pystr success_envelope" where
  "health request_id = success_response (lit ''alive'') request_id None"

definition application_version :: "pystr \<Rightarrow> pystr \<Rightarrow> exn + pystr success_envelope" where
  "application_version version request_id = success_response version request_id None"

section \<open>Batch results\<close>

record 'd batch_item =
  bi_index :: int
  bi_success :: bool
  bi_data :: "'d option"
  bi_error :: "error_detail option"

definition validate_result_shape :: "'d batch_item \<Rightarrow> exn + 'd batch_item" where
  "validate_result_shape i =
     raise_if (bi_success i \<and> bi_error i \<noteq> None) (ValueError ''successful batch items cannot contain an error'')
    (raise_if (\<not> bi_success i \<and> bi_error i = None) (ValueError ''failed batch items require an error'')
    (raise_if (\<not> bi_success i \<and> bi_data i \<noteq> None) (ValueError ''failed batch items cannot contain data'')
    (Inr i)))"

definition mk_batch_item :: "'d batch_item \<Rightarrow> exn + 'd batch_item" where
  "mk_batch_item i =
     raise_if (bi_index i < 0) (ValueError ''validation error'') (validate_result_shape i)"

record 'd batch_data =
  bd_total :: int
  bd_succeeded :: int
  bd_failed :: int
  bd_items :: "'d batch_item list"

definition validate_summary :: "'d batch_data \<Rightarrow> exn + 'd batch_data" where
  "validate_summary b =
     (let items = bd_items b;
          succeeded = sum_list (map (\<lambda>i. if bi_success i then 1 else 0) items);
          failed = int (length items) - succeeded;
          expected_indexes = map int [0..<length items];
          actual_indexes = map bi_index items
      in raise_if (bd_total b \<noteq> int (length items) \<or> bd_succeeded b \<noteq> succeeded \<or> bd_failed b \<noteq> failed
                   \<or> actual_indexes \<noteq> expected_indexes)
           (ValueError ''batch summary does not match item results'') (Inr b))"

fun mk_batch_items :: "'d batch_item list \<Rightarrow> exn + 'd batch_item list" where
  "mk_batch_items [] = Inr []"
| "mk_batch_items (i # is) = bindE (mk_batch_item i) (\<lambda>j. bindE (mk_batch_items is) (\<lambda>js. Inr (j # js)))"

definition mk_batch_data :: "'d batch_data \<Rightarrow> exn + 'd batch_data" where
  "mk_batch_data b =
     raise_if (bd_total b < 0 \<or> bd_succeeded b < 0 \<or> bd_failed b < 0) (ValueError ''validation error'')
       (bindE (mk_batch_items (bd_items b)) (\<lambda>items. validate_summary (b\<lparr>bd_items := items\<rparr>)))"

definition item_result :: "'d batch_item \<Rightarrow> error_detail + 'd option" where
  "item_result i = (case bi_error i of Some e \<Rightarrow> Inl e | None \<Rightarrow> Inr (bi_data i))"

text \<open>What an item promises: it is either a success without an error or a failure with one and no data.\<close>

definition item_shaped :: "'d batch_item \<Rightarrow> bool" where
  "item_shaped i \<longleftrightarrow> (if bi_success i then bi_error i = None else bi_error i \<noteq> None \<and> bi_data i = None)"

lemma mk_batch_item_iff: "mk_batch_item i = Inr j \<longleftrightarrow> j = i \<and> 0 \<le> bi_index i \<and> item_shaped i"
  by (auto simp: mk_batch_item_def validate_result_shape_def item_shaped_def raise_if_def)

lemma mk_batch_items_iff:
  "mk_batch_items is = Inr js \<longleftrightarrow> js = is \<and> (\<forall>i\<in>set is. 0 \<le> bi_index i \<and> item_shaped i)"
  by (induction "is" arbitrary: js) (auto simp: py_bind mk_batch_item_iff)

lemma counted: "sum_list (map (\<lambda>i. if P i then 1 else (0::int)) xs) = int (length (filter P xs))"
  by (induction xs) simp_all

lemma counted_split: "int (length xs) - int (length (filter P xs)) = int (length (filter (\<lambda>x. \<not> P x) xs))"
  using sum_length_filter_compl [of P xs] by simp

text \<open>A batch summary is accepted exactly when it tells the truth about its items: the totals count the
  items, the successes and the failures, the items stand at their positions in order, and each is
  either a success without an error or a failure with an error and no data; it is accepted unchanged.\<close>

theorem batch_accepted_iff_truthful:
  "mk_batch_data b = Inr b' \<longleftrightarrow>
     b' = b \<and> bd_total b = int (length (bd_items b))
     \<and> bd_succeeded b = int (length (filter bi_success (bd_items b)))
     \<and> bd_failed b = int (length (filter (\<lambda>i. \<not> bi_success i) (bd_items b)))
     \<and> map bi_index (bd_items b) = map int [0..<length (bd_items b)]
     \<and> list_all item_shaped (bd_items b)"
proof -
  let ?is = "bd_items b"
  have nonneg: "0 \<le> bi_index i" if "map bi_index ?is = map int [0..<length ?is]" "i \<in> set ?is" for i
  proof -
    have "bi_index i \<in> set (map bi_index ?is)" using that(2) by simp
    then show ?thesis unfolding that(1) by auto
  qed
  have items: "mk_batch_items ?is = Inr ?is \<longleftrightarrow> list_all item_shaped ?is"
    if "map bi_index ?is = map int [0..<length ?is]"
    using nonneg [OF that] by (auto simp: mk_batch_items_iff list_all_iff)
  have summary: "validate_summary b = Inr b' \<longleftrightarrow>
     b' = b \<and> bd_total b = int (length ?is) \<and> bd_succeeded b = int (length (filter bi_success ?is))
     \<and> bd_failed b = int (length (filter (\<lambda>i. \<not> bi_success i) ?is))
     \<and> map bi_index ?is = map int [0..<length ?is]"
    by (auto simp: validate_summary_def counted counted_split raise_if_def Let_def)
  have "mk_batch_data b = Inr b' \<longleftrightarrow>
      0 \<le> bd_total b \<and> 0 \<le> bd_succeeded b \<and> 0 \<le> bd_failed b
      \<and> mk_batch_items ?is = Inr ?is \<and> validate_summary b = Inr b'"
  proof -
    have "b\<lparr>bd_items := ?is\<rparr> = b" by simp
    then show ?thesis
      by (auto simp: mk_batch_data_def py_bind raise_if_def mk_batch_items_iff)
  qed
  also have "\<dots> \<longleftrightarrow> validate_summary b = Inr b' \<and> list_all item_shaped ?is"
    using items summary by auto
  finally show ?thesis unfolding summary by blast
qed

text \<open>A response can be read back: the successes and failures sum up, and the failures are the items with errors.\<close>

lemma batch_reads_back:
  assumes "mk_batch_data b = Inr b'"
  shows "bd_succeeded b' + bd_failed b' = bd_total b'"
    and "bd_failed b' = int (length (filter (\<lambda>i. isl (item_result i)) (bd_items b')))"
proof -
  have b: "b' = b" "bd_total b = int (length (bd_items b))"
    "bd_succeeded b = int (length (filter bi_success (bd_items b)))"
    "bd_failed b = int (length (filter (\<lambda>i. \<not> bi_success i) (bd_items b)))" "list_all item_shaped (bd_items b)"
    using assms by (simp_all add: batch_accepted_iff_truthful)
  then show "bd_succeeded b' + bd_failed b' = bd_total b'"
    using counted_split [of "bd_items b" bi_success] by simp
  have "filter (\<lambda>i. \<not> bi_success i) (bd_items b) = filter (\<lambda>i. isl (item_result i)) (bd_items b)"
    using b(5) by (intro filter_cong) (auto simp: list_all_iff item_shaped_def item_result_def split: option.splits if_splits)
  then show "bd_failed b' = int (length (filter (\<lambda>i. isl (item_result i)) (bd_items b')))"
    using b by simp
qed

section \<open>Pages\<close>

record pagination_meta =
  pg_page :: int
  pg_page_size :: int
  pg_total :: int
  pg_total_pages :: int

definition expected_pages :: "int \<Rightarrow> int \<Rightarrow> int" where
  "expected_pages n page_size = (if n = 0 then 0 else (n + page_size - 1) div page_size)"

definition calculate_total_pages :: "pagination_meta \<Rightarrow> exn + pagination_meta" where
  "calculate_total_pages m =
     (let expected = expected_pages (pg_total m) (pg_page_size m) in
      raise_if (pg_total_pages m \<noteq> 0 \<and> pg_total_pages m \<noteq> expected)
        (ValueError ''total_pages does not match total and page_size'')
        (Inr (m\<lparr>pg_total_pages := expected\<rparr>)))"

definition mk_pagination_meta :: "pagination_meta \<Rightarrow> exn + pagination_meta" where
  "mk_pagination_meta m =
     raise_if (pg_page m < 1 \<or> pg_page_size m < 1 \<or> pg_total m < 0 \<or> pg_total_pages m < 0)
       (ValueError ''validation error'') (calculate_total_pages m)"

lemma expected_pages_cover:
  assumes "1 \<le> p" and "0 \<le> n"
  shows "n \<le> expected_pages n p * p" and "0 < n \<Longrightarrow> (expected_pages n p - 1) * p < n"
    and "0 \<le> expected_pages n p"
proof -
  let ?q = "(n + p - 1) div p"
  have d: "?q * p + (n + p - 1) mod p = n + p - 1" by simp
  have m: "0 \<le> (n + p - 1) mod p" "(n + p - 1) mod p < p" using assms by simp_all
  have q: "n \<le> ?q * p" "?q * p \<le> n + p - 1" using d m by linarith+
  then have "(?q - 1) * p < n" using assms by (simp add: left_diff_distrib)
  moreover have "0 \<le> ?q" using assms by (simp add: pos_imp_zdiv_nonneg_iff)
  ultimately show "n \<le> expected_pages n p * p" "0 < n \<Longrightarrow> (expected_pages n p - 1) * p < n"
    "0 \<le> expected_pages n p"
    using q(1) by (simp_all add: expected_pages_def)
qed

text \<open>Page metadata is deterministic: whatever is accepted has the one number of pages that covers the total
  exactly (the last page is not empty), is accepted again unchanged when it is read back, and does not
  depend on whether the caller stated that number or left it out.\<close>

theorem pagination_exact:
  assumes "mk_pagination_meta m = Inr m'"
  shows "pg_total m' \<le> pg_total_pages m' * pg_page_size m'
    \<and> (if pg_total m' = 0 then pg_total_pages m' = 0
       else (pg_total_pages m' - 1) * pg_page_size m' < pg_total m')
    \<and> mk_pagination_meta m' = Inr m'
    \<and> mk_pagination_meta (m\<lparr>pg_total_pages := 0\<rparr>) = Inr m'
    \<and> m' = m\<lparr>pg_total_pages := pg_total_pages m'\<rparr>"
proof -
  have ok: "1 \<le> pg_page m" "1 \<le> pg_page_size m" "0 \<le> pg_total m" "0 \<le> pg_total_pages m"
    and m': "m' = m\<lparr>pg_total_pages := expected_pages (pg_total m) (pg_page_size m)\<rparr>"
    using assms by (auto simp: mk_pagination_meta_def calculate_total_pages_def raise_if_def Let_def split: if_splits)
  note cover = expected_pages_cover [OF ok(2,3)]
  have "mk_pagination_meta (m\<lparr>pg_total_pages := t\<rparr>) = Inr m'"
    if "t = 0 \<or> t = expected_pages (pg_total m) (pg_page_size m)" for t
    using that ok m' cover(3) by (auto simp: mk_pagination_meta_def calculate_total_pages_def raise_if_def)
  moreover have "expected_pages 0 (pg_page_size m) = 0" by (simp add: expected_pages_def)
  ultimately show ?thesis using ok m' cover(1,2) by auto
qed

lemma pagination_exact_witness:
  "pg_total_pages \<lparr>pg_page = 1, pg_page_size = 20, pg_total = 41, pg_total_pages = 3\<rparr> = 3
   \<and> mk_pagination_meta \<lparr>pg_page = 1, pg_page_size = 20, pg_total = 41, pg_total_pages = 0\<rparr>
      = Inr \<lparr>pg_page = 1, pg_page_size = 20, pg_total = 41, pg_total_pages = 3\<rparr>"
proof -
  have "mk_pagination_meta \<lparr>pg_page = 1, pg_page_size = 20, pg_total = 41, pg_total_pages = 3\<rparr>
      = Inr \<lparr>pg_page = 1, pg_page_size = 20, pg_total = 41, pg_total_pages = 3\<rparr>" by code_simp
  from pagination_exact [OF this] show ?thesis by simp
qed

text \<open>Zero pages of a total that is not zero are read as not stated, not refused.\<close>

lemma zero_pages_is_unset:
  "1 \<le> p \<Longrightarrow> 1 \<le> s \<Longrightarrow> 0 \<le> n \<Longrightarrow> mk_pagination_meta \<lparr>pg_page = p, pg_page_size = s, pg_total = n, pg_total_pages = 0\<rparr>
     = Inr \<lparr>pg_page = p, pg_page_size = s, pg_total = n, pg_total_pages = expected_pages n s\<rparr>"
  by (simp add: mk_pagination_meta_def calculate_total_pages_def raise_if_def)

section \<open>Datetimes\<close>

text \<open>\<open>astimezone(UTC)\<close> keeps the instant; one that UTC cannot write in the years 1 to 9999 overflows.\<close>

definition normalize_utc :: "datetime \<Rightarrow> exn + datetime" where
  "normalize_utc v =
     (case v of
        Naive w \<Rightarrow> Inl (ValueError ''datetime must be timezone-aware'')
      | Aware t off \<Rightarrow> raise_if (t < dt_min_us \<or> dt_max_us < t) OverflowError (Inr (Aware t 0)))"

lemma normalize_utc_correct:
  "normalize_utc v = Inr u \<Longrightarrow> is_aware v \<and> u = Aware (instant v) 0 \<and> normalize_utc u = Inr u"
  by (cases v) (auto simp: normalize_utc_def raise_if_def split: if_splits)

text \<open>Near the ends of the calendar the validator raises something else than a validation error.\<close>

lemma normalize_utc_overflow: "normalize_utc (Aware (dt_min_us - 1) 3600000000) = Inl OverflowError"
  by (simp add: normalize_utc_def raise_if_def dt_min_us_def)

section \<open>Money\<close>

text \<open>A finite \<open>Decimal\<close>: sign, coefficient and exponent.  \<open>format(value, "f")\<close> writes no exponent.\<close>

record money =
  mo_negative :: bool
  mo_coefficient :: nat
  mo_exponent :: int

fun dec_digits :: "nat \<Rightarrow> pystr" where
  "dec_digits n = (if n < 10 then [48 + n] else dec_digits (n div 10) @ [48 + n mod 10])"

declare dec_digits.simps [simp del]

definition point_digits :: "nat \<Rightarrow> nat \<Rightarrow> pystr" where
  "point_digits k c =
     (let ds = replicate (Suc k - length (dec_digits c)) 48 @ dec_digits c
      in take (length ds - k) ds @ [46] @ drop (length ds - k) ds)"

definition serialize_money :: "money \<Rightarrow> pystr" where
  "serialize_money m =
     (if mo_negative m then [45] else [])
     @ (if mo_exponent m < 0 then point_digits (nat (- mo_exponent m)) (mo_coefficient m)
        else if mo_coefficient m = 0 then [48]
        else dec_digits (mo_coefficient m) @ replicate (nat (mo_exponent m)) 48)"

definition money_value :: "money \<Rightarrow> rat" where
  "money_value m =
     (if mo_negative m then - 1 else 1) * of_nat (mo_coefficient m)
     * (if mo_exponent m < 0 then 1 / 10 ^ nat (- mo_exponent m) else 10 ^ nat (mo_exponent m))"

text \<open>The reader \<open>Decimal(text)\<close> on such texts: an optional sign, digits, and after a point the fraction.\<close>

definition dec_value :: "pystr \<Rightarrow> nat" where
  "dec_value ds = foldl (\<lambda>n c. 10 * n + (c - 48)) 0 ds"

definition is_digit :: "nat \<Rightarrow> bool" where
  "is_digit c \<longleftrightarrow> 48 \<le> c \<and> c \<le> 57"

definition parse_money :: "pystr \<Rightarrow> money option" where
  "parse_money t =
     (let neg = (t \<noteq> [] \<and> hd t = 45);
          body = (if neg then tl t else t);
          whole = takeWhile is_digit body;
          rest = dropWhile is_digit body;
          fraction = tl rest
      in if whole = [] then None
         else if rest = [] then Some \<lparr>mo_negative = neg, mo_coefficient = dec_value whole, mo_exponent = 0\<rparr>
         else if hd rest = 46 \<and> list_all is_digit fraction
         then Some \<lparr>mo_negative = neg, mo_coefficient = dec_value (whole @ fraction), mo_exponent = - int (length fraction)\<rparr>
         else None)"

lemma dec_digits_digit: "list_all is_digit (dec_digits n)"
proof (induction n rule: dec_digits.induct)
  case (1 n)
  then show ?case
    by (subst dec_digits.simps, cases "n < 10") (simp_all add: is_digit_def [of "48 + _"])
qed

lemma dec_digits_nonempty [simp]: "dec_digits n \<noteq> []"
  by (subst dec_digits.simps) simp

lemma dec_value_digits [simp]: "dec_value (dec_digits n) = n"
proof (induction n rule: dec_digits.induct)
  case (1 n)
  then show ?case by (subst dec_digits.simps) (auto simp: dec_value_def)
qed

lemma dec_value_zeros_left [simp]: "dec_value (replicate k 48 @ ds) = dec_value ds"
  by (induction k) (simp_all add: dec_value_def)

lemma dec_value_zeros_right [simp]: "dec_value (ds @ replicate k 48) = dec_value ds * 10 ^ k"
proof (induction k)
  case (Suc k)
  have "ds @ replicate (Suc k) 48 = (ds @ replicate k 48) @ [48]" by (simp add: replicate_append_same)
  then show ?case using Suc by (simp only: dec_value_def foldl_append foldl.simps) simp
qed simp

lemma zeros_digits: "list_all is_digit (replicate k 48)"
  by (simp add: list_all_iff is_digit_def)

lemma digits_take: "list_all is_digit ds \<Longrightarrow> takeWhile is_digit ds = ds \<and> dropWhile is_digit ds = []"
  by (induction ds) simp_all

lemma digits_until_point:
  "list_all is_digit ds \<Longrightarrow> takeWhile is_digit (ds @ 46 # f) = ds \<and> dropWhile is_digit (ds @ 46 # f) = 46 # f"
  by (induction ds) (simp_all add: is_digit_def [of 46])

lemma digits_no_sign: "list_all is_digit ds \<Longrightarrow> ds \<noteq> [] \<Longrightarrow> hd (ds @ t) \<noteq> 45"
  by (cases ds) (auto simp: is_digit_def)

definition signed :: "bool \<Rightarrow> pystr \<Rightarrow> pystr" where
  "signed neg t = (if neg then [45] else []) @ t"

lemma parse_whole:
  assumes "list_all is_digit ds" "ds \<noteq> []"
  shows "parse_money (signed neg ds)
    = Some \<lparr>mo_negative = neg, mo_coefficient = dec_value ds, mo_exponent = 0\<rparr>"
  using assms digits_no_sign [OF assms, of "[]"] digits_take [OF assms(1)]
  by (simp add: parse_money_def signed_def Let_def del: takeWhile_eq_all_conv dropWhile_eq_Nil_conv)

lemma parse_pointed:
  assumes "list_all is_digit ds" "ds \<noteq> []" "list_all is_digit f"
  shows "parse_money (signed neg (ds @ [46] @ f))
    = Some \<lparr>mo_negative = neg, mo_coefficient = dec_value (ds @ f), mo_exponent = - int (length f)\<rparr>"
  using assms digits_no_sign [OF assms(1,2), of "46 # f"] digits_until_point [OF assms(1), of f]
  by (simp add: parse_money_def signed_def Let_def is_digit_def [of 46])

lemma list_all_take_drop: "list_all P xs \<Longrightarrow> list_all P (take n xs) \<and> list_all P (drop n xs)"
  by (auto simp: list_all_iff dest: in_set_takeD in_set_dropD)

text \<open>The JSON form of an amount of money is exact and plain: it has a sign, digits and a point only, never an
  exponent, and read back it is the same amount; the amount of decimals is kept, and a positive exponent
  is written out.\<close>

theorem money_roundtrip:
  "\<exists>m'. parse_money (serialize_money m) = Some m' \<and> money_value m' = money_value m
     \<and> m' = (if mo_exponent m \<le> 0 then m
             else \<lparr>mo_negative = mo_negative m,
                   mo_coefficient = mo_coefficient m * 10 ^ nat (mo_exponent m), mo_exponent = 0\<rparr>)
     \<and> list_all (\<lambda>c. is_digit c \<or> c = 45 \<or> c = 46) (serialize_money m)"
proof -
  let ?neg = "mo_negative m" and ?c = "mo_coefficient m" and ?e = "mo_exponent m"
  note digits = dec_digits_digit [of ?c]
  have any: "list_all (\<lambda>c. is_digit c \<or> c = 45 \<or> c = 46) ds" if "list_all is_digit ds" for ds
    using that by (simp add: list_all_iff)
  consider "?e < 0" | "0 \<le> ?e" "?c = 0" | "0 \<le> ?e" "?c \<noteq> 0" by linarith
  then show ?thesis
  proof cases
    case 1
    define k where "k = nat (- ?e)"
    define ds where "ds = replicate (Suc k - length (dec_digits ?c)) 48 @ dec_digits ?c"
    have l: "k < length ds" and all: "list_all is_digit ds" and v: "dec_value ds = ?c"
      using digits zeros_digits by (auto simp: ds_def)
    have t: "serialize_money m = signed ?neg (take (length ds - k) ds @ [46] @ drop (length ds - k) ds)"
      using 1 by (simp add: serialize_money_def signed_def point_digits_def Let_def k_def [symmetric] ds_def [symmetric])
    have parts: "list_all is_digit (take (length ds - k) ds)" "list_all is_digit (drop (length ds - k) ds)"
      using list_all_take_drop [OF all] by blast+
    have "parse_money (serialize_money m) = Some m"
      unfolding t using l v 1 parts by (subst parse_pointed) (auto simp: k_def)
    moreover have "list_all (\<lambda>c. is_digit c \<or> c = 45 \<or> c = 46) (serialize_money m)"
      unfolding t using any [OF parts(1)] any [OF parts(2)] by (simp add: signed_def)
    ultimately show ?thesis using 1 by simp
  next
    case 2
    have t: "serialize_money m = signed ?neg [48]" using 2 by (simp add: serialize_money_def signed_def)
    have "parse_money (serialize_money m) = Some \<lparr>mo_negative = ?neg, mo_coefficient = 0, mo_exponent = 0\<rparr>"
      unfolding t by (subst parse_whole) (simp_all add: is_digit_def dec_value_def)
    moreover have "list_all (\<lambda>c. is_digit c \<or> c = 45 \<or> c = 46) (serialize_money m)"
      unfolding t by (simp add: signed_def is_digit_def)
    ultimately show ?thesis using 2 by (auto simp: money_value_def)
  next
    case 3
    let ?ds = "dec_digits ?c @ replicate (nat ?e) 48"
    have t: "serialize_money m = signed ?neg ?ds" using 3 by (simp add: serialize_money_def signed_def)
    have all: "list_all is_digit ?ds" using digits zeros_digits by simp
    have "parse_money (serialize_money m)
        = Some \<lparr>mo_negative = ?neg, mo_coefficient = ?c * 10 ^ nat ?e, mo_exponent = 0\<rparr>"
      unfolding t using all by (subst parse_whole) simp_all
    moreover have "list_all (\<lambda>c. is_digit c \<or> c = 45 \<or> c = 46) (serialize_money m)"
      unfolding t using any [OF all] by (simp add: signed_def)
    ultimately show ?thesis using 3 by (auto simp: money_value_def)
  qed
qed

end
