(* ===== verification/Routes.thy ===== *)
theory Routes
  imports HttpBoundary ConfigModels
begin

text \<open>
  The routing table (\<open>entrypoints/api/router.py\<close>, \<open>app.py\<close> and the decorators of the route modules): which
  endpoint stands where, what it depends on, and which body limit applies to it.  FastAPI's
  \<open>APIRouter\<close> is the parameter \<open>router_lib\<close>; \<open>router_law\<close> states its documented behaviour: a router puts
  its prefix and its dependencies before those of a route it declares or includes.
\<close>

datatype http_method = GET | POST

datatype dependency =
    Dep_current_principal | Dep_single_upload_file | Dep_transaction | Dep_request_context | Dep_upload_handler

record route =
  rt_method :: http_method
  rt_path :: pystr
  rt_name :: pystr
  rt_dependencies :: "dependency list"

record 'r router_lib =
  rl_router :: "pystr \<Rightarrow> dependency list \<Rightarrow> 'r"
  rl_route :: "route \<Rightarrow> 'r \<Rightarrow> 'r"
  rl_include :: "'r \<Rightarrow> 'r \<Rightarrow> 'r"
  rl_routes :: "'r \<Rightarrow> route list"
  rl_prefix :: "'r \<Rightarrow> pystr"
  rl_dependencies :: "'r \<Rightarrow> dependency list"

definition below :: "pystr \<Rightarrow> dependency list \<Rightarrow> route \<Rightarrow> route" where
  "below pre deps r = r\<lparr>rt_path := pre @ rt_path r, rt_dependencies := deps @ rt_dependencies r\<rparr>"

definition router_law :: "'r router_lib \<Rightarrow> bool" where
  "router_law F \<longleftrightarrow>
     (\<forall>p d. rl_prefix F (rl_router F p d) = p \<and> rl_dependencies F (rl_router F p d) = d
            \<and> rl_routes F (rl_router F p d) = [])
     \<and> (\<forall>x R. rl_prefix F (rl_route F x R) = rl_prefix F R
            \<and> rl_dependencies F (rl_route F x R) = rl_dependencies F R
            \<and> rl_routes F (rl_route F x R) = rl_routes F R @ [below (rl_prefix F R) (rl_dependencies F R) x])
     \<and> (\<forall>R C. rl_prefix F (rl_include F R C) = rl_prefix F R
            \<and> rl_dependencies F (rl_include F R C) = rl_dependencies F R
            \<and> rl_routes F (rl_include F R C)
              = rl_routes F R @ map (below (rl_prefix F R) (rl_dependencies F R)) (rl_routes F C))"

section \<open>The route modules\<close>

text \<open>The dependencies of a handler are those of its decorator and then those of its parameters.\<close>

definition health_router :: "'r router_lib \<Rightarrow> 'r" where
  "health_router F = rl_route F \<lparr>rt_method = GET, rt_path = lit ''/health'', rt_name = lit ''health'',
     rt_dependencies = [Dep_request_context]\<rparr> (rl_router F [] [])"

definition readiness_router :: "'r router_lib \<Rightarrow> 'r" where
  "readiness_router F = rl_route F \<lparr>rt_method = GET, rt_path = lit ''/readiness'', rt_name = lit ''readiness'',
     rt_dependencies = [Dep_request_context]\<rparr> (rl_router F [] [])"

definition version_router :: "'r router_lib \<Rightarrow> 'r" where
  "version_router F = rl_route F \<lparr>rt_method = GET, rt_path = lit ''/version'', rt_name = lit ''application_version'',
     rt_dependencies = [Dep_request_context]\<rparr> (rl_router F [] [])"

definition login_endpoint :: route where
  "login_endpoint =
    \<lparr>rt_method = POST, rt_path = lit ''/login'', rt_name = lit ''authentication_login'',
     rt_dependencies = [Dep_transaction, Dep_request_context]\<rparr>"

definition register_endpoint :: route where
  "register_endpoint =
    \<lparr>rt_method = POST, rt_path = lit ''/register'', rt_name = lit ''authentication_register'',
     rt_dependencies = [Dep_transaction, Dep_request_context, Dep_current_principal]\<rparr>"

definition refresh_endpoint :: route where
  "refresh_endpoint =
    \<lparr>rt_method = POST, rt_path = lit ''/refresh'', rt_name = lit ''authentication_refresh'',
     rt_dependencies = [Dep_transaction, Dep_request_context]\<rparr>"

definition logout_endpoint :: route where
  "logout_endpoint =
    \<lparr>rt_method = POST, rt_path = lit ''/logout'', rt_name = lit ''authentication_logout'',
     rt_dependencies = [Dep_transaction, Dep_request_context]\<rparr>"

definition auth_routes :: "route list" where
  "auth_routes = [login_endpoint, register_endpoint, refresh_endpoint, logout_endpoint]"

definition auth_router :: "'r router_lib \<Rightarrow> 'r" where
  "auth_router F = fold (rl_route F) auth_routes (rl_router F (lit ''/auth'') [])"

definition create_endpoint :: route where
  "create_endpoint =
    \<lparr>rt_method = POST, rt_path = [], rt_name = lit ''documents_create'',
     rt_dependencies = [Dep_single_upload_file, Dep_current_principal, Dep_request_context, Dep_upload_handler]\<rparr>"

definition create_version_endpoint :: route where
  "create_version_endpoint =
    \<lparr>rt_method = POST, rt_path = lit ''/{document_id}/versions'', rt_name = lit ''documents_create_version'',
     rt_dependencies = [Dep_single_upload_file, Dep_current_principal, Dep_request_context, Dep_upload_handler]\<rparr>"

definition document_routes :: "route list" where
  "document_routes = [create_endpoint, create_version_endpoint]"

definition documents_router :: "'r router_lib \<Rightarrow> 'r" where
  "documents_router F = fold (rl_route F) document_routes (rl_router F (lit ''/documents'') [])"

section \<open>Assembly\<close>

definition create_root_router :: "'r router_lib \<Rightarrow> 'r" where
  "create_root_router F =
     rl_include F (rl_include F (rl_router F [] []) (health_router F)) (readiness_router F)"

definition create_api_router :: "'r router_lib \<Rightarrow> api_settings \<Rightarrow> 'r" where
  "create_api_router F s =
     (let router = rl_include F (rl_router F (as_prefix s) []) (auth_router F);
          authenticated = rl_router F [] [Dep_current_principal];
          authenticated = rl_include F authenticated (version_router F);
          authenticated = rl_include F authenticated (documents_router F)
      in rl_include F router authenticated)"

definition generate_operation_id :: "route \<Rightarrow> pystr" where
  "generate_operation_id r = rt_name r"

text \<open>What \<open>create_app\<close> mounts; the application itself includes without a prefix.  The schema document that
  FastAPI serves by itself with the documentation is not in the table.\<close>

definition app_routes :: "'r router_lib \<Rightarrow> api_settings \<Rightarrow> route list" where
  "app_routes F s =
     (if as_docs_enabled s
      then [\<lparr>rt_method = GET, rt_path = lit ''/docs'', rt_name = lit ''scalar_api_reference'', rt_dependencies = []\<rparr>]
      else [])
     @ rl_routes F (create_root_router F) @ rl_routes F (create_api_router F s)"

text \<open>The limits of \<open>_register_middlewares\<close>.\<close>

definition app_body_limits :: "api_settings \<Rightarrow> document_processing_settings \<Rightarrow> body_limits" where
  "app_body_limits s docs =
     \<lparr>bl_max_body_bytes = as_max_request_body_bytes s,
      bl_document_upload_path_prefix = as_prefix s @ lit ''/documents'',
      bl_document_upload_max_body_bytes = dp_max_request_body_bytes docs\<rparr>"

section \<open>The table\<close>

definition ANONYMOUS :: "pystr list" where
  "ANONYMOUS = map lit [''scalar_api_reference'', ''health'', ''readiness'', ''authentication_login'',
     ''authentication_refresh'', ''authentication_logout'']"

definition UPLOADS :: "pystr list" where
  "UPLOADS = map lit [''documents_create'', ''documents_create_version'']"

lemma router_steps:
  assumes "router_law F"
  shows "rl_prefix F (rl_router F p d) = p" "rl_dependencies F (rl_router F p d) = d"
    "rl_routes F (rl_router F p d) = []"
    "rl_prefix F (rl_route F x R) = rl_prefix F R" "rl_dependencies F (rl_route F x R) = rl_dependencies F R"
    "rl_routes F (rl_route F x R) = rl_routes F R @ [below (rl_prefix F R) (rl_dependencies F R) x]"
    "rl_prefix F (rl_include F R C) = rl_prefix F R" "rl_dependencies F (rl_include F R C) = rl_dependencies F R"
    "rl_routes F (rl_include F R C)
      = rl_routes F R @ map (below (rl_prefix F R) (rl_dependencies F R)) (rl_routes F C)"
  using assms unfolding router_law_def by blast+

lemma below_simps [simp]:
  "rt_method (below p d r) = rt_method r" "rt_path (below p d r) = p @ rt_path r"
  "rt_name (below p d r) = rt_name r" "rt_dependencies (below p d r) = d @ rt_dependencies r"
  by (simp_all add: below_def)

lemma declared_routes:
  assumes "router_law F"
  shows "rl_routes F (fold (rl_route F) xs R) = rl_routes F R @ map (below (rl_prefix F R) (rl_dependencies F R)) xs"
  by (induction xs arbitrary: R) (simp_all add: router_steps [OF assms])

definition versioned_routes :: "pystr \<Rightarrow> route list" where
  "versioned_routes pre =
     map (below (pre @ lit ''/auth'') []) auth_routes
     @ [\<lparr>rt_method = GET, rt_path = pre @ lit ''/version'', rt_name = lit ''application_version'',
         rt_dependencies = [Dep_current_principal, Dep_request_context]\<rparr>]
     @ map (below (pre @ lit ''/documents'') [Dep_current_principal]) document_routes"

lemma api_router_routes:
  assumes "router_law F"
  shows "rl_routes F (create_api_router F s) = versioned_routes (as_prefix s)"
  by (simp add: create_api_router_def auth_router_def version_router_def documents_router_def Let_def
      router_steps [OF assms] declared_routes [OF assms] versioned_routes_def below_def)

lemma root_router_routes:
  assumes "router_law F"
  shows "rl_routes F (create_root_router F) =
    [\<lparr>rt_method = GET, rt_path = lit ''/health'', rt_name = lit ''health'', rt_dependencies = [Dep_request_context]\<rparr>,
     \<lparr>rt_method = GET, rt_path = lit ''/readiness'', rt_name = lit ''readiness'', rt_dependencies = [Dep_request_context]\<rparr>]"
  by (simp add: create_root_router_def health_router_def readiness_router_def router_steps [OF assms] below_def)

lemma startswith_same [simp]: "startswith (p @ x) (p @ y) = startswith x y"
  by (simp add: startswith_def)

lemmas endpoint_defs =
  auth_routes_def document_routes_def login_endpoint_def register_endpoint_def refresh_endpoint_def
  logout_endpoint_def create_endpoint_def create_version_endpoint_def

lemmas table_defs = app_routes_def versioned_routes_def endpoint_defs

definition method_text :: "http_method \<Rightarrow> pystr" where
  "method_text m = (case m of GET \<Rightarrow> lit ''GET'' | POST \<Rightarrow> lit ''POST'')"

text \<open>The statement about one route.\<close>

definition route_protected :: "api_settings \<Rightarrow> document_processing_settings \<Rightarrow> route \<Rightarrow> bool" where
  "route_protected s docs r \<longleftrightarrow>
     (Dep_current_principal \<in> set (rt_dependencies r)) = (rt_name r \<notin> set ANONYMOUS)
     \<and> (Dep_single_upload_file \<in> set (rt_dependencies r)) = (rt_name r \<in> set UPLOADS)
     \<and> (if rt_name r \<in> set UPLOADS then hd (rt_dependencies r) = Dep_current_principal else True)
     \<and> limit_for_scope (app_body_limits s docs) (method_text (rt_method r)) (rt_path r)
         = (if rt_name r \<in> set UPLOADS then dp_max_request_body_bytes docs else as_max_request_body_bytes s)"


text \<open>A router as its prefix, its dependencies and its routes.\<close>

definition demo_router_lib :: "(pystr \<times> dependency list \<times> route list) router_lib" where
  "demo_router_lib =
     \<lparr>rl_router = (\<lambda>p d. (p, d, [])), rl_route = (\<lambda>x (p, d, rs). (p, d, rs @ [below p d x])),
      rl_include = (\<lambda>(p, d, rs) (p', d', rs'). (p, d, rs @ map (below p d) rs')),
      rl_routes = (\<lambda>(p, d, rs). rs), rl_prefix = (\<lambda>(p, d, rs). p), rl_dependencies = (\<lambda>(p, d, rs). d)\<rparr>"

lemma demo_router_law: "router_law demo_router_lib"
  by (auto simp: router_law_def demo_router_lib_def)

definition demo_api_settings :: api_settings where
  "demo_api_settings =
     \<lparr>as_title = lit ''t'', as_description = lit ''d'', as_prefix = lit ''/api/v1'', as_docs_enabled = False,
      as_cors_origins = [], as_trusted_hosts = [lit ''*''], as_gzip_minimum_size_bytes = 1024,
      as_max_request_body_bytes = 100, as_readiness_timeout_seconds = Fin 1, as_hsts_enabled = False\<rparr>"

definition demo_document_settings :: document_processing_settings where
  "demo_document_settings =
     \<lparr>dp_clamav_host = lit ''clamav'', dp_clamav_port = 3310, dp_clamav_timeout_seconds = Fin 5,
      dp_libreoffice_executable = lit ''soffice'', dp_conversion_timeout_seconds = Fin 60,
      dp_max_request_body_bytes = 1000\<rparr>"


text \<open>The settings accept the prefix \<open>/\<close>, which ends in a slash; the upload limit then never applies to \<open>/documents\<close>.\<close>

lemma root_prefix_accepted: "prefix_pattern (lit ''/'')"
  by code_simp

lemma root_prefix_upload_limit:
  "as_prefix s = lit ''/'' \<Longrightarrow>
     limit_for_scope (app_body_limits s docs) (lit ''POST'') (lit ''/documents'') = as_max_request_body_bytes s"
  by (simp add: limit_for_scope_def app_body_limits_def startswith_def lit_def)

end
