(* ===== verification/ApiApp.thy ===== *)
theory ApiApp
  imports Routes ConfigGuarantees
begin

text \<open>
  The FastAPI application that \<open>create_app\<close> builds (\<open>entrypoints/api/app.py\<close>): its metadata, routes and
  middlewares, with the settings that its lifespan will use.  A middleware is its class and arguments;
  \<open>run_middlewares\<close> is Starlette's documented composition: each one added wraps all that were added
  before.  The framework's own middlewares are parameters.
\<close>

section \<open>The application\<close>

record cors_options =
  co_allow_origins :: "pystr list"
  co_allow_credentials :: bool
  co_allow_methods :: "pystr list"
  co_allow_headers :: "pystr list"

datatype middleware =
    RequestBodyLimitMiddleware body_limits
  | GZipMiddleware int
  | TrustedHostMiddleware "pystr list"
  | CORSMiddleware cors_options
  | SecurityHeadersMiddleware bool
  | TimingMiddleware
  | AccessLogMiddleware
  | UnhandledExceptionMiddleware
  | RequestContextMiddleware

record 'f fastapi_app =
  fa_title :: pystr
  fa_description :: pystr
  fa_version :: pystr
  fa_docs_url :: "pystr option"
  fa_redoc_url :: "pystr option"
  fa_openapi_url :: "pystr option"
  fa_routes :: "route list"
  fa_middlewares :: "middleware list"
  fa_lifespan_settings :: app_settings
  fa_container_factory :: "'f option"

definition APP_VERSION :: pystr where "APP_VERSION = lit ''0.1.0''"
definition API_DOCS_URL :: pystr where "API_DOCS_URL = lit ''/docs''"
definition OPENAPI_SCHEMA_URL :: pystr where "OPENAPI_SCHEMA_URL = lit ''/openapi.json''"

definition register_api_reference :: "'f fastapi_app \<Rightarrow> 'f fastapi_app" where
  "register_api_reference app = app\<lparr>fa_routes := fa_routes app
     @ [\<lparr>rt_method = GET, rt_path = API_DOCS_URL, rt_name = lit ''scalar_api_reference'', rt_dependencies = []\<rparr>]\<rparr>"

text \<open>The application includes a router without a prefix or a dependency of its own.\<close>

definition include_router :: "'r router_lib \<Rightarrow> 'r \<Rightarrow> 'f fastapi_app \<Rightarrow> 'f fastapi_app" where
  "include_router F router app = app\<lparr>fa_routes := fa_routes app @ rl_routes F router\<rparr>"

definition add_middleware :: "middleware \<Rightarrow> 'f fastapi_app \<Rightarrow> 'f fastapi_app" where
  "add_middleware m app = app\<lparr>fa_middlewares := fa_middlewares app @ [m]\<rparr>"

definition register_middlewares ::
  "api_settings \<Rightarrow> document_processing_settings \<Rightarrow> 'f fastapi_app \<Rightarrow> 'f fastapi_app" where
  "register_middlewares api docs =
     add_middleware RequestContextMiddleware
     \<circ> add_middleware UnhandledExceptionMiddleware
     \<circ> add_middleware AccessLogMiddleware
     \<circ> add_middleware TimingMiddleware
     \<circ> add_middleware (SecurityHeadersMiddleware (as_hsts_enabled api))
     \<circ> add_middleware (CORSMiddleware
         \<lparr>co_allow_origins = as_cors_origins api, co_allow_credentials = False,
          co_allow_methods = [lit ''*''], co_allow_headers = [lit ''*'']\<rparr>)
     \<circ> add_middleware (TrustedHostMiddleware (as_trusted_hosts api))
     \<circ> add_middleware (GZipMiddleware (as_gzip_minimum_size_bytes api))
     \<circ> add_middleware (RequestBodyLimitMiddleware (app_body_limits api docs))"

datatype build_error = Load_Failed configuration_load_error | Raised exn

text \<open>
  \<open>settings or load_settings()\<close>; every access to \<open>settings.api\<close> and \<open>settings.documents\<close> builds the same
  view.
\<close>

definition create_app ::
  "url_lib \<Rightarrow> 'r router_lib \<Rightarrow> source \<Rightarrow> app_settings option \<Rightarrow> 'f option \<Rightarrow> build_error + 'f fastapi_app" where
  "create_app L F environ given container_factory =
     bindE (case given of Some s \<Rightarrow> Inr s | None \<Rightarrow> map_sum Load_Failed id (load_settings L environ)) (\<lambda>s.
     bindE (map_sum Raised id (or_raise (api_view L s))) (\<lambda>api.
     let docs_enabled = as_docs_enabled api;
         app = \<lparr>fa_title = as_title api, fa_description = as_description api, fa_version = APP_VERSION,
           fa_docs_url = None, fa_redoc_url = None,
           fa_openapi_url = if docs_enabled then Some OPENAPI_SCHEMA_URL else None,
           fa_routes = [], fa_middlewares = [], fa_lifespan_settings = s, fa_container_factory = container_factory\<rparr>;
         app = if docs_enabled then register_api_reference app else app;
         app = include_router F (create_root_router F) app;
         app = include_router F (create_api_router F api) app
     in bindE (map_sum Raised id (or_raise (documents_view s))) (\<lambda>docs.
        Inr (register_middlewares api docs app))))"

section \<open>What a request passes\<close>

record framework =
  fw_gzip :: "int \<Rightarrow> asgi \<Rightarrow> asgi"
  fw_trusted_host :: "pystr list \<Rightarrow> asgi \<Rightarrow> asgi"
  fw_cors :: "cors_options \<Rightarrow> asgi \<Rightarrow> asgi"

text \<open>
  One middleware around an application, for one request with its identifiers and measured time; the
  access log passes everything on.
\<close>

definition run_middleware ::
  "framework \<Rightarrow> http_scope \<Rightarrow> pystr \<Rightarrow> pystr \<Rightarrow> pystr \<Rightarrow> middleware \<Rightarrow> asgi \<Rightarrow> asgi" where
  "run_middleware W scope rid trace_id duration m app =
     (case m of
        RequestBodyLimitMiddleware limits \<Rightarrow>
          body_limit limits rid (hs_method scope) (hs_path scope) (hs_content_length scope) app
      | GZipMiddleware n \<Rightarrow> fw_gzip W n app
      | TrustedHostMiddleware hosts \<Rightarrow> fw_trusted_host W hosts app
      | CORSMiddleware options \<Rightarrow> fw_cors W options app
      | SecurityHeadersMiddleware hsts \<Rightarrow> security_headers APP_VERSION hsts app
      | TimingMiddleware \<Rightarrow> timing duration app
      | AccessLogMiddleware \<Rightarrow> app
      | UnhandledExceptionMiddleware \<Rightarrow> unhandled_exception rid app False
      | RequestContextMiddleware \<Rightarrow> request_context rid trace_id app)"

definition run_middlewares ::
  "framework \<Rightarrow> http_scope \<Rightarrow> pystr \<Rightarrow> pystr \<Rightarrow> pystr \<Rightarrow> middleware list \<Rightarrow> asgi \<Rightarrow> asgi" where
  "run_middlewares W scope rid trace_id duration = fold (run_middleware W scope rid trace_id duration)"

section \<open>The application of accepted settings\<close>

definition cors_of :: "app_settings \<Rightarrow> cors_options" where
  "cors_of s = \<lparr>co_allow_origins = api_cors_origins s, co_allow_credentials = False,
     co_allow_methods = [lit ''*''], co_allow_headers = [lit ''*'']\<rparr>"

definition http_config_of :: "framework \<Rightarrow> app_settings \<Rightarrow> http_config" where
  "http_config_of W s =
     \<lparr>hc_limits = \<lparr>bl_max_body_bytes = api_max_request_body_bytes s,
        bl_document_upload_path_prefix = api_prefix s @ lit ''/documents'',
        bl_document_upload_max_body_bytes = document_upload_request_body_bytes s\<rparr>,
      hc_version = APP_VERSION, hc_hsts_enabled = api_hsts_enabled s,
      hc_third_party = fw_cors W (cors_of s) \<circ> fw_trusted_host W (api_trusted_hosts s)
        \<circ> fw_gzip W (api_gzip_minimum_size_bytes s)\<rparr>"

lemma api_view_value:
  assumes "api_view L s = Inr a"
  shows "a = \<lparr>as_title = api_title s, as_description = api_description s, as_prefix = api_prefix s,
      as_docs_enabled = (environment s \<noteq> Prod), as_cors_origins = api_cors_origins s,
      as_trusted_hosts = api_trusted_hosts s, as_gzip_minimum_size_bytes = api_gzip_minimum_size_bytes s,
      as_max_request_body_bytes = api_max_request_body_bytes s,
      as_readiness_timeout_seconds = api_readiness_timeout_seconds s, as_hsts_enabled = api_hsts_enabled s\<rparr>"
  using assms by (auto simp: api_view_def mk_api_settings_def all_valid_Inr split: if_splits)

lemma registered_middlewares:
  "fa_middlewares (register_middlewares api docs app) = fa_middlewares app @
     [RequestBodyLimitMiddleware (app_body_limits api docs), GZipMiddleware (as_gzip_minimum_size_bytes api),
      TrustedHostMiddleware (as_trusted_hosts api),
      CORSMiddleware \<lparr>co_allow_origins = as_cors_origins api, co_allow_credentials = False,
        co_allow_methods = [lit ''*''], co_allow_headers = [lit ''*'']\<rparr>,
      SecurityHeadersMiddleware (as_hsts_enabled api), TimingMiddleware, AccessLogMiddleware,
      UnhandledExceptionMiddleware, RequestContextMiddleware]"
  "fa_routes (register_middlewares api docs app) = fa_routes app"
  "fa_docs_url (register_middlewares api docs app) = fa_docs_url app"
  "fa_redoc_url (register_middlewares api docs app) = fa_redoc_url app"
  "fa_openapi_url (register_middlewares api docs app) = fa_openapi_url app"
  "fa_lifespan_settings (register_middlewares api docs app) = fa_lifespan_settings app"
  by (simp_all add: register_middlewares_def add_middleware_def)



end
