(* ===== verification/Composition.thy ===== *)
theory Composition
  imports ConfigGuarantees IdentityGuarantees Metrics
begin

text \<open>
  What the bootstrap composes (\<open>bootstrap/identity.py\<close>, \<open>bootstrap/dependencies.py\<close>, the pool observer of
  \<open>platform/database/engine.py\<close>): the password adapters built from the settings, the provisioning of the
  initial manager before the API serves, and the pool's snapshot.  The Argon2id hasher of given work
  factors is a parameter.
\<close>

section \<open>Password adapters\<close>

type_synonym argon2_lib = "int \<Rightarrow> int \<Rightarrow> int \<Rightarrow> pwd_lib"

definition password_hasher :: "argon2_lib \<Rightarrow> auth_settings \<Rightarrow> pwd_lib" where
  "password_hasher A s = A (au_argon2_memory_cost_kib s) (au_argon2_time_cost s) (au_argon2_parallelism s)"

definition build_password_verifier :: "argon2_lib \<Rightarrow> auth_settings \<Rightarrow> password_verifier" where
  "build_password_verifier A s = argon2_verify (password_hasher A s)"

definition build_password_encoder :: "argon2_lib \<Rightarrow> auth_settings \<Rightarrow> pystr \<Rightarrow> exn + pystr" where
  "build_password_encoder A s = argon2_encode (password_hasher A s)"

section \<open>The initial manager\<close>

text \<open>
  \<open>transactional\<close>: the container's database is a resource that creates transactions.  The identifiers are
  the two \<open>uuid4\<close> of the command.
\<close>

definition provision_initial_manager ::
  "ucd \<Rightarrow> argon2_lib \<Rightarrow> auth_settings \<Rightarrow> bool \<Rightarrow> pystr \<Rightarrow> pystr \<Rightarrow> identity_db \<Rightarrow> (exn + unit) \<times> identity_db" where
  "provision_initial_manager U A s transactional user_id membership_id db =
     (if \<not> au_enabled s then (Inr (), db)
      else case (au_initial_manager_username s, au_initial_manager_password s) of
        (Some username, Some password) \<Rightarrow>
          if \<not> transactional
          then (Inl (RuntimeError ''Initialized database resource cannot create transactions''), db)
          else (case commit_bootstrap U (build_password_encoder A s)
                  \<lparr>bc_username = username, bc_password = password, bc_tenant_id = au_default_tenant_id s,
                   bc_user_id = user_id, bc_membership_id = membership_id\<rparr> db of
                  (Inl e, db') \<Rightarrow> (Inl e, db') | (Inr created, db') \<Rightarrow> (Inr (), db'))
      | _ \<Rightarrow> (Inl (RuntimeError ''Initial manager configuration is incomplete''), db))"

lemma provision_run:
  assumes "au_enabled s" and "provision_initial_manager U A s t uid mid db = (Inr (), db')"
  obtains username password created where "t" "au_initial_manager_username s = Some username"
    "au_initial_manager_password s = Some password"
    "commit_bootstrap U (build_password_encoder A s)
       \<lparr>bc_username = username, bc_password = password, bc_tenant_id = au_default_tenant_id s,
        bc_user_id = uid, bc_membership_id = mid\<rparr> db = (Inr created, db')"
  using assms
  by (auto simp: provision_initial_manager_def split: option.splits if_splits prod.splits sum.splits)

text \<open>Accepted settings with authentication enabled name the manager, so the first error never happens.\<close>

lemma accepted_manager:
  assumes "load_settings L S = Inr s" and "auth_enabled s" and "auth_view s = Inr a"
  shows "au_enabled a \<and> (\<exists>u p. au_initial_manager_username a = Some u \<and> au_initial_manager_password a = Some p)"
proof -
  note ok = accepted_settings [OF assms(1) [unfolded load_settings_Inr]]
  have "\<not> absent (initial_manager_username s) \<and> \<not> absent (initial_manager_password s)"
    using auth_configuration(2) [OF cross_field_checks(4) [OF ok(2)] assms(2)] by blast
  then show ?thesis
    using assms(2,3) by (auto simp: auth_view_def mk_auth_settings_def all_valid_Inr absent_def split: option.splits)
qed

text \<open>Provisioning makes a start-up safe to repeat: after a successful one, under settings the loader
  accepted, the tenant has a manager and the tables are well-formed, they are untouched if it had one
  before, and every later start of any process with the same tenant succeeds and leaves them as they
  are, whatever its credentials and work factors.\<close>

theorem provisioning_idempotent:
  assumes "load_settings L S = Inr s" and "auth_enabled s" and "auth_view s = Inr a"
    and "identity_ok db" and "provision_initial_manager U A a t uid mid db = (Inr (), db')"
    and "load_settings L2 S2 = Inr s2" and "auth_enabled s2" and "auth_view s2 = Inr a2"
    and "au_default_tenant_id a2 = au_default_tenant_id a"
  shows "has_manager (au_default_tenant_id a) db' \<and> identity_ok db'
    \<and> (if has_manager (au_default_tenant_id a) db then db' = db else True)
    \<and> provision_initial_manager U2 A2 a2 True uid2 mid2 db' = (Inr (), db')"
proof -
  obtain u p created where b: "commit_bootstrap U (build_password_encoder A a)
       \<lparr>bc_username = u, bc_password = p, bc_tenant_id = au_default_tenant_id a,
        bc_user_id = uid, bc_membership_id = mid\<rparr> db = (Inr created, db')"
    using accepted_manager [OF assms(1-3)] by (blast elim: provision_run [OF _ assms(5)])
  obtain u2 p2 where s2: "au_enabled a2" "au_initial_manager_username a2 = Some u2"
    "au_initial_manager_password a2 = Some p2"
    using accepted_manager [OF assms(6-8)] by blast
  let ?c2 = "\<lparr>bc_username = u2, bc_password = p2, bc_tenant_id = au_default_tenant_id a2,
    bc_user_id = uid2, bc_membership_id = mid2\<rparr>"
  show ?thesis
    using bootstrap_idempotent [OF assms(4) b, of ?c2 U2 "build_password_encoder A2 a2"] assms(9) s2
    by (simp add: provision_initial_manager_def)
qed

definition demo_argon2 :: argon2_lib where
  "demo_argon2 m t p =
     \<lparr>pl_hash = demo_hash, pl_verify_and_update = (\<lambda>pw h. Inr (h = lit ''argon2id'' @ pw, None))\<rparr>"

definition manager_source :: source where
  "manager_source = demo_source\<lparr>src_str := (\<lambda>a. if a = ''INITIAL_MANAGER_USERNAME'' then Some (Inr (lit ''Root''))
     else if a = ''INITIAL_MANAGER_PASSWORD'' then Some (Inr (lit ''secret99'')) else src_str demo_source a)\<rparr>"

definition manager_app :: app_settings where
  "manager_app = projr (load_settings demo_url_lib manager_source)"

definition manager_auth :: auth_settings where
  "manager_auth = projr (auth_view manager_app)"

lemma manager_accepted: "load_settings demo_url_lib manager_source = Inr manager_app"
proof -
  have "\<not> isl (load_settings demo_url_lib manager_source)" by code_simp
  then show ?thesis by (cases "load_settings demo_url_lib manager_source") (simp_all add: manager_app_def)
qed

lemma manager_app_code [code]:
  "manager_app = demo_app\<lparr>initial_manager_username := Some (lit ''Root''),
     initial_manager_password := Some (lit ''secret99'')\<rparr>"
  by code_simp

lemma manager_enabled: "auth_enabled manager_app"
  by code_simp

lemma manager_view: "auth_view manager_app = Inr manager_auth"
proof -
  have "\<not> isl (auth_view manager_app)" by code_simp
  then show ?thesis by (cases "auth_view manager_app") (simp_all add: manager_auth_def)
qed

lemma manager_values: "au_default_tenant_id manager_auth = lit ''default''
   \<and> au_enabled manager_auth
   \<and> au_initial_manager_username manager_auth = Some (lit ''Root'')
   \<and> au_initial_manager_password manager_auth = Some (lit ''secret99'')"
  by code_simp

definition provisioned_db :: identity_db where
  "provisioned_db =
     snd (provision_initial_manager ascii_ucd demo_argon2 manager_auth True (lit ''u1'') (lit ''m1'') demo_seed)"

lemma manager_provisioned:
  "provision_initial_manager ascii_ucd demo_argon2 manager_auth True (lit ''u1'') (lit ''m1'') demo_seed
     = (Inr (), provisioned_db)"
proof -
  have "fst (provision_initial_manager ascii_ucd demo_argon2 manager_auth True (lit ''u1'') (lit ''m1'') demo_seed)
      = Inr ()" by code_simp
  then show ?thesis by (simp add: provisioned_db_def prod_eq_iff)
qed

lemma provisioning_idempotent_witness:
  "has_manager (lit ''default'') provisioned_db
   \<and> provision_initial_manager ascii_ucd demo_argon2 manager_auth True (lit ''u7'') (lit ''m7'') provisioned_db
      = (Inr (), provisioned_db)"
  using provisioning_idempotent [OF manager_accepted manager_enabled manager_view demo_seed_ok
      manager_provisioned manager_accepted manager_enabled manager_view, of ascii_ucd demo_argon2] manager_values
  by simp

text \<open>C15: the configured manager can log in: when the first start-up of a tenant without a manager has provisioned
  it from accepted settings, a login with the configured user name (in any letter case, with any
  surrounding white space) and password commits and grants the manager's role and capabilities,
  through the verifier that the same settings build.\<close>

theorem provisioned_manager_can_login:
  assumes "load_settings L S = Inr s" and "auth_enabled s" and "auth_view s = Inr a"
    and "identity_ok db" and "roles_seeded (au_default_tenant_id a) db" and "ucd_ascii U"
    and "\<not> has_manager (au_default_tenant_id a) db"
    and "provision_initial_manager U A a t uid mid db = (Inr (), db1)"
    and "\<And>p q. build_password_encoder A a p = Inr q
           \<Longrightarrow> pl_verify_and_update (password_hasher A a) p q = Inr (True, None)"
    and "au_initial_manager_username a = Some username"
    and "casefold U (strip (ac_login_identifier l)) = casefold U (strip username)"
    and "au_initial_manager_password a = Some (ac_password l)" and "ac_tenant_id l = au_default_tenant_id a"
    and "issue_session (ac_session_id l) (ac_family_id l) uid (ac_tenant_id l)
       (ac_refresh_token_digest l) (ac_authenticated_at l) (ac_idle_ttl l) (ac_absolute_ttl l) = Inr x"
    and "fresh_in (db_sessions db) x"
    and "list_all (\<lambda>v. length v \<le> 64)
       [ac_session_id l, ac_family_id l, uid, ac_tenant_id l, ac_refresh_token_digest l]"
  shows "commit_login U (build_password_verifier A a) l db1 =
    (Inr \<lparr>ai_user_id = uid, ai_tenant_id = au_default_tenant_id a,
          ai_session_id = ac_session_id l, ai_roles = {role_value MANAGER},
          ai_permissions = permission_value ` permissions_for_role MANAGER\<rparr>,
     db1\<lparr>db_sessions := db_sessions db @ [x]\<rparr>)"
proof -
  let ?h = "build_password_encoder A a" and ?tid = "au_default_tenant_id a"
  let ?c = "\<lparr>bc_username = username, bc_password = ac_password l, bc_tenant_id = ?tid,
    bc_user_id = uid, bc_membership_id = mid\<rparr>"
  have "au_enabled a" using accepted_manager [OF assms(1-3)] by blast
  from provision_run [OF this assms(8)] obtain created where
    b: "commit_bootstrap U ?h ?c db = (Inr created, db1)"
    using assms(10,12) by (metis option.inject)
  have "\<exists>r\<in>set (db_roles db). ro_tenant_id r = ?tid \<and> ro_role_code r = role_value MANAGER"
    using bootstrap_role [OF b] by simp
  then obtain r where r: "r \<in> set (db_roles db)" "ro_tenant_id r = bc_tenant_id ?c"
    "ro_role_code r = role_value MANAGER" by auto
  obtain y where run: "run_transaction (create_account U ?h username (ac_password l) MANAGER ?tid uid mid) db
      = (Inr y, db1)"
    using commit_bootstrap_eq [OF assms(4) r, of U ?h] b assms(7) by (auto split: prod.splits sum.splits)
  have verify: "build_password_verifier A a p (Some q) = Inr \<lparr>pc_valid = True, pc_updated_hash = None\<rparr>"
    if "?h p = Inr q" for p q
    using argon2_verify_encoded [of "password_hasher A a" p q] that assms(9) [OF that]
    by (simp add: build_password_verifier_def build_password_encoder_def)
  show ?thesis
    by (rule created_account_can_login [where h = ?h and verify = "build_password_verifier A a",
          OF assms(4-6) run verify assms(11) refl assms(13-15)])
      (use assms(16) in simp_all)
qed

lemma provisioned_manager_can_login_witness:
  "ai_roles (projr (fst (commit_login ascii_ucd (build_password_verifier demo_argon2 manager_auth) demo_login
      provisioned_db))) = {lit ''manager''}"
proof -
  let ?s = "projr (issue_session (lit ''s1'') (lit ''f1'') (lit ''u1'') (lit ''default'')
      (lit ''d1'') (Aware 0 0) 100 1000)"
  have v: "pl_verify_and_update (password_hasher demo_argon2 manager_auth) p q = Inr (True, None)"
    if "build_password_encoder demo_argon2 manager_auth p = Inr q" for p q
    using that by (auto simp: build_password_encoder_def password_hasher_def demo_argon2_def argon2_encode_def
        hash_password_def demo_hash_def py_bind)
  have seed: "roles_seeded (au_default_tenant_id manager_auth) demo_seed"
    using manager_values roles_seeded_seed by (simp add: demo_seed_def)
  have fresh: "\<not> has_manager (au_default_tenant_id manager_auth) demo_seed"
    using manager_values by (simp add: has_manager_def demo_seed_def seed_identity_roles_def empty_identity_db_def)
  have H: "casefold ascii_ucd (strip (ac_login_identifier demo_login)) = casefold ascii_ucd (strip (lit ''Root''))"
    "issue_session (ac_session_id demo_login) (ac_family_id demo_login) (lit ''u1'') (ac_tenant_id demo_login)
       (ac_refresh_token_digest demo_login) (ac_authenticated_at demo_login) (ac_idle_ttl demo_login)
       (ac_absolute_ttl demo_login) = Inr ?s"
    "fresh_in (db_sessions demo_seed) ?s"
    "list_all (\<lambda>v. length v \<le> 64) [ac_session_id demo_login, ac_family_id demo_login, lit ''u1'',
       ac_tenant_id demo_login, ac_refresh_token_digest demo_login]"
    by code_simp+
  have M: "au_initial_manager_username manager_auth = Some (lit ''Root'')"
    "au_initial_manager_password manager_auth = Some (ac_password demo_login)"
    "ac_tenant_id demo_login = au_default_tenant_id manager_auth"
    using manager_values by (simp_all add: demo_login_def)
  have r: "role_value MANAGER = lit ''manager''" by simp
  show ?thesis
    using provisioned_manager_can_login [where l = demo_login and a = manager_auth and A = demo_argon2
        and U = ascii_ucd and x = ?s, OF manager_accepted manager_enabled manager_view demo_seed_ok seed
        ucd_ascii_ascii_ucd fresh manager_provisioned v M(1) H(1) M(2,3) H(2-4)]
    by (simp add: r)
qed

section \<open>What the settings let pass\<close>

text \<open>
  The settings accept any tenant for the manager, but the migrations seed the roles of one tenant
  only: with another one no start-up succeeds.  They accept any password for it, but a new account's
  must satisfy the policy.
\<close>

definition other_tenant_source :: source where
  "other_tenant_source = manager_source\<lparr>src_str := (\<lambda>a. if a = ''AUTH_DEFAULT_TENANT_ID'' then Some (Inr (lit ''acme''))
     else src_str manager_source a)\<rparr>"

lemma other_tenant_accepted:
  "case load_settings demo_url_lib other_tenant_source of Inl e \<Rightarrow> False
   | Inr s \<Rightarrow> auth_enabled s \<and> auth_default_tenant_id s = lit ''acme''"
  by code_simp

lemma other_tenant_never_starts:
  assumes "au_enabled a" and "au_default_tenant_id a \<noteq> lit ''default''"
    and "au_initial_manager_username a = Some u" and "au_initial_manager_password a = Some p"
  shows "fst (provision_initial_manager U A a True uid mid demo_seed)
    = Inl (RuntimeError ''Required manager role has not been migrated'')"
proof -
  have "filter (\<lambda>r. ro_tenant_id r = au_default_tenant_id a \<and> ro_role_code r = role_value MANAGER) (db_roles demo_seed) = []"
    using assms(2) by (simp add: demo_seed_def seed_identity_roles_def empty_identity_db_def)
  then have "fst (commit_bootstrap U (build_password_encoder A a)
      \<lparr>bc_username = u, bc_password = p, bc_tenant_id = au_default_tenant_id a, bc_user_id = uid,
       bc_membership_id = mid\<rparr> demo_seed) = Inl (RuntimeError ''Required manager role has not been migrated'')"
    by (simp add: commit_bootstrap_def bootstrap_manager_def manager_exists_for_update_def run_query_bind
        scalar_one_or_none_def)
  then show ?thesis
    using assms by (auto simp: provision_initial_manager_def split: prod.splits sum.splits)
qed

lemma weak_manager_never_provisioned:
  "auth_enabled demo_app
   \<and> fst (provision_initial_manager ascii_ucd demo_argon2 (projr (auth_view demo_app)) True (lit ''u1'') (lit ''m1'') demo_seed)
       \<noteq> Inr ()"
  by code_simp

section \<open>The pool's snapshot\<close>

text \<open>\<open>pool\<close>: size, checked-out connections and overflow, of a pool that reports them.\<close>

definition observe_pool ::
  "url_lib \<Rightarrow> (pydecimal \<Rightarrow> pyfloat) \<Rightarrow> (int \<times> int \<times> int) option \<Rightarrow> (sink, unit) stateful" where
  "observe_pool L to_float pool active =
     (case pool of
        None \<Rightarrow> (Inr (), active)
      | Some (pool_size, checked_out, overflow) \<Rightarrow>
          (case mk_measurement (M_POOL \<lparr>pm_pool_name = lit ''primary'', pm_size = pool_size,
                                        pm_checked_out = checked_out, pm_overflow = overflow\<rparr>) of
             Inl e \<Rightarrow> (Inl e, active)
           | Inr m \<Rightarrow> (Inr (), sink_record L to_float m active)))"

text \<open>A queue pool's counters (the overflow starts at minus the size) never make the observer raise, so
  it cannot break the transaction that it observes.\<close>

lemma observe_pool_never_raises:
  assumes "0 \<le> pool_size" and "0 \<le> checked_out" and "- pool_size \<le> overflow"
  shows "fst (observe_pool L to_float (Some (pool_size, checked_out, overflow)) active) = Inr ()"
  using assms
  by (simp add: observe_pool_def mk_database_pool_measurement_def require_non_empty_def
      require_non_negative_def lit_not_blank is_space_def)

end
