(* ===== verification/Lifecycle.thy ===== *)
theory Lifecycle
  imports PyPrelude
begin

text \<open>
  Resources with a lifetime: the transaction manager of one operation
  (\<open>platform/database/transaction.py\<close>, \<open>session.py\<close>), the application container
  (\<open>bootstrap/container.py\<close>) and the lifespan of the process (\<open>bootstrap/lifecycle.py\<close>).
  The database session, the resources and the telemetry providers are not part of the program:
  their operations are parameters, stateful in a world \<open>'w\<close>; an operation under
  \<open>asyncio.timeout\<close> is the parameter's outcome, a \<open>TimeoutError\<close> included.
\<close>

section \<open>The transaction manager\<close>

record 'w session_api =
  sa_create :: "('w, unit) stateful"
  sa_begin :: "('w, unit) stateful"
  sa_commit :: "('w, unit) stateful"
  sa_rollback :: "('w, unit) stateful"
  sa_close :: "('w, unit) stateful"
  sa_observe_pool :: "('w, unit) stateful"
  sa_log_failure :: "string \<Rightarrow> exn \<Rightarrow> 'w \<Rightarrow> 'w"

text \<open>The state: whether \<open>_session\<close> is set, and the world.\<close>

type_synonym 'w manager_state = "bool \<times> 'w"

definition manager_session :: "'w manager_state \<Rightarrow> exn + unit" where
  "manager_session s = raise_if (\<not> fst s) (RuntimeError ''Transaction has not been entered'') (Inr ())"

definition aenter :: "'w session_api \<Rightarrow> ('w manager_state, unit) stateful" where
  "aenter api s =
     (if fst s then (Inl (RuntimeError ''Transaction manager cannot be re-entered''), s)
      else case sa_create api (snd s) of
        (Inl x, w1) \<Rightarrow> (Inl x, (False, w1))
      | (Inr _, w1) \<Rightarrow>
          (case bindS (sa_begin api) (\<lambda>_. sa_observe_pool api) w1 of
             (Inr _, w2) \<Rightarrow> (Inr (), (True, w2))
           | (Inl x, w2) \<Rightarrow>
               (case sa_close api w2 of
                  (Inl y, w3) \<Rightarrow> (Inl y, (True, w3))
                | (Inr _, w3) \<Rightarrow> (Inl x, (False, w3)))))"

text \<open>The \<open>try\<close> block of \<open>__aexit__\<close>, for the exception of the body, if any.\<close>

definition settle :: "'w session_api \<Rightarrow> exn option \<Rightarrow> ('w, unit) stateful" where
  "settle api exception w =
     (case exception of
        Some _ \<Rightarrow>
          (case sa_rollback api w of
             (Inl e, w1) \<Rightarrow> (Inl e, sa_log_failure api ''database.transaction.rollback_failed'' e w1)
           | (Inr _, w1) \<Rightarrow> (Inr (), w1))
      | None \<Rightarrow>
          (case sa_commit api w of
             (Inr _, w1) \<Rightarrow> (Inr (), w1)
           | (Inl e, w1) \<Rightarrow>
               (case sa_rollback api (sa_log_failure api ''database.transaction.commit_failed'' e w1) of
                  (Inr _, w2) \<Rightarrow> (Inl e, w2)
                | (Inl e2, w2) \<Rightarrow>
                    (Inl e, sa_log_failure api ''database.transaction.rollback_failed'' e2 w2))))"

definition aexit :: "'w session_api \<Rightarrow> exn option \<Rightarrow> ('w manager_state, bool) stateful" where
  "aexit api exception s =
     (case manager_session s of
        Inl x \<Rightarrow> (Inl x, s)
      | Inr _ \<Rightarrow>
          (case settle api exception (snd s) of
             (r, w1) \<Rightarrow>
               (case sa_close api w1 of
                  (Inl y, w2) \<Rightarrow> (Inl y, (True, w2))
                | (Inr _, w2) \<Rightarrow>
                    (case sa_observe_pool api w2 of
                       (Inl y, w3) \<Rightarrow> (Inl y, (False, w3))
                     | (Inr _, w3) \<Rightarrow> (map_sum id (\<lambda>_. False) r, (False, w3))))))"

text \<open>\<open>async with manager: body\<close>\<close>

definition in_session :: "'w session_api \<Rightarrow> ('w, 'a) stateful \<Rightarrow> ('w manager_state, 'a) stateful" where
  "in_session api body s =
     (case aenter api s of
        (Inl x, s1) \<Rightarrow> (Inl x, s1)
      | (Inr _, s1) \<Rightarrow>
          (case body (snd s1) of
             (r, w2) \<Rightarrow>
               (case aexit api (case r of Inl e \<Rightarrow> Some e | Inr _ \<Rightarrow> None) (fst s1, w2) of
                  (Inl y, s3) \<Rightarrow> (Inl y, s3)
                | (Inr suppressed, s3) \<Rightarrow> (r, s3))))"

text \<open>\<open>session_scope\<close>: the caller commits.\<close>

definition session_scope :: "'w session_api \<Rightarrow> ('w, 'a) stateful \<Rightarrow> ('w, 'a) stateful" where
  "session_scope api body =
     bindS (sa_create api) (\<lambda>_ w.
       case body w of
         (r, w1) \<Rightarrow>
           (case (case r of Inr x \<Rightarrow> (Inr x, w1)
                  | Inl e \<Rightarrow> (case sa_rollback api w1 of (Inl e2, w2) \<Rightarrow> (Inl e2, w2)
                             | (Inr _, w2) \<Rightarrow> (Inl e, w2))) of
              (r2, w2) \<Rightarrow>
                (case sa_close api w2 of (Inl y, w3) \<Rightarrow> (Inl y, w3) | (Inr _, w3) \<Rightarrow> (r2, w3))))"

datatype session_op = S_CREATE | S_BEGIN | S_BODY | S_COMMIT | S_ROLLBACK | S_CLOSE

text \<open>A trace of the session's operations: each call is recorded, whatever its outcome.\<close>

definition records :: "('w \<Rightarrow> session_op list) \<Rightarrow> session_op list \<Rightarrow> ('w, 'a) stateful \<Rightarrow> bool" where
  "records trace ops f \<longleftrightarrow> (\<forall>w. trace (snd (f w)) = trace w @ ops)"

definition session_traced :: "'w session_api \<Rightarrow> ('w \<Rightarrow> session_op list) \<Rightarrow> bool" where
  "session_traced api trace \<longleftrightarrow> records trace [S_CREATE] (sa_create api)
     \<and> records trace [S_BEGIN] (sa_begin api) \<and> records trace [S_COMMIT] (sa_commit api)
     \<and> records trace [S_ROLLBACK] (sa_rollback api) \<and> records trace [S_CLOSE] (sa_close api)
     \<and> records trace [] (sa_observe_pool api)
     \<and> (\<forall>m e w. trace (sa_log_failure api m e w) = trace w)"

lemma recordsD: "records trace ops f \<Longrightarrow> f w = (r, w') \<Longrightarrow> trace w' = trace w @ ops"
  unfolding records_def by (metis snd_conv)

lemma session_tracedD:
  assumes "session_traced api trace"
  shows "sa_create api w = (r, w') \<Longrightarrow> trace w' = trace w @ [S_CREATE]"
    "sa_begin api w = (r, w') \<Longrightarrow> trace w' = trace w @ [S_BEGIN]"
    "sa_commit api w = (r, w') \<Longrightarrow> trace w' = trace w @ [S_COMMIT]"
    "sa_rollback api w = (r, w') \<Longrightarrow> trace w' = trace w @ [S_ROLLBACK]"
    "sa_close api w = (r, w') \<Longrightarrow> trace w' = trace w @ [S_CLOSE]"
    "sa_observe_pool api w = (r, w') \<Longrightarrow> trace w' = trace w"
    "trace (sa_log_failure api m e w) = trace w"
  using assms unfolding session_traced_def by (auto dest: recordsD)

text \<open>What leaving the \<open>with\<close> block does, for the exception of the body.\<close>

definition settle_ops :: "exn option \<Rightarrow> exn + unit \<Rightarrow> session_op list" where
  "settle_ops exc r = (case exc of Some _ \<Rightarrow> [S_ROLLBACK]
     | None \<Rightarrow> if isl r then [S_COMMIT, S_ROLLBACK] else [S_COMMIT])"

lemma settle_trace:
  assumes tr: "session_traced api trace" and run: "settle api exc w = (r, w')"
  shows "trace w' = trace w @ settle_ops exc r"
proof (cases exc)
  case None
  obtain c w1 where c: "sa_commit api w = (c, w1)" by force
  show ?thesis
  proof (cases c)
    case (Inl e)
    let ?w = "sa_log_failure api ''database.transaction.commit_failed'' e w1"
    obtain b w2 where b: "sa_rollback api ?w = (b, w2)" by force
    have "trace w2 = trace w @ [S_COMMIT, S_ROLLBACK]"
      using session_tracedD(3) [OF tr c] session_tracedD(4) [OF tr b] session_tracedD(7) [OF tr] by simp
    then show ?thesis
      using run None c b Inl session_tracedD(7) [OF tr]
      by (cases b) (auto simp: settle_def settle_ops_def)
  qed (use run None c session_tracedD(3) [OF tr c] in \<open>auto simp: settle_def settle_ops_def\<close>)
next
  case (Some x)
  obtain b w1 where b: "sa_rollback api w = (b, w1)" by force
  then show ?thesis
    using run Some session_tracedD(4) [OF tr b] session_tracedD(7) [OF tr]
    by (cases b) (auto simp: settle_def settle_ops_def)
qed

lemma aexit_trace:
  assumes tr: "session_traced api trace" and run: "aexit api exc (True, w) = (r, s)"
  obtains q where "trace (snd s) = trace w @ settle_ops exc q @ [S_CLOSE]"
    "\<And>x. r = Inr x \<Longrightarrow> q = Inr () \<and> \<not> fst s"
proof -
  obtain q w1 where q: "settle api exc w = (q, w1)" by force
  obtain c w2 where c: "sa_close api w1 = (c, w2)" by force
  obtain b w3 where b: "sa_observe_pool api w2 = (b, w3)" by force
  have t: "trace w2 = trace w @ settle_ops exc q @ [S_CLOSE]"
    using settle_trace [OF tr q] session_tracedD(5) [OF tr c] by simp
  then have "trace w3 = trace w @ settle_ops exc q @ [S_CLOSE]"
    using session_tracedD(6) [OF tr b] by simp
  with t show ?thesis
    using that [of q] run q c b
    by (cases c; cases b; cases q) (auto simp: aexit_def manager_session_def)
qed

text \<open>The protocol of one transaction: every way through \<open>async with manager: body\<close>.\<close>

definition transaction_protocol :: "exn + 'a \<Rightarrow> (exn + 'a) option \<Rightarrow> session_op list \<Rightarrow> bool" where
  "transaction_protocol r body_result ops \<longleftrightarrow>
     (case body_result of
        None \<Rightarrow> isl r \<and> (ops = [S_CREATE] \<or> ops = [S_CREATE, S_BEGIN, S_CLOSE])
      | Some (Inr x) \<Rightarrow>
          ops = [S_CREATE, S_BEGIN, S_BODY, S_COMMIT, S_CLOSE] \<and> (\<forall>y. r = Inr y \<longrightarrow> y = x)
        \<or> isl r \<and> ops = [S_CREATE, S_BEGIN, S_BODY, S_COMMIT, S_ROLLBACK, S_CLOSE]
      | Some (Inl e) \<Rightarrow> isl r \<and> ops = [S_CREATE, S_BEGIN, S_BODY, S_ROLLBACK, S_CLOSE])"


lemma aenter_trace:
  assumes tr: "session_traced api trace" and run: "aenter api (False, w) = (r, s)"
  shows "r = Inr () \<and> fst s \<and> trace (snd s) = trace w @ [S_CREATE, S_BEGIN]
    \<or> isl r \<and> (trace (snd s) = trace w @ [S_CREATE] \<or> trace (snd s) = trace w @ [S_CREATE, S_BEGIN, S_CLOSE])"
proof -
  obtain a w1 where a: "sa_create api w = (a, w1)" by force
  obtain b w2 where b: "sa_begin api w1 = (b, w2)" by force
  obtain d w3 where d: "sa_observe_pool api w2 = (d, w3)" by force
  obtain e w4 where e: "sa_close api w3 = (e, w4)" by force
  obtain f w5 where f: "sa_close api w2 = (f, w5)" by force
  note T = session_tracedD(1) [OF tr a] session_tracedD(2) [OF tr b] session_tracedD(6) [OF tr d]
    session_tracedD(5) [OF tr e] session_tracedD(5) [OF tr f]
  show ?thesis
    using run T a b d e f
    by (cases a; cases b; cases d; cases e; cases f) (auto simp: aenter_def bindS_apply)
qed

text \<open>C18: every transaction follows the protocol of the session: it is created, begun and, once begun,
  always closed last; it is committed exactly when the body returned and rolled back when the body or
  the commit failed; the operation succeeds only with the body's result after a commit, and the
  manager can then be entered again.\<close>

theorem transaction_follows_protocol:
  assumes tr: "session_traced api trace" and bd: "records trace [S_BODY] body"
    and run: "in_session api body (False, w) = (r, s)"
  shows "\<exists>b ops. trace (snd s) = trace w @ ops \<and> transaction_protocol r b ops
    \<and> (\<forall>q. b = Some q \<longrightarrow> (\<exists>v. fst (body v) = q)) \<and> (\<forall>x. r = Inr x \<longrightarrow> b = Some (Inr x) \<and> \<not> fst s)"
proof -
  obtain a s1 where a: "aenter api (False, w) = (a, s1)" by (cases "aenter api (False, w)")
  show ?thesis
  proof (cases a)
    case (Inl x)
    then have "r = Inl x" "s = s1" using run a by (auto simp: in_session_def)
    then show ?thesis
      using aenter_trace [OF tr a] Inl
      by (intro exI [of _ None] exI [of _ "drop (length (trace w)) (trace (snd s))"])
        (auto simp: transaction_protocol_def)
  next
    case (Inr u)
    then have s1: "fst s1" "trace (snd s1) = trace w @ [S_CREATE, S_BEGIN]"
      using aenter_trace [OF tr a] by auto
    obtain q w2 where q: "body (snd s1) = (q, w2)" by force
    let ?exc = "case q of Inl e \<Rightarrow> Some e | Inr _ \<Rightarrow> None"
    obtain z s3 where z: "aexit api ?exc (True, w2) = (z, s3)" by (cases "aexit api ?exc (True, w2)")
    have w2: "trace w2 = trace w @ [S_CREATE, S_BEGIN, S_BODY]" using recordsD [OF bd q] s1(2) by simp
    have res: "r = (case z of Inl y \<Rightarrow> Inl y | Inr _ \<Rightarrow> q)" "s = s3"
      using run a Inr q z s1(1) by (auto simp: in_session_def split: sum.splits)
    obtain y where y: "trace (snd s3) = trace w2 @ settle_ops ?exc y @ [S_CLOSE]"
      "\<And>x. z = Inr x \<Longrightarrow> y = Inr () \<and> \<not> fst s3" using aexit_trace [OF tr z] by blast
    have "transaction_protocol r (Some q) ([S_CREATE, S_BEGIN, S_BODY] @ settle_ops ?exc y @ [S_CLOSE])"
      using res(1) y(2) by (cases q; cases z; cases y) (auto simp: transaction_protocol_def settle_ops_def)
    moreover have "\<exists>v. fst (body v) = q" using q by (intro exI [of _ "snd s1"]) simp
    ultimately show ?thesis
      using y w2 res
      by (intro exI [of _ "Some q"] exI [of _ "[S_CREATE, S_BEGIN, S_BODY] @ settle_ops ?exc y @ [S_CLOSE]"])
        (auto split: sum.splits)
  qed
qed

text \<open>A session whose commit fails while the world says so.\<close>

definition demo_session :: "(bool \<times> session_op list) session_api" where
  "demo_session =
     \<lparr>sa_create = (\<lambda>(f, t). (Inr (), (f, t @ [S_CREATE]))), sa_begin = (\<lambda>(f, t). (Inr (), (f, t @ [S_BEGIN]))),
      sa_commit = (\<lambda>(f, t). (if f then Inl OSError else Inr (), (f, t @ [S_COMMIT]))),
      sa_rollback = (\<lambda>(f, t). (Inr (), (f, t @ [S_ROLLBACK]))),
      sa_close = (\<lambda>(f, t). (Inr (), (f, t @ [S_CLOSE]))), sa_observe_pool = (\<lambda>w. (Inr (), w)),
      sa_log_failure = (\<lambda>m e w. w)\<rparr>"

lemma demo_session_traced: "session_traced demo_session snd"
  by (auto simp: session_traced_def records_def demo_session_def)

lemma transaction_follows_protocol_witness:
  "\<exists>r s. in_session demo_session (\<lambda>(f, t). (Inr (5::nat), (f, t @ [S_BODY]))) (False, (True, [])) = (r, s)
     \<and> r = Inl OSError
     \<and> snd (snd s) = [S_CREATE, S_BEGIN, S_BODY, S_COMMIT, S_ROLLBACK, S_CLOSE]
     \<and> (\<exists>b. transaction_protocol r b (snd (snd s)))"
proof -
  let ?body = "\<lambda>(f, t). (Inr (5::nat), (f :: bool, t @ [S_BODY]))"
  let ?r = "in_session demo_session ?body (False, (True, []))"
  have body: "records snd [S_BODY] ?body" by (auto simp: records_def)
  have "fst ?r = Inl OSError"
    "snd (snd (snd ?r)) = [S_CREATE, S_BEGIN, S_BODY, S_COMMIT, S_ROLLBACK, S_CLOSE]" by code_simp+
  moreover have "\<exists>b. transaction_protocol (fst ?r) b (snd (snd (snd ?r)))"
    using transaction_follows_protocol [OF demo_session_traced body, of "(True, [])" "fst ?r" "snd ?r"] by auto
  ultimately show ?thesis by (intro exI [of _ "fst ?r"] exI [of _ "snd ?r"]) (simp add: prod_eq_iff)
qed

section \<open>The application container\<close>

datatype resource_kind = Res_DATABASE | Res_REDIS | Res_MINIO | Res_HTTP

datatype container_state = Container_NEW | Container_STARTED | Container_CLOSED

record ('w, 'r) resource_api =
  ra_create :: "resource_kind \<Rightarrow> ('w, 'r) stateful"
  ra_probe :: "'r \<Rightarrow> ('w, unit) stateful"
  ra_close :: "'r \<Rightarrow> ('w, unit) stateful"

record 'r container =
  ct_resources :: "'r list"
  ct_state :: container_state
  ct_database :: "'r option"
  ct_redis :: "'r option"
  ct_minio :: "'r option"
  ct_http :: "'r option"

definition new_container :: "'r container" where
  "new_container = \<lparr>ct_resources = [], ct_state = Container_NEW, ct_database = None, ct_redis = None,
     ct_minio = None, ct_http = None\<rparr>"

type_synonym ('w, 'r, 'a) container_op = "('r container \<times> 'w, 'a) stateful"

definition create_resource :: "('w, 'r) resource_api \<Rightarrow> resource_kind \<Rightarrow> ('w, 'r, 'r) container_op" where
  "create_resource api kind = (\<lambda>(c, w).
     case ra_create api kind w of
       (Inl x, w1) \<Rightarrow> (Inl x, (c, w1))
     | (Inr r, w1) \<Rightarrow> (Inr r, (c\<lparr>ct_resources := ct_resources c @ [r]\<rparr>, w1)))"

definition create_and_probe :: "('w, 'r) resource_api \<Rightarrow> resource_kind \<Rightarrow> ('w, 'r, 'r) container_op" where
  "create_and_probe api kind =
     bindS (create_resource api kind) (\<lambda>r (c, w).
       case ra_probe api r w of (p, w1) \<Rightarrow> (map_sum id (\<lambda>_. r) p, (c, w1)))"

definition update_container :: "('r container \<Rightarrow> 'r container) \<Rightarrow> ('w, 'r, unit) container_op" where
  "update_container f = (\<lambda>(c, w). (Inr (), (f c, w)))"

text \<open>\<open>_close_resources\<close>: the list is popped from its end; a cancellation leaves the rest in it.\<close>

fun close_loop ::
  "('w, 'r) resource_api \<Rightarrow> 'r list \<Rightarrow> exn list \<Rightarrow> 'w \<Rightarrow> (exn + exn list) \<times> 'r list \<times> 'w" where
  "close_loop api [] errors w = (Inr errors, [], w)"
| "close_loop api (r # rs) errors w =
     (case ra_close api r w of
        (Inr _, w1) \<Rightarrow> close_loop api rs errors w1
      | (Inl x, w1) \<Rightarrow>
          if is_exception x then close_loop api rs (errors @ [x]) w1 else (Inl x, rs, w1))"

definition close_resources :: "('w, 'r) resource_api \<Rightarrow> bool \<Rightarrow> ('w, 'r, unit) container_op" where
  "close_resources api suppress_errors = (\<lambda>(c, w).
     case close_loop api (rev (ct_resources c)) [] w of
       (res, rest, w1) \<Rightarrow>
         (case res of
            Inl x \<Rightarrow> Inl x
          | Inr errors \<Rightarrow>
              if errors \<noteq> [] \<and> \<not> suppress_errors then Inl (ExceptionGroup (length errors)) else Inr (),
          (c\<lparr>ct_resources := rev rest\<rparr>, w1)))"

definition start_resources :: "('w, 'r) resource_api \<Rightarrow> ('w, 'r, unit) container_op" where
  "start_resources api =
     bindS (create_and_probe api Res_DATABASE) (\<lambda>r.
     bindS (update_container (\<lambda>c. c\<lparr>ct_database := Some r\<rparr>)) (\<lambda>_.
     bindS (create_and_probe api Res_REDIS) (\<lambda>r.
     bindS (update_container (\<lambda>c. c\<lparr>ct_redis := Some r\<rparr>)) (\<lambda>_.
     bindS (create_and_probe api Res_MINIO) (\<lambda>r.
     bindS (update_container (\<lambda>c. c\<lparr>ct_minio := Some r\<rparr>)) (\<lambda>_.
     bindS (create_resource api Res_HTTP) (\<lambda>r.
     update_container (\<lambda>c. c\<lparr>ct_http := Some r\<rparr>))))))))"

definition start_container :: "('w, 'r) resource_api \<Rightarrow> ('w, 'r, unit) container_op" where
  "start_container api s =
     (if ct_state (fst s) \<noteq> Container_NEW
      then (Inl (RuntimeError ''Cannot start container in this state''), s)
      else case start_resources api s of
        (Inr _, (c, w)) \<Rightarrow> (Inr (), (c\<lparr>ct_state := Container_STARTED\<rparr>, w))
      | (Inl x, s1) \<Rightarrow>
          (case close_resources api True s1 of
             (Inl y, s2) \<Rightarrow> (Inl y, s2)
           | (Inr _, (c, w)) \<Rightarrow> (Inl x, (c\<lparr>ct_state := Container_CLOSED\<rparr>, w))))"

definition close_container :: "('w, 'r) resource_api \<Rightarrow> ('w, 'r, unit) container_op" where
  "close_container api s =
     (if ct_state (fst s) = Container_CLOSED then (Inr (), s)
      else bindS (close_resources api False)
             (\<lambda>_. update_container (\<lambda>c. c\<lparr>ct_state := Container_CLOSED\<rparr>)) s)"

text \<open>\<open>ExternalHttpResource.close\<close>: the OCR client first, then the LLM client, if enabled.\<close>

definition external_http_close ::
  "('h \<Rightarrow> ('w, unit) stateful) \<Rightarrow> 'h option \<Rightarrow> 'h option \<Rightarrow> ('w, unit) stateful" where
  "external_http_close aclose ocr_client llm_client =
     bindS (case ocr_client of None \<Rightarrow> retS () | Some h \<Rightarrow> aclose h) (\<lambda>_.
     case llm_client of None \<Rightarrow> retS () | Some h \<Rightarrow> aclose h)"

section \<open>The lifespan\<close>

record ('w, 'r) process_api =
  pa_configure :: "('w, unit) stateful"
  pa_resources :: "('w, 'r) resource_api"
  pa_auth_enabled :: bool
  pa_provision_initial_manager :: "('w, 'r, unit) container_op"
  pa_serve :: "'r container \<Rightarrow> ('w, unit) stateful"
  pa_shutdown_metrics :: "('w, unit) stateful"
  pa_shutdown_tracing :: "('w, unit) stateful"

definition provision_manager :: "('w, 'r) process_api \<Rightarrow> ('w, 'r, unit) container_op" where
  "provision_manager api =
     (if \<not> pa_auth_enabled api then retS () else pa_provision_initial_manager api)"

definition serve_container :: "('w, 'r) process_api \<Rightarrow> ('w, 'r, unit) container_op" where
  "serve_container api =
     bindS (start_container (pa_resources api)) (\<lambda>_.
     bindS (provision_manager api) (\<lambda>_ (c, w).
       case pa_serve api c w of (r, w1) \<Rightarrow> (r, (c, w1))))"

text \<open>\<open>finally\<close>: the cleanup runs in either case, and its own exception wins.\<close>

definition finally_do :: "('s, 'a) stateful \<Rightarrow> ('s, unit) stateful \<Rightarrow> ('s, 'a) stateful" where
  "finally_do f cleanup s =
     (case f s of (r, s1) \<Rightarrow>
        (case cleanup s1 of (Inl y, s2) \<Rightarrow> (Inl y, s2) | (Inr _, s2) \<Rightarrow> (r, s2)))"

definition on_world :: "('w, 'a) stateful \<Rightarrow> ('w, 'r, 'a) container_op" where
  "on_world f = (\<lambda>(c, w). case f w of (r, w1) \<Rightarrow> (r, (c, w1)))"

definition lifespan :: "('w, 'r) process_api \<Rightarrow> ('w, 'r, unit) container_op" where
  "lifespan api =
     bindS (on_world (pa_configure api)) (\<lambda>_.
     finally_do (serve_container api)
       (finally_do (close_container (pa_resources api))
          (bindS (on_world (pa_shutdown_metrics api)) (\<lambda>_. on_world (pa_shutdown_tracing api)))))"


section \<open>Every resource is released\<close>

text \<open>
  \<open>made\<close> and \<open>freed\<close> list the resources in the order of the calls.  A close counts whatever its
  outcome; it may fail or time out but is not cancelled.
\<close>

definition resource_law :: "('w, 'r) resource_api \<Rightarrow> ('w \<Rightarrow> 'r list) \<Rightarrow> ('w \<Rightarrow> 'r list) \<Rightarrow> bool" where
  "resource_law api made freed \<longleftrightarrow>
     (\<forall>k w r w'. ra_create api k w = (r, w') \<longrightarrow> freed w' = freed w
        \<and> made w' = made w @ (case r of Inl _ \<Rightarrow> [] | Inr h \<Rightarrow> [h]))
   \<and> (\<forall>h w r w'. ra_probe api h w = (r, w') \<longrightarrow> freed w' = freed w \<and> made w' = made w)
   \<and> (\<forall>h w r w'. ra_close api h w = (r, w') \<longrightarrow> freed w' = freed w @ [h] \<and> made w' = made w
        \<and> (\<forall>x. r = Inl x \<longrightarrow> is_exception x))"

definition untouched :: "('w \<Rightarrow> 'r list) \<Rightarrow> ('w \<Rightarrow> 'r list) \<Rightarrow> ('w, 'a) stateful \<Rightarrow> bool" where
  "untouched made freed f \<longleftrightarrow>
     (\<forall>w r w'. f w = (r, w') \<longrightarrow> freed w' = freed w \<and> made w' = made w)"

definition process_law :: "('w, 'r) process_api \<Rightarrow> ('w \<Rightarrow> 'r list) \<Rightarrow> ('w \<Rightarrow> 'r list) \<Rightarrow> bool" where
  "process_law api made freed \<longleftrightarrow> resource_law (pa_resources api) made freed
     \<and> untouched made freed (pa_configure api) \<and> (\<forall>c. untouched made freed (pa_serve api c))
     \<and> untouched made freed (pa_shutdown_metrics api) \<and> untouched made freed (pa_shutdown_tracing api)
     \<and> (\<forall>c w r c' w'. pa_provision_initial_manager api (c, w) = (r, (c', w')) \<longrightarrow>
          c' = c \<and> freed w' = freed w \<and> made w' = made w)"

text \<open>The container holds all that was created since \<open>C\<close>, and nothing was closed since \<open>D\<close>.\<close>

definition holds :: "('w \<Rightarrow> 'r list) \<Rightarrow> ('w \<Rightarrow> 'r list) \<Rightarrow> 'r list \<Rightarrow> 'r list \<Rightarrow> 'r container \<times> 'w \<Rightarrow> bool" where
  "holds made freed C D s \<longleftrightarrow>
     made (snd s) = C @ ct_resources (fst s) \<and> freed (snd s) = D"

definition released :: "('w \<Rightarrow> 'r list) \<Rightarrow> ('w \<Rightarrow> 'r list) \<Rightarrow> 'r list \<Rightarrow> 'r list \<Rightarrow> 'r container \<times> 'w \<Rightarrow> bool" where
  "released made freed C D s \<longleftrightarrow> ct_resources (fst s) = []
     \<and> (\<exists>rs. made (snd s) = C @ rs \<and> freed (snd s) = D @ rev rs)"

definition keeps :: "('s \<Rightarrow> bool) \<Rightarrow> ('s, 'a) stateful \<Rightarrow> bool" where
  "keeps P f \<longleftrightarrow> (\<forall>s r s'. P s \<longrightarrow> f s = (r, s') \<longrightarrow> P s')"

lemma keepsD: "keeps P f \<Longrightarrow> P s \<Longrightarrow> f s = (r, s') \<Longrightarrow> P s'"
  unfolding keeps_def by blast

lemma keeps_bindS:
  assumes f: "keeps P f" and g: "\<And>x. keeps P (g x)"
  shows "keeps P (bindS f g)"
  unfolding keeps_def
proof (intro allI impI)
  fix s r s' assume s: "P s" and run: "bindS f g s = (r, s')"
  obtain q s1 where q: "f s = (q, s1)" by (cases "f s")
  have "P s1" by (rule keepsD [OF f s q])
  then show "P s'"
    using run q keepsD [OF g, of s1] by (cases q) (auto simp: bindS_apply)
qed

lemma create_resource_keeps:
  "resource_law api made freed \<Longrightarrow> keeps (holds made freed C D) (create_resource api k)"
  unfolding keeps_def resource_law_def
  by (auto simp: create_resource_def holds_def split: prod.splits sum.splits)

lemma create_and_probe_keeps:
  assumes "resource_law api made freed"
  shows "keeps (holds made freed C D) (create_and_probe api k)"
  unfolding create_and_probe_def
proof (rule keeps_bindS)
  show "keeps (holds made freed C D) (create_resource api k)" by (rule create_resource_keeps [OF assms])
  show "keeps (holds made freed C D)
      (\<lambda>(c, w). case ra_probe api r w of (p, w1) \<Rightarrow> (map_sum id (\<lambda>_. r) p, (c, w1)))" for r
    using assms unfolding keeps_def resource_law_def
    by (auto simp: holds_def split: prod.splits)
qed

lemma update_container_keeps:
  "(\<And>c. ct_resources (f c) = ct_resources c) \<Longrightarrow> keeps (holds made freed C D) (update_container f)"
  by (auto simp: keeps_def update_container_def holds_def)

lemma start_resources_keeps:
  "resource_law api made freed \<Longrightarrow> keeps (holds made freed C D) (start_resources api)"
  unfolding start_resources_def
  by (intro keeps_bindS create_and_probe_keeps create_resource_keeps update_container_keeps) simp_all

lemma close_loop_run:
  assumes "resource_law api made freed"
  shows "close_loop api rs errors w = (r, rest, w') \<Longrightarrow>
    (\<exists>es. r = Inr es) \<and> rest = [] \<and> freed w' = freed w @ rs \<and> made w' = made w"
proof (induction rs arbitrary: errors w)
  case (Cons h rs)
  obtain q w1 where q: "ra_close api h w = (q, w1)" by (cases "ra_close api h w")
  then have "freed w1 = freed w @ [h]" "made w1 = made w" "\<And>x. q = Inl x \<Longrightarrow> is_exception x"
    using assms unfolding resource_law_def by blast+
  then show ?case
    using Cons.IH [of _ w1] Cons.prems q by (cases q) auto
qed auto

lemma close_resources_run:
  assumes "resource_law api made freed" "holds made freed C D s" "close_resources api b s = (r, s')"
  shows "released made freed C D s'" "b \<Longrightarrow> r = Inr ()"
proof -
  obtain q rest w1 where q: "close_loop api (rev (ct_resources (fst s))) [] (snd s) = (q, rest, w1)"
    by (cases "close_loop api (rev (ct_resources (fst s))) [] (snd s)") auto
  note R = close_loop_run [OF assms(1) q]
  have s': "s' = ((fst s)\<lparr>ct_resources := []\<rparr>, w1)"
    using assms(3) q R by (auto simp: close_resources_def split_beta)
  show "released made freed C D s'"
    using R assms(2) unfolding s' released_def holds_def by simp
  show "r = Inr ()" if b
    using that assms(3) q R by (auto simp: close_resources_def split_beta)
qed


lemma state_new [simp]: "ct_state new_container = Container_NEW"
  by (simp add: new_container_def)

lemma start_container_run:
  assumes law: "resource_law api made freed" and run: "start_container api (new_container, w) = (r, s)"
  shows "case r of Inr _ \<Rightarrow> holds made freed (made w) (freed w) s \<and> ct_state (fst s) = Container_STARTED
    | Inl _ \<Rightarrow> released made freed (made w) (freed w) s \<and> ct_state (fst s) = Container_CLOSED"
proof -
  obtain q c1 w1 where q: "start_resources api (new_container, w) = (q, (c1, w1))"
    by (cases "start_resources api (new_container, w)") auto
  have "holds made freed (made w) (freed w) (new_container, w)"
    by (simp add: holds_def new_container_def)
  then have h: "holds made freed (made w) (freed w) (c1, w1)"
    using keepsD [OF start_resources_keeps [OF law] _ q] by blast
  obtain p c2 w2 where p: "close_resources api True (c1, w1) = (p, (c2, w2))"
    by (cases "close_resources api True (c1, w1)") auto
  note R = close_resources_run [OF law h p]
  show ?thesis
  proof (cases q)
    case (Inr u)
    then show ?thesis
      using run q h by (auto simp: start_container_def holds_def)
  next
    case (Inl x)
    then show ?thesis
      using run q p R by (auto simp: start_container_def released_def)
  qed
qed

lemma close_container_run:
  assumes law: "resource_law api made freed" and run: "close_container api s = (r, s')"
    and s: "if ct_state (fst s) = Container_CLOSED then released made freed C D s else holds made freed C D s"
  shows "released made freed C D s'"
proof (cases "ct_state (fst s) = Container_CLOSED")
  case True
  then show ?thesis using run s by (simp add: close_container_def)
next
  case False
  then have h: "holds made freed C D s" using s by simp
  obtain q c1 w1 where q: "close_resources api False s = (q, (c1, w1))"
    by (cases "close_resources api False s") auto
  have "released made freed C D (c1, w1)" by (rule close_resources_run(1) [OF law h q])
  then show ?thesis
    using run False q by (cases q) (auto simp: close_container_def bindS_apply update_container_def released_def)
qed


text \<open>A state the lifespan can be in: started and holding, or closed and released.\<close>

definition accounted :: "('w \<Rightarrow> 'r list) \<Rightarrow> ('w \<Rightarrow> 'r list) \<Rightarrow> 'r list \<Rightarrow> 'r list \<Rightarrow> 'r container \<times> 'w \<Rightarrow> bool" where
  "accounted made freed C D s \<longleftrightarrow>
     (if ct_state (fst s) = Container_CLOSED then released made freed C D s else holds made freed C D s)"

lemma serve_container_run:
  assumes law: "process_law api made freed" and run: "serve_container api (new_container, w) = (r, s)"
  shows "accounted made freed (made w) (freed w) s"
proof -
  have res: "resource_law (pa_resources api) made freed" using law by (simp add: process_law_def)
  obtain q c1 w1 where q: "start_container (pa_resources api) (new_container, w) = (q, (c1, w1))"
    by (cases "start_container (pa_resources api) (new_container, w)") auto
  note S = start_container_run [OF res q]
  then have acc: "accounted made freed (made w) (freed w) (c1, w1)"
    by (cases q) (auto simp: accounted_def)
  show ?thesis
  proof (cases q)
    case (Inr u)
    obtain p c2 w2 where p: "provision_manager api (c1, w1) = (p, (c2, w2))"
      by (cases "provision_manager api (c1, w1)") auto
    have "c2 = c1 \<and> freed w2 = freed w1 \<and> made w2 = made w1"
    proof (cases "pa_auth_enabled api")
      case True
      then have "pa_provision_initial_manager api (c1, w1) = (p, (c2, w2))"
        using p by (simp add: provision_manager_def)
      then show ?thesis using law unfolding process_law_def by blast
    qed (use p in \<open>simp add: provision_manager_def\<close>)
    moreover obtain v w3 where v: "pa_serve api c2 w2 = (v, w3)" by (cases "pa_serve api c2 w2")
    moreover have "freed w3 = freed w2 \<and> made w3 = made w2"
      using law v unfolding process_law_def untouched_def by blast
    ultimately show ?thesis
      using run q p Inr acc
      by (cases p) (auto simp: serve_container_def bindS_apply accounted_def holds_def released_def split: if_splits)
  qed (use run q acc in \<open>auto simp: serve_container_def bindS_apply\<close>)
qed

lemma shutdown_run:
  assumes law: "process_law api made freed"
    and run: "bindS (on_world (pa_shutdown_metrics api)) (\<lambda>_. on_world (pa_shutdown_tracing api)) s = (r, s')"
    and rel: "released made freed C D s"
  shows "released made freed C D s'"
proof -
  obtain a w1 where a: "pa_shutdown_metrics api (snd s) = (a, w1)" by (cases "pa_shutdown_metrics api (snd s)")
  obtain b w2 where b: "pa_shutdown_tracing api w1 = (b, w2)" by (cases "pa_shutdown_tracing api w1")
  have "freed w1 = freed (snd s)" "made w1 = made (snd s)" "freed w2 = freed w1" "made w2 = made w1"
    using law a b unfolding process_law_def untouched_def by blast+
  then show ?thesis
    using run a b rel by (cases a) (auto simp: bindS_apply on_world_def released_def split_beta)
qed

lemma on_world_run: "f w = (r, w') \<Longrightarrow> on_world f (c, w) = (r, (c, w'))"
  by (simp add: on_world_def)

text \<open>Over the whole life of the process no resource leaks: whatever happens during startup,
  provisioning, serving and shutdown, every resource that was created has been closed exactly once,
  in reverse order of creation, and the container holds none.\<close>

theorem lifespan_releases_everything:
  assumes "process_law api made freed" and "lifespan api (new_container, w) = (r, (c, w'))"
  shows "ct_resources c = []
    \<and> (\<exists>rs. made w' = made w @ rs \<and> freed w' = freed w @ rev rs)"
proof -
  have res: "resource_law (pa_resources api) made freed" using assms(1) by (simp add: process_law_def)
  obtain a w1 where a: "pa_configure api w = (a, w1)" by (cases "pa_configure api w")
  have w1: "freed w1 = freed w" "made w1 = made w"
    using assms(1) a unfolding process_law_def untouched_def by blast+
  obtain q s1 where q: "serve_container api (new_container, w1) = (q, s1)" by (cases "serve_container api (new_container, w1)")
  obtain p s2 where p: "close_container (pa_resources api) s1 = (p, s2)" by (cases "close_container (pa_resources api) s1")
  obtain v s3 where v: "bindS (on_world (pa_shutdown_metrics api)) (\<lambda>_. on_world (pa_shutdown_tracing api)) s2 = (v, s3)"
    by (cases "bindS (on_world (pa_shutdown_metrics api)) (\<lambda>_. on_world (pa_shutdown_tracing api)) s2")
  have "released made freed (made w1) (freed w1) s2"
    using close_container_run [OF res p] serve_container_run [OF assms(1) q] by (simp add: accounted_def)
  then have rel: "released made freed (made w) (freed w) s3"
    using shutdown_run [OF assms(1) v] w1 by simp
  show ?thesis
  proof (cases a)
    case (Inl x)
    then have "w' = w1" "c = new_container"
      using assms(2) a by (simp_all add: lifespan_def bindS_apply on_world_def)
    then show ?thesis using w1 by (simp add: new_container_def)
  next
    case (Inr u)
    then have "finally_do (serve_container api)
       (finally_do (close_container (pa_resources api))
          (bindS (on_world (pa_shutdown_metrics api)) (\<lambda>_. on_world (pa_shutdown_tracing api))))
       (new_container, w1) = (r, (c, w'))"
      using assms(2) by (simp add: lifespan_def bindS_apply on_world_run [of "pa_configure api" w a w1, OF a] Inr)
    then have "(c, w') = s3"
      using q p v by (cases v; cases p) (simp_all add: finally_do_def)
    then show ?thesis using rel unfolding released_def by (metis fst_conv snd_conv)
  qed
qed


text \<open>Resources named by numbers; the third one to be probed is down, and closing the first fails.\<close>

definition demo_resources :: "(nat list \<times> nat list, nat) resource_api" where
  "demo_resources =
     \<lparr>ra_create = (\<lambda>k (m, f). (Inr (length m), (m @ [length m], f))),
      ra_probe = (\<lambda>h w. (if h = 2 then Inl TimeoutError else Inr (), w)),
      ra_close = (\<lambda>h (m, f). (if h = 0 then Inl OSError else Inr (), (m, f @ [h])))\<rparr>"

definition demo_process :: "(nat list \<times> nat list, nat) process_api" where
  "demo_process =
     \<lparr>pa_configure = retS (), pa_resources = demo_resources, pa_auth_enabled = False,
      pa_provision_initial_manager = retS (), pa_serve = (\<lambda>c. retS ()),
      pa_shutdown_metrics = retS (), pa_shutdown_tracing = retS ()\<rparr>"

lemma demo_process_law: "process_law demo_process fst snd"
  by (auto simp: process_law_def demo_process_def resource_law_def untouched_def demo_resources_def
      split: if_splits)

lemma lifespan_releases_everything_witness:
  "\<exists>c w'. lifespan demo_process (new_container, ([], [])) = (Inl TimeoutError, (c, w'))
     \<and> ct_resources c = [] \<and> w' = ([0, 1, 2], [2, 1, 0])"
proof -
  let ?r = "lifespan demo_process (new_container, ([], []))"
  have "fst ?r = Inl TimeoutError \<and> snd (snd ?r) = ([0, 1, 2], [2, 1, 0])" by code_simp
  moreover have "ct_resources (fst (snd ?r)) = []"
    using lifespan_releases_everything [OF demo_process_law, of "([], [])" "fst ?r" "fst (snd ?r)" "snd (snd ?r)"]
    by simp
  ultimately show ?thesis
    by (intro exI [of _ "fst (snd ?r)"] exI [of _ "snd (snd ?r)"]) (simp add: prod_eq_iff)
qed

text \<open>When the OCR client fails to close, the LLM client is never closed.\<close>

lemma external_http_close_leaks:
  "aclose h w = (Inl x, w') \<Longrightarrow> external_http_close aclose (Some h) (Some k) w = (Inl x, w')"
  by (simp add: external_http_close_def bindS_apply)

end
