(* ===== verification/Clients.thy ===== *)
theory Clients
  imports Composition Lifecycle DocRoutes Logging "HOL-Library.Multiset"
begin

text \<open>
  The resources behind the container (\<open>bootstrap/container.py\<close>, \<open>platform/database/engine.py\<close>,
  \<open>platform/queue/redis.py\<close>, \<open>platform/object_store/client.py\<close>, \<open>platform/llm\<close>, \<open>platform/ocr\<close>), the
  accessors of a request (\<open>entrypoints/api/dependencies.py\<close>) and the wiring of the upload handler
  (\<open>bootstrap/dependencies.py\<close>).  SQLAlchemy, redis, urllib3, MinIO and httpx are the parameter
  \<open>client_lib\<close> over opaque handles \<open>'h\<close>; an awaited call gets the time of the \<open>asyncio.timeout\<close> around it
  and may end in its \<open>TimeoutError\<close>.
\<close>

section \<open>The clients' libraries\<close>

record engine_args =
  ea_url :: pystr
  ea_pool_size :: int
  ea_max_overflow :: int
  ea_pool_timeout :: pyfloat
  ea_pool_pre_ping :: bool

record redis_args =
  rd_url :: pystr
  rd_max_connections :: int
  rd_decode_responses :: bool

record minio_args =
  ma_endpoint :: pystr
  ma_access_key :: pystr
  ma_secret_key :: pystr
  ma_secure :: bool

record http_args =
  ha_base_url :: pystr
  ha_headers :: "(pystr \<times> pystr) list"
  ha_timeout :: pyfloat

datatype 'h client_call =
    Call_create_async_engine engine_args
  | Call_redis_from_url redis_args
  | Call_pool_manager
  | Call_minio minio_args 'h
  | Call_async_client http_args

record ('w, 'h) client_lib =
  cl_make :: "'h client_call \<Rightarrow> ('w, 'h) stateful"
  cl_select_1 :: "pyfloat \<Rightarrow> 'h \<Rightarrow> ('w, unit) stateful"
  cl_pool :: "'h \<Rightarrow> 'w \<Rightarrow> (int \<times> int \<times> int) option"
  cl_dispose :: "pyfloat \<Rightarrow> 'h \<Rightarrow> ('w, unit) stateful"
  cl_ping :: "pyfloat \<Rightarrow> 'h \<Rightarrow> ('w, unit) stateful"
  cl_redis_aclose :: "pyfloat \<Rightarrow> 'h \<Rightarrow> ('w, unit) stateful"
  cl_bucket_exists :: "pyfloat \<Rightarrow> 'h \<Rightarrow> pystr \<Rightarrow> ('w, bool) stateful"
  cl_clear :: "'h \<Rightarrow> ('w, unit) stateful"
  cl_http_aclose :: "pyfloat \<Rightarrow> 'h \<Rightarrow> ('w, unit) stateful"

text \<open>The world of the container: the clients' world and the active metrics sink.\<close>

type_synonym ('w, 'a) process_op = "('w \<times> sink, 'a) stateful"

definition on_client :: "('w, 'a) stateful \<Rightarrow> ('w, 'a) process_op" where
  "on_client f = (\<lambda>(w, sk). case f w of (r, w') \<Rightarrow> (r, (w', sk)))"

lemma on_client_run: "on_client f (w, sk) = (r, s) \<longleftrightarrow> (\<exists>w'. f w = (r, w') \<and> s = (w', sk))"
  by (auto simp: on_client_def split: prod.splits)

section \<open>The resources\<close>

record 'h session_factory =
  sf_bind :: 'h
  sf_expire_on_commit :: bool
  sf_autoflush :: bool

definition create_session_factory :: "'h \<Rightarrow> 'h session_factory" where
  "create_session_factory engine = \<lparr>sf_bind = engine, sf_expire_on_commit = False, sf_autoflush = False\<rparr>"

record 'h database_resource =
  dr_engine :: 'h
  dr_client :: 'h
  dr_session_factory :: "'h session_factory"

record 'h minio_resource =
  mr_bucket :: pystr
  mr_pool :: 'h
  mr_client :: 'h

record 'h external_http_resource =
  er_llm_client :: "'h option"
  er_ocr_client :: "'h option"

datatype 'h lifecycle_resource =
    DatabaseResource "'h database_resource"
  | RedisResource 'h
  | MinioResource "'h minio_resource"
  | ExternalHttpResource "'h external_http_resource"

definition create_database_resource ::
  "('w, 'h) client_lib \<Rightarrow> database_settings \<Rightarrow> ('w, 'h database_resource) process_op" where
  "create_database_resource C s =
     bindS (on_client (cl_make C (Call_create_async_engine
       \<lparr>ea_url = ds_url s, ea_pool_size = ds_pool_size s, ea_max_overflow = ds_max_overflow s,
        ea_pool_timeout = ds_pool_timeout_seconds s, ea_pool_pre_ping = True\<rparr>)))
     (\<lambda>e. retS \<lparr>dr_engine = e, dr_client = e, dr_session_factory = create_session_factory e\<rparr>)"

definition create_redis_resource ::
  "('w, 'h) client_lib \<Rightarrow> redis_settings \<Rightarrow> ('w, 'h) process_op" where
  "create_redis_resource C s =
     on_client (cl_make C (Call_redis_from_url
       \<lparr>rd_url = rs_url s, rd_max_connections = rs_max_connections s, rd_decode_responses = True\<rparr>))"

definition create_minio_resource ::
  "('w, 'h) client_lib \<Rightarrow> minio_settings \<Rightarrow> ('w, 'h minio_resource) process_op" where
  "create_minio_resource C s =
     bindS (on_client (cl_make C Call_pool_manager)) (\<lambda>pool.
     bindS (on_client (cl_make C (Call_minio
       \<lparr>ma_endpoint = ms_endpoint s, ma_access_key = ms_access_key s, ma_secret_key = ms_secret_key s,
        ma_secure = ms_secure s\<rparr> pool))) (\<lambda>client.
     retS \<lparr>mr_bucket = ms_bucket s, mr_pool = pool, mr_client = client\<rparr>))"

text \<open>\<open>create_llm_client\<close> and \<open>create_ocr_client\<close> are the same function.\<close>

definition provider_args :: "pystr \<Rightarrow> pystr \<Rightarrow> pyfloat \<Rightarrow> http_args" where
  "provider_args base_url api_key timeout_seconds =
     \<lparr>ha_base_url = base_url, ha_headers = [(lit ''Authorization'', lit ''Bearer '' @ api_key)],
      ha_timeout = timeout_seconds\<rparr>"

definition create_provider_client ::
  "('w, 'h) client_lib \<Rightarrow> provider_settings \<Rightarrow> pyfloat \<Rightarrow> ('w, 'h option) process_op" where
  "create_provider_client C p timeout_seconds =
     (if \<not> ps_enabled p then retS None
      else case (ps_base_url p, ps_api_key p) of
        (Some base_url, Some api_key) \<Rightarrow>
          bindS (on_client (cl_make C (Call_async_client (provider_args base_url api_key timeout_seconds))))
            (\<lambda>h. retS (Some h))
      | _ \<Rightarrow> retS None)"

definition create_external_http ::
  "('w, 'h) client_lib \<Rightarrow> app_settings \<Rightarrow> ('w, 'h external_http_resource) process_op" where
  "create_external_http C s =
     bindS (bindS (liftS (or_raise (llm_view s)))
              (\<lambda>p. create_provider_client C p (http_timeout_seconds s))) (\<lambda>llm.
     bindS (bindS (liftS (or_raise (ocr_view s)))
              (\<lambda>p. create_provider_client C p (http_timeout_seconds s))) (\<lambda>ocr.
     retS \<lparr>er_llm_client = llm, er_ocr_client = ocr\<rparr>))"

text \<open>The default \<open>ResourceFactories\<close>.\<close>

definition resource_factory ::
  "('w, 'h) client_lib \<Rightarrow> app_settings \<Rightarrow> resource_kind \<Rightarrow> ('w, 'h lifecycle_resource) process_op" where
  "resource_factory C s kind =
     (case kind of
        Res_DATABASE \<Rightarrow> bindS (bindS (liftS (or_raise (database_view s))) (create_database_resource C))
          (\<lambda>r. retS (DatabaseResource r))
      | Res_REDIS \<Rightarrow> bindS (bindS (liftS (or_raise (redis_view s))) (create_redis_resource C))
          (\<lambda>r. retS (RedisResource r))
      | Res_MINIO \<Rightarrow> bindS (bindS (liftS (or_raise (minio_view s))) (create_minio_resource C))
          (\<lambda>r. retS (MinioResource r))
      | Res_HTTP \<Rightarrow> bindS (create_external_http C s) (\<lambda>r. retS (ExternalHttpResource r)))"

definition database_observe_pool ::
  "('w, 'h) client_lib \<Rightarrow> url_lib \<Rightarrow> (pydecimal \<Rightarrow> pyfloat) \<Rightarrow> 'h database_resource \<Rightarrow> ('w, unit) process_op" where
  "database_observe_pool C L to_float r = (\<lambda>(w, sk).
     case observe_pool L to_float (cl_pool C (dr_engine r) w) sk of (x, sk') \<Rightarrow> (x, (w, sk')))"

fun probe_resource ::
  "('w, 'h) client_lib \<Rightarrow> url_lib \<Rightarrow> (pydecimal \<Rightarrow> pyfloat) \<Rightarrow> pyfloat \<Rightarrow> 'h lifecycle_resource
   \<Rightarrow> ('w, unit) process_op" where
  "probe_resource C L tf t (DatabaseResource r) =
     bindS (on_client (cl_select_1 C t (dr_engine r))) (\<lambda>_. database_observe_pool C L tf r)"
| "probe_resource C L tf t (RedisResource h) = on_client (cl_ping C t h)"
| "probe_resource C L tf t (MinioResource r) =
     bindS (on_client (cl_bucket_exists C t (mr_client r) (mr_bucket r))) (\<lambda>b. liftS (probe_minio b))"
| "probe_resource C L tf t (ExternalHttpResource r) = retS ()"

fun close_resource ::
  "('w, 'h) client_lib \<Rightarrow> pyfloat \<Rightarrow> 'h lifecycle_resource \<Rightarrow> ('w, unit) process_op" where
  "close_resource C t (DatabaseResource r) = on_client (cl_dispose C t (dr_engine r))"
| "close_resource C t (RedisResource h) = on_client (cl_redis_aclose C t h)"
| "close_resource C t (MinioResource r) = on_client (cl_clear C (mr_pool r))"
| "close_resource C t (ExternalHttpResource r) =
     on_client (external_http_close (cl_http_aclose C t) (er_ocr_client r) (er_llm_client r))"

text \<open>The container asks its settings for the timeouts at each call.\<close>

definition default_resources ::
  "('w, 'h) client_lib \<Rightarrow> url_lib \<Rightarrow> (pydecimal \<Rightarrow> pyfloat) \<Rightarrow> app_settings
   \<Rightarrow> ('w \<times> sink, 'h lifecycle_resource) resource_api" where
  "default_resources C L tf s =
     \<lparr>ra_create = resource_factory C s,
      ra_probe = (\<lambda>r. bindS (liftS (or_raise (startup_view s)))
        (\<lambda>st. probe_resource C L tf (ss_connect_timeout_seconds st) r)),
      ra_close = (\<lambda>r. bindS (liftS (or_raise (startup_view s)))
        (\<lambda>st. close_resource C (ss_shutdown_timeout_seconds st) r))\<rparr>"

section \<open>The accessors of a request\<close>

text \<open>
  \<open>app.state.container\<close> is unset until the lifespan has started the container.  The container keeps the
  settings it was built with.
\<close>

type_synonym 'h app_state = "(app_settings \<times> 'h lifecycle_resource container) option"

definition get_container :: "'h app_state \<Rightarrow> exn + app_settings \<times> 'h lifecycle_resource container" where
  "get_container st = (case st of None \<Rightarrow> Inl OtherException | Some c \<Rightarrow> Inr c)"

definition get_settings :: "'h app_state \<Rightarrow> exn + app_settings" where
  "get_settings st = map_sum id fst (get_container st)"

definition required_resource :: "'r option \<Rightarrow> exn + 'r" where
  "required_resource r =
     (case r of None \<Rightarrow> Inl (RuntimeError ''Application resource is not initialized'') | Some x \<Rightarrow> Inr x)"

definition get_database_resource :: "'h app_state \<Rightarrow> exn + 'h lifecycle_resource" where
  "get_database_resource st = bindE (get_container st) (\<lambda>(s, c). required_resource (ct_database c))"

definition get_redis_resource :: "'h app_state \<Rightarrow> exn + 'h lifecycle_resource" where
  "get_redis_resource st = bindE (get_container st) (\<lambda>(s, c). required_resource (ct_redis c))"

definition get_minio_resource :: "'h app_state \<Rightarrow> exn + 'h lifecycle_resource" where
  "get_minio_resource st = bindE (get_container st) (\<lambda>(s, c). required_resource (ct_minio c))"

text \<open>The transactions of a request: only the database resource has the method \<open>transaction\<close>.\<close>

definition transaction_factory :: "'h lifecycle_resource \<Rightarrow> exn + 'h session_factory" where
  "transaction_factory r =
     (case r of DatabaseResource d \<Rightarrow> Inr (dr_session_factory d)
      | _ \<Rightarrow> Inl (RuntimeError ''Initialized database resource cannot create transactions''))"

definition redis_rate_limiter :: "'h app_state \<Rightarrow> exn + 'h" where
  "redis_rate_limiter st = bindE (get_redis_resource st) (\<lambda>r.
     case r of RedisResource h \<Rightarrow> Inr h
     | _ \<Rightarrow> Inl (RuntimeError ''Initialized Redis resource has an unsupported type''))"

text \<open>
  \<open>get_database_transaction\<close>: the rest of the request is the body of a transaction whose sessions come
  from the resource's factory.
\<close>

definition get_database_transaction ::
  "('h session_factory \<Rightarrow> 'w session_api) \<Rightarrow> 'h app_state \<Rightarrow> ('w, 'a) stateful \<Rightarrow> ('w, 'a) stateful" where
  "get_database_transaction sessions st body = (\<lambda>w.
     case bindE (get_database_resource st) transaction_factory of
       Inl e \<Rightarrow> (Inl e, w)
     | Inr factory \<Rightarrow> (case in_session (sessions factory) body (False, w) of (r, (_, w')) \<Rightarrow> (r, w')))"

text \<open>
  \<open>_log_failure\<close> of the transaction manager: the line names the type of the error, whose details are left
  out; \<open>qualname\<close> and \<open>traceback\<close> are Python's.
\<close>

definition database_failure_record :: "(exn \<Rightarrow> pystr) \<Rightarrow> (pystr \<Rightarrow> exn \<Rightarrow> pystr) \<Rightarrow> string \<Rightarrow> exn \<Rightarrow> log_record" where
  "database_failure_record qualname traceback event_name error =
     \<lparr>lr_name = lit ''bid_system.database'', lr_level = lit ''ERROR'', lr_message = Msg_Text (lit event_name),
      lr_attributes = [''event_name'' \<mapsto> Log_Text (lit event_name), ''error_type'' \<mapsto> Log_Text (qualname error),
        ''outcome'' \<mapsto> Log_Text (lit ''error'')],
      lr_exception = Some (traceback (qualname error @ lit '': details redacted'') error)\<rparr>"

text \<open>When the traceback shows no more than the frames, two errors of one type leave the same line.\<close>

lemma database_failure_discreet:
  assumes "qualname e = qualname f" and "\<And>m. traceback m e = traceback m f"
  shows "database_failure_record qualname traceback event e = database_failure_record qualname traceback event f"
  using assms by (simp add: database_failure_record_def)

section \<open>The upload handler\<close>

text \<open>
  The adapters' state is in the environment of \<open>handle_upload\<close>; the parts of \<open>env\<close> that are not set here
  are the machine's (workspace, processes, clock, identifiers, network, readers).
\<close>

record 'h document_upload_handler =
  uh_env :: upload_env
  uh_blob_client :: 'h
  uh_sessions :: "'h session_factory"

definition build_document_upload_handler ::
  "upload_env \<Rightarrow> 'h database_resource \<Rightarrow> 'h minio_resource \<Rightarrow> document_processing_settings
   \<Rightarrow> exn + 'h document_upload_handler" where
  "build_document_upload_handler env database minio s =
     bindE (mk_pdf_converter (dp_libreoffice_executable s) (dp_conversion_timeout_seconds s)) (\<lambda>converter.
     bindE (mk_stager (int MAX_UPLOAD_FILE_BYTES) (int UPLOAD_READ_CHUNK_BYTES)) (\<lambda>stager.
     bindE (mk_clamav_scanner (dp_clamav_host s) (dp_clamav_port s) (dp_clamav_timeout_seconds s)
              (int UPLOAD_READ_CHUNK_BYTES)) (\<lambda>scanner.
     Inr \<lparr>uh_env = env\<lparr>ue_converter := converter, ue_stager := stager, ue_scanner := scanner,
                      ue_minio := (ue_minio env)\<lparr>mn_bucket := mr_bucket minio\<rparr>\<rparr>,
          uh_blob_client = mr_client minio, uh_sessions = dr_session_factory database\<rparr>)))"

definition get_document_upload_handler ::
  "upload_env \<Rightarrow> 'h app_state \<Rightarrow> exn + 'h document_upload_handler" where
  "get_document_upload_handler env st =
     bindE (get_database_resource st) (\<lambda>database.
     bindE (get_minio_resource st) (\<lambda>minio.
     case database of
       DatabaseResource d \<Rightarrow>
         (case minio of
            MinioResource m \<Rightarrow>
              bindE (get_settings st) (\<lambda>s.
              bindE (or_raise (documents_view s)) (build_document_upload_handler env d m))
          | _ \<Rightarrow> Inl (RuntimeError ''Initialized MinIO resource has an unsupported type''))
     | _ \<Rightarrow> Inl (RuntimeError ''Initialized database resource has an unsupported type'')))"

section \<open>What the libraries promise\<close>

text \<open>
  \<open>calls\<close>: the constructor calls so far; \<open>core\<close> and \<open>http\<close>: the open pools (of the database, of Redis, of
  the object store) and the open HTTP clients.  The object store's pool has connections only through
  its client.  A constructor that raises opens nothing; a close counts whatever its outcome and is not
  cancelled.
\<close>

fun opens_core :: "'h client_call \<Rightarrow> 'h \<Rightarrow> 'h multiset" where
  "opens_core (Call_create_async_engine a) h = {#h#}"
| "opens_core (Call_redis_from_url a) h = {#h#}"
| "opens_core (Call_minio a pool) h = {#pool#}"
| "opens_core _ h = {#}"

fun opens_http :: "'h client_call \<Rightarrow> 'h \<Rightarrow> 'h multiset" where
  "opens_http (Call_async_client a) h = {#h#}"
| "opens_http _ h = {#}"

definition opened :: "('h \<Rightarrow> 'h multiset) \<Rightarrow> exn + 'h \<Rightarrow> 'h multiset" where
  "opened f r = (case r of Inl _ \<Rightarrow> {#} | Inr h \<Rightarrow> f h)"

lemma opened_simps [simp]: "opened f (Inl x) = {#}" "opened f (Inr h) = f h"
  by (simp_all add: opened_def)

record ('w, 'h) client_view =
  vw_calls :: "'w \<Rightarrow> 'h client_call list"
  vw_core :: "'w \<Rightarrow> 'h multiset"
  vw_http :: "'w \<Rightarrow> 'h multiset"

definition same_view :: "('w, 'h) client_view \<Rightarrow> 'w \<Rightarrow> 'w \<Rightarrow> bool" where
  "same_view V w w' \<longleftrightarrow> vw_calls V w' = vw_calls V w \<and> vw_core V w' = vw_core V w \<and> vw_http V w' = vw_http V w"

definition drops :: "('w \<Rightarrow> 'h multiset) \<Rightarrow> ('w \<Rightarrow> 'h multiset) \<Rightarrow> ('w, 'h) client_view
   \<Rightarrow> ('h \<Rightarrow> ('w, unit) stateful) \<Rightarrow> bool" where
  "drops this other V f \<longleftrightarrow> (\<forall>h w r w'. f h w = (r, w') \<longrightarrow> vw_calls V w' = vw_calls V w
     \<and> this w' = this w - {#h#} \<and> other w' = other w \<and> (\<forall>x. r = Inl x \<longrightarrow> is_exception x))"

definition looks :: "('w, 'h) client_view \<Rightarrow> ('w, 'a) stateful \<Rightarrow> bool" where
  "looks V f \<longleftrightarrow> (\<forall>w r w'. f w = (r, w') \<longrightarrow> same_view V w w')"

definition client_law :: "('w, 'h) client_lib \<Rightarrow> ('w, 'h) client_view \<Rightarrow> bool" where
  "client_law C V \<longleftrightarrow>
     (\<forall>k w r w'. cl_make C k w = (r, w') \<longrightarrow> vw_calls V w' = vw_calls V w @ [k]
        \<and> vw_core V w' = vw_core V w + opened (opens_core k) r
        \<and> vw_http V w' = vw_http V w + opened (opens_http k) r)
   \<and> (\<forall>t h b. looks V (cl_select_1 C t h) \<and> looks V (cl_ping C t h) \<and> looks V (cl_bucket_exists C t h b))
   \<and> (\<forall>t. drops (vw_core V) (vw_http V) V (cl_dispose C t) \<and> drops (vw_core V) (vw_http V) V (cl_redis_aclose C t)
        \<and> drops (vw_http V) (vw_core V) V (cl_http_aclose C t))
   \<and> drops (vw_core V) (vw_http V) V (cl_clear C)"

lemma client_lawD:
  assumes "client_law C V"
  shows "cl_make C k w = (r, w') \<Longrightarrow> vw_calls V w' = vw_calls V w @ [k]
        \<and> vw_core V w' = vw_core V w + opened (opens_core k) r
        \<and> vw_http V w' = vw_http V w + opened (opens_http k) r"
    "looks V (cl_select_1 C t h)" "looks V (cl_ping C t h)" "looks V (cl_bucket_exists C t h b)"
    "drops (vw_core V) (vw_http V) V (cl_dispose C t)" "drops (vw_core V) (vw_http V) V (cl_redis_aclose C t)"
    "drops (vw_core V) (vw_http V) V (cl_clear C)" "drops (vw_http V) (vw_core V) V (cl_http_aclose C t)"
  using assms unfolding client_law_def by blast+

lemma looksD: "looks V f \<Longrightarrow> f w = (r, w') \<Longrightarrow> same_view V w w'"
  unfolding looks_def by blast

lemma dropsD: "drops this other V f \<Longrightarrow> f h w = (r, w') \<Longrightarrow> vw_calls V w' = vw_calls V w
     \<and> this w' = this w - {#h#} \<and> other w' = other w \<and> (\<forall>x. r = Inl x \<longrightarrow> is_exception x)"
  unfolding drops_def by blast

section \<open>The started application\<close>

definition provider_calls :: "bool \<Rightarrow> pystr option \<Rightarrow> pystr option \<Rightarrow> pyfloat \<Rightarrow> 'h client_call list" where
  "provider_calls enabled base_url api_key t =
     (if enabled then [Call_async_client (provider_args (the base_url) (the api_key) t)] else [])"

definition configured_calls :: "app_settings \<Rightarrow> 'h \<Rightarrow> 'h client_call list" where
  "configured_calls s pool =
     [Call_create_async_engine
        \<lparr>ea_url = database_url s, ea_pool_size = database_pool_size s, ea_max_overflow = database_max_overflow s,
         ea_pool_timeout = database_pool_timeout_seconds s, ea_pool_pre_ping = True\<rparr>,
      Call_redis_from_url
        \<lparr>rd_url = redis_url s, rd_max_connections = redis_max_connections s, rd_decode_responses = True\<rparr>,
      Call_pool_manager,
      Call_minio
        \<lparr>ma_endpoint = minio_endpoint s, ma_access_key = minio_access_key s, ma_secret_key = minio_secret_key s,
         ma_secure = minio_secure s\<rparr> pool]
     @ provider_calls (llm_enabled s) (llm_base_url s) (llm_api_key s) (http_timeout_seconds s)
     @ provider_calls (ocr_enabled s) (ocr_base_url s) (ocr_api_key s) (http_timeout_seconds s)"

text \<open>What the accepted settings' views are.\<close>

lemma resource_views:
  assumes "load_settings L S = Inr s"
  shows "or_raise (database_view s) = Inr \<lparr>ds_url = database_url s, ds_pool_size = database_pool_size s,
      ds_max_overflow = database_max_overflow s, ds_pool_timeout_seconds = database_pool_timeout_seconds s\<rparr>"
    "or_raise (redis_view s) = Inr \<lparr>rs_url = redis_url s, rs_max_connections = redis_max_connections s\<rparr>"
    "or_raise (minio_view s) = Inr \<lparr>ms_endpoint = minio_endpoint s, ms_access_key = minio_access_key s,
      ms_secret_key = minio_secret_key s, ms_bucket = minio_bucket s, ms_secure = minio_secure s\<rparr>"
    "or_raise (documents_view s) = Inr \<lparr>dp_clamav_host = document_clamav_host s, dp_clamav_port = document_clamav_port s,
      dp_clamav_timeout_seconds = document_clamav_timeout_seconds s,
      dp_libreoffice_executable = document_libreoffice_executable s,
      dp_conversion_timeout_seconds = document_conversion_timeout_seconds s,
      dp_max_request_body_bytes = document_upload_request_body_bytes s\<rparr>"
    "or_raise (llm_view s) = Inr \<lparr>ps_enabled = llm_enabled s, ps_base_url = llm_base_url s, ps_api_key = llm_api_key s,
      ps_model = llm_model s, ps_probe_on_startup = llm_probe_on_startup s\<rparr>"
    "or_raise (ocr_view s) = Inr \<lparr>ps_enabled = ocr_enabled s, ps_base_url = ocr_base_url s, ps_api_key = ocr_api_key s,
      ps_model = ocr_model s, ps_probe_on_startup = ocr_probe_on_startup s\<rparr>"
    "\<exists>st. or_raise (startup_view s) = Inr st"
proof -
  note ok = simple_views [OF accepted_settings(1) [OF assms [unfolded load_settings_Inr]]]
  show "or_raise (database_view s) = Inr \<lparr>ds_url = database_url s, ds_pool_size = database_pool_size s,
      ds_max_overflow = database_max_overflow s, ds_pool_timeout_seconds = database_pool_timeout_seconds s\<rparr>"
    using ok(1) by (cases "database_view s")
      (auto simp: or_raise_def database_view_def mk_database_settings_def all_valid_def split: if_splits)
  show "or_raise (redis_view s) = Inr \<lparr>rs_url = redis_url s, rs_max_connections = redis_max_connections s\<rparr>"
    using ok(2) by (cases "redis_view s")
      (auto simp: or_raise_def redis_view_def mk_redis_settings_def all_valid_def split: if_splits)
  show "or_raise (minio_view s) = Inr \<lparr>ms_endpoint = minio_endpoint s, ms_access_key = minio_access_key s,
      ms_secret_key = minio_secret_key s, ms_bucket = minio_bucket s, ms_secure = minio_secure s\<rparr>"
    using ok(4) by (cases "minio_view s")
      (auto simp: or_raise_def minio_view_def mk_minio_settings_def all_valid_def split: if_splits)
  show "or_raise (documents_view s) = Inr \<lparr>dp_clamav_host = document_clamav_host s, dp_clamav_port = document_clamav_port s,
      dp_clamav_timeout_seconds = document_clamav_timeout_seconds s,
      dp_libreoffice_executable = document_libreoffice_executable s,
      dp_conversion_timeout_seconds = document_conversion_timeout_seconds s,
      dp_max_request_body_bytes = document_upload_request_body_bytes s\<rparr>"
    using ok(5) by (cases "documents_view s")
      (auto simp: or_raise_def documents_view_def mk_document_processing_settings_def all_valid_def split: if_splits)
  show "\<exists>st. or_raise (startup_view s) = Inr st"
    using ok(8) by (cases "startup_view s") (auto simp: or_raise_def)
qed (simp_all add: or_raise_def llm_view_def ocr_view_def mk_provider_settings_def all_valid_def)

lemma enabled_provider:
  assumes "load_settings L S = Inr s"
  shows "llm_enabled s \<Longrightarrow> \<exists>u k. llm_base_url s = Some u \<and> llm_api_key s = Some k"
    "ocr_enabled s \<Longrightarrow> \<exists>u k. ocr_base_url s = Some u \<and> ocr_api_key s = Some k"
proof -
  note ok = cross_field_checks [OF accepted_settings(2) [OF assms [unfolded load_settings_Inr]]]
  show "\<exists>u k. llm_base_url s = Some u \<and> llm_api_key s = Some k" if "llm_enabled s"
    using provider_policy [OF ok(1) that] by (auto simp: absent_def split: option.splits)
  show "\<exists>u k. ocr_base_url s = Some u \<and> ocr_api_key s = Some k" if "ocr_enabled s"
    using provider_policy [OF ok(2) that] by (auto simp: absent_def split: option.splits)
qed

lemma create_resource_Inr:
  "create_resource api k (c, w) = (Inr r, (c', w')) \<longleftrightarrow>
     ra_create api k w = (Inr r, w') \<and> c' = c\<lparr>ct_resources := ct_resources c @ [r]\<rparr>"
  by (cases "ra_create api k w"; cases "fst (ra_create api k w)") (auto simp: create_resource_def)

lemma create_and_probe_Inr:
  "create_and_probe api k (c, w) = (Inr r, (c', w')) \<longleftrightarrow>
     (\<exists>w1. ra_create api k w = (Inr r, w1) \<and> c' = c\<lparr>ct_resources := ct_resources c @ [r]\<rparr>
        \<and> ra_probe api r w1 = (Inr (), w'))"
proof -
  have "(case ra_probe api q w1 of (p, w2) \<Rightarrow> (map_sum id (\<lambda>_. q) p, (c1, w2))) = (Inr r, (c', w'))
      \<longleftrightarrow> q = r \<and> c1 = c' \<and> ra_probe api q w1 = (Inr (), w')" for q w1 c1
    by (cases "ra_probe api q w1"; cases "fst (ra_probe api q w1)") auto
  then show ?thesis
    by (simp add: create_and_probe_def bindS_Inr split_paired_Ex create_resource_Inr) blast
qed

lemma start_container_Inr:
  assumes "start_container api (new_container, w) = (Inr (), (c, w'))"
  obtains d w1 w2 r w3 w4 m w5 w6 h where
    "ra_create api Res_DATABASE w = (Inr d, w1)" "ra_probe api d w1 = (Inr (), w2)"
    "ra_create api Res_REDIS w2 = (Inr r, w3)" "ra_probe api r w3 = (Inr (), w4)"
    "ra_create api Res_MINIO w4 = (Inr m, w5)" "ra_probe api m w5 = (Inr (), w6)"
    "ra_create api Res_HTTP w6 = (Inr h, w')"
    "c = \<lparr>ct_resources = [d, r, m, h], ct_state = Container_STARTED, ct_database = Some d, ct_redis = Some r,
          ct_minio = Some m, ct_http = Some h\<rparr>"
proof -
  have "\<exists>c0. start_resources api (new_container, w) = (Inr (), (c0, w')) \<and> c = c0\<lparr>ct_state := Container_STARTED\<rparr>"
    using assms by (auto simp: start_container_def split: prod.splits sum.splits)
  then show ?thesis
    using that
    by (clarsimp simp: start_resources_def bindS_Inr split_paired_Ex create_and_probe_Inr update_container_def
        create_resource_Inr new_container_def)
qed

lemma probe_view:
  assumes "client_law C V" and "ra_probe (default_resources C L tf s) r (w, sk) = (x, (w', sk'))"
  shows "same_view V w w'"
proof -
  note looks = client_lawD(2-4) [OF assms(1), THEN looksD]
  have "same_view V w w'" if "probe_resource C L tf t r (w, sk) = (x, (w', sk'))" for t
    using that
    by (cases r) (auto simp: bindS_apply on_client_def database_observe_pool_def same_view_def
        split: prod.splits sum.splits dest!: looks)
  then show ?thesis
    using assms(2) by (auto simp: default_resources_def bindS_apply same_view_def split: sum.splits)
qed

lemma provider_client_run:
  assumes "client_law C V" and "ps_enabled p \<Longrightarrow> \<exists>u k. ps_base_url p = Some u \<and> ps_api_key p = Some k"
    and "create_provider_client C p t (w, sk) = (Inr h, (w', sk'))"
  shows "vw_calls V w' = vw_calls V w @ provider_calls (ps_enabled p) (ps_base_url p) (ps_api_key p) t
    \<and> (h \<noteq> None \<longleftrightarrow> ps_enabled p)"
  using assms(2,3) client_lawD(1) [OF assms(1)]
  by (cases "ps_enabled p")
    (auto simp: create_provider_client_def provider_calls_def py_bind on_client_run)

text \<open>What a default factory leaves, when it returns.\<close>

lemma factory_runs:
  assumes law: "client_law C V" and acc: "load_settings L S = Inr s"
  shows "resource_factory C s Res_DATABASE (w, sk) = (Inr r, (w', sk')) \<Longrightarrow>
      \<exists>e. r = DatabaseResource \<lparr>dr_engine = e, dr_client = e, dr_session_factory = create_session_factory e\<rparr>
        \<and> vw_calls V w' = vw_calls V w @ take 1 (configured_calls s undefined)"
    "resource_factory C s Res_REDIS (w, sk) = (Inr r, (w', sk')) \<Longrightarrow>
      \<exists>e. r = RedisResource e \<and> vw_calls V w' = vw_calls V w @ take 1 (drop 1 (configured_calls s undefined))"
    "resource_factory C s Res_MINIO (w, sk) = (Inr r, (w', sk')) \<Longrightarrow>
      \<exists>pool e. r = MinioResource \<lparr>mr_bucket = minio_bucket s, mr_pool = pool, mr_client = e\<rparr>
        \<and> vw_calls V w' = vw_calls V w @ take 2 (drop 2 (configured_calls s pool))"
    "resource_factory C s Res_HTTP (w, sk) = (Inr r, (w', sk')) \<Longrightarrow>
      \<exists>llm ocr. r = ExternalHttpResource \<lparr>er_llm_client = llm, er_ocr_client = ocr\<rparr>
        \<and> (llm \<noteq> None \<longleftrightarrow> llm_enabled s) \<and> (ocr \<noteq> None \<longleftrightarrow> ocr_enabled s)
        \<and> vw_calls V w' = vw_calls V w @ drop 4 (configured_calls s undefined)"
proof -
  note make = client_lawD(1) [OF law] and views = resource_views [OF acc]
  show "\<exists>e. r = DatabaseResource \<lparr>dr_engine = e, dr_client = e, dr_session_factory = create_session_factory e\<rparr>
        \<and> vw_calls V w' = vw_calls V w @ take 1 (configured_calls s undefined)"
    if "resource_factory C s Res_DATABASE (w, sk) = (Inr r, (w', sk'))"
    using that by (auto simp: resource_factory_def views create_database_resource_def py_bind on_client_run
        configured_calls_def dest!: make)
  show "\<exists>e. r = RedisResource e \<and> vw_calls V w' = vw_calls V w @ take 1 (drop 1 (configured_calls s undefined))"
    if "resource_factory C s Res_REDIS (w, sk) = (Inr r, (w', sk'))"
    using that by (auto simp: resource_factory_def views create_redis_resource_def py_bind on_client_run
        configured_calls_def dest!: make)
  show "\<exists>pool e. r = MinioResource \<lparr>mr_bucket = minio_bucket s, mr_pool = pool, mr_client = e\<rparr>
        \<and> vw_calls V w' = vw_calls V w @ take 2 (drop 2 (configured_calls s pool))"
    if "resource_factory C s Res_MINIO (w, sk) = (Inr r, (w', sk'))"
    using that by (auto simp: resource_factory_def views create_minio_resource_def py_bind on_client_run
        configured_calls_def eval_nat_numeral dest!: make)
  show "\<exists>llm ocr. r = ExternalHttpResource \<lparr>er_llm_client = llm, er_ocr_client = ocr\<rparr>
        \<and> (llm \<noteq> None \<longleftrightarrow> llm_enabled s) \<and> (ocr \<noteq> None \<longleftrightarrow> ocr_enabled s)
        \<and> vw_calls V w' = vw_calls V w @ drop 4 (configured_calls s undefined)"
    if run: "resource_factory C s Res_HTTP (w, sk) = (Inr r, (w', sk'))"
  proof -
    let ?t = "http_timeout_seconds s"
    let ?p = "\<lparr>ps_enabled = llm_enabled s, ps_base_url = llm_base_url s, ps_api_key = llm_api_key s,
      ps_model = llm_model s, ps_probe_on_startup = llm_probe_on_startup s\<rparr>"
    let ?q = "\<lparr>ps_enabled = ocr_enabled s, ps_base_url = ocr_base_url s, ps_api_key = ocr_api_key s,
      ps_model = ocr_model s, ps_probe_on_startup = ocr_probe_on_startup s\<rparr>"
    obtain llm w1 sk1 ocr where l: "create_provider_client C ?p ?t (w, sk) = (Inr llm, (w1, sk1))"
      and o: "create_provider_client C ?q ?t (w1, sk1) = (Inr ocr, (w', sk'))"
      and r: "r = ExternalHttpResource \<lparr>er_llm_client = llm, er_ocr_client = ocr\<rparr>"
      using run by (auto simp: resource_factory_def create_external_http_def views py_bind)
    have "ps_enabled ?p \<Longrightarrow> \<exists>u k. ps_base_url ?p = Some u \<and> ps_api_key ?p = Some k"
      "ps_enabled ?q \<Longrightarrow> \<exists>u k. ps_base_url ?q = Some u \<and> ps_api_key ?q = Some k"
      using enabled_provider [OF acc] by simp_all
    note runs = provider_client_run [OF law this(1) l] provider_client_run [OF law this(2) o]
    show ?thesis unfolding r using runs by (simp add: configured_calls_def)
  qed
qed

lemma positive_float: "fl_lt (Fin 0) x \<Longrightarrow> \<not> fl_le x (Fin 0)"
  by (simp add: fl_lt_def)

lemma upload_handler_built:
  assumes "load_settings L S = Inr s"
  shows "bindE (or_raise (documents_view s)) (build_document_upload_handler env d m) =
    (if blank (document_libreoffice_executable s) then Inl (ValueError ''invalid LibreOffice settings'')
     else if blank (document_clamav_host s) then Inl (ValueError ''invalid ClamAV connection settings'')
     else Inr \<lparr>uh_env = env\<lparr>
            ue_converter := \<lparr>lo_executable = document_libreoffice_executable s,
              lo_timeout_seconds = document_conversion_timeout_seconds s\<rparr>,
            ue_stager := \<lparr>st_max_file_bytes = MAX_UPLOAD_FILE_BYTES, st_read_chunk_bytes = UPLOAD_READ_CHUNK_BYTES\<rparr>,
            ue_scanner := \<lparr>cv_host = document_clamav_host s, cv_port = document_clamav_port s,
              cv_timeout_seconds = document_clamav_timeout_seconds s, cv_chunk_bytes = UPLOAD_READ_CHUNK_BYTES\<rparr>,
            ue_minio := (ue_minio env)\<lparr>mn_bucket := mr_bucket m\<rparr>\<rparr>,
          uh_blob_client = mr_client m, uh_sessions = dr_session_factory d\<rparr>)"
proof -
  note ok = accepted_settings(1) [OF assms [unfolded load_settings_Inr]]
  have "1 \<le> document_clamav_port s" "document_clamav_port s \<le> 65535"
    "\<not> fl_le (document_clamav_timeout_seconds s) (Fin 0)" "\<not> fl_le (document_conversion_timeout_seconds s) (Fin 0)"
    using ok positive_float unfolding fields_ok_def by blast+
  then show ?thesis
    by (simp add: resource_views(4) [OF assms] build_document_upload_handler_def mk_pdf_converter_def mk_stager_def
        mk_clamav_scanner_def raise_if_def MAX_UPLOAD_FILE_BYTES_def UPLOAD_READ_CHUNK_BYTES_def)
qed

lemmas accessor_defs =
  get_document_upload_handler_def get_database_resource_def get_minio_resource_def get_redis_resource_def
  redis_rate_limiter_def transaction_factory_def get_settings_def get_container_def required_resource_def

text \<open>C16: an application that starts is wired as configured.  With settings the loader accepted, once the container
  has started: the libraries' constructors were called with exactly the configured values, in order,
  and a provider's client, with its key in the header, was made exactly when the provider is enabled;
  every accessor of a request finds its resource, of the expected type; and the upload handler is
  built from the configured scanner, converter and bucket, unless the scanner's host or the
  converter's name is blank, which the settings let pass and every upload then answers with an error.\<close>

theorem started_application_wired:
  assumes "load_settings L S = Inr s" and "client_law C V"
    and "start_container (default_resources C L tf s) (new_container, (w, sk)) = (Inr (), (c, (w', sk')))"
  shows "\<exists>engine redis pool client llm ocr.
     vw_calls V w' = vw_calls V w @ configured_calls s pool
   \<and> ct_http c = Some (ExternalHttpResource \<lparr>er_llm_client = llm, er_ocr_client = ocr\<rparr>)
   \<and> (llm \<noteq> None \<longleftrightarrow> llm_enabled s) \<and> (ocr \<noteq> None \<longleftrightarrow> ocr_enabled s)
   \<and> get_settings (Some (s, c)) = Inr s
   \<and> bindE (get_database_resource (Some (s, c))) transaction_factory = Inr (create_session_factory engine)
   \<and> redis_rate_limiter (Some (s, c)) = Inr redis
   \<and> get_document_upload_handler env (Some (s, c)) =
       (if blank (document_libreoffice_executable s) then Inl (ValueError ''invalid LibreOffice settings'')
        else if blank (document_clamav_host s) then Inl (ValueError ''invalid ClamAV connection settings'')
        else Inr \<lparr>uh_env = env\<lparr>
               ue_converter := \<lparr>lo_executable = document_libreoffice_executable s,
                 lo_timeout_seconds = document_conversion_timeout_seconds s\<rparr>,
               ue_stager := \<lparr>st_max_file_bytes = MAX_UPLOAD_FILE_BYTES,
                 st_read_chunk_bytes = UPLOAD_READ_CHUNK_BYTES\<rparr>,
               ue_scanner := \<lparr>cv_host = document_clamav_host s, cv_port = document_clamav_port s,
                 cv_timeout_seconds = document_clamav_timeout_seconds s, cv_chunk_bytes = UPLOAD_READ_CHUNK_BYTES\<rparr>,
               ue_minio := (ue_minio env)\<lparr>mn_bucket := minio_bucket s\<rparr>\<rparr>,
             uh_blob_client = client, uh_sessions = create_session_factory engine\<rparr>)"
proof -
  let ?R = "default_resources C L tf s"
  have make: "ra_create ?R = resource_factory C s" by (simp add: default_resources_def)
  note probed = probe_view [OF assms(2)] and made = factory_runs [OF assms(2,1)]
  from start_container_Inr [OF assms(3)] obtain d w1 k1 w2 k2 r w3 k3 w4 k4 m w5 k5 w6 k6 h where
    D: "resource_factory C s Res_DATABASE (w, sk) = (Inr d, (w1, k1))" "ra_probe ?R d (w1, k1) = (Inr (), (w2, k2))"
    and R: "resource_factory C s Res_REDIS (w2, k2) = (Inr r, (w3, k3))" "ra_probe ?R r (w3, k3) = (Inr (), (w4, k4))"
    and M: "resource_factory C s Res_MINIO (w4, k4) = (Inr m, (w5, k5))" "ra_probe ?R m (w5, k5) = (Inr (), (w6, k6))"
    and H: "resource_factory C s Res_HTTP (w6, k6) = (Inr h, (w', sk'))"
    and c: "c = \<lparr>ct_resources = [d, r, m, h], ct_state = Container_STARTED, ct_database = Some d, ct_redis = Some r,
          ct_minio = Some m, ct_http = Some h\<rparr>"
    unfolding make by (metis surj_pair)
  obtain e where d: "d = DatabaseResource \<lparr>dr_engine = e, dr_client = e, dr_session_factory = create_session_factory e\<rparr>"
    and dc: "vw_calls V w1 = vw_calls V w @ take 1 (configured_calls s undefined)" using made(1) [OF D(1)] by blast
  obtain q where r: "r = RedisResource q"
    and rc: "vw_calls V w3 = vw_calls V w2 @ take 1 (drop 1 (configured_calls s undefined))" using made(2) [OF R(1)] by blast
  obtain pool k where m: "m = MinioResource \<lparr>mr_bucket = minio_bucket s, mr_pool = pool, mr_client = k\<rparr>"
    and mc: "vw_calls V w5 = vw_calls V w4 @ take 2 (drop 2 (configured_calls s pool))" using made(3) [OF M(1)] by blast
  obtain llm ocr where h: "h = ExternalHttpResource \<lparr>er_llm_client = llm, er_ocr_client = ocr\<rparr>"
    and hb: "llm \<noteq> None \<longleftrightarrow> llm_enabled s" "ocr \<noteq> None \<longleftrightarrow> ocr_enabled s"
    and hc: "vw_calls V w' = vw_calls V w6 @ drop 4 (configured_calls s undefined)" using made(4) [OF H] by blast
  have calls: "vw_calls V w' = vw_calls V w @ configured_calls s pool"
    using probed [OF D(2)] probed [OF R(2)] probed [OF M(2)] dc rc mc hc
    by (simp add: same_view_def configured_calls_def eval_nat_numeral)
  let ?d = "\<lparr>dr_engine = e, dr_client = e, dr_session_factory = create_session_factory e\<rparr>"
  let ?m = "\<lparr>mr_bucket = minio_bucket s, mr_pool = pool, mr_client = k\<rparr>"
  have found: "ct_http c = Some (ExternalHttpResource \<lparr>er_llm_client = llm, er_ocr_client = ocr\<rparr>)"
    "get_settings (Some (s, c)) = Inr s"
    "bindE (get_database_resource (Some (s, c))) transaction_factory = Inr (create_session_factory e)"
    "redis_rate_limiter (Some (s, c)) = Inr q"
    by (simp_all add: accessor_defs c d r h)
  have U: "get_document_upload_handler env (Some (s, c)) =
      bindE (or_raise (documents_view s)) (build_document_upload_handler env ?d ?m)"
    by (simp add: accessor_defs c d m)
  show ?thesis
    using calls found hb U [unfolded upload_handler_built [OF assms(1)]]
    by (intro exI [of _ e] exI [of _ q] exI [of _ pool] exI [of _ k] exI [of _ llm] exI [of _ ocr] conjI)
      (simp_all only: database_resource.simps minio_resource.simps)
qed

text \<open>Handles are numbered; closing an OCR client (the first HTTP client) fails.\<close>

type_synonym demo_clients_world = "nat \<times> nat client_call list \<times> nat list \<times> nat list"

definition demo_make :: "nat client_call \<Rightarrow> (demo_clients_world, nat) stateful" where
  "demo_make k = (\<lambda>(n, calls, core, http). (Inr n, (Suc n, calls @ [k],
     case k of Call_create_async_engine a \<Rightarrow> n # core | Call_redis_from_url a \<Rightarrow> n # core
       | Call_minio a pool \<Rightarrow> pool # core | _ \<Rightarrow> core,
     case k of Call_async_client a \<Rightarrow> n # http | _ \<Rightarrow> http)))"

definition demo_drop_core :: "nat \<Rightarrow> (demo_clients_world, unit) stateful" where
  "demo_drop_core h = (\<lambda>(n, calls, core, http). (Inr (), (n, calls, remove1 h core, http)))"

definition demo_drop_http :: "nat \<Rightarrow> (demo_clients_world, unit) stateful" where
  "demo_drop_http h = (\<lambda>(n, calls, core, http). (Inl TimeoutError, (n, calls, core, remove1 h http)))"

definition demo_clients :: "(demo_clients_world, nat) client_lib" where
  "demo_clients =
     \<lparr>cl_make = demo_make, cl_select_1 = (\<lambda>t h. retS ()), cl_pool = (\<lambda>h w. Some (5, 1, -4)),
      cl_dispose = (\<lambda>t. demo_drop_core), cl_ping = (\<lambda>t h. retS ()), cl_redis_aclose = (\<lambda>t. demo_drop_core),
      cl_bucket_exists = (\<lambda>t h b. retS True), cl_clear = demo_drop_core, cl_http_aclose = (\<lambda>t. demo_drop_http)\<rparr>"

definition demo_view :: "(demo_clients_world, nat) client_view" where
  "demo_view = \<lparr>vw_calls = (\<lambda>w. fst (snd w)), vw_core = (\<lambda>w. mset (fst (snd (snd w)))),
     vw_http = (\<lambda>w. mset (snd (snd (snd w))))\<rparr>"

lemma demo_client_law: "client_law demo_clients demo_view"
  by (auto simp: client_law_def demo_clients_def demo_view_def looks_def drops_def same_view_def
      demo_make_def demo_drop_core_def demo_drop_http_def split: client_call.split)

definition demo_start ::
  "app_settings \<Rightarrow> (exn + unit) \<times> nat lifecycle_resource container \<times> demo_clients_world \<times> sink" where
  "demo_start s = start_container (default_resources demo_clients demo_url_lib demo_to_float s)
     (new_container, ((0, [], [], []), Null_Sink))"

lemma started_application_wired_witness:
  "\<exists>c w' sk. demo_start manager_app = (Inr (), (c, (w', sk)))
     \<and> length (fst (snd w')) = 4 \<and> redis_rate_limiter (Some (manager_app, c)) \<noteq> Inl OtherException
     \<and> \<not> isl (get_document_upload_handler demo_upload_env (Some (manager_app, c)))"
proof -
  have "fst (demo_start manager_app) = Inr ()" by code_simp
  then obtain c w' sk where run: "demo_start manager_app = (Inr (), (c, (w', sk)))"
    by (cases "demo_start manager_app") auto
  have B: "\<not> blank (document_libreoffice_executable manager_app)" "\<not> blank (document_clamav_host manager_app)"
    "\<not> llm_enabled manager_app" "\<not> ocr_enabled manager_app"
    by code_simp+
  note W = started_application_wired [OF manager_accepted demo_client_law run [unfolded demo_start_def], of demo_upload_env]
  have "length (fst (snd w')) = 4"
    using W B by (auto simp: demo_view_def configured_calls_def provider_calls_def)
  moreover have "redis_rate_limiter (Some (manager_app, c)) \<noteq> Inl OtherException"
    "\<not> isl (get_document_upload_handler demo_upload_env (Some (manager_app, c)))"
    using W B by auto
  ultimately show ?thesis using run by blast
qed

section \<open>The end of the process\<close>

text \<open>
  An account \<open>I rs w\<close> of the resources \<open>rs\<close> that the container holds in the world \<open>w\<close>: creating adds one,
  closing the last one removes it, whatever the outcome.
\<close>

definition accounts :: "('w, 'r) resource_api \<Rightarrow> ('r list \<Rightarrow> 'w \<Rightarrow> bool) \<Rightarrow> bool" where
  "accounts api I \<longleftrightarrow>
     (\<forall>k rs w r w'. I rs w \<longrightarrow> ra_create api k w = (r, w') \<longrightarrow> I (rs @ (case r of Inl _ \<Rightarrow> [] | Inr h \<Rightarrow> [h])) w')
   \<and> (\<forall>h rs w r w'. I rs w \<longrightarrow> ra_probe api h w = (r, w') \<longrightarrow> I rs w')
   \<and> (\<forall>h rs w r w'. I (rs @ [h]) w \<longrightarrow> ra_close api h w = (r, w') \<longrightarrow> I rs w' \<and> (\<forall>x. r = Inl x \<longrightarrow> is_exception x))"

lemma accountsD:
  assumes "accounts api I"
  shows "I rs w \<Longrightarrow> ra_create api k w = (q, w') \<Longrightarrow> I (rs @ (case q of Inl _ \<Rightarrow> [] | Inr h \<Rightarrow> [h])) w'"
    "I rs w \<Longrightarrow> ra_probe api h w = (r, w') \<Longrightarrow> I rs w'"
    "I (rs @ [h]) w \<Longrightarrow> ra_close api h w = (r, w') \<Longrightarrow> I rs w' \<and> (\<forall>x. r = Inl x \<longrightarrow> is_exception x)"
  using assms unfolding accounts_def by blast+

abbreviation accounted_for :: "('r list \<Rightarrow> 'w \<Rightarrow> bool) \<Rightarrow> 'r container \<times> 'w \<Rightarrow> bool" where
  "accounted_for I s \<equiv> I (ct_resources (fst s)) (snd s)"

lemma start_resources_accounts:
  assumes "accounts api I"
  shows "keeps (accounted_for I) (start_resources api)"
proof -
  have create: "keeps (accounted_for I) (create_resource api k)" for k
    unfolding keeps_def
    by (auto simp: create_resource_def split: prod.splits sum.splits dest: accountsD(1) [OF assms])
  have probe: "keeps (accounted_for I)
      (\<lambda>(c, w). case ra_probe api r w of (p, w1) \<Rightarrow> (map_sum id (\<lambda>_. r) p, (c, w1)))" for r
    unfolding keeps_def by (auto split: prod.splits dest: accountsD(2) [OF assms])
  have update: "keeps (accounted_for I) (update_container f)" if "\<And>c. ct_resources (f c) = ct_resources c" for f
    using that by (auto simp: keeps_def update_container_def)
  show ?thesis
    unfolding start_resources_def create_and_probe_def
    by (intro keeps_bindS create probe update) simp_all
qed

lemma close_loop_accounts:
  assumes "accounts api I"
  shows "close_loop api rs errors w = (r, rest, w') \<Longrightarrow> I (rev rs) w \<Longrightarrow> (\<exists>es. r = Inr es) \<and> rest = [] \<and> I [] w'"
proof (induction rs arbitrary: errors w)
  case (Cons h rs)
  obtain q w1 where q: "ra_close api h w = (q, w1)" by (cases "ra_close api h w")
  have "I (rev rs) w1 \<and> (\<forall>x. q = Inl x \<longrightarrow> is_exception x)"
    using accountsD(3) [OF assms _ q] Cons.prems(2) by simp
  then show ?case
    using Cons.IH [of _ w1] Cons.prems(1) q by (cases q) auto
qed auto

lemma close_resources_accounts:
  assumes "accounts api I" "accounted_for I s" "close_resources api b s = (r, s')"
  shows "accounted_for I s' \<and> ct_resources (fst s') = [] \<and> (b \<longrightarrow> r = Inr ())"
proof -
  obtain q rest w1 where q: "close_loop api (rev (ct_resources (fst s))) [] (snd s) = (q, rest, w1)"
    by (cases "close_loop api (rev (ct_resources (fst s))) [] (snd s)") auto
  then show ?thesis
    using close_loop_accounts [OF assms(1) q] assms(2,3)
    by (auto simp: close_resources_def split_beta)
qed

text \<open>Held or, once closed, empty.\<close>

abbreviation settled_for :: "('r list \<Rightarrow> 'w \<Rightarrow> bool) \<Rightarrow> 'r container \<times> 'w \<Rightarrow> bool" where
  "settled_for I s \<equiv> accounted_for I s \<and> (ct_state (fst s) = Container_CLOSED \<longrightarrow> ct_resources (fst s) = [])"

lemma start_container_accounts:
  assumes "accounts api I" "I [] w" "start_container api (new_container, w) = (r, s)"
  shows "settled_for I s"
proof -
  obtain q s1 where q: "start_resources api (new_container, w) = (q, s1)"
    by (cases "start_resources api (new_container, w)")
  have a: "accounted_for I s1"
    using keepsD [OF start_resources_accounts [OF assms(1)] _ q] assms(2) by (simp add: new_container_def)
  obtain p s2 where p: "close_resources api True s1 = (p, s2)" by (cases "close_resources api True s1")
  show ?thesis
    using assms(3) q p a close_resources_accounts [OF assms(1) a p]
    by (cases q) (auto simp: start_container_def split_beta)
qed

lemma close_container_accounts:
  assumes "accounts api I" "settled_for I s" "close_container api s = (r, s')"
  shows "I [] (snd s')"
proof (cases "ct_state (fst s) = Container_CLOSED")
  case False
  obtain q s1 where q: "close_resources api False s = (q, s1)" by (cases "close_resources api False s")
  then show ?thesis
    using assms(3) False close_resources_accounts [OF assms(1) _ q] assms(2)
    by (cases q) (auto simp: close_container_def bindS_apply update_container_def split_beta)
qed (use assms in \<open>auto simp: close_container_def\<close>)

text \<open>The other parts of the process neither open nor close a resource, nor touch the container.\<close>

definition quiet :: "('r list \<Rightarrow> 'w \<Rightarrow> bool) \<Rightarrow> ('w, 'a) stateful \<Rightarrow> bool" where
  "quiet I f \<longleftrightarrow> (\<forall>rs w r w'. I rs w \<longrightarrow> f w = (r, w') \<longrightarrow> I rs w')"

definition quiet_process :: "('r list \<Rightarrow> 'w \<Rightarrow> bool) \<Rightarrow> ('w, 'r) process_api \<Rightarrow> bool" where
  "quiet_process I api \<longleftrightarrow> quiet I (pa_configure api) \<and> (\<forall>c. quiet I (pa_serve api c))
     \<and> quiet I (pa_shutdown_metrics api) \<and> quiet I (pa_shutdown_tracing api)
     \<and> (\<forall>c. quiet I (\<lambda>w. case pa_provision_initial_manager api (c, w) of (r, (c', w')) \<Rightarrow> (r, w')))
     \<and> (\<forall>c w. fst (snd (pa_provision_initial_manager api (c, w))) = c)"

lemma quietD: "quiet I f \<Longrightarrow> I rs w \<Longrightarrow> f w = (r, w') \<Longrightarrow> I rs w'"
  unfolding quiet_def by blast

lemma keeps_settled:
  assumes "quiet I f"
  shows "keeps (settled_for I) (on_world f)"
  unfolding keeps_def on_world_def by (auto split: prod.splits dest: quietD [OF assms])

lemma serve_container_accounts:
  assumes acc: "accounts (pa_resources api) I" and quiet: "quiet_process I api"
    and I: "I [] w" and run: "serve_container api (new_container, w) = (r, s)"
  shows "settled_for I s"
proof -
  obtain q s1 where q: "start_container (pa_resources api) (new_container, w) = (q, s1)"
    by (cases "start_container (pa_resources api) (new_container, w)")
  have s1: "settled_for I s1" by (rule start_container_accounts [OF acc I q])
  have prov: "keeps (settled_for I) (provision_manager api)"
    unfolding keeps_def
  proof (intro allI impI)
    fix s p t assume "settled_for I s" and t: "provision_manager api s = (p, t)"
    moreover obtain c u where s: "s = (c, u)" by (cases s)
    moreover obtain x c' u' where x: "pa_provision_initial_manager api (c, u) = (x, (c', u'))"
      by (cases "pa_provision_initial_manager api (c, u)") auto
    moreover have "c' = c"
      using quiet x unfolding quiet_process_def by (metis fst_conv snd_conv)
    moreover have "quiet I (\<lambda>w. case pa_provision_initial_manager api (c, w) of (r, (c', w')) \<Rightarrow> (r, w'))"
      using quiet unfolding quiet_process_def by blast
    ultimately show "settled_for I t"
      using quietD [of I _ "ct_resources c" u x u'] by (auto simp: provision_manager_def split: if_splits)
  qed
  have serve: "keeps (settled_for I) (\<lambda>(c, w). case pa_serve api c w of (r, w1) \<Rightarrow> (r, (c, w1)))"
    using quiet unfolding keeps_def quiet_process_def by (auto split: prod.splits dest: quietD)
  show ?thesis
    using keepsD [OF keeps_bindS [OF prov, of "\<lambda>_. (\<lambda>(c, w). case pa_serve api c w of (r, w1) \<Rightarrow> (r, (c, w1)))",
        OF serve] s1] run q s1
    by (cases q) (auto simp: serve_container_def bindS_apply)
qed

lemma lifespan_accounts:
  assumes acc: "accounts (pa_resources api) I" and quiet: "quiet_process I api"
    and I: "I [] w" and run: "lifespan api (new_container, w) = (r, (c, w'))"
  shows "I [] w'"
proof -
  obtain a w1 where a: "pa_configure api w = (a, w1)" by (cases "pa_configure api w")
  have w1: "I [] w1" using quiet a I unfolding quiet_process_def by (blast dest: quietD)
  obtain q s1 where q: "serve_container api (new_container, w1) = (q, s1)" by (cases "serve_container api (new_container, w1)")
  obtain p s2 where p: "close_container (pa_resources api) s1 = (p, s2)" by (cases "close_container (pa_resources api) s1")
  obtain v s3 where v: "bindS (on_world (pa_shutdown_metrics api)) (\<lambda>_. on_world (pa_shutdown_tracing api)) s2 = (v, s3)"
    by (cases "bindS (on_world (pa_shutdown_metrics api)) (\<lambda>_. on_world (pa_shutdown_tracing api)) s2")
  have s2: "I [] (snd s2)"
    by (rule close_container_accounts [OF acc serve_container_accounts [OF acc quiet w1 q] p])
  have "keeps (\<lambda>s. I [] (snd s)) (on_world f)" if "quiet I f" for f
    using that unfolding keeps_def on_world_def by (auto split: prod.splits dest: quietD)
  then have "keeps (\<lambda>s. I [] (snd s)) (bindS (on_world (pa_shutdown_metrics api)) (\<lambda>_. on_world (pa_shutdown_tracing api)))"
    using quiet unfolding quiet_process_def by (intro keeps_bindS) auto
  then have s3: "I [] (snd s3)" using s2 v by (rule keepsD)
  show ?thesis
  proof (cases a)
    case (Inl x)
    then show ?thesis using run a w1 by (simp add: lifespan_def bindS_apply on_world_def)
  next
    case (Inr u)
    then have "(c, w') = s3"
      using run a q p v
      by (cases v; cases p) (simp_all add: lifespan_def bindS_apply on_world_run [of "pa_configure api" w a w1, OF a] finally_do_def)
    then show ?thesis using s3 by auto
  qed
qed

section \<open>No connection survives\<close>

fun core_handles :: "'h lifecycle_resource \<Rightarrow> 'h list" where
  "core_handles (DatabaseResource r) = [dr_engine r]"
| "core_handles (RedisResource h) = [h]"
| "core_handles (MinioResource r) = [mr_pool r]"
| "core_handles (ExternalHttpResource r) = []"

definition option_list :: "'a option \<Rightarrow> 'a list" where
  "option_list x = (case x of None \<Rightarrow> [] | Some a \<Rightarrow> [a])"

fun http_handles :: "'h lifecycle_resource \<Rightarrow> 'h list" where
  "http_handles (ExternalHttpResource r) = option_list (er_llm_client r) @ option_list (er_ocr_client r)"
| "http_handles _ = []"

fun providers_enabled :: "app_settings \<Rightarrow> 'h lifecycle_resource \<Rightarrow> bool" where
  "providers_enabled s (ExternalHttpResource r) \<longleftrightarrow>
     (er_llm_client r \<noteq> None \<longrightarrow> llm_enabled s) \<and> (er_ocr_client r \<noteq> None \<longrightarrow> ocr_enabled s)"
| "providers_enabled s _ \<longleftrightarrow> True"

definition connections ::
  "('w, 'h) client_view \<Rightarrow> app_settings \<Rightarrow> 'h multiset \<Rightarrow> 'h multiset \<Rightarrow> 'h lifecycle_resource list
   \<Rightarrow> 'w \<times> sink \<Rightarrow> bool" where
  "connections V s M H rs x \<longleftrightarrow>
     vw_core V (fst x) = M + mset (concat (map core_handles rs))
   \<and> (\<exists>lost. vw_http V (fst x) = H + mset (concat (map http_handles rs)) + lost
        \<and> (lost = {#} \<or> llm_enabled s \<and> ocr_enabled s))
   \<and> list_all (providers_enabled s) rs"

lemma provider_client_opens:
  assumes "client_law C V" and "create_provider_client C p t (w, sk) = (r, (w', sk'))"
  shows "vw_core V w' = vw_core V w
    \<and> vw_http V w' = vw_http V w + (case r of Inl x \<Rightarrow> {#} | Inr h \<Rightarrow> mset (option_list h))
    \<and> (\<forall>h. r = Inr (Some h) \<longrightarrow> ps_enabled p)"
  using assms(2)
  by (auto simp: create_provider_client_def bindS_apply on_client_def option_list_def
      split: if_splits option.splits prod.splits sum.splits dest!: client_lawD(1) [OF assms(1)])

lemma factory_accounts:
  assumes law: "client_law C V" and acc: "load_settings L S = Inr s"
    and held: "connections V s M H rs (w, sk)" and run: "resource_factory C s k (w, sk) = (r, (w', sk'))"
  shows "connections V s M H (rs @ (case r of Inl _ \<Rightarrow> [] | Inr h \<Rightarrow> [h])) (w', sk')"
proof (cases k)
  case Res_DATABASE
  then show ?thesis
    using held run
    by (auto simp: resource_factory_def resource_views [OF acc] create_database_resource_def bindS_apply
        on_client_def connections_def split: prod.splits sum.splits dest!: client_lawD(1) [OF law])
next
  case Res_REDIS
  then show ?thesis
    using held run
    by (auto simp: resource_factory_def resource_views [OF acc] create_redis_resource_def bindS_apply
        on_client_def connections_def split: prod.splits sum.splits dest!: client_lawD(1) [OF law])
next
  case Res_MINIO
  then show ?thesis
    using held run
    by (auto simp: resource_factory_def resource_views [OF acc] create_minio_resource_def bindS_apply
        on_client_def connections_def split: prod.splits sum.splits dest!: client_lawD(1) [OF law])
next
  case Res_HTTP
  let ?t = "http_timeout_seconds s"
  obtain p q where pq: "or_raise (llm_view s) = Inr p" "or_raise (ocr_view s) = Inr q"
    "ps_enabled p = llm_enabled s" "ps_enabled q = ocr_enabled s"
    using resource_views(5,6) [OF acc] by (metis provider_settings.select_convs(1))
  obtain x w1 k1 where l: "create_provider_client C p ?t (w, sk) = (x, (w1, k1))"
    by (metis surj_pair)
  obtain y w2 k2 where o: "create_provider_client C q ?t (w1, k1) = (y, (w2, k2))"
    by (metis surj_pair)
  note L = provider_client_opens [OF law l] and O = provider_client_opens [OF law o]
  show ?thesis
  proof (cases "\<exists>h. x = Inr (Some h) \<and> isl y")
    case True
    then obtain h e where xy: "x = Inr (Some h)" "y = Inl e" by (metis isl_def)
    then have both: "llm_enabled s \<and> ocr_enabled s"
      using L pq o by (auto simp: create_provider_client_def split: if_splits)
    have w': "r = Inl e" "w' = w2"
      using run xy unfolding Res_HTTP
      by (simp_all add: resource_factory_def create_external_http_def pq bindS_apply l o)
    obtain lost where lost: "vw_http V w = H + mset (concat (map http_handles rs)) + lost"
      using held by (auto simp: connections_def)
    then have "vw_http V w' = H + mset (concat (map http_handles rs)) + (lost + {#h#})"
      using L O xy w' by (simp add: option_list_def)
    then show ?thesis
      using held L O xy w' both by (auto simp: connections_def intro: exI [of _ "lost + {#h#}"])
  next
    case False
    then show ?thesis
      using held run L O pq unfolding Res_HTTP
      by (cases x; cases y; cases "projr x")
        (auto simp: resource_factory_def create_external_http_def bindS_apply l o connections_def option_list_def
          split: option.splits)
  qed
qed

lemma http_close_accounts:
  assumes law: "client_law C V"
    and run: "external_http_close (cl_http_aclose C t) ocr llm w = (r, w')"
  shows "vw_core V w' = vw_core V w \<and> (\<forall>x. r = Inl x \<longrightarrow> is_exception x)
    \<and> (vw_http V w' = vw_http V w - mset (option_list llm @ option_list ocr)
       \<or> (\<exists>o' l. ocr = Some o' \<and> llm = Some l \<and> vw_http V w' = vw_http V w - {#o'#}))"
proof -
  note D = dropsD [OF client_lawD(8) [OF law]]
  show ?thesis
  proof (cases ocr)
    case None
    then show ?thesis
      using run D by (cases llm) (auto simp: external_http_close_def bindS_apply option_list_def)
  next
    case (Some o')
    obtain x w1 where x: "cl_http_aclose C t o' w = (x, w1)" by (cases "cl_http_aclose C t o' w")
    show ?thesis
      using run Some x D [OF x] D
      by (cases x; cases llm) (auto simp: external_http_close_def bindS_apply option_list_def)
  qed
qed

lemma close_accounts:
  assumes law: "client_law C V" and held: "connections V s M H (rs @ [h]) (w, sk)"
    and run: "close_resource C t h (w, sk) = (r, (w', sk'))"
  shows "connections V s M H rs (w', sk') \<and> (\<forall>x. r = Inl x \<longrightarrow> is_exception x)"
proof (cases h)
  case (ExternalHttpResource e)
  have c: "external_http_close (cl_http_aclose C t) (er_ocr_client e) (er_llm_client e) w = (r, w')"
    using run ExternalHttpResource by (auto simp: on_client_run)
  obtain lost where lost: "vw_http V w = H + mset (concat (map http_handles rs))
      + mset (option_list (er_llm_client e) @ option_list (er_ocr_client e)) + lost"
    "lost = {#} \<or> llm_enabled s \<and> ocr_enabled s"
    using held ExternalHttpResource by (auto simp: connections_def ac_simps)
  have rest: "vw_core V w = M + mset (concat (map core_handles rs))" "list_all (providers_enabled s) rs"
    "providers_enabled s h" using held ExternalHttpResource by (auto simp: connections_def)
  note X = http_close_accounts [OF law c]
  from X consider
    "vw_http V w' = vw_http V w - mset (option_list (er_llm_client e) @ option_list (er_ocr_client e))"
    | o' l where "er_ocr_client e = Some o'" "er_llm_client e = Some l" "vw_http V w' = vw_http V w - {#o'#}"
    by blast
  then show ?thesis
  proof cases
    case 1
    then have "vw_http V w' = H + mset (concat (map http_handles rs)) + lost"
      unfolding lost(1) by (simp add: add.assoc add.commute [of _ lost])
    then show ?thesis using lost(2) rest X by (auto simp: connections_def)
  next
    case 2
    then have "vw_http V w' = H + mset (concat (map http_handles rs)) + (lost + {#l#})"
      unfolding lost(1) by (simp add: option_list_def)
    then show ?thesis
      using rest X 2 ExternalHttpResource by (auto simp: connections_def intro: exI [of _ "lost + {#l#}"])
  qed
qed (use held run in \<open>auto simp: connections_def on_client_run
      dest!: dropsD [OF client_lawD(5) [OF law]] dropsD [OF client_lawD(6) [OF law]] dropsD [OF client_lawD(7) [OF law]]\<close>)

lemma default_resources_account:
  assumes law: "client_law C V" and acc: "load_settings L S = Inr s"
  shows "accounts (default_resources C L tf s) (connections V s M H)"
  unfolding accounts_def
proof (intro conjI allI impI, goal_cases)
  case (1 k rs w r w')
  then show ?case
    using factory_accounts [OF law acc, of M H rs "fst w" "snd w" k r "fst w'" "snd w'"]
    by (simp add: default_resources_def)
next
  case (2 h rs w r w')
  then show ?case
    using probe_view [OF law, of L tf s h "fst w" "snd w" r "fst w'" "snd w'"]
    by (simp add: connections_def same_view_def)
next
  case (3 h rs w r w')
  obtain st where "or_raise (startup_view s) = Inr st" using resource_views(7) [OF acc] by blast
  then show ?case
    using 3 close_accounts [OF law, of s M H rs h "fst w" "snd w" "ss_shutdown_timeout_seconds st" r "fst w'" "snd w'"]
    by (simp add: default_resources_def bindS_apply)
next
  case (4 h rs w r w' x)
  obtain st where "or_raise (startup_view s) = Inr st" using resource_views(7) [OF acc] by blast
  then show ?case
    using 4 close_accounts [OF law, of s M H rs h "fst w" "snd w" "ss_shutdown_timeout_seconds st" r "fst w'" "snd w'"]
    by (simp add: default_resources_def bindS_apply)
qed

text \<open>The rest of the process leaves the clients' connections alone.\<close>

definition leaves_connections :: "('w, 'h) client_view \<Rightarrow> ('w, 'a) process_op \<Rightarrow> bool" where
  "leaves_connections V f \<longleftrightarrow> (\<forall>w sk r w' sk'. f (w, sk) = (r, (w', sk')) \<longrightarrow>
     vw_core V w' = vw_core V w \<and> vw_http V w' = vw_http V w)"

definition server_law :: "('w, 'h) client_view \<Rightarrow> ('w \<times> sink, 'h lifecycle_resource) process_api \<Rightarrow> bool" where
  "server_law V api \<longleftrightarrow> leaves_connections V (pa_configure api) \<and> (\<forall>c. leaves_connections V (pa_serve api c))
     \<and> leaves_connections V (pa_shutdown_metrics api) \<and> leaves_connections V (pa_shutdown_tracing api)
     \<and> (\<forall>c. leaves_connections V
          (\<lambda>w. case pa_provision_initial_manager api (c, w) of (r, (c', w')) \<Rightarrow> (r, w')))
     \<and> (\<forall>c w. fst (snd (pa_provision_initial_manager api (c, w))) = c)"

lemma leaves_quiet: "leaves_connections V f \<Longrightarrow> quiet (connections V s M H) f"
  unfolding leaves_connections_def quiet_def connections_def by (metis prod.collapse)


definition demo_server :: "app_settings \<Rightarrow> (demo_clients_world \<times> sink, nat lifecycle_resource) process_api" where
  "demo_server s =
     \<lparr>pa_configure = retS (), pa_resources = default_resources demo_clients demo_url_lib demo_to_float s,
      pa_auth_enabled = False, pa_provision_initial_manager = retS (), pa_serve = (\<lambda>c. raiseS CancelledError),
      pa_shutdown_metrics = retS (), pa_shutdown_tracing = retS ()\<rparr>"

lemma demo_server_law: "server_law demo_view (demo_server s)"
  by (auto simp: server_law_def demo_server_def leaves_connections_def)


text \<open>With both providers enabled, the failing client (here always the OCR provider's) leaves the other one open.\<close>

definition providers_app :: app_settings where
  "providers_app = manager_app\<lparr>llm_enabled := True, llm_base_url := Some (lit ''https://llm''), llm_api_key := Some (lit ''k1''),
     ocr_enabled := True, ocr_base_url := Some (lit ''https://ocr''), ocr_api_key := Some (lit ''k2'')\<rparr>"

lemma second_provider_survives:
  "case lifespan (demo_server providers_app) (new_container, ((0, [], [], []), Null_Sink)) of
     (r, c, w', sk') \<Rightarrow> fst (snd (snd w')) = [] \<and> length (snd (snd (snd w'))) = 1"
  by code_simp

text \<open>A blank scanner host passes the settings and fails every upload.\<close>

definition blank_scanner_source :: source where
  "blank_scanner_source = manager_source\<lparr>src_str := (\<lambda>a. if a = ''DOCUMENT_CLAMAV_HOST'' then Some (Inr [32])
     else src_str manager_source a)\<rparr>"

lemma blank_scanner_fails_uploads:
  "case load_settings demo_url_lib blank_scanner_source of Inl e \<Rightarrow> False
   | Inr s \<Rightarrow> (case demo_start s of (r, c, w) \<Rightarrow> r = Inr ()
       \<and> (case get_document_upload_handler demo_upload_env (Some (s, c)) of
            Inl e \<Rightarrow> e = ValueError ''invalid ClamAV connection settings'' | Inr h \<Rightarrow> False))"
  by code_simp

end
