(* ===== verification/Worker.thy ===== *)
theory Worker
  imports Lifecycle AppConfig "HOL-Library.Multiset"
begin

text \<open>
  The worker entrypoint (\<open>entrypoints/worker\<close>): the runtime that keeps one event loop and one
  container per pool process (\<open>lifecycle.py\<close>), the registration of task handlers (\<open>registry.py\<close>)
  with the task message (\<open>shared/contracts/tasks.py\<close>), and the Celery configuration (\<open>app.py\<close>).
  \<open>threading.Lock\<close> makes the calls of the runtime sequential.  An \<open>asyncio.Runner\<close> is open or
  closed; \<open>wr_open_loops\<close> counts the open ones.  Celery and the broker are not modelled beyond
  the values the program gives them.
\<close>

section \<open>The worker runtime\<close>

datatype worker_state = Worker_NEW | Worker_STARTED | Worker_CLOSED

datatype runner = Runner_OPEN | Runner_CLOSED

record 'r worker_runtime =
  wr_runner :: "runner option"
  wr_container :: "'r container option"
  wr_state :: worker_state
  wr_open_loops :: nat

definition new_worker_runtime :: "'r worker_runtime" where
  "new_worker_runtime =
     \<lparr>wr_runner = None, wr_container = None, wr_state = Worker_NEW, wr_open_loops = 0\<rparr>"

type_synonym ('w, 'r, 'a) worker_op = "('r worker_runtime \<times> 'w, 'a) stateful"

text \<open>\<open>runner.run(coroutine)\<close> on the shared container; a closed runner refuses.\<close>

definition runner_run ::
  "runner \<Rightarrow> ('w, 'r, 'a) container_op \<Rightarrow> ('w, 'r, 'a) container_op" where
  "runner_run runner coroutine s =
     (case runner of
        Runner_CLOSED \<Rightarrow> (Inl (RuntimeError ''Runner is closed''), s)
      | Runner_OPEN \<Rightarrow> coroutine s)"

definition ensure_started :: "('w, 'r) resource_api \<Rightarrow> ('w, 'r, 'r container) worker_op" where
  "ensure_started api = (\<lambda>(k, w).
     case wr_state k of
       Worker_CLOSED \<Rightarrow> (Inl (RuntimeError ''Worker runtime is closed''), (k, w))
     | Worker_STARTED \<Rightarrow>
         (case wr_container k of
            None \<Rightarrow> (Inl (RuntimeError ''Started worker runtime has no container''), (k, w))
          | Some c \<Rightarrow> (Inr c, (k, w)))
     | Worker_NEW \<Rightarrow>
         let opened = k\<lparr>wr_open_loops := Suc (wr_open_loops k)\<rparr> in
         (case runner_run Runner_OPEN (start_container api) (new_container, w) of
            (Inl x, (_, w1)) \<Rightarrow> (Inl x, (opened\<lparr>wr_open_loops := wr_open_loops opened - 1\<rparr>, w1))
          | (Inr _, (c, w1)) \<Rightarrow>
              (Inr c, (opened\<lparr>wr_runner := Some Runner_OPEN, wr_container := Some c,
                              wr_state := Worker_STARTED\<rparr>, w1))))"

definition require_runner :: "('w, 'r, runner) worker_op" where
  "require_runner = (\<lambda>(k, w).
     case wr_runner k of
       None \<Rightarrow> (Inl (RuntimeError ''Worker runtime event loop is unavailable''), (k, w))
     | Some r \<Rightarrow> (Inr r, (k, w)))"

text \<open>\<open>WorkerRuntime.run\<close>: the operation works on the container the runtime keeps.\<close>

definition worker_run :: "('w, 'r) resource_api \<Rightarrow> ('w, 'r, 'a) container_op \<Rightarrow> ('w, 'r, 'a) worker_op" where
  "worker_run api operation =
     bindS (ensure_started api) (\<lambda>container.
     bindS require_runner (\<lambda>runner (k, w).
       case runner_run runner operation (container, w) of
         (res, (c, w1)) \<Rightarrow> (res, (k\<lparr>wr_container := Some c\<rparr>, w1))))"

text \<open>\<open>WorkerRuntime.close\<close>; its \<open>finally\<close> runs whatever closing the container raised.\<close>

definition worker_close :: "('w, 'r) resource_api \<Rightarrow> ('w, 'r, unit) worker_op" where
  "worker_close api = (\<lambda>(k, w).
     if wr_state k = Worker_CLOSED then (Inr (), (k, w))
     else
       let (res, w1) =
         (case (wr_runner k, wr_container k) of
            (Some r, Some c) \<Rightarrow>
              (case runner_run r (close_container api) (c, w) of (res, (_, w1)) \<Rightarrow> (res, w1))
          | _ \<Rightarrow> (Inr (), w))
       in (res, (k\<lparr>wr_open_loops := wr_open_loops k - (if wr_runner k = Some Runner_OPEN then 1 else 0),
                   wr_runner := None, wr_container := None, wr_state := Worker_CLOSED\<rparr>, w1)))"

text \<open>The calls a pool process makes, one after the other; the results are kept in order.\<close>

datatype ('w, 'r, 'a) worker_call = Call_RUN "('w, 'r, 'a) container_op" | Call_CLOSE

fun worker_calls ::
  "('w, 'r) resource_api \<Rightarrow> ('w, 'r, 'a) worker_call list \<Rightarrow> 'r worker_runtime \<times> 'w
     \<Rightarrow> (exn + 'a option) list \<times> 'r worker_runtime \<times> 'w" where
  "worker_calls api [] s = ([], s)"
| "worker_calls api (Call_RUN f # cs) s =
     (case worker_run api f s of (r, s1) \<Rightarrow>
      case worker_calls api cs s1 of (rs, s2) \<Rightarrow> (map_sum id Some r # rs, s2))"
| "worker_calls api (Call_CLOSE # cs) s =
     (case worker_close api s of (r, s1) \<Rightarrow>
      case worker_calls api cs s1 of (rs, s2) \<Rightarrow> (map_sum id (\<lambda>_. None) r # rs, s2))"

text \<open>\<open>_probe_dependencies\<close> of the health check.\<close>

definition probe_dependencies :: "('w, 'r) resource_api \<Rightarrow> ('w, 'r, unit) container_op" where
  "probe_dependencies api = finally_do (start_container api) (close_container api)"

section \<open>What the runtime guarantees\<close>

text \<open>
  A task neither replaces the container nor opens or closes its resources.
\<close>

definition task_law :: "('w \<Rightarrow> 'r list) \<Rightarrow> ('w \<Rightarrow> 'r list) \<Rightarrow> ('w, 'r, 'a) worker_call \<Rightarrow> bool" where
  "task_law made freed call \<longleftrightarrow>
     (case call of Call_CLOSE \<Rightarrow> True
      | Call_RUN f \<Rightarrow> (\<forall>c w r c' w'. f (c, w) = (r, (c', w')) \<longrightarrow>
          c' = c \<and> made w' = made w \<and> freed w' = freed w))"

definition all_released :: "('w \<Rightarrow> 'r list) \<Rightarrow> ('w \<Rightarrow> 'r list) \<Rightarrow> 'w \<Rightarrow> bool" where
  "all_released made freed w \<longleftrightarrow> mset (made w) = mset (freed w)"

text \<open>One loop and one container while started, nothing at all before and after.\<close>

definition worker_ok :: "('w \<Rightarrow> 'r list) \<Rightarrow> ('w \<Rightarrow> 'r list) \<Rightarrow> 'r worker_runtime \<times> 'w \<Rightarrow> bool" where
  "worker_ok made freed s \<longleftrightarrow> (case s of (k, w) \<Rightarrow>
     if wr_state k = Worker_STARTED
     then wr_runner k = Some Runner_OPEN \<and> wr_open_loops k = 1
       \<and> (\<exists>c. wr_container k = Some c \<and> ct_state c = Container_STARTED
            \<and> mset (made w) = mset (freed w) + mset (ct_resources c))
     else wr_runner k = None \<and> wr_container k = None \<and> wr_open_loops k = 0 \<and> all_released made freed w)"

lemma released_mset:
  "released made freed C D s \<Longrightarrow> mset C = mset D \<Longrightarrow> all_released made freed (snd s)"
  by (auto simp: released_def all_released_def)

lemma start_effect:
  assumes "resource_law api made freed" and "all_released made freed w"
    and "start_container api (new_container, w) = (r, (c, w'))"
  shows "case r of Inl _ \<Rightarrow> all_released made freed w'
    | Inr _ \<Rightarrow> ct_state c = Container_STARTED \<and> mset (made w') = mset (freed w') + mset (ct_resources c)"
  using start_container_run [OF assms(1,3)] assms(2) released_mset [of made freed "made w" "freed w" "(c, w')"]
  by (auto simp: holds_def all_released_def split: sum.splits)

lemma close_effect:
  assumes law: "resource_law api made freed" and c: "ct_state c = Container_STARTED"
    and m: "mset (made w) = mset (freed w) + mset (ct_resources c)"
    and run: "close_container api (c, w) = (r, (c', w'))"
  shows "all_released made freed w'"
proof -
  obtain q rest w1 where q: "close_loop api (rev (ct_resources c)) [] w = (q, rest, w1)"
    by (cases "close_loop api (rev (ct_resources c)) [] w") auto
  note R = close_loop_run [OF law q]
  then have "all_released made freed w1" using m by (auto simp: all_released_def)
  moreover have "w' = w1"
    using run c q R
    by (auto simp: close_container_def bindS_apply close_resources_def update_container_def split: if_splits)
  ultimately show ?thesis by simp
qed

lemma ensure_started_ok:
  assumes law: "resource_law api made freed" and ok: "worker_ok made freed s"
    and run: "ensure_started api s = (r, s')"
  shows "worker_ok made freed s' \<and> (\<forall>c. r = Inr c \<longrightarrow> wr_state (fst s') = Worker_STARTED \<and> wr_container (fst s') = Some c)
    \<and> (wr_state (fst s) = Worker_CLOSED \<longrightarrow> isl r \<and> s' = s)"
proof (cases s)
  case (Pair k w)
  show ?thesis
  proof (cases "wr_state k")
    case Worker_NEW
    obtain q c w1 where q: "start_container api (new_container, w) = (q, (c, w1))"
      by (cases "start_container api (new_container, w)") auto
    have "all_released made freed w" using ok Pair Worker_NEW by (simp add: worker_ok_def)
    note S = start_effect [OF law this q]
    show ?thesis
      using run Pair Worker_NEW q S ok
      by (cases q) (auto simp: ensure_started_def runner_run_def Let_def worker_ok_def)
  qed (use run Pair ok in \<open>auto simp: ensure_started_def worker_ok_def\<close>)
qed

lemma worker_run_ok:
  assumes law: "resource_law api made freed" and ok: "worker_ok made freed s"
    and task: "task_law made freed (Call_RUN f)" and run: "worker_run api f s = (r, s')"
  shows "worker_ok made freed s' \<and> (wr_state (fst s) = Worker_CLOSED \<longrightarrow> isl r \<and> s' = s)"
proof -
  obtain q s1 where q: "ensure_started api s = (q, s1)" by (cases "ensure_started api s")
  note E = ensure_started_ok [OF law ok q]
  show ?thesis
  proof (cases q)
    case (Inl x)
    then show ?thesis using E run q by (auto simp: worker_run_def bindS_apply)
  next
    case (Inr c)
    obtain k w where s1: "s1 = (k, w)" by (cases s1)
    obtain p c2 w2 where p: "f (c, w) = (p, (c2, w2))" by (cases "f (c, w)") auto
    have k: "wr_state k = Worker_STARTED" "wr_container k = Some c" using E Inr s1 by auto
    have "c2 = c \<and> made w2 = made w \<and> freed w2 = freed w" using task p by (auto simp: task_law_def)
    moreover have "(r, s') = (p, (k\<lparr>wr_container := Some c2\<rparr>, w2))"
      using run q Inr s1 p E k
      by (auto simp: worker_run_def bindS_apply require_runner_def runner_run_def worker_ok_def)
    ultimately show ?thesis using E s1 k Inr by (auto simp: worker_ok_def)
  qed
qed

lemma worker_close_ok:
  assumes law: "resource_law api made freed" and ok: "worker_ok made freed s"
    and run: "worker_close api s = (r, s')"
  shows "worker_ok made freed s' \<and> wr_state (fst s') = Worker_CLOSED
    \<and> (wr_state (fst s) = Worker_CLOSED \<longrightarrow> r = Inr () \<and> s' = s)"
proof (cases s)
  case (Pair k w)
  show ?thesis
  proof (cases "wr_state k")
    case Worker_STARTED
    then obtain c where c: "wr_container k = Some c" "ct_state c = Container_STARTED"
      "mset (made w) = mset (freed w) + mset (ct_resources c)" "wr_runner k = Some Runner_OPEN" "wr_open_loops k = 1"
      using ok Pair by (auto simp: worker_ok_def)
    obtain q c1 w1 where q: "close_container api (c, w) = (q, (c1, w1))"
      by (cases "close_container api (c, w)") auto
    show ?thesis
      using close_effect [OF law c(2,3) q] run Pair Worker_STARTED c q
      by (auto simp: worker_close_def runner_run_def worker_ok_def)
  qed (use run ok Pair in \<open>auto simp: worker_close_def worker_ok_def\<close>)
qed

text \<open>Once closed, always closed: every later call is refused or does nothing.\<close>

definition refused :: "exn + 'a option \<Rightarrow> bool" where
  "refused r \<longleftrightarrow> isl r \<or> r = Inr None"

lemma closed_calls:
  assumes law: "resource_law api made freed"
  shows "worker_ok made freed s \<Longrightarrow> wr_state (fst s) = Worker_CLOSED \<Longrightarrow> list_all (task_law made freed) cs \<Longrightarrow>
    worker_calls api cs s = (rs, s') \<Longrightarrow> s' = s \<and> list_all refused rs"
proof (induction cs arbitrary: rs s')
  case (Cons call cs)
  obtain rs1 s1 where r: "worker_calls api cs s = (rs1, s1)" by (cases "worker_calls api cs s")
  have "list_all (task_law made freed) cs" using Cons.prems(3) by simp
  note IH = Cons.IH [OF Cons.prems(1,2) this r]
  show ?case
  proof (cases call)
    case (Call_RUN f)
    obtain q s2 where q: "worker_run api f s = (q, s2)" by (cases "worker_run api f s")
    have "isl q \<and> s2 = s"
      using worker_run_ok [OF law Cons.prems(1) _ q] Cons.prems(2,3) Call_RUN by simp
    then show ?thesis
      using Cons.prems(3,4) Call_RUN q r IH by (cases q) (auto simp: refused_def)
  next
    case Call_CLOSE
    obtain q s2 where q: "worker_close api s = (q, s2)" by (cases "worker_close api s")
    have "q = Inr () \<and> s2 = s" using worker_close_ok [OF law Cons.prems(1) q] Cons.prems(2) by simp
    then show ?thesis using Cons.prems(3,4) Call_CLOSE q r IH by (auto simp: refused_def)
  qed
qed simp

lemma worker_calls_ok:
  assumes law: "resource_law api made freed"
  shows "worker_ok made freed s \<Longrightarrow> list_all (task_law made freed) cs \<Longrightarrow>
    worker_calls api cs s = (rs, s') \<Longrightarrow> worker_ok made freed s'"
proof (induction cs arbitrary: s rs)
  case (Cons call cs)
  show ?case
  proof (cases call)
    case (Call_RUN f)
    obtain q s2 where q: "worker_run api f s = (q, s2)" by (cases "worker_run api f s")
    have "worker_ok made freed s2"
      using worker_run_ok [OF law Cons.prems(1) _ q] Cons.prems(2) Call_RUN by simp
    then show ?thesis using Cons Call_RUN q by (auto split: prod.splits)
  next
    case Call_CLOSE
    obtain q s2 where q: "worker_close api s = (q, s2)" by (cases "worker_close api s")
    have "worker_ok made freed s2" using worker_close_ok [OF law Cons.prems(1) q] by simp
    then show ?thesis using Cons Call_CLOSE q by (auto split: prod.splits)
  qed
qed simp

text \<open>C20: the runtime of a pool process over any sequence of runs and closes, whatever starts, tasks and
  closings fail: while it is started it owns exactly one event loop and one started container, which
  holds every open resource; before and after it owns nothing and every resource that was created has
  been closed; and after the first close no call has an effect, every task is refused.\<close>

theorem worker_runtime_safe:
  assumes "resource_law api made freed" and "list_all (task_law made freed) (before @ after)"
    and "made w = []" and "freed w = []"
    and "worker_calls api before (new_worker_runtime, w) = (rs, s)"
    and "worker_calls api (Call_CLOSE # after) s = (r # rs', s')"
  shows "worker_ok made freed s \<and> worker_ok made freed s' \<and> wr_state (fst s') = Worker_CLOSED
    \<and> mset (made (snd s')) = mset (freed (snd s')) \<and> list_all refused rs'"
proof -
  have "worker_ok made freed (new_worker_runtime, w)"
    using assms(3,4) by (simp add: worker_ok_def new_worker_runtime_def all_released_def)
  then have s: "worker_ok made freed s"
    using worker_calls_ok [OF assms(1) _ _ assms(5)] assms(2) by simp
  obtain q s1 where q: "worker_close api s = (q, s1)" by (cases "worker_close api s")
  note C = worker_close_ok [OF assms(1) s q]
  have r: "worker_calls api after s1 = (rs', s')" using assms(6) q by (auto split: prod.splits)
  have "list_all (task_law made freed) after" using assms(2) by simp
  from closed_calls [OF assms(1) conjunct1 [OF C] _ this r]
  have "s' = s1" "list_all refused rs'" using C by simp_all
  then show ?thesis using s C by (cases s1) (auto simp: worker_ok_def all_released_def)
qed

text \<open>A first start that fails (the third resource is down) and is repeated, then closed.\<close>

definition demo_calls :: "(nat list \<times> nat list, nat, unit) worker_call list" where
  "demo_calls = [Call_RUN (retS ()), Call_RUN (retS ())]"

lemma demo_resources_law: "resource_law demo_resources fst snd"
  by (auto simp: resource_law_def demo_resources_def split: if_splits)

lemma worker_runtime_safe_witness:
  "\<exists>rs s r rs' s'. worker_calls demo_resources demo_calls (new_worker_runtime, ([], [])) = (rs, s)
     \<and> worker_calls demo_resources (Call_CLOSE # demo_calls) s = (r # rs', s')
     \<and> fst (snd s') = [0, 1, 2, 3, 4, 5, 6] \<and> list_all refused rs'
     \<and> mset (fst (snd s')) = mset (snd (snd s'))"
proof -
  let ?a = "worker_calls demo_resources demo_calls (new_worker_runtime, ([], []))"
  let ?b = "worker_calls demo_resources (Call_CLOSE # demo_calls) (snd ?a)"
  have m: "fst (snd (snd ?b)) = [0, 1, 2, 3, 4, 5, 6]" and n: "fst ?b \<noteq> []" by code_simp+
  have law: "list_all (task_law fst snd) (demo_calls @ demo_calls)"
    by (simp add: demo_calls_def task_law_def)
  have a: "?a = (fst ?a, snd ?a)" and b: "?b = (hd (fst ?b) # tl (fst ?b), snd ?b)" using n by simp_all
  show ?thesis
    using worker_runtime_safe [OF demo_resources_law law _ _ a b] a b m by (metis fst_conv snd_conv)
qed

end
