(* ===== verification/WorkerApp.thy ===== *)
theory WorkerApp
  imports Worker ConfigGuarantees
begin

text \<open>
  The worker's tasks and its Celery configuration: the task message
  (\<open>shared/contracts/tasks.py\<close>), the registered handlers (\<open>entrypoints/worker/registry.py\<close>) and
  \<open>create_celery_app\<close> (\<open>app.py\<close>).  Celery's options are recorded as the program sets them; the
  parser of UUIDs is a parameter.
\<close>

section \<open>Tasks\<close>

definition DOCUMENT_PARSE_TASK_TYPE :: pystr where
  "DOCUMENT_PARSE_TASK_TYPE = lit ''documents.parse''"

definition DOCUMENT_PARSE_SCHEMA_VERSION :: int where
  "DOCUMENT_PARSE_SCHEMA_VERSION = 3"

record document_parse_task_input =
  dp_task_type :: pystr
  dp_schema_version :: int
  dp_document_version_id :: pystr

definition mk_document_parse_task_input ::
  "(pystr \<Rightarrow> pystr option) \<Rightarrow> pystr \<Rightarrow> exn + document_parse_task_input" where
  "mk_document_parse_task_input parse_uuid document_version_id =
     (case parse_uuid document_version_id of
        None \<Rightarrow> Inl (ValueError ''ValidationError'')
      | Some u \<Rightarrow> Inr \<lparr>dp_task_type = DOCUMENT_PARSE_TASK_TYPE,
          dp_schema_version = DOCUMENT_PARSE_SCHEMA_VERSION, dp_document_version_id = u\<rparr>)"

record task_options =
  to_name :: pystr
  to_max_retries :: int
  to_retry_backoff :: int
  to_retry_backoff_max :: int
  to_retry_jitter :: bool

type_synonym 'w document_parse_handler = "document_parse_task_input \<Rightarrow> ('w, unit) stateful"

text \<open>The registered function: a tenant in an older message is accepted and ignored.\<close>

definition parse_document ::
  "(pystr \<Rightarrow> pystr option) \<Rightarrow> ('w, 'r) resource_api \<Rightarrow> 'w document_parse_handler \<Rightarrow> pystr \<Rightarrow> pystr option
     \<Rightarrow> ('w, 'r, unit) worker_op" where
  "parse_document parse_uuid api handler document_version_id tenant_id =
     bindS (liftS (mk_document_parse_task_input parse_uuid document_version_id)) (\<lambda>command.
     worker_run api (on_world (handler command)))"

definition register_task_handlers ::
  "(pystr \<Rightarrow> pystr option) \<Rightarrow> ('w, 'r) resource_api \<Rightarrow> worker_settings \<Rightarrow> 'w document_parse_handler option
     \<Rightarrow> (task_options \<times> (pystr \<Rightarrow> pystr option \<Rightarrow> ('w, 'r, unit) worker_op)) list" where
  "register_task_handlers parse_uuid api w documents_parse =
     (case documents_parse of
        None \<Rightarrow> []
      | Some handler \<Rightarrow>
          [(\<lparr>to_name = DOCUMENT_PARSE_TASK_TYPE, to_max_retries = ws_max_retries w,
             to_retry_backoff = ws_retry_base_delay_seconds w,
             to_retry_backoff_max = ws_retry_max_delay_seconds w, to_retry_jitter = True\<rparr>,
            parse_document parse_uuid api handler)])"

text \<open>Messages that differ in the tenant only are processed alike.\<close>

lemma parse_document_ignores_tenant:
  "parse_document parse_uuid api handler v t = parse_document parse_uuid api handler v t'"
  by (simp add: parse_document_def)

section \<open>The Celery application\<close>

datatype exchange_type = Exchange_TOPIC | Exchange_DIRECT

record exchange =
  ex_name :: pystr
  ex_type :: exchange_type
  ex_durable :: bool

record broker_queue =
  bq_name :: pystr
  bq_exchange :: exchange
  bq_routing_key :: pystr
  bq_durable :: bool
  bq_type :: pystr
  bq_dead_letter_exchange :: "pystr option"
  bq_dead_letter_routing_key :: "pystr option"
  bq_delivery_limit :: "int option"

record celery_conf =
  cc_broker :: pystr
  cc_accept_content :: "pystr list"
  cc_broker_connection_retry :: bool
  cc_broker_connection_retry_on_startup :: bool
  cc_confirm_publish :: bool
  cc_enable_utc :: bool
  cc_result_backend :: "pystr option"
  cc_task_acks_late :: bool
  cc_task_acks_on_failure_or_timeout :: bool
  cc_persistent_delivery :: bool
  cc_task_default_exchange :: pystr
  cc_task_default_queue :: pystr
  cc_task_default_routing_key :: pystr
  cc_task_ignore_result :: bool
  cc_publish_retry :: bool
  cc_publish_max_retries :: int
  cc_publish_interval_start :: rat
  cc_publish_interval_step :: rat
  cc_publish_interval_max :: rat
  cc_task_queues :: "broker_queue list"
  cc_task_reject_on_worker_lost :: bool
  cc_task_routes :: "(pystr \<times> pystr \<times> pystr) list"
  cc_task_serializer :: pystr
  cc_task_soft_time_limit :: int
  cc_task_time_limit :: int
  cc_timezone :: pystr
  cc_cancel_long_running_on_connection_loss :: bool
  cc_worker_concurrency :: int
  cc_worker_detect_quorum_queues :: bool
  cc_worker_enable_remote_control :: bool
  cc_worker_dead_letter_queue :: broker_queue
  cc_worker_hijack_root_logger :: bool
  cc_worker_prefetch_multiplier :: int

definition QUORUM_QUEUE_TYPE :: pystr where
  "QUORUM_QUEUE_TYPE = lit ''quorum''"

definition CELERY_PUBLISH_MAX_RETRIES :: int where
  "CELERY_PUBLISH_MAX_RETRIES = 3"

text \<open>The source writes the intervals as floats.\<close>

definition CELERY_PUBLISH_RETRY_INTERVAL_START_SECONDS :: rat where
  "CELERY_PUBLISH_RETRY_INTERVAL_START_SECONDS = 1 / 5"

definition CELERY_PUBLISH_RETRY_INTERVAL_STEP_SECONDS :: rat where
  "CELERY_PUBLISH_RETRY_INTERVAL_STEP_SECONDS = 1 / 5"

definition CELERY_PUBLISH_RETRY_INTERVAL_MAX_SECONDS :: rat where
  "CELERY_PUBLISH_RETRY_INTERVAL_MAX_SECONDS = 1"

definition work_queue :: "worker_settings \<Rightarrow> broker_queue" where
  "work_queue w =
     \<lparr>bq_name = ws_queue_name w,
      bq_exchange = \<lparr>ex_name = ws_queue_name w @ lit ''.tasks'', ex_type = Exchange_TOPIC, ex_durable = True\<rparr>,
      bq_routing_key = ws_queue_name w, bq_durable = True, bq_type = QUORUM_QUEUE_TYPE,
      bq_dead_letter_exchange = Some (ws_queue_name w @ lit ''.dlx''),
      bq_dead_letter_routing_key = Some (ws_dead_letter_queue_name w),
      bq_delivery_limit = Some (ws_delivery_limit w)\<rparr>"

definition dead_letter_queue :: "worker_settings \<Rightarrow> broker_queue" where
  "dead_letter_queue w =
     \<lparr>bq_name = ws_dead_letter_queue_name w,
      bq_exchange = \<lparr>ex_name = ws_queue_name w @ lit ''.dlx'', ex_type = Exchange_DIRECT, ex_durable = True\<rparr>,
      bq_routing_key = ws_dead_letter_queue_name w, bq_durable = True, bq_type = QUORUM_QUEUE_TYPE,
      bq_dead_letter_exchange = None, bq_dead_letter_routing_key = None, bq_delivery_limit = None\<rparr>"

definition celery_conf_of :: "celery_settings \<Rightarrow> worker_settings \<Rightarrow> celery_conf" where
  "celery_conf_of broker w =
     \<lparr>cc_broker = cs_broker_url broker, cc_accept_content = [lit ''json''], cc_broker_connection_retry = True,
      cc_broker_connection_retry_on_startup = True, cc_confirm_publish = True, cc_enable_utc = True,
      cc_result_backend = None, cc_task_acks_late = True, cc_task_acks_on_failure_or_timeout = False,
      cc_persistent_delivery = True, cc_task_default_exchange = ex_name (bq_exchange (work_queue w)),
      cc_task_default_queue = ws_queue_name w, cc_task_default_routing_key = ws_queue_name w,
      cc_task_ignore_result = True, cc_publish_retry = True, cc_publish_max_retries = CELERY_PUBLISH_MAX_RETRIES,
      cc_publish_interval_start = CELERY_PUBLISH_RETRY_INTERVAL_START_SECONDS,
      cc_publish_interval_step = CELERY_PUBLISH_RETRY_INTERVAL_STEP_SECONDS,
      cc_publish_interval_max = CELERY_PUBLISH_RETRY_INTERVAL_MAX_SECONDS,
      cc_task_queues = [work_queue w], cc_task_reject_on_worker_lost = True,
      cc_task_routes = [(DOCUMENT_PARSE_TASK_TYPE, ws_queue_name w, ws_queue_name w)],
      cc_task_serializer = lit ''json'', cc_task_soft_time_limit = ws_soft_time_limit_seconds w,
      cc_task_time_limit = ws_hard_time_limit_seconds w, cc_timezone = lit ''UTC'',
      cc_cancel_long_running_on_connection_loss = True, cc_worker_concurrency = ws_concurrency w,
      cc_worker_detect_quorum_queues = True, cc_worker_enable_remote_control = False, cc_worker_dead_letter_queue = dead_letter_queue w,
      cc_worker_hijack_root_logger = False, cc_worker_prefetch_multiplier = ws_prefetch_multiplier w\<rparr>"

text \<open>\<open>create_celery_app\<close>: the views it asks for are validated again; then the handlers are registered.\<close>

definition create_celery_app ::
  "url_lib \<Rightarrow> (pystr \<Rightarrow> pystr option) \<Rightarrow> ('w, 'r) resource_api \<Rightarrow> 'w document_parse_handler option \<Rightarrow> app_settings
     \<Rightarrow> exn + celery_conf \<times> task_options list" where
  "create_celery_app L parse_uuid api documents_parse s =
     bindE (or_raise (worker_view s)) (\<lambda>w.
     bindE (or_raise (logging_view L s)) (\<lambda>_.
     bindE (or_raise (tracing_view s)) (\<lambda>_.
     bindE (or_raise (celery_view s)) (\<lambda>broker.
     Inr (celery_conf_of broker w, map fst (register_task_handlers parse_uuid api w documents_parse))))))"

text \<open>The command line of \<open>main\<close>.\<close>

definition worker_argv :: "celery_conf \<Rightarrow> pystr list" where
  "worker_argv c =
     [lit ''worker'', lit ''--loglevel=INFO'', lit ''--hostname=worker@%h'',
      lit ''--queues='' @ cc_task_default_queue c, lit ''--without-gossip'', lit ''--without-mingle'']"

section \<open>The delivery topology\<close>

lemma worker_view_Inr:
  "worker_view s = Inr w \<Longrightarrow> ws_queue_name w = worker_queue_name s
     \<and> ws_dead_letter_queue_name w = worker_dead_letter_queue_name s
     \<and> ws_soft_time_limit_seconds w = worker_soft_time_limit_seconds s
     \<and> ws_hard_time_limit_seconds w = worker_hard_time_limit_seconds s
     \<and> ws_delivery_limit w = worker_delivery_limit s
     \<and> ws_retry_base_delay_seconds w = worker_retry_base_delay_seconds s
     \<and> ws_retry_max_delay_seconds w = worker_retry_max_delay_seconds s"
  by (auto simp: worker_view_def mk_worker_settings_def validate_delivery_windows_def config)

text \<open>With accepted settings the worker starts with a sound delivery topology: parse tasks are routed to
  the one queue that is consumed; a task that fails, is rejected or exceeds its delivery limit goes to
  the declared dead-letter queue, which is not consumed and dead-letters nothing itself; the soft time
  limit strikes before the hard one and the retry backoff stays below its maximum.\<close>

theorem worker_topology_sound:
  assumes "load_settings L S = Inr s" and "upper_law L"
  shows "\<exists>c tasks work. create_celery_app L parse_uuid api documents_parse s = Inr (c, tasks)
    \<and> cc_task_queues c = [work]
    \<and> cc_task_routes c = [(DOCUMENT_PARSE_TASK_TYPE, bq_name work, bq_routing_key work)]
    \<and> cc_task_default_exchange c = ex_name (bq_exchange work)
    \<and> lit ''--queues='' @ bq_name work \<in> set (worker_argv c)
    \<and> bq_dead_letter_exchange work = Some (ex_name (bq_exchange (cc_worker_dead_letter_queue c)))
    \<and> bq_dead_letter_routing_key work = Some (bq_routing_key (cc_worker_dead_letter_queue c))
    \<and> ex_type (bq_exchange (cc_worker_dead_letter_queue c)) = Exchange_DIRECT
    \<and> ex_name (bq_exchange (cc_worker_dead_letter_queue c)) \<noteq> ex_name (bq_exchange work)
    \<and> bq_name (cc_worker_dead_letter_queue c) \<noteq> bq_name work
    \<and> bq_dead_letter_exchange (cc_worker_dead_letter_queue c) = None
    \<and> (\<exists>n. bq_delivery_limit work = Some n \<and> 1 \<le> n)
    \<and> cc_task_acks_late c \<and> \<not> cc_task_acks_on_failure_or_timeout c \<and> cc_task_reject_on_worker_lost c
    \<and> cc_task_soft_time_limit c < cc_task_time_limit c
    \<and> list_all (\<lambda>t. to_name t = DOCUMENT_PARSE_TASK_TYPE \<and> to_retry_backoff t \<le> to_retry_backoff_max t) tasks
    \<and> length tasks = (if documents_parse = None then 0 else 1)"
proof -
  note ok = accepted_settings [OF assms(1) [unfolded load_settings_Inr]]
  note worker = cross_field_checks(6) [OF ok(2)]
  obtain w where w: "worker_view s = Inr w" using worker by (cases "worker_view s") auto
  obtain t where t: "tracing_view s = Inr t" using simple_views(9) [OF ok(1)] by (cases "tracing_view s") auto
  obtain b where b: "celery_view s = Inr b" using simple_views(3) [OF ok(1)] by (cases "celery_view s") auto
  have "1 \<le> worker_delivery_limit s" using ok(1) by (simp add: fields_ok_def)
  then show ?thesis
    using worker_policy [OF worker] worker_view_Inr [OF w]
    by (intro exI [of _ "celery_conf_of b w"] exI [of _ "work_queue w"]
          exI [of _ "map fst (register_task_handlers parse_uuid api w documents_parse)"])
      (simp add: create_celery_app_def or_raise_def w t b logging_view_valid [OF ok(1) assms(2)]
        celery_conf_of_def work_queue_def dead_letter_queue_def worker_argv_def register_task_handlers_def
        split: option.splits)
qed

lemma worker_topology_sound_witness:
  "\<exists>c tasks work. create_celery_app demo_url_lib Some demo_resources (Some (\<lambda>_. retS ())) demo_app = Inr (c, tasks)
     \<and> cc_task_queues c = [work] \<and> bq_name (cc_worker_dead_letter_queue c) \<noteq> bq_name work \<and> length tasks = 1"
  using worker_topology_sound [OF demo_accepted demo_upper_law, of Some demo_resources "Some (\<lambda>_. retS ())"] by auto

end
