(* ===== verification/WorkerProcess.thy ===== *)
theory WorkerProcess
  imports Clients WorkerApp
begin

text \<open>
  The two commands of the worker image (\<open>main\<close> and \<open>healthcheck\<close> of \<open>entrypoints/worker/app.py\<close>) over the
  program's own resources (\<open>Clients\<close>).  Declaring a queue at the broker and Celery's main loop are
  parameters.
\<close>

definition declare_dead_letter_queue ::
  "(broker_queue \<Rightarrow> ('w, unit) stateful) \<Rightarrow> celery_conf \<Rightarrow> ('w, unit) stateful" where
  "declare_dead_letter_queue declare_queue conf = declare_queue (cc_worker_dead_letter_queue conf)"

definition worker_main ::
  "(broker_queue \<Rightarrow> ('w, unit) stateful) \<Rightarrow> (pystr list \<Rightarrow> ('w, unit) stateful) \<Rightarrow> celery_conf
   \<Rightarrow> ('w, unit) stateful" where
  "worker_main declare_queue celery_main conf =
     bindS (declare_dead_letter_queue declare_queue conf) (\<lambda>_. celery_main (worker_argv conf))"

text \<open>\<open>load_settings()\<close> is read again; a configuration error is one of the program's exceptions.\<close>

definition healthcheck ::
  "(broker_queue \<Rightarrow> ('w, unit) process_op) \<Rightarrow> ('w, 'h) client_lib \<Rightarrow> url_lib \<Rightarrow> (pydecimal \<Rightarrow> pyfloat)
   \<Rightarrow> source \<Rightarrow> celery_conf \<Rightarrow> ('w, unit) process_op" where
  "healthcheck declare_queue C L tf environ conf =
     bindS (declare_dead_letter_queue declare_queue conf) (\<lambda>_.
     case load_settings L environ of
       Inl e \<Rightarrow> raiseS (ValueError ''ConfigurationLoadError'')
     | Inr s \<Rightarrow> (\<lambda>w. case probe_dependencies (default_resources C L tf s) (new_container, w) of
         (r, (_, w')) \<Rightarrow> (r, w')))"

lemma probe_dependencies_accounts:
  assumes "accounts api I" and "I [] w" and "probe_dependencies api (new_container, w) = (r, (c, w'))"
  shows "I [] w'"
proof -
  obtain a s1 where a: "start_container api (new_container, w) = (a, s1)"
    by (cases "start_container api (new_container, w)")
  obtain b s2 where b: "close_container api s1 = (b, s2)" by (cases "close_container api s1")
  have "I [] (snd s2)"
    by (rule close_container_accounts [OF assms(1) start_container_accounts [OF assms(1,2) a] b])
  moreover have "(c, w') = s2"
    using assms(3) a b by (cases b) (simp_all add: probe_dependencies_def finally_do_def)
  ultimately show ?thesis by auto
qed

text \<open>
  The health check leaves no pool open behind it, whatever it finds; it passes only when the
  dead-letter queue could be declared, the settings were accepted and all resources started and stopped.
\<close>

theorem healthcheck_leaves_no_pool:
  assumes law: "client_law C V" and "\<And>q. leaves_connections V (declare_queue q)"
    and run: "healthcheck declare_queue C L tf environ conf (w, sk) = (r, (w', sk'))"
  shows "vw_core V w' = vw_core V w
    \<and> (r = Inr () \<longrightarrow> (\<exists>s w1. load_settings L environ = Inr s
         \<and> declare_queue (cc_worker_dead_letter_queue conf) (w, sk) = (Inr (), w1)
         \<and> fst (start_container (default_resources C L tf s) (new_container, w1)) = Inr ()))"
proof -
  obtain d w1 k1 where d: "declare_queue (cc_worker_dead_letter_queue conf) (w, sk) = (d, (w1, k1))"
    by (metis surj_pair)
  have w1: "vw_core V w1 = vw_core V w" using assms(2) d unfolding leaves_connections_def by blast
  show ?thesis
  proof (cases "\<exists>s. d = Inr () \<and> load_settings L environ = Inr s")
    case True
    then obtain s where s: "d = Inr ()" "load_settings L environ = Inr s" by blast
    obtain q c where q: "probe_dependencies (default_resources C L tf s) (new_container, (w1, k1)) = (q, (c, (w', sk')))"
      and r: "r = q"
      using run d s by (auto simp: healthcheck_def declare_dead_letter_queue_def bindS_apply split: prod.splits)
    have "connections V s (vw_core V w1) (vw_http V w1) [] (w', sk')"
      by (rule probe_dependencies_accounts [OF default_resources_account [OF law s(2)] _ q])
        (simp add: connections_def)
    moreover have "fst (start_container (default_resources C L tf s) (new_container, (w1, k1))) = Inr ()" if "q = Inr ()"
      using q that by (auto simp: probe_dependencies_def finally_do_def split: prod.splits sum.splits)
    ultimately show ?thesis using w1 s d r by (auto simp: connections_def)
  next
    case False
    then show ?thesis
      using run d w1
      by (cases d; cases "load_settings L environ")
        (auto simp: healthcheck_def declare_dead_letter_queue_def bindS_apply)
  qed
qed

end
