(* ===== verification/Schema.thy ===== *)
theory Schema
  imports IdentityApp DocRepository
begin

text \<open>
  The database schema (\<open>src/migrations\<close>, \<open>platform/database/models.py\<close> and the ORM models of the modules).  A
  migration is the list of DDL statements of its \<open>upgrade\<close> and of its \<open>downgrade\<close>; an ORM model is the table
  it declares.  \<open>apply_ddl\<close> is what PostgreSQL documents a statement to do; \<open>None\<close> is its refusal.  The
  seeding of roles works on the tables of \<open>IdentityStore\<close>.
\<close>

section \<open>Schemas and statements\<close>

text \<open>Enumerations are not native: a string column with the listed values.\<close>

datatype column_type =
    T_Uuid | T_String nat | T_Text | T_Integer | T_BigInteger | T_DateTime | T_JSONB
  | T_Enum string "string list"

record column =
  cl_name :: string
  cl_type :: column_type
  cl_nullable :: bool
  cl_default :: "string option"

text \<open>
  A check lists the columns it is about; a foreign key its referred schema, table and column, and
  whether deletion is restricted explicitly.  A name that is not given is the convention's.
\<close>

datatype table_constraint =
    Check "string list" string "string option"
  | Primary_Key "string list" "string option"
  | Unique "string list" "string option"
  | Foreign_Key string string string string bool "string option"

record table =
  tb_schema :: string
  tb_name :: string
  tb_columns :: "column list"
  tb_constraints :: "table_constraint list"

record index =
  ix_schema :: string
  ix_name :: string
  ix_table :: string
  ix_columns :: "string list"

datatype ddl =
    Create_Schema string bool
  | Drop_Schema string
  | Create_Table table
  | Drop_Table string string
  | Create_Index index
  | Drop_Index string string
  | Add_Column string string column
  | Drop_Column string string string
  | Alter_Default string string string "string option"

record db_schema =
  sc_schemas :: "string list"
  sc_tables :: "table list"
  sc_indexes :: "index list"

definition col :: "string \<Rightarrow> column_type \<Rightarrow> column" where
  "col n ty = \<lparr>cl_name = n, cl_type = ty, cl_nullable = False, cl_default = None\<rparr>"

definition col_null :: "string \<Rightarrow> column_type \<Rightarrow> column" where
  "col_null n ty = \<lparr>cl_name = n, cl_type = ty, cl_nullable = True, cl_default = None\<rparr>"

definition col_default :: "string \<Rightarrow> column_type \<Rightarrow> string \<Rightarrow> column" where
  "col_default n ty d = \<lparr>cl_name = n, cl_type = ty, cl_nullable = False, cl_default = Some d\<rparr>"

fun constraint_columns :: "table_constraint \<Rightarrow> string list" where
  "constraint_columns (Check cs e n) = cs"
| "constraint_columns (Primary_Key cs n) = cs"
| "constraint_columns (Unique cs n) = cs"
| "constraint_columns (Foreign_Key c rs rt rc d n) = [c]"

fun refers_to :: "string \<Rightarrow> string \<Rightarrow> table_constraint \<Rightarrow> bool" where
  "refers_to sch t (Foreign_Key c rs rt rc d n) \<longleftrightarrow> rs = sch \<and> rt = t"
| "refers_to sch t k \<longleftrightarrow> False"

definition is_table :: "string \<Rightarrow> string \<Rightarrow> table \<Rightarrow> bool" where
  "is_table sch t x \<longleftrightarrow> tb_schema x = sch \<and> tb_name x = t"

definition has_column :: "string \<Rightarrow> table \<Rightarrow> bool" where
  "has_column c x \<longleftrightarrow> c \<in> set (map cl_name (tb_columns x))"

text \<open>The referred column must be the primary key of its table.\<close>

definition reference_ok :: "table list \<Rightarrow> table_constraint \<Rightarrow> bool" where
  "reference_ok ts k \<longleftrightarrow>
     (case k of
        Foreign_Key c rs rt rc d n \<Rightarrow>
          list_ex (\<lambda>x. is_table rs rt x \<and> list_ex (\<lambda>q. case q of Primary_Key cs _ \<Rightarrow> cs = [rc] | _ \<Rightarrow> False)
                     (tb_constraints x)) ts
      | _ \<Rightarrow> True)"

definition on_table :: "string \<Rightarrow> string \<Rightarrow> (table \<Rightarrow> bool) \<Rightarrow> (table \<Rightarrow> table) \<Rightarrow> db_schema \<Rightarrow> db_schema option" where
  "on_table sch t ok f S =
     (if list_ex (\<lambda>x. is_table sch t x \<and> ok x) (sc_tables S)
      then Some (S\<lparr>sc_tables := map (\<lambda>x. if is_table sch t x then f x else x) (sc_tables S)\<rparr>)
      else None)"

fun apply_ddl :: "ddl \<Rightarrow> db_schema \<Rightarrow> db_schema option" where
  "apply_ddl (Create_Schema s if_not_exists) S =
     (if s \<in> set (sc_schemas S) then (if if_not_exists then Some S else None)
      else Some (S\<lparr>sc_schemas := sc_schemas S @ [s]\<rparr>))"
| "apply_ddl (Drop_Schema s) S =
     (if s \<in> set (sc_schemas S) \<and> \<not> list_ex (\<lambda>x. tb_schema x = s) (sc_tables S)
      then Some (S\<lparr>sc_schemas := filter (\<lambda>x. x \<noteq> s) (sc_schemas S)\<rparr>) else None)"
| "apply_ddl (Create_Table x) S =
     (if tb_schema x \<in> set (sc_schemas S) \<and> \<not> list_ex (is_table (tb_schema x) (tb_name x)) (sc_tables S)
         \<and> distinct (map cl_name (tb_columns x))
         \<and> list_all (\<lambda>k. list_all (\<lambda>c. has_column c x) (constraint_columns k) \<and> reference_ok (sc_tables S) k)
             (tb_constraints x)
      then Some (S\<lparr>sc_tables := sc_tables S @ [x]\<rparr>) else None)"
| "apply_ddl (Drop_Table sch t) S =
     (if list_ex (is_table sch t) (sc_tables S)
         \<and> \<not> list_ex (\<lambda>x. \<not> is_table sch t x \<and> list_ex (refers_to sch t) (tb_constraints x)) (sc_tables S)
      then Some (S\<lparr>sc_tables := filter (\<lambda>x. \<not> is_table sch t x) (sc_tables S),
                   sc_indexes := filter (\<lambda>i. \<not> (ix_schema i = sch \<and> ix_table i = t)) (sc_indexes S)\<rparr>)
      else None)"
| "apply_ddl (Create_Index i) S =
     (if \<not> list_ex (\<lambda>j. ix_schema j = ix_schema i \<and> ix_name j = ix_name i) (sc_indexes S)
         \<and> list_ex (\<lambda>x. is_table (ix_schema i) (ix_table i) x \<and> list_all (\<lambda>c. has_column c x) (ix_columns i)) (sc_tables S)
      then Some (S\<lparr>sc_indexes := sc_indexes S @ [i]\<rparr>) else None)"
| "apply_ddl (Drop_Index sch n) S =
     (if list_ex (\<lambda>j. ix_schema j = sch \<and> ix_name j = n) (sc_indexes S)
      then Some (S\<lparr>sc_indexes := filter (\<lambda>j. \<not> (ix_schema j = sch \<and> ix_name j = n)) (sc_indexes S)\<rparr>)
      else None)"
| "apply_ddl (Add_Column sch t c) S =
     on_table sch t (\<lambda>x. \<not> has_column (cl_name c) x \<and> (cl_nullable c \<or> cl_default c \<noteq> None))
       (\<lambda>x. x\<lparr>tb_columns := tb_columns x @ [c]\<rparr>) S"
| "apply_ddl (Drop_Column sch t c) S =
     map_option (\<lambda>R. R\<lparr>sc_indexes := filter (\<lambda>i. \<not> (ix_schema i = sch \<and> ix_table i = t \<and> c \<in> set (ix_columns i))) (sc_indexes R)\<rparr>)
       (on_table sch t (has_column c)
         (\<lambda>x. x\<lparr>tb_columns := filter (\<lambda>d. cl_name d \<noteq> c) (tb_columns x),
                tb_constraints := filter (\<lambda>k. c \<notin> set (constraint_columns k)) (tb_constraints x)\<rparr>) S)"
| "apply_ddl (Alter_Default sch t c d) S =
     on_table sch t (has_column c)
       (\<lambda>x. x\<lparr>tb_columns := map (\<lambda>q. if cl_name q = c then q\<lparr>cl_default := d\<rparr> else q) (tb_columns x)\<rparr>) S"

fun run_ddl :: "ddl list \<Rightarrow> db_schema \<Rightarrow> db_schema option" where
  "run_ddl [] S = Some S"
| "run_ddl (d # ds) S = (case apply_ddl d S of None \<Rightarrow> None | Some S' \<Rightarrow> run_ddl ds S')"

section \<open>The migrations\<close>

definition outbox_event_table :: table where
  "outbox_event_table =
     \<lparr>tb_schema = ''platform'', tb_name = ''outbox_event'',
      tb_columns =
       [col ''event_id'' T_Uuid, col ''event_type'' (T_String 200), 
        col ''aggregate_type'' (T_String 100), col ''aggregate_id'' (T_String 200), 
        col_null ''aggregate_version'' T_Integer, col ''payload'' T_JSONB, 
        col ''metadata'' T_JSONB, 
        col ''status'' (T_Enum ''outbox_status'' [''pending'', ''processing'', ''published'', ''dead_letter'']), 
        col ''attempt_count'' T_Integer, col ''available_at'' T_DateTime, 
        col_null ''claimed_at'' T_DateTime, col_null ''claimed_until'' T_DateTime, 
        col_null ''claim_token'' T_Uuid, col_null ''published_at'' T_DateTime, 
        col_null ''last_error'' T_Text, 
        col_default ''created_at'' T_DateTime ''CURRENT_TIMESTAMP''],
      tb_constraints =
       [Check [''attempt_count''] ''attempt_count >= 0'' (Some ''attempt_count_non_negative''),
        Primary_Key [''event_id''] (Some ''pk_outbox_event'')]\<rparr>"

definition upgrade_0001 :: "ddl list" where
  "upgrade_0001 =
     [Create_Schema ''platform'' True,
      Create_Table outbox_event_table,
      Create_Index \<lparr>ix_schema = ''platform'', ix_name = ''ix_outbox_event_delivery'', ix_table = ''outbox_event'', ix_columns = [''status'', ''available_at'']\<rparr>]"

definition downgrade_0001 :: "ddl list" where
  "downgrade_0001 =
     [Drop_Index ''platform'' ''ix_outbox_event_delivery'',
      Drop_Table ''platform'' ''outbox_event'',
      Drop_Schema ''platform'']"

definition identity_account_table :: table where
  "identity_account_table =
     \<lparr>tb_schema = ''identity'', tb_name = ''identity_account'',
      tb_columns =
       [col ''user_id'' (T_String 64), col ''login_identifier'' (T_String 320), 
        col ''password_hash'' T_Text, 
        col ''status'' (T_Enum ''account_status'' [''active'', ''disabled'']), 
        col ''password_version'' T_Integer],
      tb_constraints =
       [Check [''password_version''] ''password_version >= 1'' (Some ''password_version_positive''),
        Primary_Key [''user_id''] (Some ''pk_identity_account''),
        Unique [''login_identifier''] (Some ''uq_identity_account_login_identifier'')]\<rparr>"

definition permission_table :: table where
  "permission_table =
     \<lparr>tb_schema = ''identity'', tb_name = ''permission'',
      tb_columns =
       [col ''permission_code'' (T_String 200)],
      tb_constraints =
       [Primary_Key [''permission_code''] (Some ''pk_permission'')]\<rparr>"

definition role_table :: table where
  "role_table =
     \<lparr>tb_schema = ''identity'', tb_name = ''role'',
      tb_columns =
       [col ''role_id'' (T_String 64), col ''tenant_id'' (T_String 64), 
        col ''role_code'' (T_String 200)],
      tb_constraints =
       [Primary_Key [''role_id''] (Some ''pk_role''),
        Unique [''tenant_id'', ''role_code''] (Some ''uq_role_tenant_role_code'')]\<rparr>"

definition tenant_membership_table :: table where
  "tenant_membership_table =
     \<lparr>tb_schema = ''identity'', tb_name = ''tenant_membership'',
      tb_columns =
       [col ''membership_id'' (T_String 64), col ''user_id'' (T_String 64), 
        col ''tenant_id'' (T_String 64), 
        col ''status'' (T_Enum ''membership_status'' [''active'', ''disabled''])],
      tb_constraints =
       [Foreign_Key ''user_id'' ''identity'' ''identity_account'' ''user_id'' False (Some ''fk_tenant_membership_user_id_identity_account''),
        Primary_Key [''membership_id''] (Some ''pk_tenant_membership''),
        Unique [''user_id'', ''tenant_id''] (Some ''uq_tenant_membership_user_tenant'')]\<rparr>"

definition role_permission_table :: table where
  "role_permission_table =
     \<lparr>tb_schema = ''identity'', tb_name = ''role_permission'',
      tb_columns =
       [col ''role_id'' (T_String 64), col ''permission_code'' (T_String 200)],
      tb_constraints =
       [Foreign_Key ''permission_code'' ''identity'' ''permission'' ''permission_code'' False (Some ''fk_role_permission_permission_code_permission''),
        Foreign_Key ''role_id'' ''identity'' ''role'' ''role_id'' False (Some ''fk_role_permission_role_id_role''),
        Primary_Key [''role_id'', ''permission_code''] (Some ''pk_role_permission'')]\<rparr>"

definition membership_role_table :: table where
  "membership_role_table =
     \<lparr>tb_schema = ''identity'', tb_name = ''membership_role'',
      tb_columns =
       [col ''membership_id'' (T_String 64), col ''role_id'' (T_String 64)],
      tb_constraints =
       [Foreign_Key ''membership_id'' ''identity'' ''tenant_membership'' ''membership_id'' False (Some ''fk_membership_role_membership_id_tenant_membership''),
        Foreign_Key ''role_id'' ''identity'' ''role'' ''role_id'' False (Some ''fk_membership_role_role_id_role''),
        Primary_Key [''membership_id'', ''role_id''] (Some ''pk_membership_role'')]\<rparr>"

definition refresh_session_table :: table where
  "refresh_session_table =
     \<lparr>tb_schema = ''identity'', tb_name = ''refresh_session'',
      tb_columns =
       [col ''session_id'' (T_String 64), col ''family_id'' (T_String 64), 
        col ''user_id'' (T_String 64), col ''tenant_id'' (T_String 64), 
        col ''token_digest'' (T_String 64), col ''issued_at'' T_DateTime, 
        col ''idle_expires_at'' T_DateTime, col ''absolute_expires_at'' T_DateTime, 
        col_null ''consumed_at'' T_DateTime, col_null ''revoked_at'' T_DateTime],
      tb_constraints =
       [Foreign_Key ''user_id'' ''identity'' ''identity_account'' ''user_id'' False (Some ''fk_refresh_session_user_id_identity_account''),
        Primary_Key [''session_id''] (Some ''pk_refresh_session''),
        Unique [''token_digest''] (Some ''uq_refresh_session_token_digest'')]\<rparr>"

definition upgrade_0002 :: "ddl list" where
  "upgrade_0002 =
     [Create_Schema ''identity'' True,
      Create_Table identity_account_table,
      Create_Table permission_table,
      Create_Table role_table,
      Create_Table tenant_membership_table,
      Create_Table role_permission_table,
      Create_Table membership_role_table,
      Create_Table refresh_session_table,
      Create_Index \<lparr>ix_schema = ''identity'', ix_name = ''ix_refresh_session_family'', ix_table = ''refresh_session'', ix_columns = [''family_id'']\<rparr>,
      Create_Index \<lparr>ix_schema = ''identity'', ix_name = ''ix_refresh_session_active_expiry'', ix_table = ''refresh_session'', ix_columns = [''idle_expires_at'', ''absolute_expires_at'']\<rparr>]"

definition downgrade_0002 :: "ddl list" where
  "downgrade_0002 =
     [Drop_Index ''identity'' ''ix_refresh_session_active_expiry'',
      Drop_Index ''identity'' ''ix_refresh_session_family'',
      Drop_Table ''identity'' ''refresh_session'',
      Drop_Table ''identity'' ''membership_role'',
      Drop_Table ''identity'' ''role_permission'',
      Drop_Table ''identity'' ''tenant_membership'',
      Drop_Table ''identity'' ''role'',
      Drop_Table ''identity'' ''permission'',
      Drop_Table ''identity'' ''identity_account'',
      Drop_Schema ''identity'']"

definition task_execution_table :: table where
  "task_execution_table =
     \<lparr>tb_schema = ''platform'', tb_name = ''task_execution'',
      tb_columns =
       [col ''task_id'' T_Uuid, col ''task_type'' (T_String 200), col ''tenant_id'' T_Uuid, 
        col ''status'' (T_Enum ''task_execution_status'' [''running'', ''retry_scheduled'', ''succeeded'', ''dead_letter'']), 
        col ''attempt_count'' T_Integer, col_null ''claim_token'' T_Uuid, 
        col_null ''claimed_at'' T_DateTime, col_null ''claimed_until'' T_DateTime, 
        col ''available_at'' T_DateTime, col_null ''completed_at'' T_DateTime, 
        col_null ''last_error'' T_Text, col ''created_at'' T_DateTime, 
        col ''updated_at'' T_DateTime],
      tb_constraints =
       [Check [''attempt_count''] ''attempt_count >= 1'' (Some ''attempt_count_positive''),
        Primary_Key [''task_id''] (Some ''pk_task_execution'')]\<rparr>"

definition upgrade_0003 :: "ddl list" where
  "upgrade_0003 =
     [Create_Table task_execution_table,
      Create_Index \<lparr>ix_schema = ''platform'', ix_name = ''ix_task_execution_delivery'', ix_table = ''task_execution'', ix_columns = [''status'', ''available_at'']\<rparr>]"

definition downgrade_0003 :: "ddl list" where
  "downgrade_0003 =
     [Drop_Index ''platform'' ''ix_task_execution_delivery'',
      Drop_Table ''platform'' ''task_execution'']"

definition upgrade_0005 :: "ddl list" where
  "upgrade_0005 =
     [Drop_Index ''platform'' ''ix_task_execution_delivery'',
      Drop_Table ''platform'' ''task_execution'']"

definition restored_task_execution_table :: table where
  "restored_task_execution_table =
     \<lparr>tb_schema = ''platform'', tb_name = ''task_execution'',
      tb_columns =
       [col ''task_id'' T_Uuid, col ''task_type'' (T_String 200), col ''tenant_id'' T_Uuid, 
        col ''status'' (T_Enum ''task_execution_status'' [''running'', ''retry_scheduled'', ''succeeded'', ''dead_letter'']), 
        col ''attempt_count'' T_Integer, col_null ''claim_token'' T_Uuid, 
        col_null ''claimed_at'' T_DateTime, col_null ''claimed_until'' T_DateTime, 
        col ''available_at'' T_DateTime, col_null ''completed_at'' T_DateTime, 
        col_null ''last_error'' T_Text, col ''created_at'' T_DateTime, 
        col ''updated_at'' T_DateTime],
      tb_constraints =
       [Check [''attempt_count''] ''attempt_count >= 1'' (Some ''attempt_count_positive''),
        Primary_Key [''task_id''] (Some ''pk_task_execution'')]\<rparr>"

definition downgrade_0005 :: "ddl list" where
  "downgrade_0005 =
     [Create_Table restored_task_execution_table,
      Create_Index \<lparr>ix_schema = ''platform'', ix_name = ''ix_task_execution_delivery'', ix_table = ''task_execution'', ix_columns = [''status'', ''available_at'']\<rparr>]"

definition document_table :: table where
  "document_table =
     \<lparr>tb_schema = ''documents'', tb_name = ''document'',
      tb_columns =
       [col ''id'' T_Uuid, col ''tenant_id'' (T_String 64), col ''created_at'' T_DateTime],
      tb_constraints =
       [Primary_Key [''id''] (Some ''pk_document'')]\<rparr>"

definition document_version_table :: table where
  "document_version_table =
     \<lparr>tb_schema = ''documents'', tb_name = ''document_version'',
      tb_columns =
       [col ''id'' T_Uuid, col ''document_id'' T_Uuid, col ''tenant_id'' (T_String 64), 
        col ''name'' (T_String 255), col ''file_url'' T_Text, col ''normalized_pdf_url'' T_Text, 
        col ''file_format'' (T_Enum ''document_format'' [''pdf'', ''docx'', ''pptx'']), 
        col ''file_hash'' (T_String 64), col ''normalized_pdf_hash'' (T_String 64), 
        col ''version'' T_Integer, col ''uploaded_at'' T_DateTime, 
        col_null ''expires_at'' T_DateTime, col ''page_count'' T_Integer, 
        col ''parser_version'' (T_String 100), col ''parse_duration_ms'' T_BigInteger],
      tb_constraints =
       [Check [''page_count''] ''page_count BETWEEN 1 AND 500'' (Some ''ck_document_version_page_count_supported''),
        Check [''parse_duration_ms''] ''parse_duration_ms >= 0'' (Some ''ck_document_version_parse_duration_non_negative''),
        Check [''version''] ''version >= 1'' (Some ''ck_document_version_version_positive''),
        Foreign_Key ''document_id'' ''documents'' ''document'' ''id'' True (Some ''fk_document_version_document_id_document''),
        Primary_Key [''id''] (Some ''pk_document_version''),
        Unique [''document_id'', ''file_hash''] (Some ''uq_document_version_document_file_hash''),
        Unique [''document_id'', ''version''] (Some ''uq_document_version_document_version_sequence'')]\<rparr>"

definition upgrade_0006 :: "ddl list" where
  "upgrade_0006 =
     [Create_Schema ''documents'' False,
      Create_Table document_table,
      Create_Index \<lparr>ix_schema = ''documents'', ix_name = ''ix_document_tenant'', ix_table = ''document'', ix_columns = [''tenant_id'']\<rparr>,
      Create_Table document_version_table,
      Create_Index \<lparr>ix_schema = ''documents'', ix_name = ''ix_document_version_tenant_document'', ix_table = ''document_version'', ix_columns = [''tenant_id'', ''document_id'']\<rparr>]"

definition downgrade_0006 :: "ddl list" where
  "downgrade_0006 =
     [Drop_Index ''documents'' ''ix_document_version_tenant_document'',
      Drop_Table ''documents'' ''document_version'',
      Drop_Index ''documents'' ''ix_document_tenant'',
      Drop_Table ''documents'' ''document'',
      Drop_Schema ''documents'']"

definition upgrade_0007 :: "ddl list" where
  "upgrade_0007 =
     [Drop_Index ''documents'' ''ix_document_version_tenant_document'',
      Drop_Column ''documents'' ''document_version'' ''tenant_id'',
      Drop_Index ''documents'' ''ix_document_tenant'',
      Drop_Column ''documents'' ''document'' ''tenant_id'']"

definition downgrade_0007 :: "ddl list" where
  "downgrade_0007 =
     [Add_Column ''documents'' ''document'' (col_default ''tenant_id'' (T_String 64) ''default''),
      Alter_Default ''documents'' ''document'' ''tenant_id'' None,
      Create_Index \<lparr>ix_schema = ''documents'', ix_name = ''ix_document_tenant'', ix_table = ''document'', ix_columns = [''tenant_id'']\<rparr>,
      Add_Column ''documents'' ''document_version'' (col_default ''tenant_id'' (T_String 64) ''default''),
      Alter_Default ''documents'' ''document_version'' ''tenant_id'' None,
      Create_Index \<lparr>ix_schema = ''documents'', ix_name = ''ix_document_version_tenant_document'', ix_table = ''document_version'', ix_columns = [''tenant_id'', ''document_id'']\<rparr>]"

text \<open>The scripts with their places in the chain; the fourth changes rows only (below).\<close>

record migration =
  mg_revision :: string
  mg_down_revision :: "string option"
  mg_upgrade :: "ddl list"
  mg_downgrade :: "ddl list"

definition MIGRATIONS :: "migration list" where
  "MIGRATIONS =
     [\<lparr>mg_revision = ''20260722_0001'', mg_down_revision = None, mg_upgrade = upgrade_0001, mg_downgrade = downgrade_0001\<rparr>,
      \<lparr>mg_revision = ''20260722_0002'', mg_down_revision = Some ''20260722_0001'', mg_upgrade = upgrade_0002, mg_downgrade = downgrade_0002\<rparr>,
      \<lparr>mg_revision = ''20260722_0003'', mg_down_revision = Some ''20260722_0002'', mg_upgrade = upgrade_0003, mg_downgrade = downgrade_0003\<rparr>,
      \<lparr>mg_revision = ''20260723_0004'', mg_down_revision = Some ''20260722_0003'', mg_upgrade = [], mg_downgrade = []\<rparr>,
      \<lparr>mg_revision = ''20260723_0005'', mg_down_revision = Some ''20260723_0004'', mg_upgrade = upgrade_0005, mg_downgrade = downgrade_0005\<rparr>,
      \<lparr>mg_revision = ''20260723_0006'', mg_down_revision = Some ''20260723_0005'', mg_upgrade = upgrade_0006, mg_downgrade = downgrade_0006\<rparr>,
      \<lparr>mg_revision = ''20260723_0007'', mg_down_revision = Some ''20260723_0006'', mg_upgrade = upgrade_0007, mg_downgrade = downgrade_0007\<rparr>]"

section \<open>The models\<close>

text \<open>A column that is a foreign key has the type of the column it refers to.\<close>

definition OutboxEventModel :: table where
  "OutboxEventModel =
     \<lparr>tb_schema = ''platform'', tb_name = ''outbox_event'',
      tb_columns =
       [col ''event_id'' T_Uuid, col ''event_type'' (T_String 200), 
        col ''aggregate_type'' (T_String 100), col ''aggregate_id'' (T_String 200), 
        col_null ''aggregate_version'' T_Integer, col ''payload'' T_JSONB, 
        col ''metadata'' T_JSONB, 
        col ''status'' (T_Enum ''outbox_status'' [''pending'', ''processing'', ''published'', ''dead_letter'']), 
        col ''attempt_count'' T_Integer, col ''available_at'' T_DateTime, 
        col_null ''claimed_at'' T_DateTime, col_null ''claimed_until'' T_DateTime, 
        col_null ''claim_token'' T_Uuid, col_null ''published_at'' T_DateTime, 
        col_null ''last_error'' T_Text, col ''created_at'' T_DateTime],
      tb_constraints =
       [Check [''attempt_count''] ''attempt_count >= 0'' (Some ''attempt_count_non_negative''),
        Primary_Key [''event_id''] None]\<rparr>"

definition IdentityAccountModel :: table where
  "IdentityAccountModel =
     \<lparr>tb_schema = ''identity'', tb_name = ''identity_account'',
      tb_columns =
       [col ''user_id'' (T_String 64), col ''login_identifier'' (T_String 320), 
        col ''password_hash'' T_Text, 
        col ''status'' (T_Enum ''account_status'' [''active'', ''disabled'']), 
        col ''password_version'' T_Integer],
      tb_constraints =
       [Check [''password_version''] ''password_version >= 1'' (Some ''password_version_positive''),
        Primary_Key [''user_id''] None,
        Unique [''login_identifier''] None]\<rparr>"

definition TenantMembershipModel :: table where
  "TenantMembershipModel =
     \<lparr>tb_schema = ''identity'', tb_name = ''tenant_membership'',
      tb_columns =
       [col ''membership_id'' (T_String 64), col ''user_id'' (T_String 64), 
        col ''tenant_id'' (T_String 64), 
        col ''status'' (T_Enum ''membership_status'' [''active'', ''disabled''])],
      tb_constraints =
       [Unique [''user_id'', ''tenant_id''] (Some ''user_tenant''),
        Primary_Key [''membership_id''] None,
        Foreign_Key ''user_id'' ''identity'' ''identity_account'' ''user_id'' False None]\<rparr>"

definition PermissionModel :: table where
  "PermissionModel =
     \<lparr>tb_schema = ''identity'', tb_name = ''permission'',
      tb_columns =
       [col ''permission_code'' (T_String 200)],
      tb_constraints =
       [Primary_Key [''permission_code''] None]\<rparr>"

definition RoleModel :: table where
  "RoleModel =
     \<lparr>tb_schema = ''identity'', tb_name = ''role'',
      tb_columns =
       [col ''role_id'' (T_String 64), col ''tenant_id'' (T_String 64), 
        col ''role_code'' (T_String 200)],
      tb_constraints =
       [Unique [''tenant_id'', ''role_code''] (Some ''tenant_role_code''),
        Primary_Key [''role_id''] None]\<rparr>"

definition RolePermissionModel :: table where
  "RolePermissionModel =
     \<lparr>tb_schema = ''identity'', tb_name = ''role_permission'',
      tb_columns =
       [col ''role_id'' (T_String 64), col ''permission_code'' (T_String 200)],
      tb_constraints =
       [Primary_Key [''role_id'', ''permission_code''] None,
        Foreign_Key ''role_id'' ''identity'' ''role'' ''role_id'' False None,
        Foreign_Key ''permission_code'' ''identity'' ''permission'' ''permission_code'' False None]\<rparr>"

definition MembershipRoleModel :: table where
  "MembershipRoleModel =
     \<lparr>tb_schema = ''identity'', tb_name = ''membership_role'',
      tb_columns =
       [col ''membership_id'' (T_String 64), col ''role_id'' (T_String 64)],
      tb_constraints =
       [Primary_Key [''membership_id'', ''role_id''] None,
        Foreign_Key ''membership_id'' ''identity'' ''tenant_membership'' ''membership_id'' False None,
        Foreign_Key ''role_id'' ''identity'' ''role'' ''role_id'' False None]\<rparr>"

definition RefreshSessionModel :: table where
  "RefreshSessionModel =
     \<lparr>tb_schema = ''identity'', tb_name = ''refresh_session'',
      tb_columns =
       [col ''session_id'' (T_String 64), col ''family_id'' (T_String 64), 
        col ''user_id'' (T_String 64), col ''tenant_id'' (T_String 64), 
        col ''token_digest'' (T_String 64), col ''issued_at'' T_DateTime, 
        col ''idle_expires_at'' T_DateTime, col ''absolute_expires_at'' T_DateTime, 
        col_null ''consumed_at'' T_DateTime, col_null ''revoked_at'' T_DateTime],
      tb_constraints =
       [Primary_Key [''session_id''] None,
        Foreign_Key ''user_id'' ''identity'' ''identity_account'' ''user_id'' False None,
        Unique [''token_digest''] None]\<rparr>"

definition DocumentModel :: table where
  "DocumentModel =
     \<lparr>tb_schema = ''documents'', tb_name = ''document'',
      tb_columns =
       [col ''id'' T_Uuid, col ''created_at'' T_DateTime],
      tb_constraints =
       [Primary_Key [''id''] None]\<rparr>"

definition DocumentVersionModel :: table where
  "DocumentVersionModel =
     \<lparr>tb_schema = ''documents'', tb_name = ''document_version'',
      tb_columns =
       [col ''id'' T_Uuid, col ''document_id'' T_Uuid, col ''name'' (T_String 255), 
        col ''file_url'' T_Text, col ''normalized_pdf_url'' T_Text, 
        col ''file_format'' (T_Enum ''document_format'' [''pdf'', ''docx'', ''pptx'']), 
        col ''file_hash'' (T_String 64), col ''normalized_pdf_hash'' (T_String 64), 
        col ''version'' T_Integer, col ''uploaded_at'' T_DateTime, 
        col_null ''expires_at'' T_DateTime, col ''page_count'' T_Integer, 
        col ''parser_version'' (T_String 100), col ''parse_duration_ms'' T_BigInteger],
      tb_constraints =
       [Unique [''document_id'', ''version''] (Some ''document_version_sequence''),
        Unique [''document_id'', ''file_hash''] (Some ''document_file_hash''),
        Check [''version''] ''version >= 1'' (Some ''version_positive''),
        Check [''page_count''] ''page_count BETWEEN 1 AND 500'' (Some ''page_count_supported''),
        Check [''parse_duration_ms''] ''parse_duration_ms >= 0'' (Some ''parse_duration_non_negative''),
        Primary_Key [''id''] None,
        Foreign_Key ''document_id'' ''documents'' ''document'' ''id'' True None]\<rparr>"

definition MODELS :: "table list" where
  "MODELS =
     [OutboxEventModel, IdentityAccountModel, TenantMembershipModel, PermissionModel, RoleModel,
      RolePermissionModel, MembershipRoleModel, RefreshSessionModel, DocumentModel, DocumentVersionModel]"

definition MODEL_INDEXES :: "index list" where
  "MODEL_INDEXES =
     [\<lparr>ix_schema = ''platform'', ix_name = ''ix_outbox_event_delivery'', ix_table = ''outbox_event'', ix_columns = [''status'', ''available_at'']\<rparr>,
      \<lparr>ix_schema = ''identity'', ix_name = ''ix_refresh_session_family'', ix_table = ''refresh_session'', ix_columns = [''family_id'']\<rparr>,
      \<lparr>ix_schema = ''identity'', ix_name = ''ix_refresh_session_active_expiry'', ix_table = ''refresh_session'', ix_columns = [''idle_expires_at'', ''absolute_expires_at'']\<rparr>]"

text \<open>The registry of \<open>env.py\<close>.\<close>

definition registered_models :: "table list" where
  "registered_models = [OutboxEventModel, DocumentModel, DocumentVersionModel]"

text \<open>\<open>NAMING_CONVENTION\<close>: a check's name is completed, the others are given to what has none.\<close>

fun convention_name :: "string \<Rightarrow> table_constraint \<Rightarrow> string option" where
  "convention_name t (Check cs e n) = map_option (\<lambda>x. ''ck_'' @ t @ ''_'' @ x) n"
| "convention_name t (Primary_Key cs None) = Some (''pk_'' @ t)"
| "convention_name t (Unique cs None) = Some (''uq_'' @ t @ ''_'' @ hd cs)"
| "convention_name t (Foreign_Key c rs rt rc d None) = Some (''fk_'' @ t @ ''_'' @ c @ ''_'' @ rt)"
| "convention_name t (Primary_Key cs (Some n)) = Some n"
| "convention_name t (Unique cs (Some n)) = Some n"
| "convention_name t (Foreign_Key c rs rt rc d (Some n)) = Some n"

end
