(* ===== verification/Migrations.thy ===== *)
theory Migrations
  imports Schema IdentityGuarantees
begin

text \<open>
  What holds of the migrations of \<open>Schema\<close>: every script can be undone, next to any other schemas of the
  database; the schema at the head is the one the ORM models declare; the seeding of roles and its
  reversal.
\<close>

section \<open>Undoing\<close>

text \<open>The same schema up to the order in which the catalogue lists things.\<close>

definition same_table :: "table \<Rightarrow> table \<Rightarrow> bool" where
  "same_table x y \<longleftrightarrow> tb_schema x = tb_schema y \<and> tb_name x = tb_name y
     \<and> set (tb_columns x) = set (tb_columns y) \<and> set (tb_constraints x) = set (tb_constraints y)"

definition same_schema :: "db_schema \<Rightarrow> db_schema \<Rightarrow> bool" where
  "same_schema A B \<longleftrightarrow> set (sc_schemas A) = set (sc_schemas B) \<and> set (sc_indexes A) = set (sc_indexes B)
     \<and> list_all (\<lambda>x. list_ex (same_table x) (sc_tables B)) (sc_tables A)
     \<and> list_all (\<lambda>x. list_ex (same_table x) (sc_tables A)) (sc_tables B)"

fun run_upgrades :: "migration list \<Rightarrow> db_schema \<Rightarrow> db_schema option" where
  "run_upgrades [] S = Some S"
| "run_upgrades (m # ms) S = (case run_ddl (mg_upgrade m) S of None \<Rightarrow> None | Some S' \<Rightarrow> run_upgrades ms S')"

fun run_downgrades :: "migration list \<Rightarrow> db_schema \<Rightarrow> db_schema option" where
  "run_downgrades [] S = Some S"
| "run_downgrades (m # ms) S = (case run_downgrades ms S of None \<Rightarrow> None | Some S' \<Rightarrow> run_ddl (mg_downgrade m) S')"

text \<open>Every script applies, and its reversal leads back to where it started.\<close>

fun undoable :: "migration list \<Rightarrow> db_schema \<Rightarrow> bool" where
  "undoable [] S = True"
| "undoable (m # ms) S =
     (case run_ddl (mg_upgrade m) S of
        None \<Rightarrow> False
      | Some S' \<Rightarrow>
          (case run_ddl (mg_downgrade m) S' of None \<Rightarrow> False | Some R \<Rightarrow> same_schema R S) \<and> undoable ms S')"

definition EMPTY :: db_schema where
  "EMPTY = \<lparr>sc_schemas = [], sc_tables = [], sc_indexes = []\<rparr>"

text \<open>The rest of the database: other schemas, with their tables and indexes, that do not refer to ours.\<close>

definition OURS :: "string list" where "OURS = [''platform'', ''identity'', ''documents'']"

fun constraint_foreign :: "table_constraint \<Rightarrow> bool" where
  "constraint_foreign (Foreign_Key c rs rt rc d n) \<longleftrightarrow> rs \<notin> set OURS"
| "constraint_foreign k \<longleftrightarrow> True"

definition foreign :: "db_schema \<Rightarrow> bool" where
  "foreign F \<longleftrightarrow> (\<forall>s\<in>set (sc_schemas F). s \<notin> set OURS)
     \<and> (\<forall>x\<in>set (sc_tables F). tb_schema x \<notin> set OURS \<and> (\<forall>k\<in>set (tb_constraints x). constraint_foreign k))
     \<and> (\<forall>i\<in>set (sc_indexes F). ix_schema i \<notin> set OURS)"

definition beside :: "db_schema \<Rightarrow> db_schema \<Rightarrow> db_schema" where
  "beside F S = \<lparr>sc_schemas = sc_schemas F @ sc_schemas S, sc_tables = sc_tables F @ sc_tables S,
                 sc_indexes = sc_indexes F @ sc_indexes S\<rparr>"

fun reference_ours :: "table_constraint \<Rightarrow> bool" where
  "reference_ours (Foreign_Key c rs rt rc d n) \<longleftrightarrow> rs \<in> set OURS"
| "reference_ours k \<longleftrightarrow> True"

fun ddl_ours :: "ddl \<Rightarrow> bool" where
  "ddl_ours (Create_Schema s b) \<longleftrightarrow> s \<in> set OURS"
| "ddl_ours (Drop_Schema s) \<longleftrightarrow> s \<in> set OURS"
| "ddl_ours (Create_Table x) \<longleftrightarrow> tb_schema x \<in> set OURS \<and> list_all reference_ours (tb_constraints x)"
| "ddl_ours (Drop_Table s t) \<longleftrightarrow> s \<in> set OURS"
| "ddl_ours (Create_Index i) \<longleftrightarrow> ix_schema i \<in> set OURS"
| "ddl_ours (Drop_Index s n) \<longleftrightarrow> s \<in> set OURS"
| "ddl_ours (Add_Column s t c) \<longleftrightarrow> s \<in> set OURS"
| "ddl_ours (Drop_Column s t c) \<longleftrightarrow> s \<in> set OURS"
| "ddl_ours (Alter_Default s t c d) \<longleftrightarrow> s \<in> set OURS"

lemma beside_simps [simp]:
  "sc_schemas (beside F S) = sc_schemas F @ sc_schemas S" "sc_tables (beside F S) = sc_tables F @ sc_tables S"
  "sc_indexes (beside F S) = sc_indexes F @ sc_indexes S"
  by (simp_all add: beside_def)

lemma foreign_not_table: "foreign F \<Longrightarrow> s \<in> set OURS \<Longrightarrow> x \<in> set (sc_tables F) \<Longrightarrow> \<not> is_table s t x"
  by (auto simp: foreign_def is_table_def)

lemma foreign_no_reference:
  "foreign F \<Longrightarrow> s \<in> set OURS \<Longrightarrow> x \<in> set (sc_tables F) \<Longrightarrow> k \<in> set (tb_constraints x) \<Longrightarrow> \<not> refers_to s t k"
  by (cases k) (fastforce simp: foreign_def)+

lemma on_table_beside:
  assumes "foreign F" and "s \<in> set OURS" and "on_table s t ok f S = Some R"
  shows "on_table s t ok f (beside F S) = Some (beside F R)"
proof -
  have "map (\<lambda>x. if is_table s t x then f x else x) (sc_tables F) = sc_tables F"
    using foreign_not_table [OF assms(1,2)] by (auto intro!: map_idI)
  then show ?thesis using assms(3) by (auto simp: on_table_def beside_def split: if_splits)
qed

lemma reference_beside:
  assumes "foreign F" and "reference_ours k"
  shows "reference_ok (sc_tables F @ ts) k = reference_ok ts k"
  using assms foreign_not_table [OF assms(1)]
  by (cases k) (auto simp: reference_ok_def list_ex_iff)

lemma foreign_indexes:
  assumes "foreign F" and "s \<in> set OURS"
  shows "\<not> list_ex (\<lambda>j. ix_schema j = s \<and> P j) (sc_indexes F)"
    "filter (\<lambda>j. \<not> (ix_schema j = s \<and> P j)) (sc_indexes F) = sc_indexes F"
    "filter (\<lambda>j. ix_schema j = s \<longrightarrow> \<not> P j) (sc_indexes F) = sc_indexes F"
  using assms by (auto simp: foreign_def list_ex_iff filter_id_conv)

lemma foreign_tables:
  assumes "foreign F" and "s \<in> set OURS"
  shows "\<not> list_ex (\<lambda>x. is_table s t x \<and> P x) (sc_tables F)" "\<not> list_ex (is_table s t) (sc_tables F)"
    "\<not> list_ex (\<lambda>x. Q x \<and> list_ex (refers_to s t) (tb_constraints x)) (sc_tables F)"
    "filter (\<lambda>x. \<not> is_table s t x) (sc_tables F) = sc_tables F"
    "\<not> list_ex (\<lambda>x. tb_schema x = s) (sc_tables F)" "s \<notin> set (sc_schemas F)"
    "filter (\<lambda>x. x \<noteq> s) (sc_schemas F) = sc_schemas F"
  using assms foreign_not_table [OF assms] foreign_no_reference [OF assms]
  by (auto simp: foreign_def list_ex_iff filter_id_conv)

lemma schema_eqI:
  "sc_schemas A = sc_schemas B \<Longrightarrow> sc_tables A = sc_tables B \<Longrightarrow> sc_indexes A = sc_indexes B \<Longrightarrow> A = (B :: db_schema)"
  by (cases A; cases B) simp

lemma apply_ddl_beside:
  assumes F: "foreign F" and "ddl_ours d" and "apply_ddl d S = Some R"
  shows "apply_ddl d (beside F S) = Some (beside F R)"
proof (cases d)
  case (Create_Table x)
  have "reference_ok (sc_tables F @ ts) k = reference_ok ts k" if "k \<in> set (tb_constraints x)" for k ts
    by (rule reference_beside [OF F]) (use assms(2) that Create_Table in \<open>simp add: list_all_iff\<close>)
  then show ?thesis
    using assms Create_Table foreign_tables [OF F, of "tb_schema x"]
    by (auto simp: list_all_iff beside_def split: if_splits)
next
  case (Create_Schema s b)
  then show ?thesis
    using assms foreign_tables(6) [OF F, of s] by (auto simp: beside_def split: if_splits)
next
  case (Drop_Schema s)
  then show ?thesis
    using assms foreign_tables(5-7) [OF F, of s] by (auto simp: beside_def split: if_splits)
next
  case (Drop_Table s t)
  then show ?thesis
    using assms foreign_tables [OF F, of s] foreign_indexes [OF F, of s "\<lambda>j. ix_table j = t"]
    by (auto simp: beside_def split: if_splits)
next
  case (Create_Index i)
  then show ?thesis
    using assms foreign_tables(1) [OF F, of "ix_schema i"]
      foreign_indexes(1) [OF F, of "ix_schema i" "\<lambda>j. ix_name j = ix_name i"]
    by (auto simp: beside_def split: if_splits)
next
  case (Drop_Index s n)
  then show ?thesis
    using assms foreign_indexes [OF F, of s "\<lambda>j. ix_name j = n"]
    by (auto simp: beside_def split: if_splits)
next
  case (Add_Column s t c)
  then show ?thesis using assms by (auto intro: on_table_beside [OF F])
next
  case (Drop_Column s t c)
  then obtain Q where Q: "on_table s t (has_column c)
      (\<lambda>x. x\<lparr>tb_columns := filter (\<lambda>d. cl_name d \<noteq> c) (tb_columns x),
             tb_constraints := filter (\<lambda>k. c \<notin> set (constraint_columns k)) (tb_constraints x)\<rparr>) S = Some Q"
    "R = Q\<lparr>sc_indexes := filter (\<lambda>i. \<not> (ix_schema i = s \<and> ix_table i = t \<and> c \<in> set (ix_columns i))) (sc_indexes Q)\<rparr>"
    using assms(3) by auto
  have s: "s \<in> set OURS" using assms(2) Drop_Column by simp
  show ?thesis
    using Drop_Column on_table_beside [OF F s Q(1)] Q(2)
      foreign_indexes(2) [OF F s, of "\<lambda>i. ix_table i = t \<and> c \<in> set (ix_columns i)"]
    by (auto intro!: schema_eqI)
next
  case (Alter_Default s t c e)
  then show ?thesis using assms by (auto intro: on_table_beside [OF F])
qed

lemma run_ddl_beside:
  "foreign F \<Longrightarrow> list_all ddl_ours ds \<Longrightarrow> run_ddl ds S = Some R \<Longrightarrow> run_ddl ds (beside F S) = Some (beside F R)"
  by (induction ds arbitrary: S) (auto simp: apply_ddl_beside split: option.splits)

lemma same_table_refl [simp]: "same_table x x"
  by (simp add: same_table_def)

lemma same_schema_beside: "same_schema A B \<Longrightarrow> same_schema (beside F A) (beside F B)"
  by (auto simp: same_schema_def list_all_iff list_ex_iff intro: same_table_refl)

definition migration_ours :: "migration \<Rightarrow> bool" where
  "migration_ours m \<longleftrightarrow> list_all ddl_ours (mg_upgrade m) \<and> list_all ddl_ours (mg_downgrade m)"

lemma run_upgrades_beside:
  "foreign F \<Longrightarrow> list_all migration_ours ms \<Longrightarrow> run_upgrades ms S = Some R
   \<Longrightarrow> run_upgrades ms (beside F S) = Some (beside F R)"
  by (induction ms arbitrary: S) (auto simp: run_ddl_beside migration_ours_def split: option.splits)

lemma run_downgrades_beside:
  "foreign F \<Longrightarrow> list_all migration_ours ms \<Longrightarrow> run_downgrades ms S = Some R
   \<Longrightarrow> run_downgrades ms (beside F S) = Some (beside F R)"
  by (induction ms arbitrary: R) (auto simp: run_ddl_beside migration_ours_def split: option.splits)

lemma undoable_beside:
  "foreign F \<Longrightarrow> list_all migration_ours ms \<Longrightarrow> undoable ms S \<Longrightarrow> undoable ms (beside F S)"
proof (induction ms arbitrary: S)
  case (Cons m ms)
  then obtain S' R where r: "run_ddl (mg_upgrade m) S = Some S'" "run_ddl (mg_downgrade m) S' = Some R"
    "same_schema R S" "undoable ms S'"
    by (auto split: option.splits)
  have m: "list_all ddl_ours (mg_upgrade m)" "list_all ddl_ours (mg_downgrade m)"
    using Cons.prems(2) by (simp_all add: migration_ours_def)
  show ?case
    using run_ddl_beside [OF Cons.prems(1) m(1) r(1)] run_ddl_beside [OF Cons.prems(1) m(2) r(2)]
      same_schema_beside [OF r(3)] Cons.IH [OF Cons.prems(1) _ r(4)] Cons.prems(2)
    by simp
qed simp

section \<open>The head\<close>

definition HEAD :: db_schema where
  "HEAD = (case run_upgrades MIGRATIONS EMPTY of Some S \<Rightarrow> S | None \<Rightarrow> EMPTY)"

lemma upgrades_reach_head: "run_upgrades MIGRATIONS EMPTY = Some HEAD"
proof -
  have "run_upgrades MIGRATIONS EMPTY \<noteq> None" by code_simp
  then show ?thesis by (auto simp: HEAD_def)
qed

lemma migrations_ours: "list_all migration_ours MIGRATIONS"
  by code_simp

lemma migrations_undoable: "undoable MIGRATIONS EMPTY"
  by code_simp

lemma downgrades_reach_empty:
  "case run_downgrades MIGRATIONS HEAD of None \<Rightarrow> False | Some S \<Rightarrow> same_schema S EMPTY"
  by code_simp

definition chained :: "migration list \<Rightarrow> bool" where
  "chained ms \<longleftrightarrow> distinct (map mg_revision ms)
     \<and> map mg_down_revision ms = None # map Some (butlast (map mg_revision ms))"


definition demo_foreign :: db_schema where
  "demo_foreign =
     \<lparr>sc_schemas = [''public''],
      sc_tables = [\<lparr>tb_schema = ''public'', tb_name = ''alembic_version'', tb_columns = [col ''version_num'' (T_String 32)],
                    tb_constraints = [Primary_Key [''version_num''] (Some ''alembic_version_pkc'')]\<rparr>],
      sc_indexes = []\<rparr>"

lemma demo_foreign_ok: "foreign demo_foreign"
  by (simp add: foreign_def demo_foreign_def OURS_def)


section \<open>The models\<close>

fun unnamed :: "table_constraint \<Rightarrow> table_constraint" where
  "unnamed (Check cs e n) = Check cs e None"
| "unnamed (Primary_Key cs n) = Primary_Key cs None"
| "unnamed (Unique cs n) = Unique cs None"
| "unnamed (Foreign_Key c rs rt rc d n) = Foreign_Key c rs rt rc d None"

definition without_defaults :: "column list \<Rightarrow> column list" where
  "without_defaults cs = map (\<lambda>c. c\<lparr>cl_default := None\<rparr>) cs"

text \<open>A table has the columns and constraints that its model declares; names and server defaults aside.\<close>

definition declares :: "table \<Rightarrow> table \<Rightarrow> bool" where
  "declares model x \<longleftrightarrow> tb_schema model = tb_schema x \<and> tb_name model = tb_name x
     \<and> set (tb_columns model) = set (without_defaults (tb_columns x))
     \<and> set (map unnamed (tb_constraints model)) = set (map unnamed (tb_constraints x))"

fun key_constraint :: "table_constraint \<Rightarrow> bool" where
  "key_constraint (Primary_Key cs n) = True"
| "key_constraint (Foreign_Key c rs rt rc d n) = True"
| "key_constraint k = False"

definition key_names :: "(table_constraint \<Rightarrow> string option) \<Rightarrow> table \<Rightarrow> string option list" where
  "key_names f x = map f (filter key_constraint (tb_constraints x))"

definition given_name :: "table_constraint \<Rightarrow> string option" where
  "given_name k = (case k of Check cs e n \<Rightarrow> n | Primary_Key cs n \<Rightarrow> n | Unique cs n \<Rightarrow> n | Foreign_Key c rs rt rc d n \<Rightarrow> n)"


text \<open>The other names differ: the models' explicit names of unique constraints are taken as they are, so a
  schema made from the models would not have the names the repository matches on; and a check that a
  migration already names \<open>ck_document_version_...\<close> gets the prefix of the convention again.\<close>

lemma model_unique_names_differ:
  "Unique [''document_id'', ''file_hash''] (Some ''document_file_hash'') \<in> set (tb_constraints DocumentVersionModel)
   \<and> convention_name ''document_version'' (Unique [''document_id'', ''file_hash''] (Some ''document_file_hash''))
       \<noteq> Some DUPLICATE_CONTENT_CONSTRAINT"
  by code_simp

lemma check_names_prefixed_twice:
  "list_ex (\<lambda>k. given_name k = Some ''ck_document_version_version_positive'') (tb_constraints document_version_table)
   \<and> convention_name ''document_version'' (Check [''version''] ''version >= 1'' (Some ''ck_document_version_version_positive''))
       = Some ''ck_document_version_ck_document_version_version_positive''
   \<and> convention_name ''document_version'' (Check [''version''] ''version >= 1'' (Some ''version_positive''))
       = Some ''ck_document_version_version_positive''"
  by code_simp

text \<open>The registry of the migration environment leaves out every model of the identity module.\<close>

lemma identity_models_not_registered:
  "filter (\<lambda>x. \<not> list_ex (\<lambda>y. is_table (tb_schema x) (tb_name x) y) registered_models) MODELS
   = filter (\<lambda>x. tb_schema x = ''identity'') MODELS
   \<and> length (filter (\<lambda>x. tb_schema x = ''identity'') MODELS) = 7"
  by code_simp

section \<open>The seeded roles\<close>

definition SEEDED_ROLES :: "pystr list" where
  "SEEDED_ROLES = [lit ''default-manager'', lit ''default-employee'']"

definition SEEDED_PERMISSIONS :: "pystr list" where
  "SEEDED_PERMISSIONS = [lit ''accounts.create'', lit ''content.upload'', lit ''content.modify'']"

text \<open>The three deletions run in order; what still refers to a deleted row refuses it.\<close>

definition downgrade_0004 :: "identity_db \<Rightarrow> exn + identity_db" where
  "downgrade_0004 db =
     raise_if (list_ex (\<lambda>(m, r). r \<in> set SEEDED_ROLES) (db_membership_roles db))
       (RuntimeError ''Cannot downgrade seeded identity roles while accounts use them'') (
     let kept = filter (\<lambda>(r, p). r \<noteq> lit ''default-manager'') (db_role_permissions db)
     in raise_if (list_ex (\<lambda>(r, p). r \<in> set SEEDED_ROLES) kept)
          (IntegrityError (ForeignKeyViolation ''fk_role_permission_role_id_role'')) (
        raise_if (list_ex (\<lambda>(r, p). p \<in> set SEEDED_PERMISSIONS) kept)
          (IntegrityError (ForeignKeyViolation ''fk_role_permission_permission_code_permission'')) (
        Inr (db\<lparr>db_role_permissions := kept,
                db_roles := filter (\<lambda>r. ro_role_id r \<notin> set SEEDED_ROLES) (db_roles db),
                db_permissions := filter (\<lambda>p. p \<notin> set SEEDED_PERMISSIONS) (db_permissions db)\<rparr>))))"

text \<open>What the seeding can be applied to: none of its keys is taken, and assignments and capabilities refer
  to existing rows.\<close>

definition seedable :: "identity_db \<Rightarrow> bool" where
  "seedable db \<longleftrightarrow>
     (\<forall>r\<in>set (db_roles db). ro_role_id r \<notin> set SEEDED_ROLES)
     \<and> (\<forall>p\<in>set (db_permissions db). p \<notin> set SEEDED_PERMISSIONS)
     \<and> (\<forall>(r, p)\<in>set (db_role_permissions db). r \<in> ro_role_id ` set (db_roles db) \<and> p \<in> set (db_permissions db))
     \<and> (\<forall>(m, r)\<in>set (db_membership_roles db). r \<in> ro_role_id ` set (db_roles db))"

text \<open>Seeding can be undone exactly, and only while nobody has a seeded role: right after it the downgrade
  restores the tables; once an account was registered or the manager was provisioned it refuses and
  the tables stay as they are.\<close>

theorem seeding_reversible:
  assumes "seedable db"
  shows "downgrade_0004 (seed_identity_roles db) = Inr db
    \<and> (case downgrade_0004 (registered_db a m role_id (seed_identity_roles db)) of
         Inr x \<Rightarrow> role_id \<notin> set SEEDED_ROLES
       | Inl e \<Rightarrow> role_id \<in> set SEEDED_ROLES
                \<and> e = RuntimeError ''Cannot downgrade seeded identity roles while accounts use them'')"
proof -
  have roles: "filter (\<lambda>r. ro_role_id r \<notin> set SEEDED_ROLES) (db_roles db) = db_roles db"
    and perms: "filter (\<lambda>p. p \<notin> set SEEDED_PERMISSIONS) (db_permissions db) = db_permissions db"
    using assms by (auto simp: seedable_def filter_id_conv)
  have kept: "filter (\<lambda>(r, p). r \<noteq> lit ''default-manager'') (db_role_permissions db) = db_role_permissions db"
    and free: "\<not> list_ex (\<lambda>(r, p). r \<in> set SEEDED_ROLES) (db_role_permissions db)"
      "\<not> list_ex (\<lambda>(r, p). p \<in> set SEEDED_PERMISSIONS) (db_role_permissions db)"
      "\<not> list_ex (\<lambda>(m, r). r \<in> set SEEDED_ROLES) (db_membership_roles db)"
    using assms by (fastforce simp: seedable_def filter_id_conv list_ex_iff SEEDED_ROLES_def)+
  show ?thesis
    using roles perms kept free
    by (auto simp: downgrade_0004_def seed_identity_roles_def registered_db_def SEEDED_ROLES_def
        SEEDED_PERMISSIONS_def Let_def raise_if_def)
qed

lemma seeding_reversible_witness:
  "downgrade_0004 demo_seed = Inr empty_identity_db
   \<and> downgrade_0004 demo_db
      = Inl (RuntimeError ''Cannot downgrade seeded identity roles while accounts use them'')"
proof -
  have "seedable empty_identity_db" by (simp add: seedable_def empty_identity_db_def)
  moreover have "isl (downgrade_0004 demo_db)
      \<and> downgrade_0004 demo_db = Inl (RuntimeError ''Cannot downgrade seeded identity roles while accounts use them'')"
    by code_simp
  ultimately show ?thesis using seeding_reversible [of empty_identity_db] by (simp add: demo_seed_def)
qed

end
