(* ===== verification/MigrationRun.thy ===== *)
theory MigrationRun
  imports Migrations "HOL-Library.AList"
begin

text \<open>
  How the migrations are run (\<open>src/migrations/env.py\<close>): the environment that Alembic loads.  Alembic's context, SQLAlchemy's
  engine and \<open>asyncio.run\<close> are the parameter \<open>alembic_api\<close>; \<open>alembic_law\<close> is their documented behaviour for
  \<open>alembic upgrade head\<close> on PostgreSQL, whose DDL is transactional.
\<close>

section \<open>The environment\<close>

record migration_env =
  me_database_url :: "pystr option"
  me_config_file_name :: "pystr option"
  me_section :: "(pystr \<times> pystr) list option"
  me_offline_mode :: bool
  me_win32 :: bool

datatype event_loop = Default_Event_Loop | Selector_Event_Loop

record configure_args =
  cf_url :: "pystr option"
  cf_on_connection :: bool
  cf_target_metadata :: "table list"
  cf_literal_binds :: bool
  cf_paramstyle :: "string option"
  cf_compare_type :: bool
  cf_include_schemas :: bool

record 'w alembic_api =
  al_file_config :: "pystr \<Rightarrow> ('w, unit) stateful"
  al_engine_from_config :: "(pystr \<times> pystr) list \<Rightarrow> ('w, unit) stateful"
  al_connect :: "('w, unit) stateful"
  al_close_connection :: "('w, unit) stateful"
  al_dispose :: "('w, unit) stateful"
  al_configure :: "configure_args \<Rightarrow> ('w, unit) stateful"
  al_begin :: "('w, unit) stateful"
  al_run_migrations :: "('w, unit) stateful"
  al_commit :: "('w, unit) stateful"
  al_rollback :: "('w, unit) stateful"
  al_asyncio_run :: "event_loop \<Rightarrow> ('w, unit) stateful \<Rightarrow> ('w, unit) stateful"

definition env_database_url :: "migration_env \<Rightarrow> exn + pystr" where
  "env_database_url E =
     (case me_database_url E of
        None \<Rightarrow> Inl (RuntimeError ''DATABASE_URL is required for database migrations'')
      | Some url \<Rightarrow> raise_if (url = []) (RuntimeError ''DATABASE_URL is required for database migrations'') (Inr url))"

text \<open>\<open>with context.begin_transaction(): context.run_migrations()\<close>\<close>

definition migrate_in_transaction :: "'w alembic_api \<Rightarrow> ('w, unit) stateful" where
  "migrate_in_transaction A =
     bindS (al_begin A) (\<lambda>_ w.
       case al_run_migrations A w of
         (Inr _, w1) \<Rightarrow> al_commit A w1
       | (Inl x, w1) \<Rightarrow> (case al_rollback A w1 of (Inl y, w2) \<Rightarrow> (Inl y, w2) | (Inr _, w2) \<Rightarrow> (Inl x, w2)))"

definition run_migrations_offline :: "'w alembic_api \<Rightarrow> migration_env \<Rightarrow> ('w, unit) stateful" where
  "run_migrations_offline A E =
     bindS (liftS (env_database_url E)) (\<lambda>url.
     bindS (al_configure A
       \<lparr>cf_url = Some url, cf_on_connection = False, cf_target_metadata = registered_models,
        cf_literal_binds = True, cf_paramstyle = Some ''named'', cf_compare_type = True, cf_include_schemas = True\<rparr>)
       (\<lambda>_. migrate_in_transaction A))"

definition configure_url :: "migration_env \<Rightarrow> exn + (pystr \<times> pystr) list" where
  "configure_url E =
     (let section = (case me_section E of None \<Rightarrow> [] | Some kvs \<Rightarrow> kvs)
      in bindE (env_database_url E) (\<lambda>url. Inr (AList.update (lit ''sqlalchemy.url'') url section)))"

definition run_sync_migrations :: "'w alembic_api \<Rightarrow> ('w, unit) stateful" where
  "run_sync_migrations A =
     bindS (al_configure A
       \<lparr>cf_url = None, cf_on_connection = True, cf_target_metadata = registered_models,
        cf_literal_binds = False, cf_paramstyle = None, cf_compare_type = True, cf_include_schemas = True\<rparr>)
       (\<lambda>_. migrate_in_transaction A)"

text \<open>\<open>async with connectable.connect()\<close>; the engine is disposed only when this returned.\<close>

definition run_async_migrations :: "'w alembic_api \<Rightarrow> migration_env \<Rightarrow> ('w, unit) stateful" where
  "run_async_migrations A E =
     bindS (liftS (configure_url E)) (\<lambda>section.
     bindS (al_engine_from_config A section) (\<lambda>_.
     bindS (bindS (al_connect A) (\<lambda>_ w.
       case run_sync_migrations A w of
         (r, w1) \<Rightarrow> (case al_close_connection A w1 of (Inl y, w2) \<Rightarrow> (Inl y, w2) | (Inr _, w2) \<Rightarrow> (r, w2))))
     (\<lambda>_. al_dispose A)))"

definition run_migrations_online :: "'w alembic_api \<Rightarrow> migration_env \<Rightarrow> ('w, unit) stateful" where
  "run_migrations_online A E =
     (if me_win32 E then al_asyncio_run A Selector_Event_Loop (run_async_migrations A E)
      else al_asyncio_run A Default_Event_Loop (run_async_migrations A E))"

text \<open>The module's own statements.\<close>

definition migration_main :: "'w alembic_api \<Rightarrow> migration_env \<Rightarrow> ('w, unit) stateful" where
  "migration_main A E =
     bindS (case me_config_file_name E of None \<Rightarrow> retS () | Some name \<Rightarrow> al_file_config A name) (\<lambda>_.
     if me_offline_mode E then run_migrations_offline A E else run_migrations_online A E)"

section \<open>Upgrading to the head\<close>

text \<open>The recorded revision and the schema.\<close>

type_synonym versioned = "string option \<times> db_schema"

definition pending :: "string option \<Rightarrow> migration list" where
  "pending current =
     (case current of None \<Rightarrow> MIGRATIONS
      | Some r \<Rightarrow> tl (dropWhile (\<lambda>m. mg_revision m \<noteq> r) MIGRATIONS))"

definition HEAD_REVISION :: "string option" where
  "HEAD_REVISION = Some (mg_revision (last MIGRATIONS))"

text \<open>
  \<open>committed\<close> is what any later connection sees, \<open>working\<close> what the open transaction sees.  Only a commit
  that returns changes the former; running the migrations applies those that are pending, in order.
\<close>

definition leaves :: "('w \<Rightarrow> versioned) \<Rightarrow> ('w, 'a) stateful \<Rightarrow> bool" where
  "leaves committed f \<longleftrightarrow> (\<forall>w r w'. f w = (r, w') \<longrightarrow> committed w' = committed w)"

definition alembic_law ::
  "'w alembic_api \<Rightarrow> ('w \<Rightarrow> versioned) \<Rightarrow> ('w \<Rightarrow> versioned) \<Rightarrow> bool" where
  "alembic_law A committed working \<longleftrightarrow>
     (\<forall>n kvs c. leaves committed (al_file_config A n) \<and> leaves committed (al_engine_from_config A kvs)
        \<and> leaves committed (al_configure A c))
   \<and> leaves committed (al_connect A) \<and> leaves committed (al_close_connection A) \<and> leaves committed (al_dispose A)
   \<and> leaves committed (al_begin A) \<and> leaves committed (al_run_migrations A) \<and> leaves committed (al_rollback A)
   \<and> (\<forall>w w'. al_begin A w = (Inr (), w') \<longrightarrow> working w' = committed w)
   \<and> (\<forall>w w'. al_run_migrations A w = (Inr (), w') \<longrightarrow>
        (\<exists>S. run_upgrades (pending (fst (working w))) (snd (working w)) = Some S \<and> working w' = (HEAD_REVISION, S)))
   \<and> (\<forall>w r w'. al_commit A w = (r, w') \<longrightarrow> committed w' = (if isl r then committed w else working w))
   \<and> (\<forall>loop f. al_asyncio_run A loop f = f)"

text \<open>A database in which the first \<open>k\<close> migrations have been run, besides other schemas.\<close>

definition at_revision :: "nat \<Rightarrow> db_schema \<Rightarrow> versioned \<Rightarrow> bool" where
  "at_revision k F db \<longleftrightarrow> k \<le> length MIGRATIONS
     \<and> fst db = (if k = 0 then None else Some (mg_revision (MIGRATIONS ! (k - 1))))
     \<and> (\<exists>S. run_upgrades (take k MIGRATIONS) EMPTY = Some S \<and> snd db = beside F S)"

lemma pending_drop:
  assumes "k \<le> length MIGRATIONS"
  shows "pending (if k = 0 then None else Some (mg_revision (MIGRATIONS ! (k - 1)))) = drop k MIGRATIONS"
proof -
  have "list_all (\<lambda>k. pending (if k = 0 then None else Some (mg_revision (MIGRATIONS ! (k - 1)))) = drop k MIGRATIONS)
      [0..<Suc (length MIGRATIONS)]" by code_simp
  moreover have "k \<in> set [0..<Suc (length MIGRATIONS)]" using assms by (simp del: upt_Suc)
  ultimately show ?thesis unfolding list_all_iff by blast
qed

lemma run_upgrades_append:
  "run_upgrades (xs @ ys) S = (case run_upgrades xs S of None \<Rightarrow> None | Some R \<Rightarrow> run_upgrades ys R)"
  by (induction xs arbitrary: S) (auto split: option.splits)

lemma pending_reaches_head:
  assumes "foreign F" and "at_revision k F db"
  shows "run_upgrades (pending (fst db)) (snd db) = Some (beside F HEAD)"
proof -
  obtain S where S: "run_upgrades (take k MIGRATIONS) EMPTY = Some S" "snd db = beside F S"
    and k: "k \<le> length MIGRATIONS" "pending (fst db) = drop k MIGRATIONS"
    using assms(2) pending_drop unfolding at_revision_def by metis
  have "run_upgrades (drop k MIGRATIONS) S = Some HEAD"
    using run_upgrades_append [of "take k MIGRATIONS" "drop k MIGRATIONS" EMPTY] S(1) upgrades_reach_head by simp
  then show ?thesis
    using run_upgrades_beside [OF assms(1), of "drop k MIGRATIONS" S HEAD] migrations_ours S(2) k
      append_take_drop_id [of k MIGRATIONS]
    by (metis list_all_append)
qed

lemma leavesD: "leaves c f \<Longrightarrow> f w = (r, w') \<Longrightarrow> c w' = c w"
  unfolding leaves_def by blast

lemma alembic_lawD:
  assumes "alembic_law A committed working"
  shows "leaves committed (al_file_config A n)" "leaves committed (al_engine_from_config A kvs)"
    "leaves committed (al_configure A c)" "leaves committed (al_connect A)" "leaves committed (al_close_connection A)"
    "leaves committed (al_dispose A)" "leaves committed (al_begin A)" "leaves committed (al_run_migrations A)"
    "leaves committed (al_rollback A)" "al_asyncio_run A loop f = f"
    "al_begin A w = (Inr (), w') \<Longrightarrow> working w' = committed w"
    "al_run_migrations A w = (Inr (), w') \<Longrightarrow>
       run_upgrades (pending (fst (working w))) (snd (working w)) = Some S \<Longrightarrow> working w' = (HEAD_REVISION, S)"
    "al_commit A w = (r, w') \<Longrightarrow> committed w' = (if isl r then committed w else working w)"
  using assms unfolding alembic_law_def by (blast | metis option.inject)+

lemma leaves_liftS: "leaves c (liftS r)" "leaves c (retS x)"
  by (simp_all add: leaves_def)

lemma migrate_run:
  assumes law: "alembic_law A committed working" and F: "foreign F" and k: "at_revision k F (committed w)"
    and run: "migrate_in_transaction A w = (r, w')"
  shows "committed w' = committed w \<and> isl r \<or> committed w' = (HEAD_REVISION, beside F HEAD) \<and> r = Inr ()"
proof -
  note L = alembic_lawD [OF law]
  obtain b w1 where b: "al_begin A w = (b, w1)" by force
  obtain m w2 where m: "al_run_migrations A w1 = (m, w2)" by force
  obtain c w3 where c: "al_commit A w2 = (c, w3)" by force
  obtain d w4 where d: "al_rollback A w2 = (d, w4)" by force
  note same = leavesD [OF L(7) b] leavesD [OF L(8) m] leavesD [OF L(9) d] L(13) [OF c]
  have "working w1 = committed w" if "b = Inr ()" using L(11) b that by simp
  moreover have "working w2 = (HEAD_REVISION, beside F HEAD)" if "b = Inr ()" "m = Inr ()"
    using L(12) [of w1 w2 "beside F HEAD"] m that calculation pending_reaches_head [OF F k] by simp
  ultimately show ?thesis
    using run same b m c d
    by (cases b; cases m; cases c; cases d) (auto simp: migrate_in_transaction_def bindS_apply)
qed


text \<open>
  Migrating is all or nothing: \<open>alembic upgrade head\<close> on a database at any revision, with any other schemas
  beside ours, either commits the complete schema of the head and its revision or leaves the database
  as it was; it reports success only after the former, and without a database URL it does nothing but
  raise.
\<close>

theorem upgrade_all_or_nothing:
  assumes law: "alembic_law A committed working" and F: "foreign F" and k: "at_revision k F (committed w)"
    and "\<not> me_offline_mode E" and run: "migration_main A E w = (r, w')"
  shows "(committed w' = committed w \<or> committed w' = (HEAD_REVISION, beside F HEAD))
    \<and> (r = Inr () \<longrightarrow> committed w' = (HEAD_REVISION, beside F HEAD))
    \<and> (isl (env_database_url E) \<longrightarrow> isl r \<and> committed w' = committed w)"
proof -
  note L = alembic_lawD [OF law]
  let ?file = "case me_config_file_name E of None \<Rightarrow> retS () | Some name \<Rightarrow> al_file_config A name"
  obtain a w1 where a: "?file w = (a, w1)" by force
  have w1: "committed w1 = committed w"
  proof (rule leavesD [of committed ?file w a w1, OF _ a])
    show "leaves committed ?file" using L(1) by (cases "me_config_file_name E") (simp_all add: leaves_liftS)
  qed
  have online: "run_migrations_online A E = run_async_migrations A E"
    by (simp add: run_migrations_online_def L(10))
  show ?thesis
  proof (cases a)
    case (Inl x)
    then show ?thesis using run a w1 by (auto simp: migration_main_def bindS_apply)
  next
    case (Inr u)
    then have run1: "run_async_migrations A E w1 = (r, w')"
      using run a assms(4) by (simp add: migration_main_def bindS_apply online)
    show ?thesis
    proof (cases "configure_url E")
      case (Inl x)
      then show ?thesis using run1 w1 by (auto simp: run_async_migrations_def bindS_apply)
    next
      case (Inr kvs)
      then have url: "\<not> isl (env_database_url E)" by (auto simp: configure_url_def py_bind)
      obtain b w2 where b: "al_engine_from_config A kvs w1 = (b, w2)" by force
      obtain c w3 where c: "al_connect A w2 = (c, w3)" by force
      let ?args = "\<lparr>cf_url = None, cf_on_connection = True, cf_target_metadata = registered_models,
        cf_literal_binds = False, cf_paramstyle = None, cf_compare_type = True, cf_include_schemas = True\<rparr>"
      obtain d w4 where d: "al_configure A ?args w3 = (d, w4)" by force
      obtain m w5 where m: "migrate_in_transaction A w4 = (m, w5)" by force
      obtain e w6 where e: "al_close_connection A (if isl d then w4 else w5) = (e, w6)" by force
      obtain f w7 where f: "al_dispose A w6 = (f, w7)" by force
      note same = leavesD [OF L(2) b] leavesD [OF L(4) c] leavesD [OF L(3) d] leavesD [OF L(5) e] leavesD [OF L(6) f]
      have "at_revision k F (committed w4)" using k w1 same by simp
      note M = migrate_run [OF law F this m]
      show ?thesis
        using run1 Inr b c d m e f same w1 M url
        by (cases b; cases c; cases d; cases m; cases e)
          (auto simp: run_async_migrations_def run_sync_migrations_def bindS_apply)
    qed
  qed
qed

text \<open>A database whose second statement fails.\<close>

definition demo_alembic :: "bool \<Rightarrow> (versioned \<times> versioned) alembic_api" where
  "demo_alembic broken =
     \<lparr>al_file_config = (\<lambda>n. retS ()), al_engine_from_config = (\<lambda>kvs. retS ()), al_connect = retS (),
      al_close_connection = retS (), al_dispose = retS (), al_configure = (\<lambda>c. retS ()),
      al_begin = (\<lambda>(c, t). (Inr (), (c, c))),
      al_run_migrations = (\<lambda>(c, t). case run_upgrades (pending (fst t)) (snd t) of
         Some S \<Rightarrow> if broken then (Inl DataError, (c, t)) else (Inr (), (c, (HEAD_REVISION, S)))
       | None \<Rightarrow> (Inl DataError, (c, t))),
      al_commit = (\<lambda>(c, t). (Inr (), (t, t))), al_rollback = (\<lambda>(c, t). (Inr (), (c, c))),
      al_asyncio_run = (\<lambda>loop f. f)\<rparr>"

lemma demo_alembic_law: "alembic_law (demo_alembic broken) fst snd"
  by (auto simp: alembic_law_def demo_alembic_def leaves_def split: option.splits if_splits)

definition demo_migration_env :: migration_env where
  "demo_migration_env =
     \<lparr>me_database_url = Some (lit ''postgresql+psycopg://db''), me_config_file_name = Some (lit ''alembic.ini''),
      me_section = Some [(lit ''sqlalchemy.url'', lit ''driver://unused'')], me_offline_mode = False, me_win32 = False\<rparr>"

lemma empty_database_at_start: "at_revision 0 demo_foreign (None, beside demo_foreign EMPTY)"
  by (simp add: at_revision_def)

lemma upgrade_all_or_nothing_witness:
  "fst (migration_main (demo_alembic False) demo_migration_env ((None, beside demo_foreign EMPTY), (None, EMPTY))) = Inr ()
   \<and> fst (snd (migration_main (demo_alembic False) demo_migration_env ((None, beside demo_foreign EMPTY), (None, EMPTY))))
       = (HEAD_REVISION, beside demo_foreign HEAD)
   \<and> fst (snd (migration_main (demo_alembic True) demo_migration_env ((None, beside demo_foreign EMPTY), (None, EMPTY))))
       \<noteq> (HEAD_REVISION, beside demo_foreign HEAD)"
proof -
  let ?w = "((None, beside demo_foreign EMPTY), (None, EMPTY))"
  have "at_revision 0 demo_foreign (fst ?w)" using empty_database_at_start by simp
  moreover have ok: "fst (migration_main (demo_alembic False) demo_migration_env ?w) = Inr ()" by code_simp
  moreover have "fst (snd (migration_main (demo_alembic True) demo_migration_env ?w)) \<noteq> (HEAD_REVISION, beside demo_foreign HEAD)"
    by code_simp
  moreover have "\<not> me_offline_mode demo_migration_env" by (simp add: demo_migration_env_def)
  moreover from ok have run: "migration_main (demo_alembic False) demo_migration_env ?w
      = (Inr (), snd (migration_main (demo_alembic False) demo_migration_env ?w))" by (simp add: prod_eq_iff)
  ultimately show ?thesis
    using upgrade_all_or_nothing [OF demo_alembic_law demo_foreign_ok _ _ run, of 0] by blast
qed

end
