(* ===== verification/Spec2Isabelle.thy ===== *)
theory Spec2Isabelle
  imports AuthRoutes DocRoutes Outbox AgentRuntime LegacyConfig AccessLog Contracts ApiApp Clients WorkerProcess MigrationRun
begin

text \<open>
  The bid system: a modular monolith (FastAPI, SQLAlchemy, MinIO, Redis, Celery) of which this
  library models the implemented core.  Paths are relative to
  \<open>src/backend/src/bid_system/\<close>.

  \<^bold>\<open>Parts and their interaction.\<close>  An HTTP request passes the middleware stack and the exception
  handlers (\<open>entrypoints/api\<close>), is authenticated from its bearer token, rate limited and
  authorised (\<open>platform/security\<close>, \<open>entrypoints/api/dependencies.py\<close>), and runs one use case
  inside one database transaction: the browser authentication routes over the identity module
  (\<open>modules/identity\<close>), or the upload routes over the documents module (\<open>modules/documents\<close>).
  Background publication goes through the transactional outbox (\<open>platform/database/outbox.py\<close>).
  Agents call tools through \<open>agent_runtime\<close>.  The container (\<open>bootstrap\<close>) owns the resources; it is
  built from the validated settings (\<open>platform/config\<close>), by the API process and by every process of
  the worker pool (\<open>entrypoints/worker\<close>).  Every operation reports to \<open>platform/telemetry\<close>.

  \<^bold>\<open>Theories.\<close>
  \<^item> \<open>Errors\<close>: the exception classes of \<open>shared/contracts/errors.py\<close> and
    \<open>modules/documents/domain/errors.py\<close>, their hierarchy, and \<open>exn\<close>, the sum of everything a
    modelled operation raises.
  \<^item> \<open>PyPrelude\<close>: what the program uses of Python: sequencing of operations that raise
    (\<open>bindE\<close> on \<open>exn + 'a\<close>, \<open>bindS\<close> with a state), strings as code points, binary64 floats
    as extended rationals with rounding, datetimes with and without a zone.
  \<^item> \<open>IdentityDomain\<close>, \<open>IdentityStore\<close>, \<open>SessionFamilies\<close>, \<open>IdentityApp\<close>,
    \<open>IdentityGuarantees\<close>: \<open>modules/identity\<close>.  A frozen dataclass is a record, its
    \<open>__post_init__\<close> is \<open>mk_<class>\<close>; the SQL tables are lists of rows in \<open>identity_db\<close> with the
    constraints of \<open>infrastructure/models.py\<close> checked on every write; a use case is a function on
    the tables, and \<open>in_transaction\<close> restores them when it raises.  The locale \<open>session_store\<close>
    is the contract of the refresh-session port, interpreted (\<open>sql\<close>) on the SQL operations, which
    so refine the specification \<open>family_step\<close>.
  \<^item> \<open>AuthTokens\<close>, \<open>AccessControl\<close>: \<open>platform/security\<close>: access and refresh tokens, password
    adapters, permissions, the trusted tenant context, the Redis rate limiter.
  \<^item> \<open>AuthRoutes\<close>: \<open>entrypoints/api/routes/auth.py\<close> and \<open>dependencies.py\<close>; \<open>api_step\<close> is one
    request, \<open>api_reachable\<close> the states of all request sequences.
  \<^item> \<open>DocElements\<close>, \<open>DocVersions\<close>: \<open>modules/documents/domain\<close>: evidence positions, parsed
    text, picture and table elements, comparison symbols, versions and the document aggregate.
  \<^item> \<open>DocRepository\<close>: \<open>infrastructure/models.py\<close>, \<open>repository.py\<close>; the locale
    \<open>version_repository\<close> says that the port does what the aggregate does and is interpreted
    (\<open>sql_documents\<close>) on the SQL transactions.
  \<^item> \<open>DocFiles\<close>, \<open>DocSafety\<close>, \<open>DocUpload\<close>, \<open>DocRoutes\<close>: staging, format detection, PDF
    metadata, malware and encryption checks, conversion, object store, the upload use case and its
    endpoints.
  \<^item> \<open>Redaction\<close>, \<open>Outbox\<close>, \<open>AgentRuntime\<close>: \<open>platform/telemetry/redaction.py\<close>,
    \<open>platform/database/outbox.py\<close>, \<open>agent_runtime\<close> with \<open>platform/telemetry/agent_runtime.py\<close>.
  \<^item> \<open>Lifecycle\<close>: \<open>platform/database/transaction.py\<close>, \<open>session.py\<close>, \<open>bootstrap/container.py\<close>
    and \<open>lifecycle.py\<close>.
  \<^item> \<open>HttpBoundary\<close>: \<open>exception_handlers.py\<close>, \<open>responses.py\<close>, \<open>middleware/\<close>, \<open>app.py\<close>,
    \<open>routes/readiness.py\<close>; an ASGI application is an interaction tree and a middleware a function
    on trees.  \<open>Routes\<close>: \<open>router.py\<close> and the decorators of the route modules, the table of endpoints
    with their dependencies and body limits.  \<open>Contracts\<close>: \<open>shared/contracts/api.py\<close>, \<open>pagination.py\<close>.
  \<^item> \<open>ConfigModels\<close>, \<open>AppConfig\<close>, \<open>ConfigGuarantees\<close>: \<open>platform/config\<close>: a view's model with its field
    constraints and validators is \<open>mk_<view>\<close> on issue lists, every field of the root model is read by
    an \<open>f_<field>\<close> from a \<open>source\<close>, and \<open>load_settings\<close> is the loader.  \<open>LegacyConfig\<close>: the older
    model of \<open>bootstrap/settings.py\<close>.
  \<^item> \<open>Worker\<close>, \<open>WorkerApp\<close>: \<open>entrypoints/worker\<close>: the state machine of a pool process over the
    container of \<open>Lifecycle\<close>, the registered task, the Celery configuration and its queues.
  \<^item> \<open>Metrics\<close>, \<open>Tracing\<close>, \<open>Logging\<close>: \<open>platform/telemetry\<close>: measurements and the journal of the sink, the
    correlation context and the span of a request, log records with filters, formats and streams.
    \<open>AccessLog\<close>: the access log middleware over \<open>HttpBoundary\<close>, \<open>Metrics\<close> and \<open>Logging\<close>.
  \<^item> \<open>Composition\<close>: \<open>bootstrap/identity.py\<close>, \<open>dependencies.py\<close> and the pool observer: the provisioning of
    the initial manager composes \<open>AppConfig\<close> with the use cases of \<open>IdentityApp\<close>.
  \<^item> \<open>Clients\<close>: \<open>database/engine.py\<close>, \<open>queue/redis.py\<close>, \<open>object_store/client.py\<close>, the provider clients and the
    default resource factories with their probes and closes, the accessors of a request and the wiring of the
    upload handler.  \<open>ApiApp\<close>: \<open>app.py\<close>, the application factory and the stack that a request passes.
    \<open>WorkerProcess\<close>: the two commands of the worker image (\<open>entrypoints/worker/app.py\<close>).
  \<^item> \<open>Schema\<close>, \<open>Migrations\<close>, \<open>MigrationRun\<close>: \<open>src/migrations\<close> and the ORM models: a script is its list of DDL
    statements, an ORM model the table it declares; \<open>apply_ddl\<close> is the documented effect of a statement on a
    schema; \<open>MigrationRun\<close> is \<open>env.py\<close>, the run of the scripts inside one transaction.

  \<^bold>\<open>What the lemmas show.\<close>  Identity: the invariants of the tables and of the refresh families over
  every operation and every request sequence, rotation, replay, login, logout, registration,
  bootstrap, the exact acceptance condition of tokens and of claims, rate limiting.  Documents:
  construction exactly of well-formed elements, traceable comparison evidence, bounded staging, soundness of
  format detection, the round trip of the INSTREAM framing, fail-closed scanning, refinement of the
  aggregate by the SQL repository, append-only histories, the end-to-end guarantees of an upload and
  what remains after its failures.  Platform: complete redaction, exclusive leases and eventual dead
  lettering in the outbox, bounded tool execution, the transaction protocol, release of every
  resource (of the API and of the worker), one well-formed answer for every request, a truthful access
  log, counters that account for every measurement, log lines attributed to their request, protected
  routes.  Configuration: accepted settings construct every view, satisfy the policy, issue tokens
  their own verifier accepts, provision a manager who can log in, and start a worker with a sound
  delivery topology; errors disclose no value.  Schema: the migrations can be walked both ways in any
  database and end in what the ORM models declare, and an upgrade is applied whole or not at all.
  Composition: accepted settings build the application with the modelled stack of middlewares, a started
  application is wired to clients built from its own settings, and no pool survives its lifespan or a
  health check.  Contracts: the exact form of money and of page metadata.

  \<^bold>\<open>Parameters.\<close>  Code outside the repository is an argument of the definitions, with a law that
  states its documented behaviour: PyJWT (\<open>jwt_law\<close>), Redis (\<open>redis_law\<close>), SHA-256, the ZIP,
  XML and PDF readers (\<open>file_lib_law\<close>), MinIO (\<open>minio_law\<close>), LibreOffice (\<open>converter_law\<close>),
  the resources of the container (\<open>resource_law\<close>, \<open>process_law\<close>), recorders and tools
  (\<open>runtime_ok\<close>, \<open>tool_ok\<close>), pydantic's reading of the environment (\<open>source\<close>), the parts of \<open>urllib\<close> and
  \<open>str\<close> that need tables (\<open>url_lib\<close>, \<open>upper_law\<close>), the clock, sink and log of observed calls
  (\<open>telemetry_law\<close>), OpenTelemetry's spans (\<open>tracing_law\<close>), FastAPI's routers (\<open>router_law\<close>) and
  Starlette's middlewares (\<open>framework\<close>), the constructors and closes of the client libraries
  (\<open>client_law\<close>), Alembic (\<open>alembic_law\<close>), the worker's tasks (\<open>task_law\<close>).  Each is instantiated by the \<open>demo\<close> definitions of its witness.
  Random identifiers and the clock are fields of the request's environment; those of the outbox are
  a counter, which makes them fresh.

  \<^bold>\<open>Bounds and fuel.\<close>  No definition takes fuel.  Loops are recursions with a termination proof:
  the staging loop on the remaining source, \<open>find_symbols\<close> and the redaction scans on the remaining
  text, the executor's retry loop on the attempts left, long division in the float rounding on the
  exponent distance.  Python integers are \<open>int\<close>; bytes are 8-bit words and
  the length prefix of an INSTREAM frame is packed with its wrap-around.  Overflow of floats is an explicit \<open>OverflowError\<close>.

  \<^bold>\<open>Concurrency.\<close>  Operations are sequential where a row lock or a transaction makes them so
  (refresh rotation, document append, outbox claims with \<open>SKIP LOCKED\<close>).  asyncio timeouts and
  cancellation are outcomes of the awaited operation.

  \<^bold>\<open>Findings.\<close>  Lemmas named in the manifest show: the CSRF comparison and the refresh digest raise on
  non-ASCII cookies (\<open>csrf_non_ascii_type_error\<close>, \<open>refresh_cookie_value_error\<close>); a valid pixel
  position whose normalised box is not (\<open>normalized_bbox_huge_page_raises\<close>); a damaged deflate
  stream and an overlong clamd answer that escape untranslated; a naive expiry rejected only after
  storage; shard prefixes that keep the letter case; basic credentials that survive redaction;
  overflow of the backoff from the 1025th attempt on, in the outbox and in the executor; a NaN delay
  that \<open>RetryPolicy\<close> accepts; an HTTP client leaked when the other one's close fails; hardening
  headers missing on the answer to an unknown failure; a second response started by the body limit.
  The settings accept the broker's development credentials in production, unbounded lifetimes, a
  blank issuer, an infinite export interval, the prefix \<open>/\<close>, a tenant without roles and a manager's
  password that the account policy refuses; a blank label replaces the result of an observed call;
  audit events are dropped above \<open>INFO\<close>; \<open>started_at\<close> is never logged as JSON; constraint names of models
  and migrations differ, and the migration registry leaves the identity models out;
  settings with a blank scanner host are accepted and fail every upload (\<open>blank_scanner_fails_uploads\<close>);
  a provider client stays open when the construction of the next one fails (\<open>second_provider_survives\<close>).

  \<^bold>\<open>Not modelled.\<close>  The rendering of log messages and the export of telemetry (pure output), the rows that a
  changed column loses, the deployment files, and the modules that hold only a docstring.
\<close>

end
